(* ===== verification/Prelude.thy ===== *)
theory Prelude
  imports Main "HOL-Library.Word"
begin

text \<open>
  Shared vocabulary of the development: machine integers, the result and option
  combinators of the Rust standard library that the sources use, searches over lists,
  ASCII and UTF-8 text helpers, and the decimal printer and parser.

  A Rust \<open>String\<close> or \<open>&str\<close> is its sequence of UTF-8 bytes; the model writes it as an
  Isabelle \<open>string\<close>, whose characters are bytes.  A \<open>Vec<u8>\<close> is a list of 8-bit words.
  \<open>usize\<close> is \<open>nat\<close>; the one checked addition on it writes the bound out.
  A \<open>Result<T, E>\<close> is \<open>E + T\<close>, with \<open>Inl\<close> for \<open>Err\<close> and \<open>Inr\<close> for \<open>Ok\<close>.
  A \<open>Cow\<close> is the value it holds: borrowing is invisible to equality in Rust as well.
\<close>

section \<open>Machine integers\<close>

type_synonym u8 = "8 word"
type_synonym u16 = "16 word"
type_synonym u32 = "32 word"
type_synonym u64 = "64 word"
type_synonym u128 = "128 word"

text \<open>Signed integers are the same words, read with \<open>sint\<close>.\<close>

type_synonym i16 = "16 word"
type_synonym i32 = "32 word"
type_synonym i64 = "64 word"

text \<open>Floating-point values are kept as their IEEE bit patterns.\<close>

type_synonym f32 = "32 word"
type_synonym f64 = "64 word"

type_synonym bytes = "u8 list"

text \<open>A \<open>core::time::Duration\<close> is its number of nanoseconds.\<close>

type_synonym duration = nat

definition duration_as_millis :: "duration \<Rightarrow> nat" where
  "duration_as_millis d = d div 1000000"

definition duration_from_millis :: "nat \<Rightarrow> duration" where
  "duration_from_millis ms = ms * 1000000"

named_theorems result_simps "unfolding rules for results and options"
named_theorems text_simps "facts about text helpers"

lemma unat_min: "unat (min a b) = min (unat a) (unat b)"
  by (simp add: min_def word_le_nat_alt)

lemma unat_max: "unat (max a b) = max (unat a) (unat b)"
  by (simp add: max_def word_le_nat_alt)

lemma unat_less: "unat (w :: 'a::len word) < 2 ^ LENGTH('a)"
  by (rule unsigned_less)

text \<open>Widening casts, and narrowing casts of values that fit, keep the value.\<close>

lemma unat_ucast_fits:
  "unat w < 2 ^ LENGTH('b) \<Longrightarrow> unat (ucast (w :: 'a::len word) :: 'b::len word) = unat w"
  by (simp add: unsigned_ucast_eq take_bit_nat_eq_self)

lemma unat_ucast_up:
  "LENGTH('a) \<le> LENGTH('b) \<Longrightarrow> unat (ucast (w :: 'a::len word) :: 'b::len word) = unat w"
  by (rule unat_ucast_fits) (meson unsigned_less less_le_trans one_le_numeral power_increasing)

lemma ucast_ucast_back:
  "unat w < 2 ^ LENGTH('b) \<Longrightarrow> ucast (ucast (w :: 'a::len word) :: 'b::len word) = w"
  by (rule unsigned_word_eqI [where ?'a = nat]) (simp add: unsigned_take_bit_eq unsigned_ucast_eq take_bit_nat_eq_self)

lemma ucast_up_back:
  "LENGTH('a) \<le> LENGTH('b) \<Longrightarrow> ucast (ucast (w :: 'a::len word) :: 'b::len word) = w"
  by (rule ucast_ucast_back) (meson unat_less less_le_trans one_le_numeral power_increasing)

text \<open>\<open>saturating_mul\<close> and \<open>saturating_add\<close> of an unsigned integer.\<close>

definition sat_mul :: "'a::len word \<Rightarrow> 'a word \<Rightarrow> 'a word" where
  "sat_mul a b = (if unat a * unat b < 2 ^ LENGTH('a) then a * b else - 1)"

definition sat_add :: "'a::len word \<Rightarrow> 'a word \<Rightarrow> 'a word" where
  "sat_add a b = (if unat a + unat b < 2 ^ LENGTH('a) then a + b else - 1)"

lemma unat_max_word: "unat (- 1 :: 'a::len word) = 2 ^ LENGTH('a) - 1"
  by (simp add: unsigned_minus_1_eq_mask mask_eq_exp_minus_1)

lemma unat_sat_mul:
  "unat (sat_mul a b :: 'a::len word) = min (unat a * unat b) (2 ^ LENGTH('a) - 1)"
proof (cases "unat a * unat b < 2 ^ LENGTH('a)")
  case True
  then have "unat a * unat b \<le> 2 ^ LENGTH('a) - 1" by linarith
  then show ?thesis using True by (simp add: sat_mul_def unat_word_ariths min_absorb1)
next
  case False
  then have "2 ^ LENGTH('a) - 1 \<le> unat a * unat b" by linarith
  then show ?thesis using False by (simp add: sat_mul_def unat_max_word min_absorb2)
qed

lemma unat_sat_add:
  "unat (sat_add a b :: 'a::len word) = min (unat a + unat b) (2 ^ LENGTH('a) - 1)"
proof (cases "unat a + unat b < 2 ^ LENGTH('a)")
  case True
  then have "unat a + unat b \<le> 2 ^ LENGTH('a) - 1" by linarith
  then show ?thesis using True by (simp add: sat_add_def unat_word_ariths min_absorb1)
next
  case False
  then have "2 ^ LENGTH('a) - 1 \<le> unat a + unat b" by linarith
  then show ?thesis using False by (simp add: sat_add_def unat_max_word min_absorb2)
qed

text \<open>\<open>usize::checked_add\<close> on a 64-bit target.\<close>

definition checked_add_usize :: "nat \<Rightarrow> nat \<Rightarrow> nat option" where
  "checked_add_usize a b = (if a + b < 2 ^ 64 then Some (a + b) else None)"

section \<open>Results and options\<close>

definition and_then :: "'e + 'a \<Rightarrow> ('a \<Rightarrow> 'e + 'b) \<Rightarrow> 'e + 'b" where
  "and_then r f = (case r of Inl e \<Rightarrow> Inl e | Inr x \<Rightarrow> f x)"

definition map_ok :: "('a \<Rightarrow> 'b) \<Rightarrow> 'e + 'a \<Rightarrow> 'e + 'b" where
  "map_ok f r = (case r of Inl e \<Rightarrow> Inl e | Inr x \<Rightarrow> Inr (f x))"

definition map_err :: "('e \<Rightarrow> 'f) \<Rightarrow> 'e + 'a \<Rightarrow> 'f + 'a" where
  "map_err f r = (case r of Inl e \<Rightarrow> Inl (f e) | Inr x \<Rightarrow> Inr x)"

definition ok_or :: "'e \<Rightarrow> 'a option \<Rightarrow> 'e + 'a" where
  "ok_or e x = (case x of None \<Rightarrow> Inl e | Some v \<Rightarrow> Inr v)"

definition result_ok :: "'e + 'a \<Rightarrow> 'a option" where
  "result_ok r = (case r of Inl e \<Rightarrow> None | Inr x \<Rightarrow> Some x)"

definition opt_or :: "'a option \<Rightarrow> 'a option \<Rightarrow> 'a option" where
  "opt_or a b = (case a of None \<Rightarrow> b | Some x \<Rightarrow> Some x)"

definition unwrap_or :: "'a option \<Rightarrow> 'a \<Rightarrow> 'a" where
  "unwrap_or x d = (case x of None \<Rightarrow> d | Some v \<Rightarrow> v)"

text \<open>\<open>Option::transpose\<close> after a fallible map.\<close>

definition opt_traverse :: "('a \<Rightarrow> 'e + 'b) \<Rightarrow> 'a option \<Rightarrow> 'e + 'b option" where
  "opt_traverse f x = (case x of None \<Rightarrow> Inr None | Some v \<Rightarrow> map_ok Some (f v))"

text \<open>\<open>collect::<Result<Vec<_>, _>>()\<close>: the first error wins.\<close>

fun collect_results :: "('a \<Rightarrow> 'e + 'b) \<Rightarrow> 'a list \<Rightarrow> 'e + 'b list" where
  "collect_results f [] = Inr []"
| "collect_results f (x # xs) =
     (case f x of
        Inl e \<Rightarrow> Inl e
      | Inr y \<Rightarrow> (case collect_results f xs of Inl e \<Rightarrow> Inl e | Inr ys \<Rightarrow> Inr (y # ys)))"

lemma and_then_simps [simp, result_simps]:
  "and_then (Inl e) f = Inl e"
  "and_then (Inr x) f = f x"
  by (simp_all add: and_then_def)

lemma and_then_eq_Inr [result_simps]:
  "and_then r f = Inr y \<longleftrightarrow> (\<exists>x. r = Inr x \<and> f x = Inr y)"
  by (cases r) simp_all

lemma and_then_eq_Inl:
  "and_then r f = Inl e \<longleftrightarrow> r = Inl e \<or> (\<exists>x. r = Inr x \<and> f x = Inl e)"
  by (cases r) simp_all

lemma map_ok_simps [simp, result_simps]:
  "map_ok f (Inl e) = Inl e"
  "map_ok f (Inr x) = Inr (f x)"
  by (simp_all add: map_ok_def)

lemma map_ok_eq_Inr [result_simps]:
  "map_ok f r = Inr y \<longleftrightarrow> (\<exists>x. r = Inr x \<and> y = f x)"
  by (cases r) auto

lemma map_err_simps [simp, result_simps]:
  "map_err f (Inl e) = Inl (f e)"
  "map_err f (Inr x) = Inr x"
  by (simp_all add: map_err_def)

lemma map_err_eq_Inl: "map_err f r = Inl e \<longleftrightarrow> (\<exists>d. r = Inl d \<and> e = f d)"
  by (cases r) auto

lemma map_err_eq_Inr [result_simps]: "map_err f r = Inr y \<longleftrightarrow> r = Inr y"
  by (cases r) simp_all

lemma ok_or_simps [simp, result_simps]:
  "ok_or e None = Inl e"
  "ok_or e (Some v) = Inr v"
  by (simp_all add: ok_or_def)

lemma ok_or_eq_Inr [result_simps]: "ok_or e x = Inr v \<longleftrightarrow> x = Some v"
  by (cases x) simp_all

lemma result_ok_simps [simp, result_simps]:
  "result_ok (Inl e) = None"
  "result_ok (Inr x) = Some x"
  by (simp_all add: result_ok_def)

lemma opt_or_simps [simp, result_simps]:
  "opt_or None b = b"
  "opt_or (Some x) b = Some x"
  "opt_or a None = a"
  by (simp_all add: opt_or_def split: option.split)

lemma unwrap_or_simps [simp, result_simps]:
  "unwrap_or None d = d"
  "unwrap_or (Some v) d = v"
  by (simp_all add: unwrap_or_def)

lemma opt_traverse_simps [simp, result_simps]:
  "opt_traverse f None = Inr None"
  "opt_traverse f (Some v) = map_ok Some (f v)"
  by (simp_all add: opt_traverse_def)

lemma collect_results_Inr_map:
  "(\<And>x. x \<in> set xs \<Longrightarrow> f x = Inr (g x)) \<Longrightarrow> collect_results f xs = Inr (map g xs)"
  by (induction xs) auto

lemma collect_results_length:
  "collect_results f xs = Inr ys \<Longrightarrow> length ys = length xs"
  by (induction xs arbitrary: ys) (auto split: sum.splits)

lemma collect_results_nth:
  "collect_results f xs = Inr ys \<Longrightarrow> i < length xs \<Longrightarrow> f (xs ! i) = Inr (ys ! i)"
proof (induction xs arbitrary: ys i)
  case Nil
  then show ?case by simp
next
  case (Cons x xs)
  then show ?case by (cases i) (auto split: sum.splits)
qed

section \<open>Searching lists\<close>

text \<open>\<open>Iterator::find_map\<close>.\<close>

fun find_map :: "('a \<Rightarrow> 'b option) \<Rightarrow> 'a list \<Rightarrow> 'b option" where
  "find_map f [] = None"
| "find_map f (x # xs) = (case f x of None \<Rightarrow> find_map f xs | Some y \<Rightarrow> Some y)"

lemma find_map_append:
  "find_map f (xs @ ys) = opt_or (find_map f xs) (find_map f ys)"
  by (induction xs) (auto split: option.split)

lemma find_map_None_iff: "find_map f xs = None \<longleftrightarrow> (\<forall>x \<in> set xs. f x = None)"
  by (induction xs) (auto split: option.split)

text \<open>\<open>Iterator::position\<close>.\<close>

fun position :: "('a \<Rightarrow> bool) \<Rightarrow> 'a list \<Rightarrow> nat option" where
  "position p [] = None"
| "position p (x # xs) = (if p x then Some 0 else map_option Suc (position p xs))"

lemma position_SomeD:
  "position p xs = Some i \<Longrightarrow> i < length xs \<and> p (xs ! i) \<and> (\<forall>j<i. \<not> p (xs ! j))"
proof (induction xs arbitrary: i)
  case Nil
  then show ?case by simp
next
  case (Cons x xs)
  then show ?case
    by (auto split: if_splits simp: nth_Cons less_Suc_eq_0_disj split: nat.split)
qed

lemma position_None_iff: "position p xs = None \<longleftrightarrow> (\<forall>x \<in> set xs. \<not> p x)"
  by (induction xs) auto

text \<open>
  \<open>slice.windows(n).position(|w| w == pat)\<close> with \<open>n = pat.len()\<close>: the first index at which
  \<open>pat\<close> occurs.
\<close>

fun window_position :: "'a list \<Rightarrow> 'a list \<Rightarrow> nat option" where
  "window_position pat [] = None"
| "window_position pat (x # xs) =
     (if take (length pat) (x # xs) = pat then Some 0
      else map_option Suc (window_position pat xs))"

lemma window_position_bound:
  "window_position pat xs = Some i \<Longrightarrow> i + length pat \<le> length xs"
proof (induction xs arbitrary: i)
  case Nil
  then show ?case by simp
next
  case (Cons x xs)
  show ?case
  proof (cases "take (length pat) (x # xs) = pat")
    case True
    then have "length pat = min (length (x # xs)) (length pat)"
      by (metis length_take)
    with True Cons.prems show ?thesis by simp
  next
    case False
    with Cons show ?thesis by (auto split: if_splits)
  qed
qed

lemma window_position_match:
  "window_position pat xs = Some i \<Longrightarrow> take (length pat) (drop i xs) = pat"
proof (induction xs arbitrary: i)
  case Nil
  then show ?case by simp
next
  case (Cons x xs)
  then show ?case by (auto split: if_splits)
qed

text \<open>Appending data after a match never moves the match.\<close>

lemma window_position_append:
  "window_position pat xs = Some i \<Longrightarrow> window_position pat (xs @ ys) = Some i"
proof (induction xs arbitrary: i)
  case Nil
  then show ?case by simp
next
  case (Cons x xs)
  have len: "length pat \<le> length (x # xs)"
    using window_position_bound [OF Cons.prems] by simp
  have eq: "take (length pat) ((x # xs) @ ys) = take (length pat) (x # xs)"
    using len by (simp only: take_append) simp
  show ?case
  proof (cases "take (length pat) (x # xs) = pat")
    case True
    with Cons.prems eq show ?thesis by simp
  next
    case False
    then obtain j where "window_position pat xs = Some j" "i = Suc j"
      using Cons.prems by (auto split: if_splits)
    with Cons.IH False eq show ?thesis by simp
  qed
qed

end
