(* ===== verification/Rust_Text.thy ===== *)
theory Rust_Text
  imports Prelude
begin

text \<open>
  The operations of Rust's \<open>str\<close> and \<open>String\<close> that the sources use, on the byte view of a
  string: ASCII case folding, searching and splitting, decimal printing and parsing, UTF-8
  validation and lossy decoding, Unicode trimming, and \<open>lines\<close>.
\<close>

section \<open>Bytes and characters\<close>

definition byte_of_char :: "char \<Rightarrow> u8" where
  "byte_of_char c = of_nat (of_char c)"

definition char_of_byte :: "u8 \<Rightarrow> char" where
  "char_of_byte b = char_of (unat b)"

abbreviation bytes_of_string :: "string \<Rightarrow> bytes" where
  "bytes_of_string s \<equiv> map byte_of_char s"

abbreviation string_of_bytes :: "bytes \<Rightarrow> string" where
  "string_of_bytes bs \<equiv> map char_of_byte bs"

lemma char_code_bound: "(of_char c :: nat) < 256"
  by (rule nat_of_char_less_256)

lemma char_of_byte_of_char [simp, text_simps]: "char_of_byte (byte_of_char c) = c"
  using char_code_bound [of c]
  by (simp add: char_of_byte_def byte_of_char_def unat_of_nat)

lemma byte_of_char_of_byte [simp, text_simps]: "byte_of_char (char_of_byte b) = b"
proof -
  have "unat b < 256" using unsigned_less [of b] by simp
  then show ?thesis by (simp add: char_of_byte_def byte_of_char_def)
qed

lemma string_of_bytes_of_string [simp, text_simps]: "string_of_bytes (bytes_of_string s) = s"
  by (simp add: comp_def)

lemma bytes_of_string_of_bytes [simp, text_simps]: "bytes_of_string (string_of_bytes bs) = bs"
  by (simp add: comp_def)

lemma string_of_bytes_inject: "string_of_bytes as = string_of_bytes bs \<longleftrightarrow> as = bs"
  by (metis bytes_of_string_of_bytes)

text \<open>\<open>to_ascii_lowercase\<close> of one byte, and \<open>eq_ignore_ascii_case\<close>.\<close>

definition ascii_lower :: "char \<Rightarrow> char" where
  "ascii_lower c =
     (let n = of_char c :: nat in if 65 \<le> n \<and> n \<le> 90 then char_of (n + 32) else c)"

definition eq_ignore_ascii_case :: "string \<Rightarrow> string \<Rightarrow> bool" where
  "eq_ignore_ascii_case a b = (map ascii_lower a = map ascii_lower b)"

lemma eq_ignore_ascii_case_refl [simp]: "eq_ignore_ascii_case a a"
  by (simp add: eq_ignore_ascii_case_def)

lemma eq_ignore_ascii_case_sym: "eq_ignore_ascii_case a b \<longleftrightarrow> eq_ignore_ascii_case b a"
  by (auto simp: eq_ignore_ascii_case_def)

lemma eq_ignore_ascii_case_trans:
  "eq_ignore_ascii_case a b \<Longrightarrow> eq_ignore_ascii_case b c \<Longrightarrow> eq_ignore_ascii_case a c"
  by (simp add: eq_ignore_ascii_case_def)

section \<open>Searching and splitting\<close>

definition starts_with :: "'a list \<Rightarrow> 'a list \<Rightarrow> bool" where
  "starts_with pre s = (take (length pre) s = pre)"

definition strip_prefix :: "'a list \<Rightarrow> 'a list \<Rightarrow> 'a list option" where
  "strip_prefix pre s = (if starts_with pre s then Some (drop (length pre) s) else None)"

lemma starts_with_append [simp]: "starts_with pre (pre @ s)"
  by (simp add: starts_with_def)

lemma starts_with_iff: "starts_with pre s \<longleftrightarrow> (\<exists>t. s = pre @ t)"
  by (metis append_take_drop_id starts_with_append starts_with_def)

lemma strip_prefix_append [simp]: "strip_prefix pre (pre @ s) = Some s"
  by (simp add: strip_prefix_def)

text \<open>\<open>s.matches(c).count()\<close> and \<open>s.contains(pat)\<close>.\<close>

definition count_char :: "char \<Rightarrow> string \<Rightarrow> nat" where
  "count_char c s = length [x \<leftarrow> s. x = c]"

fun contains_str :: "'a list \<Rightarrow> 'a list \<Rightarrow> bool" where
  "contains_str pat [] = (pat = [])"
| "contains_str pat (x # xs) = (starts_with pat (x # xs) \<or> contains_str pat xs)"

lemma count_char_simps [simp]:
  "count_char c [] = 0"
  "count_char c (x # xs) = (if x = c then Suc (count_char c xs) else count_char c xs)"
  "count_char c (xs @ ys) = count_char c xs + count_char c ys"
  by (simp_all add: count_char_def)

lemma count_char_0_iff: "count_char c s = 0 \<longleftrightarrow> c \<notin> set s"
  by (induction s) auto

lemma contains_str_iff: "contains_str pat s \<longleftrightarrow> (\<exists>a b. s = a @ pat @ b)"
proof (induction s)
  case Nil
  then show ?case by simp
next
  case (Cons x xs)
  show ?case
  proof
    assume "contains_str pat (x # xs)"
    then consider "starts_with pat (x # xs)" | "contains_str pat xs" by auto
    then show "\<exists>a b. x # xs = a @ pat @ b"
    proof cases
      case 1
      then obtain t where "x # xs = pat @ t" using starts_with_iff by blast
      then show ?thesis by (intro exI [of _ "[]"] exI [of _ t]) simp
    next
      case 2
      then obtain a b where "xs = a @ pat @ b" using Cons.IH by blast
      then show ?thesis by (intro exI [of _ "x # a"] exI [of _ b]) simp
    qed
  next
    assume "\<exists>a b. x # xs = a @ pat @ b"
    then obtain a b where ab: "x # xs = a @ pat @ b" by blast
    show "contains_str pat (x # xs)"
    proof (cases a)
      case Nil
      with ab have "starts_with pat (x # xs)" by (auto simp: starts_with_iff)
      then show ?thesis by simp
    next
      case (Cons y a')
      with ab have "xs = a' @ pat @ b" by simp
      then show ?thesis using Cons.IH by auto
    qed
  qed
qed

text \<open>\<open>split_once(c)\<close>: the parts before and after the first \<open>c\<close>.\<close>

fun split_once :: "char \<Rightarrow> string \<Rightarrow> (string \<times> string) option" where
  "split_once c [] = None"
| "split_once c (x # xs) =
     (if x = c then Some ([], xs)
      else map_option (\<lambda>(a, b). (x # a, b)) (split_once c xs))"

lemma split_once_append [simp]:
  "c \<notin> set a \<Longrightarrow> split_once c (a @ c # b) = Some (a, b)"
  by (induction a) auto

lemma split_once_None [simp]: "split_once c s = None \<longleftrightarrow> c \<notin> set s"
  by (induction s) auto

lemma split_once_SomeD:
  "split_once c s = Some (a, b) \<Longrightarrow> s = a @ c # b \<and> c \<notin> set a"
  by (induction s arbitrary: a b) (auto split: if_splits)

section \<open>Decimal numbers\<close>

text \<open>\<open>Display\<close> of an unsigned integer.\<close>

definition digit_char :: "nat \<Rightarrow> char" where
  "digit_char d = char_of (48 + d)"

fun decimal :: "nat \<Rightarrow> string" where
  "decimal n =
     (if n < 10 then [digit_char n] else decimal (n div 10) @ [digit_char (n mod 10)])"

declare decimal.simps [simp del]

text \<open>
  \<open>str::parse\<close> at an unsigned type whose largest value is \<open>m\<close>: an optional plus sign, then at
  least one digit, no value above \<open>m\<close>.
\<close>

definition digit_value :: "char \<Rightarrow> nat option" where
  "digit_value c =
     (let n = of_char c :: nat in if 48 \<le> n \<and> n \<le> 57 then Some (n - 48) else None)"

fun parse_digits :: "nat \<Rightarrow> nat \<Rightarrow> string \<Rightarrow> nat option" where
  "parse_digits m acc [] = Some acc"
| "parse_digits m acc (c # cs) =
     (case digit_value c of
        None \<Rightarrow> None
      | Some d \<Rightarrow> if acc * 10 + d \<le> m then parse_digits m (acc * 10 + d) cs else None)"

definition parse_unsigned :: "nat \<Rightarrow> string \<Rightarrow> nat option" where
  "parse_unsigned m s =
     (let ds = (case s of c # cs \<Rightarrow> if c = CHR ''+'' then cs else s | [] \<Rightarrow> [])
      in if ds = [] then None else parse_digits m 0 ds)"

lemma digit_value_digit_char [simp]: "d < 10 \<Longrightarrow> digit_value (digit_char d) = Some d"
  by (simp add: digit_value_def digit_char_def)

lemma digit_char_code: "d < 10 \<Longrightarrow> (of_char (digit_char d) :: nat) = 48 + d"
  by (simp add: digit_char_def)

lemma digit_value_bound: "digit_value c = Some d \<Longrightarrow> d < 10"
  by (auto simp: digit_value_def Let_def split: if_splits)

lemma parse_digits_append:
  "parse_digits m acc (xs @ ys) =
     (case parse_digits m acc xs of None \<Rightarrow> None | Some a \<Rightarrow> parse_digits m a ys)"
  by (induction xs arbitrary: acc) (auto split: option.split)

lemma parse_digits_decimal: "n \<le> m \<Longrightarrow> parse_digits m 0 (decimal n) = Some n"
proof (induction n rule: decimal.induct)
  case (1 n)
  show ?case
  proof (cases "n < 10")
    case True
    with 1 show ?thesis by (simp add: decimal.simps [of n])
  next
    case False
    have "n div 10 \<le> m" using 1 by (meson div_le_dividend le_trans)
    with False 1 have "parse_digits m 0 (decimal (n div 10)) = Some (n div 10)" by simp
    moreover have "n div 10 * 10 + n mod 10 = n" by simp
    ultimately show ?thesis
      using False 1 by (simp add: decimal.simps [of n] parse_digits_append)
  qed
qed

lemma decimal_not_Nil [simp]: "decimal n \<noteq> []"
  by (simp add: decimal.simps [of n])

lemma decimal_digits: "c \<in> set (decimal n) \<Longrightarrow> \<exists>d < 10. c = digit_char d"
proof (induction n rule: decimal.induct)
  case (1 n)
  show ?case
  proof (cases "n < 10")
    case True
    with 1(2) show ?thesis by (auto simp: decimal.simps [of n])
  next
    case False
    with 1 have "c \<in> set (decimal (n div 10)) \<or> c = digit_char (n mod 10)"
      by (auto simp: decimal.simps [of n])
    moreover have "n mod 10 < 10" by simp
    ultimately show ?thesis using 1(1) [OF False] by blast
  qed
qed

lemma digit_char_neq: "d < 10 \<Longrightarrow> of_char c < (48::nat) \<or> 57 < (of_char c :: nat) \<Longrightarrow> digit_char d \<noteq> c"
  using digit_char_code [of d] by fastforce

lemma decimal_not_mem: "of_char c < (48::nat) \<or> 57 < (of_char c :: nat) \<Longrightarrow> c \<notin> set (decimal n)"
  using decimal_digits digit_char_neq by blast

lemma parse_unsigned_decimal [text_simps]: "n \<le> m \<Longrightarrow> parse_unsigned m (decimal n) = Some n"
proof -
  assume n: "n \<le> m"
  obtain c cs where c: "decimal n = c # cs" by (cases "decimal n") auto
  have "c \<noteq> CHR ''+''" using decimal_not_mem [of "CHR ''+''" n] c by auto
  with c parse_digits_decimal [OF n] show ?thesis by (simp add: parse_unsigned_def)
qed

lemma decimal_inject: "decimal a = decimal b \<Longrightarrow> a = b"
  by (metis max.cobounded1 max.cobounded2 option.inject parse_unsigned_decimal)

lemma parse_digits_bound: "parse_digits m acc s = Some v \<Longrightarrow> acc \<le> m \<Longrightarrow> v \<le> m"
  by (induction s arbitrary: acc) (auto split: option.splits if_splits)

lemma parse_unsigned_bound: "parse_unsigned m s = Some v \<Longrightarrow> v \<le> m"
  using parse_digits_bound [of m 0]
  by (auto simp: parse_unsigned_def Let_def simp del: parse_digits.simps
      split: if_splits list.splits)

abbreviation parse_u16 :: "string \<Rightarrow> nat option" where
  "parse_u16 \<equiv> parse_unsigned 65535"

abbreviation parse_usize :: "string \<Rightarrow> nat option" where
  "parse_usize \<equiv> parse_unsigned (2 ^ 64 - 1)"

section \<open>UTF-8\<close>

definition byte_at :: "bytes \<Rightarrow> nat \<Rightarrow> u8" where
  "byte_at bs i = (if i < length bs then bs ! i else 0)"

definition utf8_cont :: "u8 \<Rightarrow> bool" where
  "utf8_cont b \<longleftrightarrow> 0x80 \<le> b \<and> b \<le> 0xBF"

text \<open>The second bytes that may follow a three-byte and a four-byte lead.\<close>

definition utf8_second3 :: "u8 \<Rightarrow> u8 \<Rightarrow> bool" where
  "utf8_second3 a b \<longleftrightarrow>
     (if a = 0xE0 then 0xA0 \<le> b \<and> b \<le> 0xBF
      else if a = 0xED then 0x80 \<le> b \<and> b \<le> 0x9F
      else utf8_cont b)"

definition utf8_second4 :: "u8 \<Rightarrow> u8 \<Rightarrow> bool" where
  "utf8_second4 a b \<longleftrightarrow>
     (if a = 0xF0 then 0x90 \<le> b \<and> b \<le> 0xBF
      else if a = 0xF4 then 0x80 \<le> b \<and> b \<le> 0x8F
      else utf8_cont b)"

text \<open>
  One step of the decoder: whether a well-formed character starts the input, and how many
  bytes the character, or the ill-formed maximal prefix, takes.
\<close>

definition utf8_step :: "bytes \<Rightarrow> bool \<times> nat" where
  "utf8_step bs =
     (let a = byte_at bs 0; b = byte_at bs 1; c = byte_at bs 2; d = byte_at bs 3 in
      if a < 0x80 then (True, 1)
      else if 0xC2 \<le> a \<and> a \<le> 0xDF then (if utf8_cont b then (True, 2) else (False, 1))
      else if 0xE0 \<le> a \<and> a \<le> 0xEF then
        (if \<not> utf8_second3 a b then (False, 1)
         else if \<not> utf8_cont c then (False, 2) else (True, 3))
      else if 0xF0 \<le> a \<and> a \<le> 0xF4 then
        (if \<not> utf8_second4 a b then (False, 1)
         else if \<not> utf8_cont c then (False, 2)
         else if \<not> utf8_cont d then (False, 3) else (True, 4))
      else (False, 1))"

lemma utf8_step_pos: "0 < snd (utf8_step bs)"
  by (simp add: utf8_step_def Let_def)

lemma utf8_step_ascii: "a < 0x80 \<Longrightarrow> utf8_step (a # bs) = (True, 1)"
  by (simp add: utf8_step_def byte_at_def Let_def)

function utf8_valid :: "bytes \<Rightarrow> bool" where
  "utf8_valid bs =
     (if bs = [] then True
      else fst (utf8_step bs) \<and> utf8_valid (drop (snd (utf8_step bs)) bs))"
  by pat_completeness auto
termination
  by (relation "measure length") (auto intro: diff_less utf8_step_pos)

declare utf8_valid.simps [simp del]

text \<open>\<open>String::from_utf8\<close> and \<open>core::str::from_utf8\<close>; the bytes are the string.\<close>

definition from_utf8 :: "bytes \<Rightarrow> string option" where
  "from_utf8 bs = (if utf8_valid bs then Some (string_of_bytes bs) else None)"

text \<open>
  \<open>String::from_utf8_lossy\<close>: each ill-formed maximal prefix becomes U+FFFD.
\<close>

function utf8_lossy :: "bytes \<Rightarrow> bytes" where
  "utf8_lossy bs =
     (if bs = [] then []
      else let n = snd (utf8_step bs) in
           (if fst (utf8_step bs) then take n bs else [0xEF, 0xBF, 0xBD]) @
           utf8_lossy (drop n bs))"
  by pat_completeness auto
termination
  by (relation "measure length") (auto intro: diff_less utf8_step_pos)

declare utf8_lossy.simps [simp del]

lemma utf8_valid_Nil [simp]: "utf8_valid []"
  by (simp add: utf8_valid.simps)

lemma utf8_lossy_Nil [simp]: "utf8_lossy [] = []"
  by (simp add: utf8_lossy.simps)

lemma utf8_valid_ascii_Cons [simp]: "a < 0x80 \<Longrightarrow> utf8_valid (a # bs) = utf8_valid bs"
  by (subst utf8_valid.simps) (simp add: utf8_step_ascii)

lemma utf8_lossy_ascii_Cons [simp]: "a < 0x80 \<Longrightarrow> utf8_lossy (a # bs) = a # utf8_lossy bs"
  by (subst utf8_lossy.simps) (simp add: utf8_step_ascii Let_def)

text \<open>Lossy decoding changes nothing in a well-formed string.\<close>

lemma utf8_lossy_valid: "utf8_valid bs \<Longrightarrow> utf8_lossy bs = bs"
proof (induction bs rule: utf8_lossy.induct)
  case (1 bs)
  show ?case
  proof (cases "bs = []")
    case True
    then show ?thesis by simp
  next
    case False
    have "fst (utf8_step bs)" "utf8_valid (drop (snd (utf8_step bs)) bs)"
      using 1(2) utf8_valid.simps [of bs] False by simp_all
    then have "utf8_lossy (drop (snd (utf8_step bs)) bs) = drop (snd (utf8_step bs)) bs"
      using 1(1) [OF False refl] by simp
    with \<open>fst (utf8_step bs)\<close> show ?thesis
      by (subst utf8_lossy.simps) (simp add: Let_def False)
  qed
qed

section \<open>White space and lines\<close>

text \<open>
  The number of bytes of the Unicode white-space character that starts a well-formed string,
  0 when it starts with none.
\<close>

definition ascii_space :: "nat \<Rightarrow> bool" where
  "ascii_space n \<longleftrightarrow> 9 \<le> n \<and> n \<le> 13 \<or> n = 32"

fun ws_len_codes :: "nat list \<Rightarrow> nat" where
  "ws_len_codes [] = 0"
| "ws_len_codes (a # rest) =
     (if ascii_space a then 1
      else if a = 0xC2 then
        (case rest of b # _ \<Rightarrow> if b = 0x85 \<or> b = 0xA0 then 2 else 0 | [] \<Rightarrow> 0)
      else
        (case rest of
           b # c # _ \<Rightarrow>
             if a = 0xE1 \<and> b = 0x9A \<and> c = 0x80 \<or>
                a = 0xE2 \<and> b = 0x80 \<and> (0x80 \<le> c \<and> c \<le> 0x8A \<or> c = 0xA8 \<or> c = 0xA9 \<or> c = 0xAF) \<or>
                a = 0xE2 \<and> b = 0x81 \<and> c = 0x9F \<or>
                a = 0xE3 \<and> b = 0x80 \<and> c = 0x80
             then 3 else 0
         | _ \<Rightarrow> 0))"

definition ws_len :: "string \<Rightarrow> nat" where
  "ws_len s = ws_len_codes (map of_char s)"

function trim_start :: "string \<Rightarrow> string" where
  "trim_start s =
     (if s = [] \<or> ws_len s = 0 then s else trim_start (drop (ws_len s) s))"
  by pat_completeness auto
termination
  by (relation "measure length") (auto intro: diff_less)

declare trim_start.simps [simp del]

text \<open>
  The trailing white space: a suffix of one, two or three bytes that is a white-space
  character.  In a well-formed string such a suffix starts at a character boundary.
\<close>

definition ws_suffix :: "string \<Rightarrow> nat" where
  "ws_suffix s =
     (case [n \<leftarrow> [1, 2, 3]. n \<le> length s \<and> ws_len (drop (length s - n) s) = n] of
        [] \<Rightarrow> 0 | n # _ \<Rightarrow> n)"

function trim_end :: "string \<Rightarrow> string" where
  "trim_end s =
     (if s = [] \<or> ws_suffix s = 0 then s else trim_end (take (length s - ws_suffix s) s))"
  by pat_completeness auto
termination
  by (relation "measure length") auto

declare trim_end.simps [simp del]

definition trim :: "string \<Rightarrow> string" where
  "trim s = trim_end (trim_start s)"

text \<open>\<open>split_whitespace\<close>: the maximal runs of characters that are not white space.\<close>

function split_ws :: "string \<Rightarrow> string \<Rightarrow> string list" where
  "split_ws acc [] = (if acc = [] then [] else [rev acc])"
| "split_ws acc (c # cs) =
     (if ws_len (c # cs) = 0 then split_ws (c # acc) cs
      else (if acc = [] then [] else [rev acc]) @
           split_ws [] (drop (ws_len (c # cs) - 1) cs))"
  by pat_completeness auto
termination
  by (relation "measure (\<lambda>(_, s). length s)") auto

abbreviation split_whitespace :: "string \<Rightarrow> string list" where
  "split_whitespace s \<equiv> split_ws [] s"

lemma ws_len_plain:
  "33 \<le> (of_char c :: nat) \<Longrightarrow> (of_char c :: nat) < 127 \<Longrightarrow> ws_len (c # cs) = 0"
  by (auto simp: ws_len_def ascii_space_def split: list.split)

lemma ws_len_space [simp]: "ws_len (CHR '' '' # cs) = 1"
  by (simp add: ws_len_def ascii_space_def)

text \<open>Printable ASCII characters other than the space.\<close>

definition plain_char :: "char \<Rightarrow> bool" where
  "plain_char c \<longleftrightarrow> 33 \<le> (of_char c :: nat) \<and> (of_char c :: nat) < 127"

lemma ws_len_plain_char [simp]: "plain_char c \<Longrightarrow> ws_len (c # cs) = 0"
  by (simp add: plain_char_def ws_len_plain)

lemma plain_char_digit: "d < 10 \<Longrightarrow> plain_char (digit_char d)"
  by (simp add: plain_char_def digit_char_code)

lemma plain_char_decimal: "c \<in> set (decimal n) \<Longrightarrow> plain_char c"
  using decimal_digits plain_char_digit by blast

lemma trim_start_plain: "plain_char c \<Longrightarrow> trim_start (c # s) = c # s"
  by (subst trim_start.simps) simp

lemma trim_start_space [simp]: "trim_start (CHR '' '' # s) = trim_start s"
  by (subst trim_start.simps) simp

lemma trim_start_Nil [simp]: "trim_start [] = []"
  by (subst trim_start.simps) simp

lemma trim_end_Nil [simp]: "trim_end [] = []"
  by (subst trim_end.simps) simp

lemma ws_len_last_plain:
  assumes "plain_char c"
  shows "ws_len (xs @ [c]) \<noteq> Suc (length xs)"
proof -
  have c: "33 \<le> (of_char c :: nat)" "(of_char c :: nat) < 127"
    using assms by (simp_all add: plain_char_def)
  show ?thesis
  proof (cases xs)
    case Nil
    with assms show ?thesis by simp
  next
    case (Cons a ys)
    then show ?thesis
      using c by (cases ys; cases "tl ys") (auto simp: ws_len_def)
  qed
qed

lemma trim_end_plain:
  assumes "plain_char c"
  shows "trim_end (xs @ [c]) = xs @ [c]"
proof -
  have "ws_len (drop (length (xs @ [c]) - n) (xs @ [c])) \<noteq> n"
    if "1 \<le> n" "n \<le> length (xs @ [c])" for n
  proof -
    have "drop (length (xs @ [c]) - n) (xs @ [c]) = drop (Suc (length xs) - n) xs @ [c]"
      using that by simp
    moreover have "Suc (length (drop (Suc (length xs) - n) xs)) = n" using that by simp
    ultimately show ?thesis
      using ws_len_last_plain [OF assms, of "drop (Suc (length xs) - n) xs"] by simp
  qed
  from this [of 1] this [of 2] this [of 3]
  have "[n \<leftarrow> [1, 2, 3]. n \<le> length (xs @ [c]) \<and>
      ws_len (drop (length (xs @ [c]) - n) (xs @ [c])) = n] = []"
    by (simp only: filter_empty_conv) auto
  then have "ws_suffix (xs @ [c]) = 0" unfolding ws_suffix_def by (simp only: list.case)
  then show ?thesis by (subst trim_end.simps) simp
qed

text \<open>A field that starts and ends with printable characters is left alone.\<close>

definition trimmed :: "string \<Rightarrow> bool" where
  "trimmed s \<longleftrightarrow> s = [] \<or> plain_char (hd s) \<and> plain_char (last s)"

lemma trim_trimmed: "trimmed s \<Longrightarrow> trim s = s"
  using trim_start_plain [of "hd s" "tl s"] trim_end_plain [of "last s" "butlast s"]
  by (cases "s = []") (simp_all add: trimmed_def trim_def)

lemma trim_space_trimmed: "trimmed s \<Longrightarrow> trim (CHR '' '' # s) = s"
  using trim_trimmed [of s] by (simp add: trim_def)

lemma split_ws_plain:
  "\<forall>c \<in> set w. plain_char c \<Longrightarrow> split_ws acc (w @ s) = split_ws (rev w @ acc) s"
  by (induction w arbitrary: acc) simp_all

text \<open>\<open>str::lines\<close>: the pieces that end at a line feed, without it and without a carriage
  return before it; a last piece without line feed is kept as it is.\<close>

definition strip_cr :: "string \<Rightarrow> string" where
  "strip_cr s = (if s \<noteq> [] \<and> last s = CHR 0x0D then butlast s else s)"

fun lines_acc :: "string \<Rightarrow> string \<Rightarrow> string list" where
  "lines_acc acc [] = (if acc = [] then [] else [rev acc])"
| "lines_acc acc (c # cs) =
     (if c = CHR 0x0A then strip_cr (rev acc) # lines_acc [] cs
      else lines_acc (c # acc) cs)"

abbreviation str_lines :: "string \<Rightarrow> string list" where
  "str_lines s \<equiv> lines_acc [] s"

lemma lines_acc_append:
  "CHR 0x0A \<notin> set l \<Longrightarrow> lines_acc acc (l @ s) = lines_acc (rev l @ acc) s"
  by (induction l arbitrary: acc) auto

lemma str_lines_crlf:
  "CHR 0x0A \<notin> set l \<Longrightarrow> str_lines (l @ CHR 0x0D # CHR 0x0A # s) = l # str_lines s"
  by (simp add: lines_acc_append strip_cr_def)

lemma str_lines_last:
  "CHR 0x0A \<notin> set l \<Longrightarrow> l \<noteq> [] \<Longrightarrow> str_lines l = [l]"
  using lines_acc_append [of l "[]" "[]"] by simp

text \<open>Printable ASCII text: plain characters and spaces.\<close>

definition text_char :: "char \<Rightarrow> bool" where
  "text_char c \<longleftrightarrow> 32 \<le> (of_char c :: nat) \<and> (of_char c :: nat) < 127"

lemma plain_text_char: "plain_char c \<Longrightarrow> text_char c"
  by (simp add: plain_char_def text_char_def)

lemma text_char_byte: "text_char c \<Longrightarrow> byte_of_char c < 0x80"
  by (simp add: text_char_def byte_of_char_def word_less_nat_alt unat_of_nat)

lemma text_char_not_newline: "text_char c \<Longrightarrow> c \<noteq> CHR 0x0A \<and> c \<noteq> CHR 0x0D"
  by (auto simp: text_char_def)

lemma text_char_byte_not_cr: "text_char c \<Longrightarrow> byte_of_char c \<noteq> 0x0D"
  by (auto simp: text_char_def byte_of_char_def word_eq_iff_unsigned [where ?'a = nat] unat_of_nat)

lemma utf8_lossy_ascii: "\<forall>b \<in> set bs. b < 0x80 \<Longrightarrow> utf8_lossy bs = bs"
  by (induction bs) simp_all

lemma char_of_byte_newlines [simp]: "char_of_byte 0x0D = CHR 0x0D" "char_of_byte 0x0A = CHR 0x0A"
proof -
  have "byte_of_char (CHR 0x0D) = 0x0D" "byte_of_char (CHR 0x0A) = 0x0A"
    by (simp_all add: byte_of_char_def)
  then show "char_of_byte 0x0D = CHR 0x0D" "char_of_byte 0x0A = CHR 0x0A"
    by (metis char_of_byte_of_char)+
qed

section \<open>Debug rendering\<close>

text \<open>
  The \<open>Debug\<close> form of a string: quoted, with quotes, backslashes and control characters escaped.
  Bytes of non-ASCII characters are kept, which is the rendering of every printable character.
\<close>

definition hex_digit :: "nat \<Rightarrow> char" where
  "hex_digit d = (if d < 10 then char_of (48 + d) else char_of (87 + d))"

definition char_debug :: "char \<Rightarrow> string" where
  "char_debug c =
     (let n = of_char c :: nat in
      if n = 0 then [CHR 0x5C, CHR ''0'']
      else if n = 9 then [CHR 0x5C, CHR ''t'']
      else if n = 10 then [CHR 0x5C, CHR ''n'']
      else if n = 13 then [CHR 0x5C, CHR ''r'']
      else if n = 34 \<or> n = 92 then [CHR 0x5C, c]
      else if n < 16 then [CHR 0x5C, CHR ''u'', CHR ''{'', hex_digit n, CHR ''}'']
      else if n < 32 \<or> n = 127 then
        [CHR 0x5C, CHR ''u'', CHR ''{'', hex_digit (n div 16), hex_digit (n mod 16), CHR ''}'']
      else [c])"

definition str_debug :: "string \<Rightarrow> string" where
  "str_debug s = [CHR 0x22] @ concat (map char_debug s) @ [CHR 0x22]"

end
