(* ===== verification/Core_Meta.thy ===== *)
theory Core_Meta
  imports Rust_Text
begin

text \<open>
  The protocol-neutral metadata of \<open>ferredge-core\<close>: ordered headers (\<open>headers.rs\<close>), the open
  protocol identifier, typed metadata values and the keyed transport capture (\<open>meta.rs\<close>), and
  the \<open>IntoOwned\<close> conversions (\<open>owned.rs\<close>) of those types.  The locale \<open>content_preserving\<close>
  is the contract of \<open>IntoOwned\<close>; the locale \<open>typed_view\<close> is the contract of \<open>ProtocolMeta\<close>,
  which the HTTP and MQTT views provide.
\<close>

section \<open>IntoOwned\<close>

text \<open>
  \<open>into_owned\<close> may only change who owns the data: the content of the result is the content of
  the argument.  A conversion that drops, swaps or rebuilds a field breaks the contract.
\<close>

locale content_preserving =
  fixes own :: "'a \<Rightarrow> 'a"
  assumes own_content: "own x = x"
begin

lemma own_injective: "own x = own y \<longleftrightarrow> x = y"
  by (simp add: own_content)

lemma own_option: "map_option own z = z"
  by (cases z) (simp_all add: own_content)

lemma own_list: "map own zs = zs"
  by (induction zs) (simp_all add: own_content)

lemma own_pairs: "map (\<lambda>(k, v). (k, own v)) ps = ps"
  by (induction ps) (auto simp: own_content)

end

text \<open>\<open>Cow<str>\<close> and \<open>Cow<[u8]>\<close>: an owned copy of the characters or bytes.\<close>

definition cow_str_into_owned :: "string \<Rightarrow> string" where
  "cow_str_into_owned s = map (\<lambda>c. c) s"

definition cow_bytes_into_owned :: "bytes \<Rightarrow> bytes" where
  "cow_bytes_into_owned b = map (\<lambda>c. c) b"

definition option_into_owned :: "('a \<Rightarrow> 'b) \<Rightarrow> 'a option \<Rightarrow> 'b option" where
  "option_into_owned own z = map_option own z"

definition vec_into_owned :: "('a \<Rightarrow> 'b) \<Rightarrow> 'a list \<Rightarrow> 'b list" where
  "vec_into_owned own zs = map own zs"

definition pair_into_owned :: "('a \<Rightarrow> 'b) \<Rightarrow> ('c \<Rightarrow> 'd) \<Rightarrow> 'a \<times> 'c \<Rightarrow> 'b \<times> 'd" where
  "pair_into_owned own_a own_b p = (own_a (fst p), own_b (snd p))"

named_theorems owned_simps "content preservation of the IntoOwned instances"

interpretation cow_str: content_preserving cow_str_into_owned
  by unfold_locales (simp add: cow_str_into_owned_def)

interpretation cow_bytes: content_preserving cow_bytes_into_owned
  by unfold_locales (simp add: cow_bytes_into_owned_def)

lemma option_into_owned_content:
  "content_preserving own \<Longrightarrow> content_preserving (option_into_owned own)"
  by (simp add: content_preserving_def option_into_owned_def option.map_ident_strong)

lemma vec_into_owned_content:
  "content_preserving own \<Longrightarrow> content_preserving (vec_into_owned own)"
  by (simp add: content_preserving_def vec_into_owned_def map_idI)

lemma pair_into_owned_content:
  "content_preserving own_a \<Longrightarrow> content_preserving own_b \<Longrightarrow>
   content_preserving (pair_into_owned own_a own_b)"
  by (simp add: content_preserving_def pair_into_owned_def)

lemmas own_intros [intro] =
  cow_str.content_preserving_axioms cow_bytes.content_preserving_axioms
  option_into_owned_content vec_into_owned_content pair_into_owned_content

lemma content_preservingD: "content_preserving own \<Longrightarrow> own x = x"
  by (rule content_preserving.own_content)

lemma own_containers [owned_simps]:
  "content_preserving own \<Longrightarrow> option_into_owned own z = z"
  "content_preserving own \<Longrightarrow> vec_into_owned own zs = zs"
  "cow_str_into_owned s = s"
  "cow_bytes_into_owned b = b"
  by (auto intro: content_preservingD)

section \<open>Headers\<close>

record header =
  hdr_key :: string
  hdr_value :: string

type_synonym headers = "header list"

definition header_from_pair :: "string \<times> string \<Rightarrow> header" where
  "header_from_pair kv = \<lparr> hdr_key = fst kv, hdr_value = snd kv \<rparr>"

definition headers_from_pairs :: "(string \<times> string) list \<Rightarrow> headers" where
  "headers_from_pairs kvs = map header_from_pair kvs"

text \<open>\<open>Headers::get\<close>: the first value whose key matches case-insensitively.\<close>

definition headers_get :: "headers \<Rightarrow> string \<Rightarrow> string option" where
  "headers_get hs name =
     find_map (\<lambda>h. if eq_ignore_ascii_case (hdr_key h) name then Some (hdr_value h) else None) hs"

definition headers_push :: "string \<Rightarrow> string \<Rightarrow> headers \<Rightarrow> headers" where
  "headers_push key v hs = hs @ [\<lparr> hdr_key = key, hdr_value = v \<rparr>]"

definition headers_merge :: "headers \<Rightarrow> headers \<Rightarrow> headers" where
  "headers_merge other hs = hs @ other"

definition headers_is_empty :: "headers \<Rightarrow> bool" where
  "headers_is_empty hs \<longleftrightarrow> hs = []"

definition headers_len :: "headers \<Rightarrow> nat" where
  "headers_len hs = length hs"

definition header_as_borrowed :: "header \<Rightarrow> header" where
  "header_as_borrowed h = \<lparr> hdr_key = hdr_key h, hdr_value = hdr_value h \<rparr>"

definition headers_as_borrowed :: "headers \<Rightarrow> headers" where
  "headers_as_borrowed hs = map header_as_borrowed hs"

definition header_into_owned :: "header \<Rightarrow> header" where
  "header_into_owned h =
     \<lparr> hdr_key = cow_str_into_owned (hdr_key h), hdr_value = cow_str_into_owned (hdr_value h) \<rparr>"

definition headers_into_owned :: "headers \<Rightarrow> headers" where
  "headers_into_owned hs = vec_into_owned header_into_owned hs"

interpretation own_header: content_preserving header_into_owned
  by unfold_locales (simp add: header_into_owned_def owned_simps)

interpretation own_headers: content_preserving headers_into_owned
  by unfold_locales
    (simp add: headers_into_owned_def owned_simps own_header.content_preserving_axioms)

lemma headers_as_borrowed_same [owned_simps]: "headers_as_borrowed hs = hs"
  by (induction hs) (simp_all add: headers_as_borrowed_def header_as_borrowed_def)

lemma headers_get_simps [simp]:
  "headers_get [] name = None"
  "headers_get (h # hs) name =
     (if eq_ignore_ascii_case (hdr_key h) name then Some (hdr_value h) else headers_get hs name)"
  by (simp_all add: headers_get_def)

lemma headers_get_case_insensitive:
  "eq_ignore_ascii_case a b \<Longrightarrow> headers_get hs a = headers_get hs b"
  by (induction hs)
    (auto dest: eq_ignore_ascii_case_trans simp: eq_ignore_ascii_case_def)

lemma headers_get_append:
  "headers_get (xs @ ys) name = opt_or (headers_get xs name) (headers_get ys name)"
  by (simp add: headers_get_def find_map_append)

lemma headers_get_merge [simp]:
  "headers_get (headers_merge other hs) name = opt_or (headers_get hs name) (headers_get other name)"
  by (simp add: headers_merge_def headers_get_append)

lemma headers_get_push [simp]:
  "headers_get (headers_push key v hs) name =
     opt_or (headers_get hs name) (if eq_ignore_ascii_case key name then Some v else None)"
  by (simp add: headers_push_def headers_get_append)

lemma headers_len_ops:
  "headers_len (headers_merge other hs) = headers_len hs + headers_len other"
  "headers_len (headers_push key v hs) = Suc (headers_len hs)"
  by (simp_all add: headers_len_def headers_merge_def headers_push_def)

section \<open>Protocol identifiers and metadata values\<close>

datatype protocol_id = ProtocolId (protocol_str: string)

definition MQTT :: protocol_id where "MQTT = ProtocolId ''mqtt''"
definition HTTP :: protocol_id where "HTTP = ProtocolId ''http''"
definition MODBUS :: protocol_id where "MODBUS = ProtocolId ''modbus''"
definition COAP :: protocol_id where "COAP = ProtocolId ''coap''"
definition ZENOH :: protocol_id where "ZENOH = ProtocolId ''zenoh''"

lemma protocol_id_distinct [simp]:
  "MQTT \<noteq> HTTP" "MQTT \<noteq> MODBUS" "HTTP \<noteq> MODBUS" "ZENOH \<noteq> MQTT" "ZENOH \<noteq> HTTP" "ZENOH \<noteq> MODBUS"
  "HTTP \<noteq> MQTT" "MODBUS \<noteq> MQTT" "MODBUS \<noteq> HTTP" "MQTT \<noteq> ZENOH" "HTTP \<noteq> ZENOH" "MODBUS \<noteq> ZENOH"
  by (simp_all add: MQTT_def HTTP_def MODBUS_def ZENOH_def)

datatype meta_value =
    MBool bool
  | MU64 u64
  | MI64 i64
  | MStr string
  | MBytes bytes
  | MU64List "u64 list"
  | MStrList "string list"
  | MPairs "(string \<times> string) list"

definition meta_value_as_borrowed :: "meta_value \<Rightarrow> meta_value" where
  "meta_value_as_borrowed mv =
     (case mv of
        MBool v \<Rightarrow> MBool v
      | MU64 v \<Rightarrow> MU64 v
      | MI64 v \<Rightarrow> MI64 v
      | MStr v \<Rightarrow> MStr v
      | MBytes v \<Rightarrow> MBytes v
      | MU64List vs \<Rightarrow> MU64List vs
      | MStrList vs \<Rightarrow> MStrList (map (\<lambda>v. v) vs)
      | MPairs ps \<Rightarrow> MPairs (map (\<lambda>(k, v). (k, v)) ps))"

definition meta_value_into_owned :: "meta_value \<Rightarrow> meta_value" where
  "meta_value_into_owned mv =
     (case mv of
        MBool v \<Rightarrow> MBool v
      | MU64 v \<Rightarrow> MU64 v
      | MI64 v \<Rightarrow> MI64 v
      | MStr v \<Rightarrow> MStr (cow_str_into_owned v)
      | MBytes v \<Rightarrow> MBytes (cow_bytes_into_owned v)
      | MU64List vs \<Rightarrow> MU64List vs
      | MStrList vs \<Rightarrow> MStrList (vec_into_owned cow_str_into_owned vs)
      | MPairs ps \<Rightarrow>
          MPairs (vec_into_owned (pair_into_owned cow_str_into_owned cow_str_into_owned) ps))"

lemma meta_value_as_borrowed_same [owned_simps]: "meta_value_as_borrowed mv = mv"
  by (cases mv) (simp_all add: meta_value_as_borrowed_def)

lemma own_str_containers [owned_simps]:
  "vec_into_owned cow_str_into_owned vs = vs"
  "option_into_owned cow_str_into_owned z = z"
  "vec_into_owned (pair_into_owned cow_str_into_owned cow_str_into_owned) ps = ps"
  by (rule content_preservingD, blast)+

interpretation own_meta_value: content_preserving meta_value_into_owned
  by unfold_locales (simp add: meta_value_into_owned_def owned_simps split: meta_value.split)

section \<open>TransportMeta\<close>

record transport_meta =
  tm_protocol :: protocol_id
  tm_headers :: "headers option"
  tm_entries :: "(string \<times> meta_value) list"

definition tm_new :: "protocol_id \<Rightarrow> transport_meta" where
  "tm_new protocol = \<lparr> tm_protocol = protocol, tm_headers = None, tm_entries = [] \<rparr>"

definition tm_into_entries :: "transport_meta \<Rightarrow> (string \<times> meta_value) list" where
  "tm_into_entries m = tm_entries m"

definition tm_get :: "transport_meta \<Rightarrow> string \<Rightarrow> meta_value option" where
  "tm_get m key = find_map (\<lambda>(k, v). if k = key then Some v else None) (tm_entries m)"

text \<open>\<open>set\<close> overwrites the first entry of the key in place, or appends one.\<close>

fun set_entry :: "string \<Rightarrow> 'v \<Rightarrow> (string \<times> 'v) list \<Rightarrow> (string \<times> 'v) list" where
  "set_entry key v [] = [(key, v)]"
| "set_entry key v ((k, w) # es) = (if k = key then (k, v) # es else (k, w) # set_entry key v es)"

definition tm_set :: "string \<Rightarrow> meta_value \<Rightarrow> transport_meta \<Rightarrow> transport_meta" where
  "tm_set key v m = m\<lparr> tm_entries := set_entry key v (tm_entries m) \<rparr>"

text \<open>\<open>take\<close> removes the first entry at its index, then retains the entries of other keys.\<close>

definition tm_take :: "string \<Rightarrow> transport_meta \<Rightarrow> meta_value option \<times> transport_meta" where
  "tm_take key m =
     (case position (\<lambda>(k, _). k = key) (tm_entries m) of
        None \<Rightarrow> (None, m)
      | Some i \<Rightarrow>
          let v = snd (tm_entries m ! i);
              rest = take i (tm_entries m) @ drop (Suc i) (tm_entries m)
          in (Some v, m\<lparr> tm_entries := filter (\<lambda>(k, _). k \<noteq> key) rest \<rparr>))"

definition tm_get_str :: "transport_meta \<Rightarrow> string \<Rightarrow> string option" where
  "tm_get_str m key = (case tm_get m key of Some (MStr v) \<Rightarrow> Some v | _ \<Rightarrow> None)"

definition tm_get_u64 :: "transport_meta \<Rightarrow> string \<Rightarrow> u64 option" where
  "tm_get_u64 m key = (case tm_get m key of Some (MU64 v) \<Rightarrow> Some v | _ \<Rightarrow> None)"

definition tm_get_i64 :: "transport_meta \<Rightarrow> string \<Rightarrow> i64 option" where
  "tm_get_i64 m key = (case tm_get m key of Some (MI64 v) \<Rightarrow> Some v | _ \<Rightarrow> None)"

definition tm_get_bool :: "transport_meta \<Rightarrow> string \<Rightarrow> bool option" where
  "tm_get_bool m key = (case tm_get m key of Some (MBool v) \<Rightarrow> Some v | _ \<Rightarrow> None)"

definition tm_get_bytes :: "transport_meta \<Rightarrow> string \<Rightarrow> bytes option" where
  "tm_get_bytes m key = (case tm_get m key of Some (MBytes v) \<Rightarrow> Some v | _ \<Rightarrow> None)"

definition tm_get_u64_list :: "transport_meta \<Rightarrow> string \<Rightarrow> u64 list option" where
  "tm_get_u64_list m key = (case tm_get m key of Some (MU64List v) \<Rightarrow> Some v | _ \<Rightarrow> None)"

definition tm_get_str_list :: "transport_meta \<Rightarrow> string \<Rightarrow> string list option" where
  "tm_get_str_list m key = (case tm_get m key of Some (MStrList v) \<Rightarrow> Some v | _ \<Rightarrow> None)"

definition tm_get_pairs :: "transport_meta \<Rightarrow> string \<Rightarrow> (string \<times> string) list option" where
  "tm_get_pairs m key = (case tm_get m key of Some (MPairs v) \<Rightarrow> Some v | _ \<Rightarrow> None)"

definition tm_as_borrowed :: "transport_meta \<Rightarrow> transport_meta" where
  "tm_as_borrowed m =
     \<lparr> tm_protocol = tm_protocol m,
       tm_headers = map_option headers_as_borrowed (tm_headers m),
       tm_entries = map (\<lambda>(k, v). (k, meta_value_as_borrowed v)) (tm_entries m) \<rparr>"

definition tm_into_owned :: "transport_meta \<Rightarrow> transport_meta" where
  "tm_into_owned m =
     \<lparr> tm_protocol = tm_protocol m,
       tm_headers = map_option headers_into_owned (tm_headers m),
       tm_entries = map (\<lambda>(k, v). (k, meta_value_into_owned v)) (tm_entries m) \<rparr>"

interpretation own_tm: content_preserving tm_into_owned
  by unfold_locales
    (simp add: tm_into_owned_def own_headers.own_option own_meta_value.own_pairs)

lemma tm_as_borrowed_same [owned_simps]: "tm_as_borrowed m = m"
proof -
  have "map (\<lambda>(k, v). (k, meta_value_as_borrowed v)) es = es" for es :: "(string \<times> meta_value) list"
    by (induction es) (auto simp: owned_simps)
  moreover have "map_option headers_as_borrowed h = h" for h
    by (cases h) (simp_all add: owned_simps)
  ultimately show ?thesis by (simp add: tm_as_borrowed_def)
qed

subsection \<open>The capture is a finite map\<close>

text \<open>
  The contract of a keyed capture: \<open>store\<close> makes one key readable and leaves the others,
  \<open>remove\<close> returns what was readable and makes exactly that key unreadable.
\<close>

locale capture_store =
  fixes lookup :: "'m \<Rightarrow> string \<Rightarrow> 'v option"
    and store :: "string \<Rightarrow> 'v \<Rightarrow> 'm \<Rightarrow> 'm"
    and remove :: "string \<Rightarrow> 'm \<Rightarrow> 'v option \<times> 'm"
  assumes lookup_store: "lookup (store k v m) k' = (if k' = k then Some v else lookup m k')"
    and remove_value: "fst (remove k m) = lookup m k"
    and lookup_remove: "lookup (snd (remove k m)) k' = (if k' = k then None else lookup m k')"
begin

lemma store_is_update: "lookup (store k v m) = (lookup m)(k \<mapsto> v)"
  by (rule ext) (simp add: lookup_store)

lemma remove_is_delete: "lookup (snd (remove k m)) = (lookup m)(k := None)"
  by (rule ext) (simp add: lookup_remove)

lemma remove_twice: "fst (remove k (snd (remove k m))) = None"
  by (simp add: remove_value lookup_remove)

lemma store_then_remove:
  "fst (remove k (store k v m)) = Some v"
  "k' \<noteq> k \<Longrightarrow> lookup (snd (remove k (store k v m))) k' = lookup m k'"
  by (simp_all add: remove_value lookup_store lookup_remove)

lemma store_commute:
  "k \<noteq> k' \<Longrightarrow> lookup (store k v (store k' v' m)) = lookup (store k' v' (store k v m))"
  by (rule ext) (simp add: lookup_store)

end

lemma find_map_map_of: "find_map (\<lambda>(k, v). if k = key then Some v else None) es = map_of es key"
  by (induction es) auto

lemma tm_get_map_of: "tm_get m key = map_of (tm_entries m) key"
  by (simp add: tm_get_def find_map_map_of)

lemma set_entry_map_of: "map_of (set_entry key v es) = (map_of es)(key \<mapsto> v)"
  by (induction es) (auto simp: fun_eq_iff)

lemma set_entry_keys:
  "map fst (set_entry key v es) =
     (if key \<in> set (map fst es) then map fst es else map fst es @ [key])"
  by (induction es) (auto simp: rev_image_eqI)

lemma position_key_None: "position (\<lambda>(k, _). k = key) es = None \<longleftrightarrow> map_of es key = None"
  by (force simp: position_None_iff map_of_eq_None_iff)

lemma position_key_value:
  "position (\<lambda>(k, _). k = key) es = Some i \<Longrightarrow> map_of es key = Some (snd (es ! i))"
  by (induction es arbitrary: i) (auto split: if_splits)

lemma filter_around_hit:
  "i < length es \<Longrightarrow> \<not> q (es ! i) \<Longrightarrow>
   filter q (take i es @ drop (Suc i) es) = filter q es"
  by (metis (no_types, lifting) append_self_conv2 filter.simps(2) filter_append id_take_nth_drop)

lemma tm_take_eq:
  "tm_take key m =
     (tm_get m key, m\<lparr> tm_entries := filter (\<lambda>(k, _). k \<noteq> key) (tm_entries m) \<rparr>)"
proof (cases "position (\<lambda>(k, _). k = key) (tm_entries m)")
  case None
  then have "key \<notin> fst ` set (tm_entries m)"
    by (simp add: position_key_None map_of_eq_None_iff)
  then have "filter (\<lambda>(k, _). k \<noteq> key) (tm_entries m) = tm_entries m"
    by (force simp: filter_id_conv)
  with None show ?thesis
    using position_key_None [of key "tm_entries m"] by (simp add: tm_take_def tm_get_map_of)
next
  case (Some i)
  then have "i < length (tm_entries m)" "(\<lambda>(k, _). k = key) (tm_entries m ! i)"
    using position_SomeD [OF Some] by auto
  then have "filter (\<lambda>(k, _). k \<noteq> key) (take i (tm_entries m) @ drop (Suc i) (tm_entries m)) =
             filter (\<lambda>(k, _). k \<noteq> key) (tm_entries m)"
    by (intro filter_around_hit) auto
  with Some position_key_value [OF Some] show ?thesis
    by (simp add: tm_take_def tm_get_map_of)
qed

lemma map_of_filter_key: "map_of (filter (\<lambda>(k, _). k \<noteq> key) es) = (map_of es)(key := None)"
  by (induction es) (auto simp: fun_eq_iff)

interpretation capture: capture_store tm_get tm_set tm_take
  by unfold_locales
    (simp_all add: tm_get_map_of tm_set_def set_entry_map_of tm_take_eq map_of_filter_key)

text \<open>Captures built by \<open>set\<close> keep their keys distinct.\<close>

definition tm_wf :: "transport_meta \<Rightarrow> bool" where
  "tm_wf m \<longleftrightarrow> distinct (map fst (tm_entries m))"

lemma tm_wf_new [simp]: "tm_wf (tm_new p)"
  by (simp add: tm_wf_def tm_new_def)

lemma tm_wf_set [simp]: "tm_wf m \<Longrightarrow> tm_wf (tm_set key v m)"
  by (auto simp: tm_wf_def tm_set_def set_entry_keys)

lemma tm_wf_take [simp]: "tm_wf m \<Longrightarrow> tm_wf (snd (tm_take key m))"
  by (auto simp: tm_wf_def tm_take_eq distinct_map intro: inj_on_subset)

subsection \<open>Encoding and decoding the fields of a typed view\<close>

text \<open>
  The encoders of the protocol views store each present field under its key; \<open>tm_set_fields\<close>
  runs the list of conditional \<open>set\<close> calls in order.
\<close>

fun tm_set_fields :: "(string \<times> meta_value option) list \<Rightarrow> transport_meta \<Rightarrow> transport_meta" where
  "tm_set_fields [] m = m"
| "tm_set_fields ((key, None) # fs) m = tm_set_fields fs m"
| "tm_set_fields ((key, Some v) # fs) m = tm_set_fields fs (tm_set key v m)"

text \<open>
  The decoders visit the entries in order, skip a key already seen, and hand the first value of
  each key to the view's own step, whose error ends the loop.
\<close>

fun decode_entries ::
  "(string \<Rightarrow> meta_value \<Rightarrow> 'v \<Rightarrow> 'e + 'v) \<Rightarrow> string list \<Rightarrow>
   (string \<times> meta_value) list \<Rightarrow> 'v \<Rightarrow> 'e + 'v" where
  "decode_entries step seen [] view = Inr view"
| "decode_entries step seen ((key, v) # es) view =
     (if key \<in> set seen then decode_entries step seen es view
      else and_then (step key v view) (decode_entries step (seen @ [key]) es))"

definition present :: "(string \<times> 'v option) list \<Rightarrow> (string \<times> 'v) list" where
  "present fs = [(k, the ov). (k, ov) \<leftarrow> fs, ov \<noteq> None]"

lemma present_simps [simp]:
  "present [] = []"
  "present ((k, None) # fs) = present fs"
  "present ((k, Some v) # fs) = (k, v) # present fs"
  by (simp_all add: present_def)

lemma present_keys: "set (map fst (present fs)) \<subseteq> set (map fst fs)"
  by (force simp: present_def)

lemma set_entry_fresh: "key \<notin> fst ` set es \<Longrightarrow> set_entry key v es = es @ [(key, v)]"
  by (induction es) auto

lemma tm_set_fields_entries:
  assumes "distinct (map fst fs)" and "fst ` set (tm_entries m) \<inter> set (map fst fs) = {}"
  shows "tm_set_fields fs m = m\<lparr> tm_entries := tm_entries m @ present fs \<rparr>"
  using assms
proof (induction fs m rule: tm_set_fields.induct)
  case (1 m)
  then show ?case by simp
next
  case (2 key fs m)
  then show ?case by auto
next
  case (3 key v fs m)
  have fresh: "key \<notin> fst ` set (tm_entries m)" using 3(3) by auto
  have set: "tm_set key v m = m\<lparr> tm_entries := tm_entries m @ [(key, v)] \<rparr>"
    by (simp add: tm_set_def set_entry_fresh [OF fresh])
  have "fst ` set (tm_entries (tm_set key v m)) \<inter> set (map fst fs) = {}"
    using 3(2,3) by (auto simp: set)
  with 3 have "tm_set_fields fs (tm_set key v m) =
      (tm_set key v m)\<lparr> tm_entries := tm_entries (tm_set key v m) @ present fs \<rparr>"
    by simp
  then show ?case by (simp add: set)
qed

lemma tm_set_fields_new:
  "distinct (map fst fs) \<Longrightarrow>
   tm_set_fields fs (tm_new p) = \<lparr> tm_protocol = p, tm_headers = None, tm_entries = present fs \<rparr>"
  by (subst tm_set_fields_entries) (simp_all add: tm_new_def)

text \<open>On entries with distinct keys the loop is a plain fold, field by field.\<close>

fun fold_fields ::
  "(string \<Rightarrow> meta_value \<Rightarrow> 'v \<Rightarrow> 'e + 'v) \<Rightarrow> (string \<times> meta_value option) list \<Rightarrow> 'v \<Rightarrow> 'e + 'v"
where
  "fold_fields step [] view = Inr view"
| "fold_fields step ((key, None) # fs) view = fold_fields step fs view"
| "fold_fields step ((key, Some v) # fs) view = and_then (step key v view) (fold_fields step fs)"

lemma fold_fields_step:
  "fold_fields step ((key, ov) # fs) view =
     and_then (case ov of None \<Rightarrow> Inr view | Some v \<Rightarrow> step key v view) (fold_fields step fs)"
  by (cases ov) simp_all

lemma decode_entries_present:
  "distinct (map fst fs) \<Longrightarrow> set seen \<inter> set (map fst fs) = {} \<Longrightarrow>
   decode_entries step seen (present fs) view = fold_fields step fs view"
proof (induction step fs view arbitrary: seen rule: fold_fields.induct)
  case (3 step key v fs view)
  have "decode_entries step (seen @ [key]) (present fs) view' = fold_fields step fs view'" for view'
    using 3 by auto
  then show ?case using 3 by (cases "step key v view") auto
qed auto

text \<open>
  Later entries of a key never matter: the loop on any entries is the loop on the first
  occurrences.
\<close>

fun first_entries :: "string list \<Rightarrow> (string \<times> 'v) list \<Rightarrow> (string \<times> 'v) list" where
  "first_entries seen [] = []"
| "first_entries seen ((k, v) # es) =
     (if k \<in> set seen then first_entries seen es else (k, v) # first_entries (seen @ [k]) es)"

lemma decode_entries_first:
  "decode_entries step seen es view = decode_entries step seen (first_entries seen es) view"
proof (induction step seen es view rule: decode_entries.induct)
  case (2 step seen key v es view)
  then show ?case by (cases "step key v view") auto
qed simp

lemma first_entries_map_of:
  "map_of (first_entries seen es) k = (if k \<in> set seen then None else map_of es k)"
  by (induction seen es rule: first_entries.induct) auto

section \<open>Typed protocol views\<close>

text \<open>
  The contract of \<open>ProtocolMeta\<close>: a view encodes under its own protocol, decoding returns what was
  encoded, captures of other protocols are refused, and borrowing decodes like moving.
\<close>

locale typed_view =
  fixes protocol :: protocol_id
    and encode :: "'v \<Rightarrow> transport_meta"
    and decode :: "transport_meta \<Rightarrow> 'v option"
    and view :: "transport_meta \<Rightarrow> 'v option"
  assumes encode_protocol: "tm_protocol (encode v) = protocol"
    and decode_encode: "decode (encode v) = Some v"
    and decode_protocol: "decode m = Some v \<Longrightarrow> tm_protocol m = protocol"
    and view_decode: "view m = decode m"
begin

lemma encode_inject: "encode v = encode w \<longleftrightarrow> v = w"
  by (metis decode_encode option.inject)

lemma foreign_refused: "tm_protocol m \<noteq> protocol \<Longrightarrow> decode m = None \<and> view m = None"
  using decode_protocol view_decode by (metis not_Some_eq)

lemma view_encode: "view (encode v) = Some v"
  by (simp add: view_decode decode_encode)

text \<open>Re-encoding a decoded capture normalises it: a second pass changes nothing.\<close>

lemma normalise_idempotent:
  "decode m = Some v \<Longrightarrow> map_option encode (decode (encode v)) = map_option encode (decode m)"
  by (simp add: decode_encode)

end

text \<open>Two views of different protocols never read each other's captures.\<close>

locale two_views =
  a: typed_view protocol_a encode_a decode_a view_a +
  b: typed_view protocol_b encode_b decode_b view_b
  for protocol_a :: protocol_id and encode_a :: "'a \<Rightarrow> transport_meta" and decode_a view_a
    and protocol_b :: protocol_id and encode_b :: "'b \<Rightarrow> transport_meta" and decode_b view_b +
  assumes different_protocols: "protocol_a \<noteq> protocol_b"
begin

lemma no_cross_reading: "decode_a (encode_b v) = None" "decode_b (encode_a w) = None"
  using a.foreign_refused b.foreign_refused different_protocols
  by (metis b.encode_protocol, metis a.encode_protocol different_protocols)

end

section \<open>Properties\<close>

text \<open>C38: A transport capture is a finite map: \<open>set\<close> updates exactly one key, \<open>take\<close> returns the
  readable value and removes every entry of the key (a second \<open>take\<close> finds nothing), and both keep
  the protocol, the headers and the distinctness of the keys.\<close>

theorem transport_meta_refines_map:
  "tm_get (tm_set k v m) = (tm_get m)(k \<mapsto> v) \<and>
   fst (tm_take k m) = tm_get m k \<and>
   tm_get (snd (tm_take k m)) = (tm_get m)(k := None) \<and>
   fst (tm_take k (snd (tm_take k m))) = None \<and>
   tm_get (tm_new p) = Map.empty \<and>
   (tm_protocol (tm_set k v m), tm_headers (tm_set k v m)) = (tm_protocol m, tm_headers m) \<and>
   (tm_protocol (snd (tm_take k m)), tm_headers (snd (tm_take k m))) = (tm_protocol m, tm_headers m)"
  by (simp add: capture.store_is_update capture.remove_is_delete capture.remove_value
      capture.remove_twice)
    (simp add: tm_get_map_of tm_new_def tm_set_def tm_take_eq fun_eq_iff)

text \<open>Merging never shadows: looking a name up in merged headers, with any capitalisation of
  the name, finds the receiver's first value, and the other collection's only when the receiver
  has none; the merged collection keeps every pair of both, in order.\<close>

theorem headers_merge_lookup:
  assumes "eq_ignore_ascii_case name name'"
  shows "headers_get (headers_merge other hs) name' =
      (case headers_get hs name of Some v \<Rightarrow> Some v | None \<Rightarrow> headers_get other name) \<and>
    headers_merge other hs = hs @ other"
  using headers_get_case_insensitive [OF assms]
  by (simp add: headers_merge_def headers_get_append opt_or_def split: option.split)

theorem headers_merge_lookup_witness:
  "headers_get (headers_merge [\<lparr> hdr_key = ''x-env'', hdr_value = ''capture'' \<rparr>]
      [\<lparr> hdr_key = ''X-Env'', hdr_value = ''envelope'' \<rparr>]) ''x-ENV'' = Some ''envelope''"
proof -
  have "eq_ignore_ascii_case ''X-env'' ''x-ENV''" by code_simp
  moreover have "headers_get [\<lparr> hdr_key = ''X-Env'', hdr_value = ''envelope'' \<rparr>] ''X-env'' =
      Some ''envelope''"
    by code_simp
  ultimately show ?thesis
    using headers_merge_lookup [THEN conjunct1, of "''X-env''" "''x-ENV''"
        "[\<lparr> hdr_key = ''x-env'', hdr_value = ''capture'' \<rparr>]"
        "[\<lparr> hdr_key = ''X-Env'', hdr_value = ''envelope'' \<rparr>]"]
    by (simp only: option.case simp_thms)
qed

end
