(* ===== verification/Core_Command.thy ===== *)
theory Core_Command
  imports Core_Meta
begin

text \<open>
  The routed data model of \<open>ferredge-core\<close>: identifiers (\<open>id.rs\<close>), addresses, payload values,
  request and broker options, intents, commands and command results (\<open>command.rs\<close>), routes
  (\<open>route.rs\<close>) and the routed envelopes (\<open>routed.rs\<close>), each with its \<open>as_borrowed\<close> and
  \<open>into_owned\<close> conversions, which the interpretations of \<open>content_preserving\<close> verify.
\<close>

section \<open>Identifiers\<close>

text \<open>The string newtypes of \<open>id.rs\<close>; the selector is \<open>as_str\<close>, \<open>into_string\<close> and \<open>Display\<close>.\<close>

datatype command_id = CommandId (command_id_str: string)
datatype device_id = DeviceId (device_id_str: string)
datatype resource_name = ResourceName (resource_name_str: string)
datatype operation_name = OperationName (operation_name_str: string)
datatype channel_name = ChannelName (channel_name_str: string)

section \<open>Addresses and correlation\<close>

datatype delivery_state = Accepted | Dispatched | Completed | Rejected | TimedOut

datatype address = AResource string | AChannel string

fun address_as_str :: "address \<Rightarrow> string" where
  "address_as_str (AResource v) = v"
| "address_as_str (AChannel v) = v"

fun address_as_borrowed :: "address \<Rightarrow> address" where
  "address_as_borrowed (AResource v) = AResource v"
| "address_as_borrowed (AChannel v) = AChannel v"

fun address_into_owned :: "address \<Rightarrow> address" where
  "address_into_owned (AResource v) = AResource (cow_str_into_owned v)"
| "address_into_owned (AChannel v) = AChannel (cow_str_into_owned v)"

interpretation own_address: content_preserving address_into_owned
  by unfold_locales (metis address_into_owned.simps address.exhaust cow_str.own_content)

record correlation =
  co_request_id :: command_id
  co_reply_to :: "address option"

definition correlation_new :: "command_id \<Rightarrow> address option \<Rightarrow> correlation" where
  "correlation_new request_id reply_to = \<lparr> co_request_id = request_id, co_reply_to = reply_to \<rparr>"

definition correlation_as_borrowed :: "correlation \<Rightarrow> correlation" where
  "correlation_as_borrowed c =
     \<lparr> co_request_id = co_request_id c,
       co_reply_to = map_option address_as_borrowed (co_reply_to c) \<rparr>"

definition correlation_into_owned :: "correlation \<Rightarrow> correlation" where
  "correlation_into_owned c =
     \<lparr> co_request_id = co_request_id c,
       co_reply_to = option_into_owned address_into_owned (co_reply_to c) \<rparr>"

interpretation own_correlation: content_preserving correlation_into_owned
  by unfold_locales
    (simp add: correlation_into_owned_def owned_simps own_address.content_preserving_axioms)

lemma address_as_borrowed_same [owned_simps]: "address_as_borrowed a = a"
  by (cases a) simp_all

lemma correlation_as_borrowed_same [owned_simps]: "correlation_as_borrowed c = c"
  by (cases "co_reply_to c") (simp_all add: correlation_as_borrowed_def owned_simps)

section \<open>Options\<close>

datatype delivery_guarantee = BestEffort | AtLeastOnce | ExactlyOnce

record broker_message_options =
  bm_delivery :: "delivery_guarantee option"
  bm_headers :: headers
  bm_extensions :: "transport_meta option"

record request_options =
  ro_headers :: headers
  ro_content_type :: "string option"
  ro_method :: "string option"
  ro_path :: "string option"
  ro_extensions :: "transport_meta option"

record broker_subscription_options =
  bs_delivery :: "delivery_guarantee option"
  bs_durable_name :: "string option"
  bs_shared_group :: "string option"
  bs_extensions :: "transport_meta option"

definition broker_message_options_default :: broker_message_options where
  "broker_message_options_default = \<lparr> bm_delivery = None, bm_headers = [], bm_extensions = None \<rparr>"

definition request_options_default :: request_options where
  "request_options_default =
     \<lparr> ro_headers = [], ro_content_type = None, ro_method = None, ro_path = None,
       ro_extensions = None \<rparr>"

definition broker_subscription_options_default :: broker_subscription_options where
  "broker_subscription_options_default =
     \<lparr> bs_delivery = None, bs_durable_name = None, bs_shared_group = None, bs_extensions = None \<rparr>"

definition broker_message_options_into_owned ::
  "broker_message_options \<Rightarrow> broker_message_options" where
  "broker_message_options_into_owned opts =
     \<lparr> bm_delivery = bm_delivery opts,
       bm_headers = headers_into_owned (bm_headers opts),
       bm_extensions = option_into_owned tm_into_owned (bm_extensions opts) \<rparr>"

definition request_options_into_owned :: "request_options \<Rightarrow> request_options" where
  "request_options_into_owned opts =
     \<lparr> ro_headers = headers_into_owned (ro_headers opts),
       ro_content_type = ro_content_type opts,
       ro_method = ro_method opts,
       ro_path = ro_path opts,
       ro_extensions = option_into_owned tm_into_owned (ro_extensions opts) \<rparr>"

definition broker_subscription_options_into_owned ::
  "broker_subscription_options \<Rightarrow> broker_subscription_options" where
  "broker_subscription_options_into_owned opts =
     \<lparr> bs_delivery = bs_delivery opts,
       bs_durable_name = bs_durable_name opts,
       bs_shared_group = bs_shared_group opts,
       bs_extensions = option_into_owned tm_into_owned (bs_extensions opts) \<rparr>"

lemmas own_tm_axioms = own_tm.content_preserving_axioms

interpretation own_bmo: content_preserving broker_message_options_into_owned
  by unfold_locales
    (simp add: broker_message_options_into_owned_def owned_simps own_headers.own_content own_tm_axioms)

interpretation own_ro: content_preserving request_options_into_owned
  by unfold_locales
    (simp add: request_options_into_owned_def owned_simps own_headers.own_content own_tm_axioms)

interpretation own_bso: content_preserving broker_subscription_options_into_owned
  by unfold_locales
    (simp add: broker_subscription_options_into_owned_def owned_simps own_tm_axioms)

datatype broker_channel_kind = Topic | Queue | Subject | Stream

record broker_address =
  ba_name :: channel_name
  ba_kind :: "broker_channel_kind option"

section \<open>Payload values\<close>

datatype payload_value =
    PNull
  | PBool bool
  | PI64 i64
  | PU64 u64
  | PF64 f64
  | PString string
  | PBytes bytes
  | PList "payload_value list"
  | PMap "(string \<times> payload_value) list"

text \<open>\<open>From\<close> bytes and strings, and \<open>Display\<close>; the rendering of a float is a parameter.\<close>

definition payload_from_bytes :: "bytes \<Rightarrow> payload_value" where
  "payload_from_bytes value = PBytes value"

definition payload_from_string :: "string \<Rightarrow> payload_value" where
  "payload_from_string value = PString value"

definition i64_display :: "i64 \<Rightarrow> string" where
  "i64_display v = (if sint v < 0 then ''-'' @ decimal (nat (- sint v)) else decimal (nat (sint v)))"

fun payload_display :: "(f64 \<Rightarrow> string) \<Rightarrow> payload_value \<Rightarrow> string" where
  "payload_display f64_display PNull = ''null''"
| "payload_display f64_display (PBool v) = (if v then ''true'' else ''false'')"
| "payload_display f64_display (PI64 v) = i64_display v"
| "payload_display f64_display (PU64 v) = decimal (unat v)"
| "payload_display f64_display (PF64 v) = f64_display v"
| "payload_display f64_display (PString v) = v"
| "payload_display f64_display (PBytes _) = ''<bytes>''"
| "payload_display f64_display (PList _) = ''<list>''"
| "payload_display f64_display (PMap _) = ''<map>''"

fun payload_as_borrowed :: "payload_value \<Rightarrow> payload_value" where
  "payload_as_borrowed PNull = PNull"
| "payload_as_borrowed (PBool v) = PBool v"
| "payload_as_borrowed (PI64 v) = PI64 v"
| "payload_as_borrowed (PU64 v) = PU64 v"
| "payload_as_borrowed (PF64 v) = PF64 v"
| "payload_as_borrowed (PString v) = PString v"
| "payload_as_borrowed (PBytes v) = PBytes v"
| "payload_as_borrowed (PList vs) = PList (map payload_as_borrowed vs)"
| "payload_as_borrowed (PMap vs) = PMap (map (\<lambda>(k, v). (k, payload_as_borrowed v)) vs)"

fun payload_into_owned :: "payload_value \<Rightarrow> payload_value" where
  "payload_into_owned PNull = PNull"
| "payload_into_owned (PBool v) = PBool v"
| "payload_into_owned (PI64 v) = PI64 v"
| "payload_into_owned (PU64 v) = PU64 v"
| "payload_into_owned (PF64 v) = PF64 v"
| "payload_into_owned (PString v) = PString (cow_str_into_owned v)"
| "payload_into_owned (PBytes v) = PBytes (cow_bytes_into_owned v)"
| "payload_into_owned (PList vs) = PList (map payload_into_owned vs)"
| "payload_into_owned (PMap vs) =
     PMap (map (\<lambda>(k, v). (cow_str_into_owned k, payload_into_owned v)) vs)"

lemma payload_into_owned_same: "payload_into_owned v = v"
proof (induction v)
  case (PList vs)
  then show ?case by (simp add: map_idI)
next
  case (PMap vs)
  have "map (\<lambda>(k, v). (cow_str_into_owned k, payload_into_owned v)) vs = vs"
    by (rule map_idI) (use PMap in \<open>auto simp: owned_simps snds.simps\<close>)
  then show ?case by simp
qed (simp_all add: owned_simps)

lemma payload_as_borrowed_same [owned_simps]: "payload_as_borrowed v = v"
proof (induction v)
  case (PList vs)
  then show ?case by (simp add: map_idI)
next
  case (PMap vs)
  have "map (\<lambda>(k, v). (k, payload_as_borrowed v)) vs = vs"
    by (rule map_idI) (use PMap in \<open>auto simp: snds.simps\<close>)
  then show ?case by simp
qed simp_all

interpretation own_payload: content_preserving payload_into_owned
  by unfold_locales (rule payload_into_owned_same)

section \<open>Intents and commands\<close>

datatype intent =
    Read resource_name request_options
  | Write resource_name payload_value request_options
  | Invoke operation_name "payload_value option" request_options
  | Send broker_address payload_value broker_message_options
  | Subscribe broker_address broker_subscription_options
  | Unsubscribe broker_address

fun intent_into_owned :: "intent \<Rightarrow> intent" where
  "intent_into_owned (Read resource options) =
     Read resource (request_options_into_owned options)"
| "intent_into_owned (Write resource payload options) =
     Write resource (payload_into_owned payload) (request_options_into_owned options)"
| "intent_into_owned (Invoke operation args options) =
     Invoke operation (option_into_owned payload_into_owned args)
       (request_options_into_owned options)"
| "intent_into_owned (Send channel payload options) =
     Send channel (payload_into_owned payload) (broker_message_options_into_owned options)"
| "intent_into_owned (Subscribe channel options) =
     Subscribe channel (broker_subscription_options_into_owned options)"
| "intent_into_owned (Unsubscribe channel) = Unsubscribe channel"

lemmas own_options_content =
  own_ro.own_content own_bmo.own_content own_bso.own_content own_payload.own_content

lemmas own_model_axioms =
  own_payload.content_preserving_axioms own_correlation.content_preserving_axioms own_tm_axioms

interpretation own_intent: content_preserving intent_into_owned
proof unfold_locales
  show "intent_into_owned i = i" for i
    by (cases i) (simp_all add: own_options_content owned_simps own_model_axioms)
qed

record command =
  cmd_id :: command_id
  cmd_source_device_id :: "device_id option"
  cmd_target_device_id :: device_id
  cmd_intent :: intent
  cmd_correlation :: "correlation option"

definition command_into_owned :: "command \<Rightarrow> command" where
  "command_into_owned c =
     \<lparr> cmd_id = cmd_id c,
       cmd_source_device_id = cmd_source_device_id c,
       cmd_target_device_id = cmd_target_device_id c,
       cmd_intent = intent_into_owned (cmd_intent c),
       cmd_correlation = option_into_owned correlation_into_owned (cmd_correlation c) \<rparr>"

interpretation own_command: content_preserving command_into_owned
  by unfold_locales
    (simp add: command_into_owned_def own_intent.own_content owned_simps own_model_axioms)

record command_result =
  cr_command_id :: command_id
  cr_device_id :: device_id
  cr_state :: delivery_state
  cr_payload :: "payload_value option"
  cr_error :: "string option"
  cr_correlation :: "correlation option"

definition command_result_new ::
  "command_id \<Rightarrow> device_id \<Rightarrow> delivery_state \<Rightarrow> payload_value option \<Rightarrow> string option \<Rightarrow>
   correlation option \<Rightarrow> command_result" where
  "command_result_new command device state payload err corr =
     \<lparr> cr_command_id = command, cr_device_id = device, cr_state = state, cr_payload = payload,
       cr_error = err, cr_correlation = corr \<rparr>"

definition command_result_into_owned :: "command_result \<Rightarrow> command_result" where
  "command_result_into_owned r =
     \<lparr> cr_command_id = cr_command_id r,
       cr_device_id = cr_device_id r,
       cr_state = cr_state r,
       cr_payload = option_into_owned payload_into_owned (cr_payload r),
       cr_error = cr_error r,
       cr_correlation = option_into_owned correlation_into_owned (cr_correlation r) \<rparr>"

interpretation own_result: content_preserving command_result_into_owned
  by unfold_locales (simp add: command_result_into_owned_def owned_simps own_model_axioms)

section \<open>Routes\<close>

record addressed_access_meta =
  aa_address :: u32
  aa_domain :: string
  aa_quantity :: "u16 option"

definition addressed_access_meta_new ::
  "u32 \<Rightarrow> string \<Rightarrow> u16 option \<Rightarrow> addressed_access_meta" where
  "addressed_access_meta_new addr domain quantity =
     \<lparr> aa_address = addr, aa_domain = domain, aa_quantity = quantity \<rparr>"

datatype route =
    RequestResponse string "string option"
  | Messaging string
  | AddressedAccess string addressed_access_meta "u32 option"

fun route_as_borrowed :: "route \<Rightarrow> route" where
  "route_as_borrowed (RequestResponse resource path) =
     RequestResponse resource (map_option (\<lambda>p. p) path)"
| "route_as_borrowed (Messaging topic) = Messaging topic"
| "route_as_borrowed (AddressedAccess resource access node_id) =
     AddressedAccess resource access node_id"

fun route_into_owned :: "route \<Rightarrow> route" where
  "route_into_owned (RequestResponse resource path) =
     RequestResponse (cow_str_into_owned resource) (option_into_owned cow_str_into_owned path)"
| "route_into_owned (Messaging topic) = Messaging (cow_str_into_owned topic)"
| "route_into_owned (AddressedAccess resource access node_id) =
     AddressedAccess (cow_str_into_owned resource) access node_id"

interpretation own_route: content_preserving route_into_owned
proof unfold_locales
  show "route_into_owned r = r" for r
    by (cases r) (simp_all add: owned_simps)
qed

lemma route_as_borrowed_same [owned_simps]: "route_as_borrowed r = r"
  by (cases r) (simp_all add: option.map_ident)

fun route_from_address :: "address \<Rightarrow> route" where
  "route_from_address (AChannel topic) = Messaging topic"
| "route_from_address (AResource resource) = RequestResponse resource None"

lemma route_from_address_inject: "route_from_address a = route_from_address b \<longleftrightarrow> a = b"
  by (cases a; cases b) simp_all

section \<open>Routed envelopes\<close>

record endpoint_ref =
  ep_device_id :: device_id
  ep_protocol :: protocol_id

record routed_event =
  re_source :: endpoint_ref
  re_route :: route
  re_payload :: payload_value
  re_correlation :: "correlation option"
  re_transport :: "transport_meta option"

record routed_result =
  rr_source :: endpoint_ref
  rr_result :: command_result
  rr_transport :: "transport_meta option"

datatype routed_message =
    RCommand command
  | REvent routed_event
  | RResult routed_result

definition endpoint_ref_new :: "device_id \<Rightarrow> protocol_id \<Rightarrow> endpoint_ref" where
  "endpoint_ref_new device protocol = \<lparr> ep_device_id = device, ep_protocol = protocol \<rparr>"

definition routed_event_new ::
  "endpoint_ref \<Rightarrow> route \<Rightarrow> payload_value \<Rightarrow> correlation option \<Rightarrow> transport_meta option \<Rightarrow>
   routed_event" where
  "routed_event_new source route payload corr transport =
     \<lparr> re_source = source, re_route = route, re_payload = payload, re_correlation = corr,
       re_transport = transport \<rparr>"

definition routed_result_new ::
  "endpoint_ref \<Rightarrow> command_result \<Rightarrow> transport_meta option \<Rightarrow> routed_result" where
  "routed_result_new source result transport =
     \<lparr> rr_source = source, rr_result = result, rr_transport = transport \<rparr>"

definition routed_event_into_owned :: "routed_event \<Rightarrow> routed_event" where
  "routed_event_into_owned e =
     \<lparr> re_source = re_source e,
       re_route = route_into_owned (re_route e),
       re_payload = payload_into_owned (re_payload e),
       re_correlation = option_into_owned correlation_into_owned (re_correlation e),
       re_transport = option_into_owned tm_into_owned (re_transport e) \<rparr>"

definition routed_result_into_owned :: "routed_result \<Rightarrow> routed_result" where
  "routed_result_into_owned r =
     \<lparr> rr_source = rr_source r,
       rr_result = command_result_into_owned (rr_result r),
       rr_transport = option_into_owned tm_into_owned (rr_transport r) \<rparr>"

fun routed_message_into_owned :: "routed_message \<Rightarrow> routed_message" where
  "routed_message_into_owned (RCommand c) = RCommand (command_into_owned c)"
| "routed_message_into_owned (REvent e) = REvent (routed_event_into_owned e)"
| "routed_message_into_owned (RResult r) = RResult (routed_result_into_owned r)"

interpretation own_event: content_preserving routed_event_into_owned
  by unfold_locales
    (simp add: routed_event_into_owned_def own_route.own_content own_payload.own_content
      owned_simps own_model_axioms)

interpretation own_routed_result: content_preserving routed_result_into_owned
  by unfold_locales
    (simp add: routed_result_into_owned_def own_result.own_content owned_simps own_model_axioms)

interpretation own_message: content_preserving routed_message_into_owned
proof unfold_locales
  show "routed_message_into_owned m = m" for m
    by (cases m)
      (simp_all add: own_command.own_content own_event.own_content own_routed_result.own_content)
qed

section \<open>Properties\<close>

text \<open>\<open>into_owned\<close> changes ownership only: on every routed envelope, and so on every command,
  event, result, intent, option record, payload, route, address, correlation and capture inside
  one, the owned value has the same content; re-borrowing a payload, route, correlation or
  capture does too.\<close>

theorem into_owned_preserves_content:
  "routed_message_into_owned m = m \<and>
   intent_into_owned i = i \<and>
   payload_into_owned (payload_as_borrowed v) = v \<and>
   route_into_owned (route_as_borrowed r) = r \<and>
   correlation_into_owned (correlation_as_borrowed c) = c \<and>
   tm_into_owned (tm_as_borrowed t) = t"
  by (simp add: own_message.own_content own_intent.own_content own_payload.own_content
      own_route.own_content own_correlation.own_content own_tm.own_content owned_simps)

end
