(* ===== verification/Bridge.thy ===== *)
theory Bridge
  imports Core_Command
begin

text \<open>
  The bridge intermediate representation (\<open>ferredge-bridge\<close>): operations (\<open>op.rs\<close>), capabilities
  (\<open>capability.rs\<close>), faults (\<open>fault.rs\<close>), planner errors (\<open>error.rs\<close>), the bridge envelopes
  (\<open>message.rs\<close>) and the planners between routed commands, events and results and bridge
  messages (\<open>planner.rs\<close>).
\<close>

section \<open>Operations, capabilities and faults\<close>

datatype request_response_action = RRRead | RRWrite | RRInvoke
datatype messaging_action = MPublish | MSubscribe | MUnsubscribe
datatype register_access_action = RARead | RAWrite

record request_response_op =
  rro_action :: request_response_action
  rro_method :: "string option"
  rro_content_type :: "string option"

record messaging_op =
  mso_action :: messaging_action
  mso_delivery :: "delivery_guarantee option"
  mso_durable_name :: "string option"
  mso_shared_group :: "string option"

record register_access_op =
  rao_action :: register_access_action

datatype bridge_op =
    OpRequestResponse request_response_op
  | OpMessaging messaging_op
  | OpRegisterAccess register_access_op

record messaging_capability =
  mc_binary_payloads :: bool

record request_response_capability =
  rrc_binary_payloads :: bool

record register_access_capability =
  rac_binary_payloads :: bool

datatype bridge_capability =
    CapMessaging messaging_capability
  | CapRequestResponse request_response_capability
  | CapRegisterAccess register_access_capability
  | CapBinaryStreamReserved
  | CapSessionStreamReserved

datatype bridge_fault_category =
    FUnsupported | FNotFound | FInvalidInput | FTransport | FTimeout | FProtocol | FRejected
  | FInternal

record bridge_fault_source =
  fs_protocol :: "protocol_id option"
  fs_location :: "string option"

record bridge_fault =
  bf_category :: bridge_fault_category
  bf_protocol_code :: "string option"
  bf_retryable :: bool
  bf_source :: "bridge_fault_source option"
  bf_detail :: "string option"

definition bridge_fault_protocol ::
  "string \<Rightarrow> bool \<Rightarrow> protocol_id \<Rightarrow> string option \<Rightarrow> bridge_fault" where
  "bridge_fault_protocol code retryable protocol detail =
     \<lparr> bf_category = FProtocol, bf_protocol_code = Some code, bf_retryable = retryable,
       bf_source = Some \<lparr> fs_protocol = Some protocol, fs_location = None \<rparr>,
       bf_detail = detail \<rparr>"

datatype bridge_planner_error = UnsupportedIntent | UnexpectedMessageKind string

fun bridge_planner_error_str :: "bridge_planner_error \<Rightarrow> string" where
  "bridge_planner_error_str UnsupportedIntent =
     ''unsupported command intent for requested bridge capability''"
| "bridge_planner_error_str (UnexpectedMessageKind expected) =
     ''expected '' @ expected @ '' bridge message''"

section \<open>Envelopes\<close>

record bridge_command =
  bc_id :: command_id
  bc_source_device_id :: "device_id option"
  bc_target_device_id :: device_id
  bc_capability :: bridge_capability
  bc_operation :: bridge_op
  bc_payload :: "payload_value option"
  bc_route :: route
  bc_transport :: "transport_meta option"
  bc_headers :: "headers option"
  bc_correlation :: "correlation option"

record bridge_event =
  be_source :: endpoint_ref
  be_capability :: bridge_capability
  be_operation :: bridge_op
  be_payload :: payload_value
  be_route :: route
  be_transport :: "transport_meta option"
  be_headers :: "headers option"
  be_correlation :: "correlation option"

record bridge_message_meta =
  bmm_source :: endpoint_ref
  bmm_command_id :: command_id
  bmm_capability :: "bridge_capability option"
  bmm_operation :: "bridge_op option"
  bmm_transport :: "transport_meta option"
  bmm_headers :: "headers option"
  bmm_correlation :: "correlation option"

datatype bridge_outcome =
    Progress delivery_state
  | Success "payload_value option"
  | Failure delivery_state "payload_value option" "string option" bridge_fault

record bridge_result =
  br_meta :: bridge_message_meta
  br_outcome :: bridge_outcome

datatype bridge_message =
    BCommand bridge_command
  | BEvent bridge_event
  | BResult bridge_result

definition bridge_command_into_owned :: "bridge_command \<Rightarrow> bridge_command" where
  "bridge_command_into_owned c =
     \<lparr> bc_id = bc_id c,
       bc_source_device_id = bc_source_device_id c,
       bc_target_device_id = bc_target_device_id c,
       bc_capability = bc_capability c,
       bc_operation = bc_operation c,
       bc_payload = option_into_owned payload_into_owned (bc_payload c),
       bc_route = route_into_owned (bc_route c),
       bc_transport = option_into_owned tm_into_owned (bc_transport c),
       bc_headers = option_into_owned headers_into_owned (bc_headers c),
       bc_correlation = option_into_owned correlation_into_owned (bc_correlation c) \<rparr>"

definition bridge_event_into_owned :: "bridge_event \<Rightarrow> bridge_event" where
  "bridge_event_into_owned e =
     \<lparr> be_source = be_source e,
       be_capability = be_capability e,
       be_operation = be_operation e,
       be_payload = payload_into_owned (be_payload e),
       be_route = route_into_owned (be_route e),
       be_transport = option_into_owned tm_into_owned (be_transport e),
       be_headers = option_into_owned headers_into_owned (be_headers e),
       be_correlation = option_into_owned correlation_into_owned (be_correlation e) \<rparr>"

definition bridge_message_meta_into_owned :: "bridge_message_meta \<Rightarrow> bridge_message_meta" where
  "bridge_message_meta_into_owned m =
     \<lparr> bmm_source = bmm_source m,
       bmm_command_id = bmm_command_id m,
       bmm_capability = bmm_capability m,
       bmm_operation = bmm_operation m,
       bmm_transport = option_into_owned tm_into_owned (bmm_transport m),
       bmm_headers = option_into_owned headers_into_owned (bmm_headers m),
       bmm_correlation = option_into_owned correlation_into_owned (bmm_correlation m) \<rparr>"

fun bridge_outcome_into_owned :: "bridge_outcome \<Rightarrow> bridge_outcome" where
  "bridge_outcome_into_owned (Progress state) = Progress state"
| "bridge_outcome_into_owned (Success payload) =
     Success (option_into_owned payload_into_owned payload)"
| "bridge_outcome_into_owned (Failure state payload err fault) =
     Failure state (option_into_owned payload_into_owned payload) err fault"

definition bridge_result_into_owned :: "bridge_result \<Rightarrow> bridge_result" where
  "bridge_result_into_owned r =
     \<lparr> br_meta = bridge_message_meta_into_owned (br_meta r),
       br_outcome = bridge_outcome_into_owned (br_outcome r) \<rparr>"

fun bridge_message_into_owned :: "bridge_message \<Rightarrow> bridge_message" where
  "bridge_message_into_owned (BCommand c) = BCommand (bridge_command_into_owned c)"
| "bridge_message_into_owned (BEvent e) = BEvent (bridge_event_into_owned e)"
| "bridge_message_into_owned (BResult r) = BResult (bridge_result_into_owned r)"

lemmas own_bridge_simps =
  owned_simps own_model_axioms own_headers.content_preserving_axioms own_route.own_content
  own_payload.own_content

interpretation own_bridge_message: content_preserving bridge_message_into_owned
proof unfold_locales
  have "bridge_outcome_into_owned x = x" for x
    by (cases x) (simp_all add: own_bridge_simps)
  then show "bridge_message_into_owned m = m" for m
    by (cases m)
      (simp_all add: bridge_command_into_owned_def bridge_event_into_owned_def
        bridge_result_into_owned_def bridge_message_meta_into_owned_def own_bridge_simps)
qed

section \<open>Capture headers\<close>

text \<open>
  \<open>Option::take\<close> leaves \<open>None\<close> behind, so the passthrough capture loses its headers; an empty
  collection is dropped.
\<close>

definition split_capture_headers ::
  "transport_meta option \<Rightarrow> transport_meta option \<times> headers option" where
  "split_capture_headers transport =
     (case transport of
        Some meta \<Rightarrow>
          let hs = (case tm_headers meta of
                      Some h \<Rightarrow> if headers_is_empty h then None else Some h
                    | None \<Rightarrow> None)
          in (Some (meta\<lparr> tm_headers := None \<rparr>), hs)
      | None \<Rightarrow> (None, None))"

definition capture_with_headers ::
  "transport_meta option \<Rightarrow> headers \<Rightarrow> transport_meta option \<times> headers option" where
  "capture_with_headers transport hs =
     (let (transport', capture_headers) = split_capture_headers transport;
          merged = (case capture_headers of Some ch \<Rightarrow> headers_merge ch hs | None \<Rightarrow> hs)
      in (transport', if headers_is_empty merged then None else Some merged))"

section \<open>Planners\<close>

definition command_to_request_response ::
  "command \<Rightarrow> bridge_planner_error + bridge_message" where
  "command_to_request_response c =
     (let parts =
        (case cmd_intent c of
           Read resource options \<Rightarrow>
             Inr (resource_name_str resource, options, RRRead, None)
         | Write resource payload options \<Rightarrow>
             Inr (resource_name_str resource, options, RRWrite, Some payload)
         | Invoke operation args options \<Rightarrow>
             Inr (operation_name_str operation, options, RRInvoke, args)
         | _ \<Rightarrow> Inl UnsupportedIntent)
      in and_then parts (\<lambda>(resource, options, action, payload).
        let (transport, hs) = capture_with_headers (ro_extensions options) (ro_headers options)
        in Inr (BCommand
             \<lparr> bc_id = cmd_id c,
               bc_source_device_id = cmd_source_device_id c,
               bc_target_device_id = cmd_target_device_id c,
               bc_capability = CapRequestResponse \<lparr> rrc_binary_payloads = True \<rparr>,
               bc_operation = OpRequestResponse
                 \<lparr> rro_action = action, rro_method = ro_method options,
                   rro_content_type = ro_content_type options \<rparr>,
               bc_payload = payload,
               bc_route = RequestResponse resource (ro_path options),
               bc_transport = transport,
               bc_headers = hs,
               bc_correlation = cmd_correlation c \<rparr>)))"

definition messaging_command ::
  "command \<Rightarrow> broker_address \<Rightarrow> messaging_op \<Rightarrow> payload_value option \<Rightarrow>
   transport_meta option \<Rightarrow> headers option \<Rightarrow> bridge_message" where
  "messaging_command c channel mop payload transport hs =
     BCommand
       \<lparr> bc_id = cmd_id c,
         bc_source_device_id = cmd_source_device_id c,
         bc_target_device_id = cmd_target_device_id c,
         bc_capability = CapMessaging \<lparr> mc_binary_payloads = True \<rparr>,
         bc_operation = OpMessaging mop,
         bc_payload = payload,
         bc_route = Messaging (channel_name_str (ba_name channel)),
         bc_transport = transport,
         bc_headers = hs,
         bc_correlation = cmd_correlation c \<rparr>"

definition command_to_messaging :: "command \<Rightarrow> bridge_planner_error + bridge_message" where
  "command_to_messaging c =
     (case cmd_intent c of
        Send channel payload options \<Rightarrow>
          (let (transport, hs) = capture_with_headers (bm_extensions options) (bm_headers options)
           in Inr (messaging_command c channel
                \<lparr> mso_action = MPublish, mso_delivery = bm_delivery options,
                  mso_durable_name = None, mso_shared_group = None \<rparr>
                (Some payload) transport hs))
      | Subscribe channel options \<Rightarrow>
          (let (transport, hs) = capture_with_headers (bs_extensions options) []
           in Inr (messaging_command c channel
                \<lparr> mso_action = MSubscribe, mso_delivery = bs_delivery options,
                  mso_durable_name = bs_durable_name options,
                  mso_shared_group = bs_shared_group options \<rparr>
                None transport hs))
      | Unsubscribe channel \<Rightarrow>
          Inr (messaging_command c channel
                \<lparr> mso_action = MUnsubscribe, mso_delivery = None, mso_durable_name = None,
                  mso_shared_group = None \<rparr>
                None None None)
      | _ \<Rightarrow> Inl UnsupportedIntent)"

definition bridge_register_command ::
  "command_id \<Rightarrow> device_id option \<Rightarrow> device_id \<Rightarrow> resource_name \<Rightarrow> addressed_access_meta \<Rightarrow> u8 \<Rightarrow>
   register_access_action \<Rightarrow> payload_value option \<Rightarrow> correlation option \<Rightarrow> bridge_message" where
  "bridge_register_command command source target resource register unit_id action payload corr =
     BCommand
       \<lparr> bc_id = command,
         bc_source_device_id = source,
         bc_target_device_id = target,
         bc_capability = CapRegisterAccess \<lparr> rac_binary_payloads = True \<rparr>,
         bc_operation = OpRegisterAccess \<lparr> rao_action = action \<rparr>,
         bc_payload = payload,
         bc_route = AddressedAccess (resource_name_str resource) register (Some (ucast unit_id)),
         bc_transport = None,
         bc_headers = None,
         bc_correlation = corr \<rparr>"

definition command_to_register_access ::
  "command \<Rightarrow> addressed_access_meta \<Rightarrow> u8 \<Rightarrow> bridge_planner_error + bridge_message" where
  "command_to_register_access c register unit_id =
     (case cmd_intent c of
        Read resource _ \<Rightarrow>
          Inr (bridge_register_command (cmd_id c) (cmd_source_device_id c) (cmd_target_device_id c)
                 resource register unit_id RARead None (cmd_correlation c))
      | Write resource payload _ \<Rightarrow>
          Inr (bridge_register_command (cmd_id c) (cmd_source_device_id c) (cmd_target_device_id c)
                 resource register unit_id RAWrite (Some payload) (cmd_correlation c))
      | _ \<Rightarrow> Inl UnsupportedIntent)"

definition inbound_messaging_event ::
  "endpoint_ref \<Rightarrow> string \<Rightarrow> payload_value \<Rightarrow> correlation option \<Rightarrow> routed_event" where
  "inbound_messaging_event source topic payload corr =
     routed_event_new source (Messaging topic) payload corr None"

definition routed_result_to_bridge :: "routed_result \<Rightarrow> bridge_message" where
  "routed_result_to_bridge r =
     (let result = rr_result r;
          (transport, hs) = split_capture_headers (rr_transport r);
          meta = \<lparr> bmm_source = rr_source r, bmm_command_id = cr_command_id result,
                   bmm_capability = None, bmm_operation = None, bmm_transport = transport,
                   bmm_headers = hs, bmm_correlation = cr_correlation result \<rparr>;
          failure = (\<lambda>state.
            let (category, retryable) =
              (if state = TimedOut then (FTimeout, True) else (FRejected, False))
            in Failure state (cr_payload result) (cr_error result)
                 \<lparr> bf_category = category, bf_protocol_code = None, bf_retryable = retryable,
                   bf_source = Some \<lparr> fs_protocol = Some (ep_protocol (rr_source r)),
                                      fs_location = None \<rparr>,
                   bf_detail = cr_error result \<rparr>);
          outcome = (case cr_state result of
              Accepted \<Rightarrow> Progress Accepted
            | Dispatched \<Rightarrow> Progress Dispatched
            | Completed \<Rightarrow> Success (cr_payload result)
            | Rejected \<Rightarrow> failure Rejected
            | TimedOut \<Rightarrow> failure TimedOut)
      in BResult \<lparr> br_meta = meta, br_outcome = outcome \<rparr>)"

definition routed_event_to_bridge :: "routed_event \<Rightarrow> bridge_message" where
  "routed_event_to_bridge e =
     (let (transport, hs) = split_capture_headers (re_transport e)
      in BEvent
           \<lparr> be_source = re_source e,
             be_capability = CapMessaging \<lparr> mc_binary_payloads = True \<rparr>,
             be_operation = OpMessaging
               \<lparr> mso_action = MPublish, mso_delivery = None, mso_durable_name = None,
                 mso_shared_group = None \<rparr>,
             be_payload = re_payload e,
             be_route = re_route e,
             be_transport = transport,
             be_headers = hs,
             be_correlation = re_correlation e \<rparr>)"

section \<open>Lemmas\<close>

text \<open>What a command offers to the planners: its own headers and its capture.\<close>

fun intent_headers :: "intent \<Rightarrow> headers" where
  "intent_headers (Read _ options) = ro_headers options"
| "intent_headers (Write _ _ options) = ro_headers options"
| "intent_headers (Invoke _ _ options) = ro_headers options"
| "intent_headers (Send _ _ options) = bm_headers options"
| "intent_headers _ = []"

fun intent_extensions :: "intent \<Rightarrow> transport_meta option" where
  "intent_extensions (Read _ options) = ro_extensions options"
| "intent_extensions (Write _ _ options) = ro_extensions options"
| "intent_extensions (Invoke _ _ options) = ro_extensions options"
| "intent_extensions (Send _ _ options) = bm_extensions options"
| "intent_extensions (Subscribe _ options) = bs_extensions options"
| "intent_extensions (Unsubscribe _) = None"

definition capture_headers :: "transport_meta option \<Rightarrow> headers" where
  "capture_headers t = (case t of None \<Rightarrow> [] | Some m \<Rightarrow> unwrap_or (tm_headers m) [])"

definition strip_headers :: "transport_meta option \<Rightarrow> transport_meta option" where
  "strip_headers t = map_option (\<lambda>m. m\<lparr> tm_headers := None \<rparr>) t"

definition nonempty_headers :: "headers \<Rightarrow> headers option" where
  "nonempty_headers hs = (if hs = [] then None else Some hs)"

lemma nonempty_headers_simps [simp]:
  "unwrap_or (nonempty_headers hs) [] = hs"
  "nonempty_headers hs \<noteq> Some []"
  by (simp_all add: nonempty_headers_def)

lemma split_capture_headers_eq:
  "split_capture_headers t = (strip_headers t, nonempty_headers (capture_headers t))"
  by (auto simp: split_capture_headers_def strip_headers_def nonempty_headers_def
      capture_headers_def headers_is_empty_def split: option.split)

lemma capture_with_headers_eq:
  "capture_with_headers t hs = (strip_headers t, nonempty_headers (hs @ capture_headers t))"
  by (simp add: capture_with_headers_def split_capture_headers_eq nonempty_headers_def
      headers_merge_def headers_is_empty_def Let_def)

lemma capture_headers_strip [simp]: "capture_headers (strip_headers t) = []"
  by (cases t) (simp_all add: capture_headers_def strip_headers_def)

lemma request_response_plan:
  "command_to_request_response c = Inr m \<Longrightarrow>
   \<exists>b. m = BCommand b \<and> bc_id b = cmd_id c \<and>
       bc_source_device_id b = cmd_source_device_id c \<and>
       bc_target_device_id b = cmd_target_device_id c \<and>
       bc_correlation b = cmd_correlation c \<and>
       bc_headers b = nonempty_headers
         (intent_headers (cmd_intent c) @ capture_headers (intent_extensions (cmd_intent c))) \<and>
       bc_transport b = strip_headers (intent_extensions (cmd_intent c))"
  by (cases "cmd_intent c")
    (auto simp: command_to_request_response_def capture_with_headers_eq)

lemma messaging_plan:
  "command_to_messaging c = Inr m \<Longrightarrow>
   \<exists>b. m = BCommand b \<and> bc_id b = cmd_id c \<and>
       bc_source_device_id b = cmd_source_device_id c \<and>
       bc_target_device_id b = cmd_target_device_id c \<and>
       bc_correlation b = cmd_correlation c \<and>
       bc_headers b = nonempty_headers
         (intent_headers (cmd_intent c) @ capture_headers (intent_extensions (cmd_intent c))) \<and>
       bc_transport b = strip_headers (intent_extensions (cmd_intent c))"
  by (cases "cmd_intent c")
    (auto simp: command_to_messaging_def messaging_command_def capture_with_headers_eq
      nonempty_headers_def capture_headers_def strip_headers_def)

section \<open>Properties\<close>

text \<open>C37: A planned bridge command keeps the identity of the routed command, and conserves its
  headers: the envelope carries the command's headers followed by the capture's, each pair once
  and in order, an empty collection is absent, and the capture is passed through without headers.\<close>

theorem planners_conserve_headers:
  assumes "command_to_request_response c = Inr m \<or> command_to_messaging c = Inr m"
  shows "\<exists>b. m = BCommand b \<and>
    (bc_id b, bc_source_device_id b, bc_target_device_id b, bc_correlation b) =
      (cmd_id c, cmd_source_device_id c, cmd_target_device_id c, cmd_correlation c) \<and>
    unwrap_or (bc_headers b) [] @ capture_headers (bc_transport b) =
      intent_headers (cmd_intent c) @ capture_headers (intent_extensions (cmd_intent c)) \<and>
    bc_headers b \<noteq> Some [] \<and>
    bc_transport b = strip_headers (intent_extensions (cmd_intent c))"
  using assms request_response_plan [of c m] messaging_plan [of c m] by auto

definition sample_command :: "intent \<Rightarrow> command" where
  "sample_command i =
     \<lparr> cmd_id = CommandId ''cmd-1'', cmd_source_device_id = None,
       cmd_target_device_id = DeviceId ''dev-1'', cmd_intent = i, cmd_correlation = None \<rparr>"

definition sample_send :: command where
  "sample_send = sample_command (Send \<lparr> ba_name = ChannelName ''t'', ba_kind = None \<rparr> PNull
     \<lparr> bm_delivery = None, bm_headers = [header_from_pair (''a'', ''1'')],
       bm_extensions = Some ((tm_new MQTT)\<lparr> tm_headers := Some [header_from_pair (''b'', ''2'')] \<rparr>) \<rparr>)"

theorem planners_conserve_headers_witness:
  "\<exists>b. command_to_messaging sample_send = Inr (BCommand b) \<and>
     unwrap_or (bc_headers b) [] =
       [header_from_pair (''a'', ''1''), header_from_pair (''b'', ''2'')]"
proof -
  obtain m where m: "command_to_messaging sample_send = Inr m"
    by (simp add: command_to_messaging_def sample_send_def sample_command_def
        capture_with_headers_eq)
  from planners_conserve_headers [OF disjI2 [OF m]] m show ?thesis
    by (auto simp: sample_send_def sample_command_def capture_headers_def tm_new_def
        strip_headers_def)
qed

text \<open>The capabilities split the intents: a command is accepted by exactly one of the
  request/response and the messaging planner, register access accepts exactly reads and writes,
  and a refusal is always the unsupported-intent error.\<close>

theorem planners_partition_intents:
  "(command_to_request_response c = Inl UnsupportedIntent) = (\<exists>m. command_to_messaging c = Inr m) \<and>
   (command_to_messaging c = Inl UnsupportedIntent) = (\<exists>m. command_to_request_response c = Inr m) \<and>
   (\<exists>m. command_to_register_access c register unit_id = Inr m) =
     (\<exists>r p opts. cmd_intent c = Read r opts \<or> cmd_intent c = Write r p opts) \<and>
   (command_to_register_access c register unit_id = Inl UnsupportedIntent) =
     (\<nexists>m. command_to_register_access c register unit_id = Inr m)"
  by (cases "cmd_intent c")
    (simp_all add: command_to_request_response_def command_to_messaging_def
      command_to_register_access_def capture_with_headers_eq)

text \<open>A routed result becomes the bridge outcome of its delivery state: accepted and dispatched
  results are progress, completed ones a success with the payload, rejected and timed-out ones a
  failure that carries payload, error text and a fault naming the source protocol, retryable
  exactly for a timeout.  Its metadata keeps the command, source and correlation, and the capture
  headers move to the envelope.\<close>

theorem routed_result_to_bridge_classification:
  "\<exists>b. routed_result_to_bridge r = BResult b \<and>
     bmm_command_id (br_meta b) = cr_command_id (rr_result r) \<and>
     bmm_source (br_meta b) = rr_source r \<and>
     bmm_correlation (br_meta b) = cr_correlation (rr_result r) \<and>
     bmm_headers (br_meta b) = nonempty_headers (capture_headers (rr_transport r)) \<and>
     bmm_transport (br_meta b) = strip_headers (rr_transport r) \<and>
     (case cr_state (rr_result r) of
        Accepted \<Rightarrow> br_outcome b = Progress Accepted
      | Dispatched \<Rightarrow> br_outcome b = Progress Dispatched
      | Completed \<Rightarrow> br_outcome b = Success (cr_payload (rr_result r))
      | state \<Rightarrow>
          \<exists>fault. br_outcome b =
              Failure state (cr_payload (rr_result r)) (cr_error (rr_result r)) fault \<and>
            bf_retryable fault = (state = TimedOut) \<and>
            bf_category fault = (if state = TimedOut then FTimeout else FRejected) \<and>
            bf_detail fault = cr_error (rr_result r) \<and>
            bf_source fault =
              Some \<lparr> fs_protocol = Some (ep_protocol (rr_source r)), fs_location = None \<rparr>)"
  by (cases "cr_state (rr_result r)")
    (simp_all add: routed_result_to_bridge_def split_capture_headers_eq Let_def)

text \<open>The event a bridge event stands for, with its headers put back into the capture.\<close>

definition bridge_event_to_routed :: "bridge_event \<Rightarrow> routed_event" where
  "bridge_event_to_routed b =
     routed_event_new (be_source b) (be_route b) (be_payload b) (be_correlation b)
       (map_option (\<lambda>m. m\<lparr> tm_headers := be_headers b \<rparr>) (be_transport b))"

text \<open>Lifting a routed event to the bridge loses nothing but an empty header collection: putting
  the envelope headers back into the capture gives the event back, also after the bridge message
  was made owned.\<close>

theorem routed_event_bridge_lossless:
  "\<exists>b. bridge_message_into_owned (routed_event_to_bridge e) = BEvent b \<and>
     bridge_event_to_routed b =
       e\<lparr> re_transport := map_option
           (\<lambda>m. m\<lparr> tm_headers := nonempty_headers (unwrap_or (tm_headers m) []) \<rparr>)
           (re_transport e) \<rparr>"
  by (cases "re_transport e")
    (simp_all add: own_bridge_message.own_content routed_event_to_bridge_def
      split_capture_headers_eq bridge_event_to_routed_def routed_event_new_def strip_headers_def
      capture_headers_def)

end
