(* ===== verification/Http_Meta.thy ===== *)
theory Http_Meta
  imports Bridge
begin

text \<open>
  The typed HTTP view over a transport capture (\<open>ferredge-proto-http/src/meta.rs\<close>), and the
  conversion errors of the adapter.  \<open>HttpMeta\<close> is interpreted as a \<open>typed_view\<close>.
\<close>

datatype http_command_conversion_error =
    HttpUnsupportedIntent
  | HttpUnknownResource string
  | HttpInvalidPayload string
  | HttpBridge bridge_planner_error
  | HttpInvalidBridgeMessage
  | HttpForeignExtensions protocol_id
  | HttpInvalidExtensionValue string u64
  | HttpInvalidExtensionType string

definition HTTP_KEY_METHOD :: string where "HTTP_KEY_METHOD = ''method''"
definition HTTP_KEY_PATH :: string where "HTTP_KEY_PATH = ''path''"
definition HTTP_KEY_STATUS_CODE :: string where "HTTP_KEY_STATUS_CODE = ''status-code''"
definition HTTP_KEY_CONTENT_TYPE :: string where "HTTP_KEY_CONTENT_TYPE = ''content-type''"

lemmas http_key_defs =
  HTTP_KEY_METHOD_def HTTP_KEY_PATH_def HTTP_KEY_STATUS_CODE_def HTTP_KEY_CONTENT_TYPE_def

record http_meta =
  hm_method :: "string option"
  hm_path :: "string option"
  hm_status_code :: "u16 option"
  hm_content_type :: "string option"
  hm_headers :: "headers option"

definition http_meta_default :: http_meta where
  "http_meta_default =
     \<lparr> hm_method = None, hm_path = None, hm_status_code = None, hm_content_type = None,
       hm_headers = None \<rparr>"

definition http_expect_str ::
  "string \<Rightarrow> meta_value \<Rightarrow> http_command_conversion_error + string" where
  "http_expect_str key v = (case v of MStr s \<Rightarrow> Inr s | _ \<Rightarrow> Inl (HttpInvalidExtensionType key))"

definition http_expect_u64 ::
  "string \<Rightarrow> meta_value \<Rightarrow> http_command_conversion_error + u64" where
  "http_expect_u64 key v = (case v of MU64 n \<Rightarrow> Inr n | _ \<Rightarrow> Inl (HttpInvalidExtensionType key))"

text \<open>The \<open>match\<close> on one entry of the decode loop.\<close>

definition http_meta_step ::
  "string \<Rightarrow> meta_value \<Rightarrow> http_meta \<Rightarrow> http_command_conversion_error + http_meta" where
  "http_meta_step key v view =
     (if key = HTTP_KEY_METHOD then
        map_ok (\<lambda>s. view\<lparr> hm_method := Some s \<rparr>) (http_expect_str HTTP_KEY_METHOD v)
      else if key = HTTP_KEY_PATH then
        map_ok (\<lambda>s. view\<lparr> hm_path := Some s \<rparr>) (http_expect_str HTTP_KEY_PATH v)
      else if key = HTTP_KEY_STATUS_CODE then
        and_then (http_expect_u64 HTTP_KEY_STATUS_CODE v) (\<lambda>n.
          if unat n \<le> 65535 then Inr (view\<lparr> hm_status_code := Some (ucast n) \<rparr>)
          else Inl (HttpInvalidExtensionValue HTTP_KEY_STATUS_CODE n))
      else if key = HTTP_KEY_CONTENT_TYPE then
        map_ok (\<lambda>s. view\<lparr> hm_content_type := Some s \<rparr>) (http_expect_str HTTP_KEY_CONTENT_TYPE v)
      else Inr view)"

definition http_try_from_transport_meta ::
  "transport_meta \<Rightarrow> http_command_conversion_error + http_meta" where
  "http_try_from_transport_meta m =
     (if tm_protocol m \<noteq> HTTP then Inl (HttpForeignExtensions (tm_protocol m))
      else decode_entries http_meta_step [] (tm_into_entries m)
             (http_meta_default\<lparr> hm_headers := tm_headers m \<rparr>))"

definition http_into_transport_meta :: "http_meta \<Rightarrow> transport_meta" where
  "http_into_transport_meta view =
     (tm_set_fields
        [(HTTP_KEY_METHOD, map_option MStr (hm_method view)),
         (HTTP_KEY_PATH, map_option MStr (hm_path view)),
         (HTTP_KEY_STATUS_CODE, map_option (\<lambda>c. MU64 (ucast c)) (hm_status_code view)),
         (HTTP_KEY_CONTENT_TYPE, map_option MStr (hm_content_type view))]
        (tm_new HTTP))\<lparr> tm_headers := hm_headers view \<rparr>"

definition http_from_transport_meta :: "transport_meta \<Rightarrow> http_meta option" where
  "http_from_transport_meta m = result_ok (http_try_from_transport_meta m)"

definition http_view :: "transport_meta \<Rightarrow> http_meta option" where
  "http_view m = result_ok (http_try_from_transport_meta (tm_as_borrowed m))"

definition http_meta_into_owned :: "http_meta \<Rightarrow> http_meta" where
  "http_meta_into_owned v =
     \<lparr> hm_method = option_into_owned cow_str_into_owned (hm_method v),
       hm_path = option_into_owned cow_str_into_owned (hm_path v),
       hm_status_code = hm_status_code v,
       hm_content_type = option_into_owned cow_str_into_owned (hm_content_type v),
       hm_headers = option_into_owned headers_into_owned (hm_headers v) \<rparr>"

interpretation own_http_meta: content_preserving http_meta_into_owned
  by unfold_locales
    (simp add: http_meta_into_owned_def owned_simps own_headers.content_preserving_axioms)

section \<open>Round trip\<close>

lemma http_fields_distinct:
  "distinct [HTTP_KEY_METHOD, HTTP_KEY_PATH, HTTP_KEY_STATUS_CODE, HTTP_KEY_CONTENT_TYPE]"
  by (simp add: http_key_defs)

lemma http_encode_entries:
  "http_into_transport_meta view =
     \<lparr> tm_protocol = HTTP, tm_headers = hm_headers view,
       tm_entries = present
         [(HTTP_KEY_METHOD, map_option MStr (hm_method view)),
          (HTTP_KEY_PATH, map_option MStr (hm_path view)),
          (HTTP_KEY_STATUS_CODE, map_option (\<lambda>c. MU64 (ucast c)) (hm_status_code view)),
          (HTTP_KEY_CONTENT_TYPE, map_option MStr (hm_content_type view))] \<rparr>"
  using http_fields_distinct by (simp add: http_into_transport_meta_def tm_set_fields_new)

lemma u16_u64_fits: "unat (ucast (c :: u16) :: u64) \<le> 65535"
  using unat_less [of c] by (simp add: unat_ucast_up)

lemma u16_u64_back [simp]: "ucast (ucast (c :: u16) :: u64) = c"
  by (rule ucast_up_back) simp

lemma http_decode_encode:
  "http_try_from_transport_meta (http_into_transport_meta view) = Inr view"
proof -
  let ?fs = "[(HTTP_KEY_METHOD, map_option MStr (hm_method view)),
      (HTTP_KEY_PATH, map_option MStr (hm_path view)),
      (HTTP_KEY_STATUS_CODE, map_option (\<lambda>c. MU64 (ucast c)) (hm_status_code view)),
      (HTTP_KEY_CONTENT_TYPE, map_option MStr (hm_content_type view))]"
  let ?v0 = "http_meta_default\<lparr> hm_headers := hm_headers view \<rparr>"
  let ?v1 = "?v0\<lparr> hm_method := hm_method view \<rparr>"
  let ?v2 = "?v1\<lparr> hm_path := hm_path view \<rparr>"
  let ?v3 = "?v2\<lparr> hm_status_code := hm_status_code view \<rparr>"
  have steps:
    "(case map_option MStr (hm_method view) of None \<Rightarrow> Inr ?v0
      | Some v \<Rightarrow> http_meta_step HTTP_KEY_METHOD v ?v0) = Inr ?v1"
    "(case map_option MStr (hm_path view) of None \<Rightarrow> Inr ?v1
      | Some v \<Rightarrow> http_meta_step HTTP_KEY_PATH v ?v1) = Inr ?v2"
    "(case map_option (\<lambda>c. MU64 (ucast c)) (hm_status_code view) of None \<Rightarrow> Inr ?v2
      | Some v \<Rightarrow> http_meta_step HTTP_KEY_STATUS_CODE v ?v2) = Inr ?v3"
    "(case map_option MStr (hm_content_type view) of None \<Rightarrow> Inr ?v3
      | Some v \<Rightarrow> http_meta_step HTTP_KEY_CONTENT_TYPE v ?v3) = Inr view"
    by (auto simp: http_meta_step_def http_expect_str_def http_expect_u64_def http_meta_default_def
        http_key_defs u16_u64_fits split: option.split)
  have "fold_fields http_meta_step ?fs ?v0 = Inr view"
    by (simp only: fold_fields_step steps and_then_simps fold_fields.simps(1))
  moreover have "decode_entries http_meta_step [] (present ?fs) ?v0 =
      fold_fields http_meta_step ?fs ?v0"
    using http_fields_distinct by (intro decode_entries_present) simp_all
  ultimately show ?thesis
    by (simp add: http_try_from_transport_meta_def http_encode_entries tm_into_entries_def)
qed

interpretation http_typed: typed_view HTTP http_into_transport_meta http_from_transport_meta http_view
proof unfold_locales
  show "tm_protocol (http_into_transport_meta v) = HTTP" for v
    by (simp add: http_encode_entries)
  show "http_from_transport_meta (http_into_transport_meta v) = Some v" for v
    by (simp add: http_from_transport_meta_def http_decode_encode)
  show "http_from_transport_meta m = Some v \<Longrightarrow> tm_protocol m = HTTP" for m v
    by (auto simp: http_from_transport_meta_def http_try_from_transport_meta_def split: if_splits)
  show "http_view m = http_from_transport_meta m" for m
    by (simp add: http_view_def http_from_transport_meta_def owned_simps)
qed

end
