(* ===== verification/Core_Device.thy ===== *)
theory Core_Device
  imports Core_Command
begin

text \<open>
  The device model of \<open>ferredge-core\<close> (\<open>device.rs\<close>): device status, the broker reconnect policy
  and its backoff, serial line settings, access permissions, and devices with their resources
  and message endpoints.
\<close>

section \<open>Reconnect policy\<close>

datatype device_status = Online | Offline | Maintenance | UnknownStatus

datatype backoff_strategy = Fixed | Exponential

record broker_reconnect_config =
  rc_enabled :: bool
  rc_initial_delay_ms :: u64
  rc_max_delay_ms :: u64
  rc_strategy :: backoff_strategy
  rc_multiplier :: u32
  rc_max_attempts :: "u32 option"
  rc_replay_subscriptions :: bool
  rc_queue_requests_while_disconnected :: bool
  rc_max_queued_requests :: u32

definition broker_reconnect_config_default :: broker_reconnect_config where
  "broker_reconnect_config_default =
     \<lparr> rc_enabled = True, rc_initial_delay_ms = 250, rc_max_delay_ms = 5000,
       rc_strategy = Exponential, rc_multiplier = 2, rc_max_attempts = None,
       rc_replay_subscriptions = True, rc_queue_requests_while_disconnected = True,
       rc_max_queued_requests = 128 \<rparr>"

definition allows_attempt :: "broker_reconnect_config \<Rightarrow> u32 \<Rightarrow> bool" where
  "allows_attempt c attempt \<longleftrightarrow>
     rc_enabled c \<and> (case rc_max_attempts c of None \<Rightarrow> True | Some m \<Rightarrow> attempt \<le> m)"

text \<open>The body of the loop over \<open>1..attempt\<close>, run \<open>n\<close> more times, with its early return.\<close>

fun backoff_loop :: "u64 \<Rightarrow> u64 \<Rightarrow> nat \<Rightarrow> u64 \<Rightarrow> u64" where
  "backoff_loop multiplier max_delay 0 delay = min delay max_delay"
| "backoff_loop multiplier max_delay (Suc n) delay =
     (let delay' = sat_mul delay multiplier in
      if max_delay \<le> delay' then max_delay else backoff_loop multiplier max_delay n delay')"

definition delay_ms_for_attempt :: "broker_reconnect_config \<Rightarrow> u32 \<Rightarrow> u64" where
  "delay_ms_for_attempt c attempt =
     (if attempt \<le> 1 then min (rc_initial_delay_ms c) (rc_max_delay_ms c)
      else case rc_strategy c of
             Fixed \<Rightarrow> min (rc_initial_delay_ms c) (rc_max_delay_ms c)
           | Exponential \<Rightarrow>
               backoff_loop (ucast (max (rc_multiplier c) 1)) (rc_max_delay_ms c)
                 (unat attempt - 1) (max (rc_initial_delay_ms c) 1))"

text \<open>The loop is the capped power: saturation and the early return lose nothing.\<close>

lemma backoff_loop_closed_form:
  assumes "1 \<le> unat mult"
  shows "unat (backoff_loop mult m n d) = min (unat d * unat mult ^ n) (unat m)"
proof (induction n arbitrary: d)
  case 0
  then show ?case by (simp add: unat_min)
next
  case (Suc n)
  let ?d' = "sat_mul d mult"
  let ?p = "unat d * unat mult"
  have d': "unat ?d' = min ?p (2 ^ 64 - 1)" by (simp add: unat_sat_mul)
  show ?case
  proof (cases "m \<le> ?d'")
    case True
    then have "unat m \<le> unat ?d'" by (simp add: word_le_nat_alt)
    then have "unat m \<le> ?p" unfolding d' by linarith
    then have "unat m \<le> ?p * unat mult ^ n"
      using assms by (metis le_trans mult.right_neutral mult_le_mono2 one_le_power)
    with True show ?thesis by (simp add: mult.assoc)
  next
    case False
    then have lt: "unat ?d' < unat m" by (simp add: word_le_nat_alt)
    have "unat m < 2 ^ 64" using unsigned_less [of m] by simp
    with lt have "unat ?d' = ?p" using d' by linarith
    with False Suc.IH [of ?d'] show ?thesis by (simp add: mult.assoc)
  qed
qed

lemma ucast_multiplier: "unat (ucast (max k 1 :: u32) :: u64) = max (unat k) 1"
  by (simp add: unat_max unat_ucast_up)

lemma backoff_multiplier_pos: "1 \<le> unat (ucast (max k 1 :: u32) :: u64)"
  unfolding ucast_multiplier by simp

section \<open>Serial lines\<close>

datatype serial_data_bits = Five | Six | Seven | Eight
datatype serial_parity = NoParity | EvenParity | OddParity
datatype serial_stop_bits = OneStop | TwoStop
datatype serial_flow_control = NoFlow | SoftwareFlow | HardwareFlow

record serial_port_config =
  sp_path :: string
  sp_baudrate :: u32
  sp_data_bits :: serial_data_bits
  sp_parity :: serial_parity
  sp_stop_bits :: serial_stop_bits
  sp_flow_control :: serial_flow_control
  sp_read_timeout :: "duration option"
  sp_write_timeout :: "duration option"

definition serial_port_config_default :: serial_port_config where
  "serial_port_config_default =
     \<lparr> sp_path = [], sp_baudrate = 9600, sp_data_bits = Eight, sp_parity = NoParity,
       sp_stop_bits = OneStop, sp_flow_control = NoFlow, sp_read_timeout = None,
       sp_write_timeout = None \<rparr>"

section \<open>Permissions, resources and devices\<close>

text \<open>The \<open>bitflags\<close> type over \<open>u8\<close>, ordered by its bits.\<close>

datatype permission = Permission (permission_bits: u8)

definition PERM_READ :: permission where "PERM_READ = Permission 1"
definition PERM_WRITE :: permission where "PERM_WRITE = Permission 2"
definition PERM_EXECUTE :: permission where "PERM_EXECUTE = Permission 4"
definition PERM_PUBLISH :: permission where "PERM_PUBLISH = Permission 8"
definition PERM_SUBSCRIBE :: permission where "PERM_SUBSCRIBE = Permission 16"

instantiation permission :: linorder
begin

definition less_eq_permission :: "permission \<Rightarrow> permission \<Rightarrow> bool" where
  "less_eq_permission a b \<longleftrightarrow> permission_bits a \<le> permission_bits b"

definition less_permission :: "permission \<Rightarrow> permission \<Rightarrow> bool" where
  "less_permission a b \<longleftrightarrow> permission_bits a < permission_bits b"

instance
  by standard (auto simp: less_eq_permission_def less_permission_def permission.expand)

end

record 'attr device_resource =
  dr_name :: string
  dr_resource_attributes :: 'attr
  dr_unit :: "string option"
  dr_permission :: "permission option"

record device_message_endpoint =
  dme_name :: string
  dme_address :: broker_address
  dme_metadata :: "(string \<rightharpoonup> string) option"
  dme_permission :: "permission option"

record ('attr, 'ep) device =
  dev_id :: device_id
  dev_name :: string
  dev_status :: device_status
  dev_endpoint :: 'ep
  dev_metadata :: "(string \<rightharpoonup> string) option"
  dev_max_connections :: "u32 option"
  dev_resources :: "string \<rightharpoonup> 'attr device_resource"
  dev_message_endpoints :: "device_message_endpoint list"

section \<open>Properties\<close>

lemma delay_first:
  "attempt \<le> 1 \<or> rc_strategy c = Fixed \<Longrightarrow>
   unat (delay_ms_for_attempt c attempt) =
     min (unat (rc_initial_delay_ms c)) (unat (rc_max_delay_ms c))"
  by (auto simp: delay_ms_for_attempt_def unat_min)

lemma delay_later:
  "\<not> attempt \<le> 1 \<Longrightarrow> rc_strategy c = Exponential \<Longrightarrow>
   unat (delay_ms_for_attempt c attempt) =
     min (max (unat (rc_initial_delay_ms c)) 1 * max (unat (rc_multiplier c)) 1 ^ (unat attempt - 1))
       (unat (rc_max_delay_ms c))"
  by (simp add: delay_ms_for_attempt_def backoff_loop_closed_form [OF backoff_multiplier_pos]
      ucast_multiplier unat_max)

text \<open>C39: The reconnect delay is the capped geometric sequence: the first attempt, and every attempt
  of the fixed strategy, waits the initial delay, attempt \<open>n\<close> of the exponential strategy waits
  \<open>max initial 1 * max multiplier 1 ^ (n - 1)\<close>, each capped by the maximum; saturation in 64
  bits never shows.\<close>

theorem delay_ms_for_attempt_closed_form:
  "unat (delay_ms_for_attempt c attempt) =
     min (if attempt \<le> 1 \<or> rc_strategy c = Fixed then unat (rc_initial_delay_ms c)
          else max (unat (rc_initial_delay_ms c)) 1 *
               max (unat (rc_multiplier c)) 1 ^ (unat attempt - 1))
       (unat (rc_max_delay_ms c))"
  using delay_first [of attempt c] delay_later [of attempt c]
  by (cases "rc_strategy c") auto

lemma delay_le_max: "delay_ms_for_attempt c attempt \<le> rc_max_delay_ms c"
  using delay_first [of attempt c] delay_later [of attempt c]
  by (cases "rc_strategy c"; cases "attempt \<le> 1") (simp_all add: word_le_nat_alt)

text \<open>Backoff never shrinks and never exceeds the configured maximum: a later attempt waits at
  least as long as an earlier one.\<close>

theorem delay_ms_for_attempt_mono:
  assumes "a \<le> b"
  shows "delay_ms_for_attempt c a \<le> delay_ms_for_attempt c b \<and>
         delay_ms_for_attempt c b \<le> rc_max_delay_ms c"
proof -
  let ?i = "unat (rc_initial_delay_ms c)" and ?m = "unat (rc_max_delay_ms c)"
  let ?k = "max (unat (rc_multiplier c)) 1"
  have "unat (delay_ms_for_attempt c a) \<le> unat (delay_ms_for_attempt c b)"
  proof (cases "b \<le> 1 \<or> rc_strategy c = Fixed")
    case True
    with assms have "a \<le> 1 \<or> rc_strategy c = Fixed" by auto
    with True show ?thesis by (simp only: delay_first)
  next
    case False
    then have b: "\<not> b \<le> 1" "rc_strategy c = Exponential"
      by (blast, cases "rc_strategy c") simp_all
    show ?thesis
    proof (cases "a \<le> 1")
      case True
      have "?i \<le> max ?i 1 * ?k ^ (unat b - 1)"
        using mult_le_mono [of ?i "max ?i 1" 1 "?k ^ (unat b - 1)"] by simp
      with True b show ?thesis by (simp add: delay_first delay_later min.coboundedI1)
    next
      case False
      have "unat a - 1 \<le> unat b - 1" using assms by (simp add: word_le_nat_alt diff_le_mono)
      then have "max ?i 1 * ?k ^ (unat a - 1) \<le> max ?i 1 * ?k ^ (unat b - 1)"
        by (intro mult_le_mono2 power_increasing) auto
      with False b show ?thesis by (simp add: delay_later min.coboundedI1)
    qed
  qed
  then show ?thesis by (simp add: word_le_nat_alt [symmetric] delay_le_max)
qed

theorem delay_ms_for_attempt_mono_witness:
  "delay_ms_for_attempt broker_reconnect_config_default 2 \<le>
     delay_ms_for_attempt broker_reconnect_config_default 9 \<and>
   delay_ms_for_attempt broker_reconnect_config_default 9 \<le> 5000"
  using delay_ms_for_attempt_mono [of 2 9 broker_reconnect_config_default]
  by (simp add: broker_reconnect_config_default_def)

end
