(* ===== verification/Http_Convert.thy ===== *)
theory Http_Convert
  imports Http_Meta Core_Device
begin

text \<open>
  The conversions of the HTTP adapter (\<open>ferredge-proto-http/src/lib.rs\<close>, \<open>attributes.rs\<close>,
  \<open>endpoint.rs\<close>): planning a routed command natively or through the bridge, encoding a plan into
  a request against the device's resource map, and decoding a response into a routed result or
  a bridge message.
\<close>

section \<open>Requests, responses and devices\<close>

record http_resource_attributes =
  ha_slug :: string
  ha_method :: string
  ha_headers :: "(string \<times> string) list option"

record http_endpoint_config =
  he_url :: string

type_synonym http_device = "(http_resource_attributes, http_endpoint_config) device"

definition http_endpoint_protocol :: "http_endpoint_config \<Rightarrow> protocol_id" where
  "http_endpoint_protocol e = HTTP"

record http_request =
  hq_method :: string
  hq_path :: string
  hq_body :: "bytes option"
  hq_headers :: "(string \<times> string) list"

record http_response =
  hs_status_code :: u16
  hs_headers :: "(string \<times> string) list"
  hs_body :: bytes

record http_native_plan =
  hp_resource :: string
  hp_action :: request_response_action
  hp_payload :: "payload_value option"
  hp_method :: "string option"
  hp_path :: "string option"
  hp_content_type :: "string option"
  hp_headers :: "(string \<times> string) list"

definition http_native_plan_into_owned :: "http_native_plan \<Rightarrow> http_native_plan" where
  "http_native_plan_into_owned p =
     \<lparr> hp_resource = cow_str_into_owned (hp_resource p),
       hp_action = hp_action p,
       hp_payload = map_option payload_into_owned (hp_payload p),
       hp_method = map_option cow_str_into_owned (hp_method p),
       hp_path = map_option cow_str_into_owned (hp_path p),
       hp_content_type = map_option cow_str_into_owned (hp_content_type p),
       hp_headers = map (\<lambda>(k, v). (cow_str_into_owned k, cow_str_into_owned v)) (hp_headers p) \<rparr>"

interpretation own_http_plan: content_preserving http_native_plan_into_owned
  by unfold_locales
    (simp add: http_native_plan_into_owned_def owned_simps own_payload.own_option
      cow_str.own_option case_prod_unfold)

section \<open>Planning\<close>

definition split_http_extensions ::
  "transport_meta option \<Rightarrow> http_command_conversion_error + http_meta" where
  "split_http_extensions extensions =
     (case extensions of
        Some m \<Rightarrow> http_try_from_transport_meta m
      | None \<Rightarrow> Inr http_meta_default)"

definition header_pairs :: "headers \<Rightarrow> (string \<times> string) list" where
  "header_pairs hs = map (\<lambda>h. (hdr_key h, hdr_value h)) hs"

definition http_plan_bridge :: "command \<Rightarrow> bridge_planner_error + bridge_message" where
  "http_plan_bridge c = command_to_request_response c"

definition http_plan_native :: "command \<Rightarrow> http_command_conversion_error + http_native_plan" where
  "http_plan_native c =
     (let parts =
        (case cmd_intent c of
           Read resource options \<Rightarrow> Inr (resource_name_str resource, RRRead, None, options)
         | Write resource payload options \<Rightarrow>
             Inr (resource_name_str resource, RRWrite, Some payload, options)
         | Invoke operation args options \<Rightarrow>
             Inr (operation_name_str operation, RRInvoke, args, options)
         | _ \<Rightarrow> Inl HttpUnsupportedIntent)
      in and_then parts (\<lambda>(resource, action, payload, options).
         and_then (split_http_extensions (ro_extensions options)) (\<lambda>capture.
           let hs = (case hm_headers capture of
                       Some ch \<Rightarrow> headers_merge ch (ro_headers options)
                     | None \<Rightarrow> ro_headers options)
           in Inr \<lparr> hp_resource = resource,
                    hp_action = action,
                    hp_payload = payload,
                    hp_method = opt_or (ro_method options) (hm_method capture),
                    hp_path = opt_or (ro_path options) (hm_path capture),
                    hp_content_type = opt_or (ro_content_type options) (hm_content_type capture),
                    hp_headers = header_pairs hs \<rparr>)))"

definition http_plan_from_bridge ::
  "bridge_message \<Rightarrow> http_command_conversion_error + http_native_plan" where
  "http_plan_from_bridge message =
     (case message of
        BCommand c \<Rightarrow>
          (case bc_operation c of
             OpRequestResponse operation \<Rightarrow>
               (case bc_route c of
                  RequestResponse resource path \<Rightarrow>
                    and_then
                      (case bc_transport c of
                         Some transport \<Rightarrow>
                           map_ok http_meta_into_owned
                             (http_try_from_transport_meta (tm_as_borrowed transport))
                       | None \<Rightarrow> Inr http_meta_default)
                      (\<lambda>capture. Inr
                         \<lparr> hp_resource = resource,
                           hp_action = rro_action operation,
                           hp_payload = bc_payload c,
                           hp_method = opt_or (rro_method operation) (hm_method capture),
                           hp_path = opt_or path (hm_path capture),
                           hp_content_type =
                             opt_or (rro_content_type operation) (hm_content_type capture),
                           hp_headers = unwrap_or (map_option header_pairs (bc_headers c)) [] \<rparr>)
                | _ \<Rightarrow> Inl HttpInvalidBridgeMessage)
           | _ \<Rightarrow> Inl HttpInvalidBridgeMessage)
      | _ \<Rightarrow> Inl HttpInvalidBridgeMessage)"

section \<open>Encoding\<close>

fun http_body_from_payload :: "payload_value \<Rightarrow> http_command_conversion_error + bytes" where
  "http_body_from_payload (PBytes b) = Inr b"
| "http_body_from_payload (PString s) = Inr (bytes_of_string s)"
| "http_body_from_payload PNull = Inr []"
| "http_body_from_payload _ =
     Inl (HttpInvalidPayload ''HTTP bodies currently support only string or bytes payloads'')"

text \<open>The first header with the key, in any capitalisation, is replaced in place, key included.\<close>

fun merge_header ::
  "(string \<times> string) list \<Rightarrow> string \<Rightarrow> string \<Rightarrow> (string \<times> string) list" where
  "merge_header [] key v = [(key, v)]"
| "merge_header ((k, w) # hs) key v =
     (if eq_ignore_ascii_case k key then (key, v) # hs else (k, w) # merge_header hs key v)"

definition merge_headers ::
  "(string \<times> string) list \<Rightarrow> (string \<times> string) list \<Rightarrow> (string \<times> string) list" where
  "merge_headers planned hs = fold (\<lambda>(k, v) acc. merge_header acc k v) planned hs"

definition http_encode ::
  "http_device \<Rightarrow> http_native_plan \<Rightarrow> http_command_conversion_error + http_request" where
  "http_encode dvc planned =
     and_then (ok_or (HttpUnknownResource (hp_resource planned))
                 (dev_resources dvc (hp_resource planned))) (\<lambda>resource_def.
     and_then (opt_traverse http_body_from_payload (hp_payload planned)) (\<lambda>body.
       let attrs = dr_resource_attributes resource_def;
           request_path = unwrap_or (hp_path planned) (ha_slug attrs);
           hs = unwrap_or (ha_headers attrs) [];
           request_method =
             (case hp_method planned of Some override \<Rightarrow> override | None \<Rightarrow> ha_method attrs);
           hs = merge_headers (hp_headers planned) hs;
           hs = (case hp_content_type planned of
                   Some content_type \<Rightarrow> merge_header hs ''Content-Type'' content_type
                 | None \<Rightarrow> hs)
       in Inr \<lparr> hq_method = request_method, hq_path = request_path, hq_body = body,
                hq_headers = hs \<rparr>))"

definition http_native_request ::
  "http_device \<Rightarrow> command \<Rightarrow> http_command_conversion_error + http_request" where
  "http_native_request dvc c = and_then (http_plan_native c) (http_encode dvc)"

definition http_bridge_request ::
  "http_device \<Rightarrow> command \<Rightarrow> http_command_conversion_error + http_request" where
  "http_bridge_request dvc c =
     and_then (map_err HttpBridge (http_plan_bridge c)) (\<lambda>bridge.
     and_then (http_plan_from_bridge bridge) (http_encode dvc))"

section \<open>Decoding\<close>

definition header_value :: "(string \<times> string) list \<Rightarrow> string \<Rightarrow> string option" where
  "header_value hs name =
     find_map (\<lambda>(k, v). if eq_ignore_ascii_case k name then Some v else None) hs"

definition http_payload_from_response_body :: "bytes \<Rightarrow> string option \<Rightarrow> payload_value" where
  "http_payload_from_response_body body content_type =
     (if (case content_type of Some v \<Rightarrow> starts_with ''text/'' v | None \<Rightarrow> False)
      then (case from_utf8 body of Some txt \<Rightarrow> PString txt | None \<Rightarrow> PBytes body)
      else PBytes body)"

definition http_routed_result ::
  "http_device \<Rightarrow> command \<Rightarrow> http_response \<Rightarrow> string \<Rightarrow> request_options \<Rightarrow> routed_result" where
  "http_routed_result dvc c response resource options =
     (let content_type = header_value (hs_headers response) ''content-type'';
          payload = http_payload_from_response_body (hs_body response) content_type;
          transport = http_into_transport_meta
            \<lparr> hm_method = ro_method options,
              hm_path = ro_path options,
              hm_status_code = Some (hs_status_code response),
              hm_content_type = content_type,
              hm_headers = (if hs_headers response \<noteq> []
                            then Some (headers_from_pairs (hs_headers response)) else None) \<rparr>
      in routed_result_new
           (endpoint_ref_new (dev_id dvc) HTTP)
           (command_result_new (cmd_id c) (dev_id dvc)
              (if hs_status_code response < 400 then Completed else Rejected)
              (Some payload)
              (if 400 \<le> hs_status_code response
               then Some (''http status '' @ decimal (unat (hs_status_code response))) else None)
              (opt_or (map_option correlation_as_borrowed (cmd_correlation c))
                 (Some (correlation_new (cmd_id c) (Some (AResource resource))))))
           (Some transport))"

definition http_decoded_to_routed ::
  "http_device \<Rightarrow> command \<Rightarrow> http_response \<Rightarrow> http_command_conversion_error + routed_message" where
  "http_decoded_to_routed dvc c response =
     (case cmd_intent c of
        Read resource options \<Rightarrow>
          Inr (RResult (http_routed_result dvc c response (resource_name_str resource) options))
      | Write resource _ options \<Rightarrow>
          Inr (RResult (http_routed_result dvc c response (resource_name_str resource) options))
      | Invoke operation _ options \<Rightarrow>
          Inr (RResult (http_routed_result dvc c response (operation_name_str operation) options))
      | _ \<Rightarrow> Inl HttpUnsupportedIntent)"

definition http_decoded_to_bridge ::
  "http_device \<Rightarrow> command \<Rightarrow> http_response \<Rightarrow> http_command_conversion_error + bridge_message" where
  "http_decoded_to_bridge dvc c response =
     and_then (http_decoded_to_routed dvc c response) (\<lambda>routed.
       case routed of RResult result \<Rightarrow> Inr (routed_result_to_bridge result))"

section \<open>Lemmas\<close>

lemma header_value_merge:
  "header_value (merge_header hs k v) name =
     (if eq_ignore_ascii_case k name then Some v else header_value hs name)"
  by (induction hs k v rule: merge_header.induct)
    (auto simp: header_value_def eq_ignore_ascii_case_def)

lemma header_value_append:
  "header_value (xs @ ys) name = opt_or (header_value xs name) (header_value ys name)"
  by (simp add: header_value_def find_map_append)

lemma header_value_Cons:
  "header_value [] name = None"
  "header_value ((k, v) # hs) name =
     (if eq_ignore_ascii_case k name then Some v else header_value hs name)"
  by (simp_all add: header_value_def)

lemma header_value_merge_headers:
  "header_value (merge_headers ps hs) name =
     opt_or (header_value (rev ps) name) (header_value hs name)"
proof (induction ps arbitrary: hs)
  case Nil
  then show ?case by (simp add: merge_headers_def header_value_Cons)
next
  case (Cons p ps)
  obtain k v where p: "p = (k, v)" by force
  have "header_value (merge_headers (p # ps) hs) name =
      opt_or (header_value (rev ps) name) (header_value (merge_header hs k v) name)"
    using Cons.IH [of "merge_header hs k v"] by (simp add: merge_headers_def p)
  then show ?case
    by (cases "header_value (rev ps) name")
      (simp_all add: p header_value_merge header_value_append header_value_Cons)
qed

text \<open>Header keys are distinct up to capitalisation.\<close>

definition header_keys_distinct :: "(string \<times> string) list \<Rightarrow> bool" where
  "header_keys_distinct hs \<longleftrightarrow> distinct (map (\<lambda>(k, _). map ascii_lower k) hs)"

lemma merge_header_keys:
  "set (map (\<lambda>(k, _). map ascii_lower k) (merge_header hs key v)) =
     insert (map ascii_lower key) (set (map (\<lambda>(k, _). map ascii_lower k) hs))"
  by (induction hs key v rule: merge_header.induct) (auto simp: eq_ignore_ascii_case_def)

lemma merge_header_distinct:
  "header_keys_distinct hs \<Longrightarrow> header_keys_distinct (merge_header hs key v)"
proof (induction hs key v rule: merge_header.induct)
  case (2 k w hs key v)
  then show ?case
    using merge_header_keys [of hs key v]
    by (auto simp: header_keys_distinct_def eq_ignore_ascii_case_def)
qed (simp add: header_keys_distinct_def)

lemma merge_headers_distinct:
  "header_keys_distinct hs \<Longrightarrow> header_keys_distinct (merge_headers ps hs)"
proof (induction ps arbitrary: hs)
  case (Cons p ps)
  then show ?case
    using merge_header_distinct [of hs "fst p" "snd p"]
    by (simp add: merge_headers_def case_prod_unfold)
qed (simp add: merge_headers_def)

lemma try_from_strip_headers:
  "http_try_from_transport_meta (m\<lparr> tm_headers := None \<rparr>) =
     map_ok (\<lambda>v. v\<lparr> hm_headers := None \<rparr>) (http_try_from_transport_meta m)"
proof -
  have step: "http_meta_step k v (view\<lparr> hm_headers := None \<rparr>) =
      map_ok (\<lambda>v. v\<lparr> hm_headers := None \<rparr>) (http_meta_step k v view)" for k v view
    by (simp add: http_meta_step_def http_expect_str_def http_expect_u64_def split: meta_value.split)
  have "decode_entries http_meta_step seen es (view\<lparr> hm_headers := None \<rparr>) =
      map_ok (\<lambda>v. v\<lparr> hm_headers := None \<rparr>) (decode_entries http_meta_step seen es view)"
    for seen es view
  proof (induction http_meta_step seen es view rule: decode_entries.induct)
    case (2 seen key v es view)
    then show ?case by (cases "http_meta_step key v view") (auto simp: step)
  qed simp
  then show ?thesis
    by (simp add: http_try_from_transport_meta_def tm_into_entries_def)
      (metis (no_types, lifting) http_meta.update_convs(5) http_meta.surjective)
qed

lemma try_from_headers:
  "http_try_from_transport_meta m = Inr view \<Longrightarrow> hm_headers view = tm_headers m"
proof -
  have step: "http_meta_step k v view = Inr view' \<Longrightarrow> hm_headers view' = hm_headers view"
    for k v view view'
    by (auto simp: http_meta_step_def map_ok_eq_Inr and_then_eq_Inr split: if_splits)
  have "decode_entries http_meta_step seen es view = Inr view' \<Longrightarrow>
      hm_headers view' = hm_headers view" for seen es view view'
  proof (induction http_meta_step seen es view rule: decode_entries.induct)
    case (2 seen key v es view)
    then show ?case by (auto simp: and_then_eq_Inr dest: step split: if_splits)
  qed simp
  then show "http_try_from_transport_meta m = Inr view \<Longrightarrow> hm_headers view = tm_headers m"
    by (fastforce simp: http_try_from_transport_meta_def split: if_splits)
qed

text \<open>The shared part of both planners, after the intent has been taken apart.\<close>

lemma header_pairs_nonempty:
  "unwrap_or (map_option header_pairs (nonempty_headers hs)) [] = header_pairs hs"
  by (simp add: nonempty_headers_def header_pairs_def)

lemma split_extensions_capture:
  "split_http_extensions ext = Inr view \<Longrightarrow> capture_headers ext = unwrap_or (hm_headers view) []"
  by (cases ext)
    (auto simp: split_http_extensions_def capture_headers_def http_meta_default_def
      dest: try_from_headers)

lemma split_extensions_strip:
  "(case strip_headers ext of
      Some t \<Rightarrow> map_ok http_meta_into_owned (http_try_from_transport_meta (tm_as_borrowed t))
    | None \<Rightarrow> Inr http_meta_default) =
   map_ok (\<lambda>v. v\<lparr> hm_headers := None \<rparr>) (split_http_extensions ext)"
proof (cases ext)
  case None
  then show ?thesis by (simp add: strip_headers_def split_http_extensions_def http_meta_default_def)
next
  case (Some m)
  have "map_ok http_meta_into_owned r = r" for r :: "http_command_conversion_error + http_meta"
    by (cases r) (simp_all add: own_http_meta.own_content)
  with Some show ?thesis
    by (simp add: strip_headers_def split_http_extensions_def owned_simps try_from_strip_headers)
qed

lemma opt_headers_merge:
  "(case h of Some ch \<Rightarrow> headers_merge ch hs | None \<Rightarrow> hs) = hs @ unwrap_or h []"
  by (cases h) (simp_all add: headers_merge_def)

lemma plan_bridge_is_native:
  "\<exists>b. command_to_request_response c = Inr b \<Longrightarrow>
   and_then (map_err HttpBridge (http_plan_bridge c)) http_plan_from_bridge = http_plan_native c"
proof -
  have core: "and_then (map_ok (\<lambda>v. v\<lparr> hm_headers := None \<rparr>) (split_http_extensions ext))
      (\<lambda>cap. Inr \<lparr> hp_resource = r, hp_action = a, hp_payload = p,
           hp_method = opt_or m (hm_method cap), hp_path = opt_or pa (hm_path cap),
           hp_content_type = opt_or ct (hm_content_type cap),
           hp_headers = header_pairs (hs @ capture_headers ext) \<rparr>) =
    and_then (split_http_extensions ext)
      (\<lambda>cap. Inr \<lparr> hp_resource = r, hp_action = a, hp_payload = p,
           hp_method = opt_or m (hm_method cap), hp_path = opt_or pa (hm_path cap),
           hp_content_type = opt_or ct (hm_content_type cap),
           hp_headers = header_pairs
             (case hm_headers cap of Some ch \<Rightarrow> headers_merge ch hs | None \<Rightarrow> hs) \<rparr>)"
    for ext r a p m pa ct hs
    using split_extensions_capture [of ext]
    by (cases "split_http_extensions ext") (simp_all add: opt_headers_merge)
  show "\<exists>b. command_to_request_response c = Inr b \<Longrightarrow> ?thesis"
    by (cases "cmd_intent c")
      (simp_all add: http_plan_bridge_def command_to_request_response_def http_plan_native_def
        http_plan_from_bridge_def capture_with_headers_eq split_extensions_strip
        header_pairs_nonempty core Let_def)
qed

section \<open>Properties\<close>

text \<open>C1: Planning through the bridge and planning natively build the same HTTP request, and fail
  with the same error, for every device and command, except that an unsupported intent is
  reported as the bridge's planner error instead of the adapter's own.\<close>

theorem http_bridge_request_eq_native:
  "http_bridge_request dvc c =
     (if command_to_request_response c = Inl UnsupportedIntent
      then Inl (HttpBridge UnsupportedIntent) else http_native_request dvc c) \<and>
   http_native_request dvc c =
     (if command_to_request_response c = Inl UnsupportedIntent
      then Inl HttpUnsupportedIntent else http_bridge_request dvc c)"
proof -
  have assoc: "and_then (and_then r f) g = and_then r (\<lambda>x. and_then (f x) g)"
    for r :: "'e + 'a" and f :: "'a \<Rightarrow> 'e + 'b" and g :: "'b \<Rightarrow> 'e + 'c"
    by (cases r) simp_all
  have bridge: "http_bridge_request dvc c =
      and_then (and_then (map_err HttpBridge (http_plan_bridge c)) http_plan_from_bridge)
        (http_encode dvc)"
    by (simp add: http_bridge_request_def assoc)
  show ?thesis
  proof (cases "command_to_request_response c")
    case (Inr b)
    then show ?thesis
      by (simp add: bridge http_native_request_def plan_bridge_is_native)
  next
    case (Inl e)
    then show ?thesis
      by (cases "cmd_intent c")
        (simp_all add: bridge http_plan_bridge_def http_native_request_def http_plan_native_def
          command_to_request_response_def capture_with_headers_eq)
  qed
qed

text \<open>The value a request header ends up with, from the most to the least specific source.\<close>

definition effective_header ::
  "http_resource_attributes \<Rightarrow> http_native_plan \<Rightarrow> string \<Rightarrow> string option" where
  "effective_header attrs planned name =
     opt_or (if eq_ignore_ascii_case ''Content-Type'' name then hp_content_type planned else None)
       (opt_or (header_value (rev (hp_headers planned)) name)
          (header_value (unwrap_or (ha_headers attrs) []) name))"

lemma http_encode_headers:
  "http_encode dvc planned = Inr req \<Longrightarrow>
   dev_resources dvc (hp_resource planned) = Some rd \<Longrightarrow>
   header_value (hq_headers req) name = effective_header (dr_resource_attributes rd) planned name"
  by (cases "hp_content_type planned")
    (auto simp: http_encode_def and_then_eq_Inr ok_or_eq_Inr Let_def effective_header_def
      header_value_merge_headers header_value_merge split: if_splits)

text \<open>C4: Encoding a plan resolves every override: the method and path are the plan's or the
  resource's, the body is the payload's bytes, and a header reads, case-insensitively, as the
  plan's content type, else the last planned value, else the resource's static header; distinct
  static headers stay distinct, so no header is sent twice.\<close>

theorem http_encode_resolves_overrides:
  assumes "http_encode dvc planned = Inr req"
  shows "\<exists>rd. dev_resources dvc (hp_resource planned) = Some rd \<and>
     hq_method req = unwrap_or (hp_method planned) (ha_method (dr_resource_attributes rd)) \<and>
     hq_path req = unwrap_or (hp_path planned) (ha_slug (dr_resource_attributes rd)) \<and>
     opt_traverse http_body_from_payload (hp_payload planned) = Inr (hq_body req) \<and>
     header_value (hq_headers req) name =
       effective_header (dr_resource_attributes rd) planned name \<and>
     (header_keys_distinct (unwrap_or (ha_headers (dr_resource_attributes rd)) []) \<longrightarrow>
       header_keys_distinct (hq_headers req))"
proof -
  obtain rd where rd: "dev_resources dvc (hp_resource planned) = Some rd"
    using assms by (auto simp: http_encode_def and_then_eq_Inr ok_or_eq_Inr)
  have distinct: "header_keys_distinct (unwrap_or (ha_headers (dr_resource_attributes rd)) []) \<Longrightarrow>
      header_keys_distinct (hq_headers req)"
    using assms rd
    by (cases "hp_content_type planned")
      (auto simp: http_encode_def and_then_eq_Inr Let_def
        intro!: merge_headers_distinct merge_header_distinct)
  show ?thesis
    using assms http_encode_headers [OF assms rd] distinct
    by (intro exI [of _ rd])
      (auto simp: rd http_encode_def and_then_eq_Inr Let_def unwrap_or_def split: option.splits)
qed

definition sample_http_device :: http_device where
  "sample_http_device =
     \<lparr> dev_id = DeviceId ''dev-1'', dev_name = ''HTTP Device'', dev_status = Online,
       dev_endpoint = \<lparr> he_url = ''127.0.0.1:8080'' \<rparr>, dev_metadata = None,
       dev_max_connections = None,
       dev_resources = [''temp'' \<mapsto>
         \<lparr> dr_name = ''temp'',
           dr_resource_attributes =
             \<lparr> ha_slug = ''/api/temp'', ha_method = ''GET'',
               ha_headers = Some [(''Accept'', ''application/json'')] \<rparr>,
           dr_unit = Some ''C'', dr_permission = Some PERM_READ \<rparr>],
       dev_message_endpoints = [] \<rparr>"

definition sample_http_plan :: http_native_plan where
  "sample_http_plan =
     \<lparr> hp_resource = ''temp'', hp_action = RRRead, hp_payload = None, hp_method = None,
       hp_path = Some ''/v2/temp'', hp_content_type = None, hp_headers = [(''accept'', ''*/*'')] \<rparr>"

theorem http_encode_resolves_overrides_witness:
  "\<exists>req. http_encode sample_http_device sample_http_plan = Inr req \<and>
     hq_method req = ''GET'' \<and> hq_path req = ''/v2/temp'' \<and>
     header_value (hq_headers req) ''Accept'' = Some ''*/*''"
proof -
  have eq: "eq_ignore_ascii_case ''Accept'' ''accept'' = True"
    "eq_ignore_ascii_case ''accept'' ''Accept'' = True"
    "eq_ignore_ascii_case ''Content-Type'' ''Accept'' = False"
    by code_simp+
  obtain req where req: "http_encode sample_http_device sample_http_plan = Inr req"
    by (simp add: http_encode_def sample_http_device_def sample_http_plan_def)
  from http_encode_resolves_overrides [OF req, of "''Accept''"] req show ?thesis
    by (auto simp: sample_http_device_def sample_http_plan_def effective_header_def
        header_value_Cons eq)
qed

lemma header_pairs_from_pairs [simp]: "header_pairs (headers_from_pairs kvs) = kvs"
  by (induction kvs) (auto simp: header_pairs_def headers_from_pairs_def header_from_pair_def)

lemma u16_less_400:
  "(x :: u16) < 400 \<longleftrightarrow> unat x < 400" "400 \<le> (x :: u16) \<longleftrightarrow> \<not> unat x < 400"
  by (auto simp: word_less_nat_alt word_le_nat_alt)

text \<open>A response is classified by its status code alone: below 400 the command completed,
  otherwise it was rejected with the error text "http status N"; both carry the body as payload,
  a correlation (the command's, or one that names the resource), and a capture from which the
  typed HTTP view reads back the status, the content type and every response header in order.\<close>

theorem http_decode_classification:
  assumes "http_decoded_to_routed dvc c response = Inr m"
  shows "\<exists>rr. m = RResult rr \<and>
     cr_command_id (rr_result rr) = cmd_id c \<and>
     cr_state (rr_result rr) =
       (if unat (hs_status_code response) < 400 then Completed else Rejected) \<and>
     cr_error (rr_result rr) =
       (if unat (hs_status_code response) < 400 then None
        else Some (''http status '' @ decimal (unat (hs_status_code response)))) \<and>
     cr_payload (rr_result rr) = Some (http_payload_from_response_body (hs_body response)
       (header_value (hs_headers response) ''content-type'')) \<and>
     (cmd_correlation c \<noteq> None \<longrightarrow> cr_correlation (rr_result rr) = cmd_correlation c) \<and>
     (\<exists>view. rr_transport rr = Some (http_into_transport_meta view) \<and>
        http_view (http_into_transport_meta view) = Some view \<and>
        hm_status_code view = Some (hs_status_code response) \<and>
        hm_content_type view = header_value (hs_headers response) ''content-type'' \<and>
        header_pairs (unwrap_or (hm_headers view) []) = hs_headers response)"
proof -
  obtain resource options where "m = RResult (http_routed_result dvc c response resource options)"
    using assms by (cases "cmd_intent c") (auto simp: http_decoded_to_routed_def)
  then show ?thesis
    using header_pairs_from_pairs [of "hs_headers response"] http_typed.view_encode
    by (auto simp: http_routed_result_def Let_def routed_result_new_def command_result_new_def
        u16_less_400 owned_simps header_pairs_def)
qed

theorem http_decode_classification_witness:
  "\<exists>rr. http_decoded_to_routed sample_http_device
       (sample_command (Read (ResourceName ''temp'') request_options_default))
       \<lparr> hs_status_code = 503, hs_headers = [], hs_body = [] \<rparr> = Inr (RResult rr) \<and>
     cr_state (rr_result rr) = Rejected \<and> cr_error (rr_result rr) = Some ''http status 503''"
proof -
  obtain m where m: "http_decoded_to_routed sample_http_device
      (sample_command (Read (ResourceName ''temp'') request_options_default))
      \<lparr> hs_status_code = 503, hs_headers = [], hs_body = [] \<rparr> = Inr m"
    by (simp add: http_decoded_to_routed_def sample_command_def)
  have "''http status '' @ decimal 503 = ''http status 503''" by code_simp
  with http_decode_classification [OF m] m show ?thesis by auto
qed

end
