(* ===== verification/Core_Net.thy ===== *)
theory Core_Net
  imports Core_Device
begin

text \<open>
  The network and serial helpers of \<open>ferredge-core\<close> (\<open>net.rs\<close>, \<open>serial.rs\<close>): the error types, the
  host and port formatting, and the loops that write a whole buffer through a socket or port
  whose single writes may be short.  Sockets and ports are the runtime's: a writer is a
  parameter, a function from the socket state and the bytes offered to a result and a new state.
\<close>

section \<open>Errors\<close>

datatype net_error =
    NetClosed | NetTimedOut | NetUnreachable | NetUnsupported | NetRuntimeUnavailable
  | NetOther string

datatype serial_error =
    SerialClosed | SerialTimedOut | SerialUnsupported | SerialRuntimeUnavailable
  | SerialOther string

fun net_error_str :: "net_error \<Rightarrow> string" where
  "net_error_str NetClosed = ''network transport is closed''"
| "net_error_str NetTimedOut = ''network operation timed out''"
| "net_error_str NetUnreachable = ''network target is unreachable''"
| "net_error_str NetUnsupported = ''network operation is unsupported''"
| "net_error_str NetRuntimeUnavailable = ''network runtime is unavailable''"
| "net_error_str (NetOther s) = s"

fun serial_error_str :: "serial_error \<Rightarrow> string" where
  "serial_error_str SerialClosed = ''serial port is closed''"
| "serial_error_str SerialTimedOut = ''serial operation timed out''"
| "serial_error_str SerialUnsupported = ''serial operation is unsupported''"
| "serial_error_str SerialRuntimeUnavailable = ''serial runtime is unavailable''"
| "serial_error_str (SerialOther s) = s"

text \<open>The derived \<open>Debug\<close> forms, which the adapters put into their error texts.\<close>

fun net_error_debug :: "net_error \<Rightarrow> string" where
  "net_error_debug NetClosed = ''Closed''"
| "net_error_debug NetTimedOut = ''TimedOut''"
| "net_error_debug NetUnreachable = ''Unreachable''"
| "net_error_debug NetUnsupported = ''Unsupported''"
| "net_error_debug NetRuntimeUnavailable = ''RuntimeUnavailable''"
| "net_error_debug (NetOther s) = ''Other('' @ str_debug s @ '')''"

fun serial_error_debug :: "serial_error \<Rightarrow> string" where
  "serial_error_debug SerialClosed = ''Closed''"
| "serial_error_debug SerialTimedOut = ''TimedOut''"
| "serial_error_debug SerialUnsupported = ''Unsupported''"
| "serial_error_debug SerialRuntimeUnavailable = ''RuntimeUnavailable''"
| "serial_error_debug (SerialOther s) = ''Other('' @ str_debug s @ '')''"

section \<open>Host and port\<close>

definition bracket_ipv6_host :: "string \<Rightarrow> string" where
  "bracket_ipv6_host host =
     (if starts_with ''['' host \<or> count_char (CHR '':'') host \<le> 1 then host
      else ''['' @ host @ '']'')"

definition format_host_port :: "string \<Rightarrow> u16 \<Rightarrow> string" where
  "format_host_port host port = bracket_ipv6_host host @ '':'' @ decimal (unat port)"

definition normalize_host_port :: "string \<Rightarrow> u16 \<Rightarrow> string" where
  "normalize_host_port authority default_port =
     (if starts_with ''['' authority then
        (if contains_str '']:'' authority then authority
         else format_host_port authority default_port)
      else
        (case count_char (CHR '':'') authority of
           0 \<Rightarrow> format_host_port authority default_port
         | Suc 0 \<Rightarrow> authority
         | _ \<Rightarrow> format_host_port authority default_port))"

lemma decimal_no_colon: "CHR '':'' \<notin> set (decimal n)"
  by (rule decimal_not_mem) simp

lemma count_colon_decimal [simp]: "count_char (CHR '':'') (decimal n) = 0"
  by (simp add: count_char_0_iff decimal_no_colon)

lemma starts_with_bracket [simp]:
  "starts_with ''['' (CHR ''['' # s)"
  by (simp add: starts_with_def)

lemma starts_with_single: "starts_with [c] s \<longleftrightarrow> s \<noteq> [] \<and> hd s = c"
  by (cases s) (simp_all add: starts_with_def)

lemma normalize_plain_host:
  "\<not> starts_with ''['' a \<Longrightarrow> count_char (CHR '':'') a = 0 \<Longrightarrow>
   normalize_host_port a p = a @ '':'' @ decimal (unat p)"
  by (simp add: normalize_host_port_def format_host_port_def bracket_ipv6_host_def)

lemma normalize_host_with_port:
  "\<not> starts_with ''['' a \<Longrightarrow> count_char (CHR '':'') a = 1 \<Longrightarrow> normalize_host_port a p = a"
  by (simp add: normalize_host_port_def)

lemma normalize_bare_ipv6:
  "\<not> starts_with ''['' a \<Longrightarrow> 1 < count_char (CHR '':'') a \<Longrightarrow>
   normalize_host_port a p = ''['' @ a @ '']:'' @ decimal (unat p)"
  by (auto simp: normalize_host_port_def format_host_port_def bracket_ipv6_host_def
      split: nat.splits)

lemma normalize_bracketed:
  "starts_with ''['' a \<Longrightarrow>
   normalize_host_port a p =
     (if contains_str '']:'' a then a else a @ '':'' @ decimal (unat p))"
  by (simp add: normalize_host_port_def format_host_port_def bracket_ipv6_host_def)

text \<open>An authority is well formed when an opening bracket is closed at the end or before a port.\<close>

definition authority_wf :: "string \<Rightarrow> bool" where
  "authority_wf a \<longleftrightarrow>
     (starts_with ''['' a \<longrightarrow> contains_str '']:'' a \<or> last a = CHR '']'')"

lemma contains_bracket_colon: "contains_str '']:'' (a @ '']:'' @ b)"
  unfolding contains_str_iff by blast

section \<open>Writing a whole buffer\<close>

type_synonym ('s, 'e) writer = "'s \<Rightarrow> bytes \<Rightarrow> ('e + nat) \<times> 's"

text \<open>
  The shared loop: offer what is left, stop on an error, treat an accepted count of zero as a
  closed transport, otherwise advance.
\<close>

function write_all_loop ::
  "('s, 'e) writer \<Rightarrow> 'e \<Rightarrow> bytes \<Rightarrow> nat \<Rightarrow> 's \<Rightarrow> ('e + unit) \<times> 's" where
  "write_all_loop wr closed buf written s =
     (if written < length buf then
        (case wr s (drop written buf) of
           (Inl e, s') \<Rightarrow> (Inl e, s')
         | (Inr count, s') \<Rightarrow>
             if count = 0 then (Inl closed, s')
             else write_all_loop wr closed buf (written + count) s')
      else (Inr (), s))"
  by pat_completeness auto
termination
  by (relation "measure (\<lambda>(_, _, buf, written, _). length buf - written)") auto

declare write_all_loop.simps [simp del]

definition write_all_socket :: "('s, net_error) writer \<Rightarrow> bytes \<Rightarrow> 's \<Rightarrow> (net_error + unit) \<times> 's" where
  "write_all_socket wr buf s = write_all_loop wr NetClosed buf 0 s"

definition write_all_serial_port ::
  "('s, serial_error) writer \<Rightarrow> bytes \<Rightarrow> 's \<Rightarrow> (serial_error + unit) \<times> 's" where
  "write_all_serial_port wr buf s = write_all_loop wr SerialClosed buf 0 s"

text \<open>
  The documented behaviour of \<open>write\<close>: it accepts a prefix of what is offered and reports its
  length; on an error it has accepted nothing.  \<open>sent\<close> reads what a socket has accepted.
\<close>

definition honest_writer :: "('s \<Rightarrow> bytes) \<Rightarrow> ('s, 'e) writer \<Rightarrow> bool" where
  "honest_writer sent wr \<longleftrightarrow>
     (\<forall>s data. case wr s data of
        (Inl e, s') \<Rightarrow> sent s' = sent s
      | (Inr n, s') \<Rightarrow> n \<le> length data \<and> sent s' = sent s @ take n data)"

lemma honest_writer_InlD:
  "honest_writer sent wr \<Longrightarrow> wr s data = (Inl e, s') \<Longrightarrow> sent s' = sent s"
  unfolding honest_writer_def by (metis (mono_tags, lifting) case_prod_conv old.sum.simps(5))

lemma honest_writer_InrD:
  "honest_writer sent wr \<Longrightarrow> wr s data = (Inr n, s') \<Longrightarrow>
   n \<le> length data \<and> sent s' = sent s @ take n data"
  unfolding honest_writer_def by (metis (mono_tags, lifting) case_prod_conv old.sum.simps(6))

text \<open>On every outcome a prefix of the buffer was delivered, and all of it on success.\<close>

lemma write_all_loop_delivers:
  assumes "honest_writer sent wr"
    and "write_all_loop wr closed buf written s = (r, s')"
    and "written \<le> length buf"
  shows "\<exists>k. written \<le> k \<and> k \<le> length buf \<and> sent s' = sent s @ take (k - written) (drop written buf) \<and>
             (r = Inr () \<longrightarrow> k = length buf)"
  using assms
proof (induction wr closed buf written s rule: write_all_loop.induct)
  case (1 wr closed buf written s)
  show ?case
  proof (cases "written < length buf")
    case False
    with 1(3,4) show ?thesis by (auto simp: write_all_loop.simps intro: exI [of _ written])
  next
    case True
    obtain w s1 where w: "wr s (drop written buf) = (w, s1)" by force
    show ?thesis
    proof (cases w)
      case (Inl e)
      then have "r = Inl e" "s' = s1" "sent s1 = sent s"
        using 1(2,3) w True honest_writer_InlD [of sent wr s "drop written buf" e s1]
        by (simp_all add: write_all_loop.simps [of wr closed buf written s])
      then show ?thesis using True by (intro exI [of _ written]) simp
    next
      case (Inr n)
      have n: "n \<le> length buf - written" "sent s1 = sent s @ take n (drop written buf)"
        using honest_writer_InrD [of sent wr s "drop written buf" n s1] 1(2) w Inr by simp_all
      show ?thesis
      proof (cases "n = 0")
        case True
        then have "r = Inl closed" "s' = s1"
          using 1(3) w Inr \<open>written < length buf\<close>
          by (simp_all add: write_all_loop.simps [of wr closed buf written s])
        then show ?thesis using n True \<open>written < length buf\<close> by (intro exI [of _ written]) simp
      next
        case False
        have "write_all_loop wr closed buf (written + n) s1 = (r, s')"
          using 1(3) w Inr True False
          by (simp add: write_all_loop.simps [of wr closed buf written s])
        moreover have "written + n \<le> length buf" using n(1) True by linarith
        ultimately obtain k where
          k: "written + n \<le> k" "k \<le> length buf" "r = Inr () \<longrightarrow> k = length buf"
            "sent s' = sent s1 @ take (k - (written + n)) (drop (written + n) buf)"
          using 1(1) [OF True w [symmetric] Inr False 1(2)] by blast
        have "take n (drop written buf) @ take (k - (written + n)) (drop (written + n) buf) =
              take (k - written) (drop written buf)"
          using k(1) take_add [of n "k - (written + n)" "drop written buf"]
          by (simp add: add.commute)
        with k n show ?thesis by (intro exI [of _ k]) simp
      qed
    qed
  qed
qed

lemma write_all_socket_complete:
  "honest_writer sent wr \<Longrightarrow> write_all_socket wr buf s = (Inr u, s') \<Longrightarrow> sent s' = sent s @ buf"
  using write_all_loop_delivers [of sent wr NetClosed buf 0 s "Inr ()" s']
  by (auto simp: write_all_socket_def)

section \<open>Properties\<close>

text \<open>Normalising an authority is idempotent: once a default port has been appended (and a
  bare IPv6 literal bracketed), normalising again, even with another default port, returns the
  same authority.  The one excluded shape is an opening bracket that is never closed.\<close>

theorem normalize_host_port_idempotent:
  assumes "authority_wf a"
  shows "normalize_host_port (normalize_host_port a p) q = normalize_host_port a p"
proof (cases "starts_with ''['' a")
  case True
  show ?thesis
  proof (cases "contains_str '']:'' a")
    case True
    with \<open>starts_with ''['' a\<close> show ?thesis by (simp add: normalize_bracketed)
  next
    case False
    with True assms have "a \<noteq> []" "last a = CHR '']''"
      by (auto simp: authority_wf_def starts_with_single)
    then obtain b where a: "a = b @ '']''" by (metis append_butlast_last_id)
    have n: "normalize_host_port a p = b @ '']:'' @ decimal (unat p)"
      using True False by (simp add: normalize_bracketed a)
    have "starts_with ''['' (b @ '']:'' @ decimal (unat p))"
      using True a by (cases b) (auto simp: starts_with_single)
    then show ?thesis
      unfolding n by (simp only: normalize_bracketed contains_bracket_colon if_True)
  qed
next
  case False
  consider "count_char (CHR '':'') a = 0" | "count_char (CHR '':'') a = 1"
    | "1 < count_char (CHR '':'') a" by linarith
  then show ?thesis
  proof cases
    case 1
    have "\<not> starts_with ''['' (a @ '':'' @ decimal (unat p))"
      using False by (cases a) (auto simp: starts_with_single)
    then have "normalize_host_port (a @ '':'' @ decimal (unat p)) q = a @ '':'' @ decimal (unat p)"
      by (rule normalize_host_with_port) (simp add: 1)
    then show ?thesis by (simp only: normalize_plain_host [OF False 1])
  next
    case 2
    then show ?thesis using False by (simp add: normalize_host_with_port)
  next
    case 3
    have "starts_with ''['' (''['' @ a @ '']:'' @ decimal (unat p))" by simp
    moreover have "contains_str '']:'' (''['' @ a @ '']:'' @ decimal (unat p))"
      using contains_bracket_colon [of "''['' @ a"] by simp
    ultimately show ?thesis
      unfolding normalize_bare_ipv6 [OF False 3] by (simp only: normalize_bracketed if_True)
  qed
qed

theorem normalize_host_port_idempotent_witness:
  "normalize_host_port (normalize_host_port ''[::1]'' 1883) 502 = normalize_host_port ''[::1]'' 1883"
  by (rule normalize_host_port_idempotent) (simp add: authority_wf_def)

text \<open>C40: Writing a buffer through a socket that may accept short writes delivers a prefix of it,
  in order and without repetition; on success it delivers the whole buffer.\<close>

theorem write_all_socket_delivers:
  assumes "honest_writer sent wr"
    and "write_all_socket wr buf s = (r, s')"
  shows "\<exists>k \<le> length buf. sent s' = sent s @ take k buf \<and> (r = Inr () \<longrightarrow> k = length buf)"
  using write_all_loop_delivers [OF assms(1) assms(2) [unfolded write_all_socket_def]] by auto

text \<open>The socket of the source's tests: it accepts at most the planned number of bytes.\<close>

record mock_socket =
  mk_write_plan :: "nat list"
  mk_written :: bytes

definition mock_write :: "(mock_socket, net_error) writer" where
  "mock_write s buf =
     (let count = min (case mk_write_plan s of [] \<Rightarrow> length buf | n # _ \<Rightarrow> n) (length buf)
      in (Inr count,
          s\<lparr> mk_write_plan := tl (mk_write_plan s), mk_written := mk_written s @ take count buf \<rparr>))"

lemma mock_write_honest: "honest_writer mk_written mock_write"
  by (simp add: honest_writer_def mock_write_def Let_def)

theorem write_all_socket_delivers_witness:
  "\<exists>k \<le> length [1, 2, 3 :: u8].
     mk_written (snd (write_all_socket mock_write [1, 2, 3] \<lparr> mk_write_plan = [2], mk_written = [] \<rparr>)) =
       [] @ take k [1, 2, 3] \<and>
     (fst (write_all_socket mock_write [1, 2, 3] \<lparr> mk_write_plan = [2], mk_written = [] \<rparr>) = Inr () \<longrightarrow>
       k = length [1, 2, 3 :: u8])"
  using write_all_socket_delivers [OF mock_write_honest prod.collapse [symmetric],
      of "[1, 2, 3]" "\<lparr> mk_write_plan = [2], mk_written = [] \<rparr>"]
  by simp

end
