(* ===== verification/Http_Wire.thy ===== *)
theory Http_Wire
  imports Http_Convert Core_Net
begin

text \<open>
  The wire side of the HTTP adapter (\<open>ferredge-proto-http/src/handler.rs\<close>): endpoint parsing, the
  request text, the read loop, response parsing, and \<open>send_request\<close> over a network that is a
  parameter (the runtime's \<open>AsyncNet\<close> and \<open>AsyncSocket\<close>).
\<close>

section \<open>Endpoints\<close>

record parsed_endpoint =
  pe_connect_target :: string
  pe_host_header :: string

datatype http_transport_error =
    MissingAuthority
  | MalformedIpv6Authority
  | HttpConnect net_error
  | HttpSendRequest net_error
  | HttpSendRequestBody net_error
  | HttpFlushRequest net_error
  | HttpReadResponse net_error
  | HttpInvalidResponse string

fun http_transport_error_str :: "http_transport_error \<Rightarrow> string" where
  "http_transport_error_str MissingAuthority = ''HTTP endpoint missing authority''"
| "http_transport_error_str MalformedIpv6Authority = ''HTTP endpoint has malformed IPv6 authority''"
| "http_transport_error_str (HttpConnect e) = ''failed to connect to endpoint: '' @ net_error_str e"
| "http_transport_error_str (HttpSendRequest e) = ''failed to send request: '' @ net_error_str e"
| "http_transport_error_str (HttpSendRequestBody e) =
     ''failed to send request body: '' @ net_error_str e"
| "http_transport_error_str (HttpFlushRequest e) = ''failed to flush request: '' @ net_error_str e"
| "http_transport_error_str (HttpReadResponse e) = ''failed to read response: '' @ net_error_str e"
| "http_transport_error_str (HttpInvalidResponse s) = ''invalid HTTP response: '' @ s"

definition parse_endpoint :: "string \<Rightarrow> http_transport_error + parsed_endpoint" where
  "parse_endpoint endpoint =
     (let (authority_and_path, default_port) =
        (case strip_prefix ''http://'' endpoint of
           Some rest \<Rightarrow> (rest, 80)
         | None \<Rightarrow>
             (case strip_prefix ''https://'' endpoint of
                Some rest \<Rightarrow> (rest, 443)
              | None \<Rightarrow> (endpoint, 80)));
          authority = takeWhile (\<lambda>c. c \<noteq> CHR ''/'') authority_and_path
      in if authority = [] then Inl MissingAuthority
         else if starts_with ''['' authority then
           (case position (\<lambda>c. c = CHR '']'') authority of
              None \<Rightarrow> Inl MalformedIpv6Authority
            | Some bracket_end \<Rightarrow>
                let suffix = drop (bracket_end + 1) authority in
                if suffix = [] then
                  Inr \<lparr> pe_connect_target = format_host_port authority default_port,
                        pe_host_header = authority \<rparr>
                else if starts_with '':'' suffix then
                  Inr \<lparr> pe_connect_target = authority, pe_host_header = authority \<rparr>
                else Inl MalformedIpv6Authority)
         else if 1 < count_char (CHR '':'') authority then
           Inr \<lparr> pe_connect_target = format_host_port authority default_port,
                 pe_host_header = bracket_ipv6_host authority \<rparr>
         else if CHR '':'' \<in> set authority then
           Inr \<lparr> pe_connect_target = authority, pe_host_header = authority \<rparr>
         else
           Inr \<lparr> pe_connect_target = normalize_host_port authority default_port,
                 pe_host_header = authority \<rparr>)"

section \<open>The request text\<close>

definition CRLF :: string where "CRLF = [CHR 0x0D, CHR 0x0A]"

definition http_header_line :: "string \<times> string \<Rightarrow> string" where
  "http_header_line kv = fst kv @ '': '' @ snd kv @ CRLF"

definition http_wire_request :: "parsed_endpoint \<Rightarrow> http_request \<Rightarrow> string" where
  "http_wire_request ep request =
     hq_method request @ '' '' @ hq_path request @ '' HTTP/1.1'' @ CRLF @
     ''Host: '' @ pe_host_header ep @ CRLF @
     concat (map http_header_line (hq_headers request)) @
     (case hq_body request of
        Some body \<Rightarrow> ''Content-Length: '' @ decimal (length body) @ CRLF
      | None \<Rightarrow> []) @
     ''Connection: close'' @ CRLF @ CRLF"

section \<open>The response\<close>

definition http_terminator :: bytes where
  "http_terminator = [0x0D, 0x0A, 0x0D, 0x0A]"

text \<open>The status code of a status line: the second white-space separated word, as a \<open>u16\<close>.\<close>

definition http_status_of_line :: "string \<Rightarrow> nat option" where
  "http_status_of_line status_line =
     (case split_whitespace status_line of _ # w # _ \<Rightarrow> parse_u16 w | _ \<Rightarrow> None)"

fun http_header_lines :: "string list \<Rightarrow> (string \<times> string) list" where
  "http_header_lines [] = []"
| "http_header_lines (line # lines) =
     (case split_once (CHR '':'') line of
        None \<Rightarrow> http_header_lines lines
      | Some (name, v) \<Rightarrow> (trim name, trim v) # http_header_lines lines)"

definition http_content_length :: "(string \<times> string) list \<Rightarrow> nat option" where
  "http_content_length hs =
     find_map (\<lambda>(name, v). if eq_ignore_ascii_case name ''content-length''
                           then parse_usize v else None) hs"

definition parse_response :: "bytes \<Rightarrow> http_transport_error + http_response" where
  "parse_response response =
     and_then (ok_or (HttpInvalidResponse ''missing header terminator'')
                 (window_position http_terminator response)) (\<lambda>header_end.
     let header_text = string_of_bytes (utf8_lossy (take header_end response)) in
     case str_lines header_text of
       [] \<Rightarrow> Inl (HttpInvalidResponse ''missing status line'')
     | status_line # lines \<Rightarrow>
         and_then (ok_or (HttpInvalidResponse ''invalid status line'')
                     (http_status_of_line status_line)) (\<lambda>status_code.
         let hs = http_header_lines lines;
             result = Inr \<lparr> hs_status_code = of_nat status_code, hs_headers = hs,
                            hs_body = drop (header_end + 4) response \<rparr>
         in case http_content_length hs of
              Some expected_len \<Rightarrow>
                if length response - (header_end + 4) < expected_len
                then Inl (HttpInvalidResponse ''response body shorter than content-length'')
                else result
            | None \<Rightarrow> result))"

section \<open>Sending\<close>

record 's http_net =
  net_connect :: "string \<Rightarrow> net_error + 's"
  net_write :: "('s, net_error) writer"
  net_flush :: "'s \<Rightarrow> (net_error + unit) \<times> 's"
  net_read :: "'s \<Rightarrow> (net_error + bytes) \<times> 's"

text \<open>
  The loop that reads until the peer closes: \<open>net_read\<close> is one read into the 4096-byte buffer.  A
  peer that never closes keeps it running, which is the value \<open>None\<close>.
\<close>

partial_function (option) read_to_end ::
  "('s \<Rightarrow> (net_error + bytes) \<times> 's) \<Rightarrow> 's \<Rightarrow> bytes \<Rightarrow> (net_error + bytes) option" where
  [code]: "read_to_end rd s acc =
     (case rd s of
        (Inl e, s') \<Rightarrow> Some (Inl e)
      | (Inr chunk, s') \<Rightarrow>
          if chunk = [] then Some (Inr acc) else read_to_end rd s' (acc @ chunk))"

definition send_request ::
  "'s http_net \<Rightarrow> string \<Rightarrow> http_request \<Rightarrow> (http_transport_error + http_response) option" where
  "send_request net endpoint request =
     (case parse_endpoint endpoint of
        Inl e \<Rightarrow> Some (Inl e)
      | Inr ep \<Rightarrow>
          (case net_connect net (pe_connect_target ep) of
             Inl e \<Rightarrow> Some (Inl (HttpConnect e))
           | Inr s0 \<Rightarrow>
               (case write_all_socket (net_write net) (bytes_of_string (http_wire_request ep request)) s0 of
                  (Inl e, _) \<Rightarrow> Some (Inl (HttpSendRequest e))
                | (Inr _, s1) \<Rightarrow>
                    (case (case hq_body request of
                             Some body \<Rightarrow> write_all_socket (net_write net) body s1
                           | None \<Rightarrow> (Inr (), s1)) of
                       (Inl e, _) \<Rightarrow> Some (Inl (HttpSendRequestBody e))
                     | (Inr _, s2) \<Rightarrow>
                         (case net_flush net s2 of
                            (Inl e, _) \<Rightarrow> Some (Inl (HttpFlushRequest e))
                          | (Inr _, s3) \<Rightarrow>
                              (case read_to_end (net_read net) s3 [] of
                                 None \<Rightarrow> None
                               | Some (Inl e) \<Rightarrow> Some (Inl (HttpReadResponse e))
                               | Some (Inr response) \<Rightarrow> Some (parse_response response)))))))"

text \<open>Starting and stopping the driver do nothing.\<close>

definition http_start :: "'w \<Rightarrow> (string + unit) \<times> 'w" where
  "http_start w = (Inr (), w)"

definition http_stop :: "'w \<Rightarrow> (string + unit) \<times> 'w" where
  "http_stop w = (Inr (), w)"

text \<open>\<open>RequestResponse::execute\<close> of the driver: the error becomes its text.\<close>

definition http_execute ::
  "'s http_net \<Rightarrow> http_device \<Rightarrow> http_request \<Rightarrow> (string + http_response) option" where
  "http_execute net dvc request =
     map_option (map_err http_transport_error_str)
       (send_request net (he_url (dev_endpoint dvc)) request)"

section \<open>The read loop\<close>

text \<open>\<open>delivers rd s data\<close>: reading from \<open>s\<close> yields \<open>data\<close> in some chunks and then end of stream.\<close>

inductive delivers :: "('s \<Rightarrow> (net_error + bytes) \<times> 's) \<Rightarrow> 's \<Rightarrow> bytes \<Rightarrow> bool"
  for rd :: "'s \<Rightarrow> (net_error + bytes) \<times> 's"
where
  eof: "rd s = (Inr [], s') \<Longrightarrow> delivers rd s []"
| chunk: "rd s = (Inr c, s') \<Longrightarrow> c \<noteq> [] \<Longrightarrow> delivers rd s' rest \<Longrightarrow> delivers rd s (c @ rest)"

lemma read_to_end_delivers:
  "delivers rd s data \<Longrightarrow> read_to_end rd s acc = Some (Inr (acc @ data))"
proof (induction arbitrary: acc rule: delivers.induct)
  case (eof s s')
  then show ?case by (simp add: read_to_end.simps)
next
  case (chunk s c s' rest)
  then show ?case by (simp add: read_to_end.simps [of rd s])
qed

lemma read_to_end_only_delivers:
  assumes "read_to_end rd s acc = Some r" and "r = Inr out"
  shows "\<exists>data. delivers rd s data \<and> out = acc @ data"
  using assms
proof (induction rd s acc r rule: read_to_end.raw_induct [rotated, consumes 1, case_names step])
  case (step loop rd s acc r)
  obtain w s' where w: "rd s = (w, s')" by force
  show ?case
  proof (cases w)
    case (Inl e)
    then show ?thesis using step(2,3) w by auto
  next
    case (Inr c)
    show ?thesis
    proof (cases "c = []")
      case True
      then show ?thesis using step(2,3) w Inr by (auto intro: delivers.eof)
    next
      case False
      then have "loop rd s' (acc @ c) = Some r" using step(2) w Inr by simp
      then obtain data where "delivers rd s' data" "out = (acc @ c) @ data"
        using step(1) step(3) by blast
      moreover have "rd s = (Inr c, s')" using w Inr by simp
      ultimately have "delivers rd s (c @ data)" using False by (blast intro: delivers.chunk)
      then show ?thesis using \<open>out = (acc @ c) @ data\<close> by auto
    qed
  qed
qed

section \<open>The header block\<close>

lemma window_skip:
  "c \<noteq> 0x0D \<Longrightarrow>
   window_position http_terminator (c # xs) = map_option Suc (window_position http_terminator xs)"
  by (simp add: http_terminator_def)

lemma window_skip_line:
  "0x0D \<notin> set l \<Longrightarrow>
   window_position http_terminator (l @ xs) =
     map_option ((+) (length l)) (window_position http_terminator xs)"
proof (induction l)
  case Nil
  then show ?case by (simp add: option.map_ident_strong)
next
  case (Cons c l)
  then have "window_position http_terminator (c # l @ xs) =
      map_option Suc (window_position http_terminator (l @ xs))"
    by (intro window_skip) auto
  with Cons show ?case by (cases "window_position http_terminator xs") auto
qed

lemma window_skip_crlf:
  "c \<noteq> 0x0D \<Longrightarrow>
   window_position http_terminator (0x0D # 0x0A # c # xs) =
     map_option (\<lambda>i. Suc (Suc i)) (window_position http_terminator (c # xs))"
  by (simp add: http_terminator_def option.map_comp comp_def)

lemma window_hit: "window_position http_terminator (0x0D # 0x0A # 0x0D # 0x0A # xs) = Some 0"
  by (simp add: http_terminator_def)

lemma terminator_prefix:
  "take (length http_terminator) (0x0D # 0x0A # 0x0D # 0x0A # xs) = http_terminator"
  by (simp add: http_terminator_def)

abbreviation crlf :: bytes where "crlf \<equiv> [0x0D, 0x0A]"

text \<open>Lines joined by CRLF, then the empty line, then anything: the block ends where it should.\<close>

fun join_crlf :: "bytes list \<Rightarrow> bytes" where
  "join_crlf [] = []"
| "join_crlf [l] = l"
| "join_crlf (l # ls) = l @ crlf @ join_crlf ls"

lemma window_join:
  assumes "ls \<noteq> []" and "\<forall>l \<in> set ls. l \<noteq> [] \<and> 0x0D \<notin> set l"
  shows "window_position http_terminator (join_crlf ls @ crlf @ crlf @ body) =
    Some (length (join_crlf ls))"
  using assms
proof (induction ls rule: join_crlf.induct)
  case (2 l)
  then show ?case by (simp add: window_skip_line terminator_prefix)
next
  case (3 l m ls)
  have rest: "window_position http_terminator (join_crlf (m # ls) @ crlf @ crlf @ body) =
      Some (length (join_crlf (m # ls)))"
    using 3 by simp
  obtain c cs where c: "join_crlf (m # ls) @ crlf @ crlf @ body = c # cs" "c \<noteq> 0x0D"
    using 3(3) by (cases m; cases ls) auto
  have "window_position http_terminator (0x0D # 0x0A # join_crlf (m # ls) @ crlf @ crlf @ body) =
      Some (Suc (Suc (length (join_crlf (m # ls)))))"
    using window_skip_crlf [OF c(2), of cs] rest unfolding c(1) by simp
  with 3(3) show ?case by (simp add: window_skip_line)
qed simp

section \<open>Responses as a server writes them\<close>

text \<open>A header that survives the line format: a token name, and a value without outer spaces.\<close>

definition wire_header :: "string \<times> string \<Rightarrow> bool" where
  "wire_header kv \<longleftrightarrow>
     fst kv \<noteq> [] \<and> (\<forall>c \<in> set (fst kv). plain_char c \<and> c \<noteq> CHR '':'') \<and>
     (\<forall>c \<in> set (snd kv). text_char c) \<and> trimmed (snd kv)"

definition status_line :: "u16 \<Rightarrow> string \<Rightarrow> string" where
  "status_line status reason = ''HTTP/1.1 '' @ decimal (unat status) @ '' '' @ reason"

definition header_text_line :: "string \<times> string \<Rightarrow> string" where
  "header_text_line kv = fst kv @ '': '' @ snd kv"

definition render_response :: "string \<Rightarrow> http_response \<Rightarrow> bytes" where
  "render_response reason r =
     join_crlf (map bytes_of_string
       (status_line (hs_status_code r) reason # map header_text_line (hs_headers r))) @
     crlf @ crlf @ hs_body r"

lemma status_of_status_line:
  "http_status_of_line (status_line status reason) = Some (unat status)"
proof -
  have "split_whitespace (''HTTP/1.1'' @ '' '' @ decimal (unat status) @ '' '' @ reason) =
      ''HTTP/1.1'' # decimal (unat status) # split_whitespace reason"
    by (subst split_ws_plain, simp add: plain_char_def)
      (simp add: split_ws_plain plain_char_decimal)
  moreover have "parse_u16 (decimal (unat status)) = Some (unat status)"
    using unat_less [of status] by (intro parse_unsigned_decimal) simp
  ultimately show ?thesis by (simp add: http_status_of_line_def status_line_def)
qed

lemma header_lines_parse:
  "\<forall>kv \<in> set hs. wire_header kv \<Longrightarrow> http_header_lines (map header_text_line hs) = hs"
proof (induction hs)
  case (Cons kv hs)
  obtain k v where kv: "kv = (k, v)" by force
  have w: "wire_header (k, v)" using Cons.prems by (simp add: kv)
  then have "split_once (CHR '':'') (k @ CHR '':'' # CHR '' '' # v) = Some (k, CHR '' '' # v)"
    by (intro split_once_append) (auto simp: wire_header_def)
  moreover have "trimmed k" using w by (auto simp: wire_header_def trimmed_def)
  moreover have "trimmed v" using w by (simp add: wire_header_def)
  ultimately show ?case
    using Cons by (simp add: kv header_text_line_def trim_trimmed trim_space_trimmed)
qed simp

text \<open>Lines of printable text survive encoding, lossy decoding and splitting.\<close>

definition text_line :: "string \<Rightarrow> bool" where
  "text_line l \<longleftrightarrow> l \<noteq> [] \<and> (\<forall>c \<in> set l. text_char c)"

lemma text_line_bytes:
  "text_line l \<Longrightarrow> bytes_of_string l \<noteq> [] \<and> 0x0D \<notin> set (bytes_of_string l)"
  using text_char_byte_not_cr by (fastforce simp: text_line_def)

lemma join_crlf_ascii:
  "\<forall>l \<in> set ls. text_line l \<Longrightarrow> \<forall>b \<in> set (join_crlf (map bytes_of_string ls)). b < 0x80"
  by (induction ls rule: induct_list012) (auto simp: text_line_def text_char_byte)

lemma lines_join_crlf:
  "\<forall>l \<in> set ls. text_line l \<Longrightarrow>
   str_lines (string_of_bytes (join_crlf (map bytes_of_string ls))) = ls"
proof (induction ls rule: induct_list012)
  case (2 l)
  then show ?case
    using str_lines_last [of l] text_char_not_newline by (fastforce simp: text_line_def comp_def)
next
  case (3 l m ls)
  have nl: "CHR 0x0A \<notin> set l" using 3(3) text_char_not_newline by (auto simp: text_line_def)
  have "string_of_bytes (join_crlf (map bytes_of_string (l # m # ls))) =
      l @ CHR 0x0D # CHR 0x0A # string_of_bytes (join_crlf (map bytes_of_string (m # ls)))"
    by (simp add: comp_def)
  with 3 str_lines_crlf [OF nl] show ?case by simp
qed simp

lemma text_char_literals: "text_char (CHR '':'')" "text_char (CHR '' '')"
  "\<forall>c \<in> set ''HTTP/1.1 ''. text_char c"
  by (simp_all add: text_char_def)

lemma header_text_line_text:
  assumes "wire_header kv"
  shows "text_line (header_text_line kv)"
proof -
  have "\<forall>c \<in> set (fst kv). text_char c" "\<forall>c \<in> set (snd kv). text_char c" "fst kv \<noteq> []"
    using assms plain_text_char by (simp_all add: wire_header_def)
  then show ?thesis
    using text_char_literals(1,2) by (simp add: text_line_def header_text_line_def ball_Un)
qed

lemma status_line_text:
  assumes "\<forall>c \<in> set reason. text_char c"
  shows "text_line (status_line status reason)"
proof -
  have "\<forall>c \<in> set (decimal (unat status)). text_char c"
    using plain_char_decimal plain_text_char by blast
  with assms show ?thesis
    using text_char_literals by (simp add: text_line_def status_line_def ball_Un)
qed

lemma parse_render_response:
  assumes "\<forall>kv \<in> set (hs_headers r). wire_header kv"
    and "\<forall>c \<in> set reason. text_char c"
    and "case http_content_length (hs_headers r) of Some n \<Rightarrow> n \<le> length (hs_body r) | None \<Rightarrow> True"
  shows "parse_response (render_response reason r) = Inr r"
proof -
  let ?ls = "status_line (hs_status_code r) reason # map header_text_line (hs_headers r)"
  let ?head = "join_crlf (map bytes_of_string ?ls)"
  have ls: "\<forall>l \<in> set ?ls. text_line l"
    using assms(1,2) header_text_line_text status_line_text by auto
  then have lines: "\<forall>b \<in> set (map bytes_of_string ?ls). b \<noteq> [] \<and> 0x0D \<notin> set b"
    using text_line_bytes by (metis (no_types, lifting) imageE list.set_map)
  have pos: "window_position http_terminator (render_response reason r) = Some (length ?head)"
    unfolding render_response_def by (rule window_join [OF _ lines]) simp
  have "utf8_lossy (take (length ?head) (render_response reason r)) = ?head"
    using utf8_lossy_ascii [OF join_crlf_ascii [OF ls]] by (simp add: render_response_def)
  then have split: "str_lines (string_of_bytes (utf8_lossy (take (length ?head)
      (render_response reason r)))) = ?ls"
    using lines_join_crlf [OF ls] by metis
  have body: "drop (length ?head + 4) (render_response reason r) = hs_body r"
    "length (render_response reason r) - (length ?head + 4) = length (hs_body r)"
    by (simp_all add: render_response_def)
  let ?r = "\<lparr> hs_status_code = of_nat (unat (hs_status_code r)), hs_headers = hs_headers r,
      hs_body = hs_body r \<rparr>"
  have r: "?r = r" by simp
  have "parse_response (render_response reason r) =
      (case http_content_length (hs_headers r) of
         Some n \<Rightarrow>
           if length (hs_body r) < n
           then Inl (HttpInvalidResponse ''response body shorter than content-length'') else Inr ?r
       | None \<Rightarrow> Inr ?r)"
    by (simp only: parse_response_def pos ok_or_simps and_then_simps Let_def split list.case
        status_of_status_line header_lines_parse [OF assms(1)] body)
  then show ?thesis
    using assms(3) unfolding r by (cases "http_content_length (hs_headers r)") simp_all
qed

section \<open>Properties\<close>

text \<open>C2: A rendered response parses back: for a status line, headers with token names and trimmed
  printable values, and any body, \<open>parse_response\<close> returns exactly the status, the headers in
  order and the body, provided a parseable content length, if any, is covered by the body.\<close>

theorem parse_response_roundtrip:
  assumes "\<forall>kv \<in> set (hs_headers r). wire_header kv"
    and "\<forall>c \<in> set reason. text_char c"
    and "case http_content_length (hs_headers r) of Some n \<Rightarrow> n \<le> length (hs_body r) | None \<Rightarrow> True"
  shows "parse_response (render_response reason r) = Inr r"
  using assms by (rule parse_render_response)

definition sample_response :: http_response where
  "sample_response =
     \<lparr> hs_status_code = 200, hs_headers = [(''Content-Length'', ''2''), (''X-Test'', [])],
       hs_body = [0x0D, 0xFF] \<rparr>"

lemma sample_response_ok:
  "\<forall>kv \<in> set (hs_headers sample_response). wire_header kv"
  "\<forall>c \<in> set ''OK''. text_char c"
  "case http_content_length (hs_headers sample_response) of
      Some n \<Rightarrow> n \<le> length (hs_body sample_response) | None \<Rightarrow> True"
proof -
  show "\<forall>kv \<in> set (hs_headers sample_response). wire_header kv"
    by (simp add: sample_response_def wire_header_def plain_char_def text_char_def trimmed_def)
  show "\<forall>c \<in> set ''OK''. text_char c" by (simp add: text_char_def)
  have "eq_ignore_ascii_case ''Content-Length'' ''content-length''" by code_simp
  moreover have "parse_usize ''2'' = Some 2"
    by (simp add: parse_unsigned_def digit_value_def)
  ultimately have "http_content_length (hs_headers sample_response) = Some 2"
    by (simp add: http_content_length_def sample_response_def)
  then show "case http_content_length (hs_headers sample_response) of
      Some n \<Rightarrow> n \<le> length (hs_body sample_response) | None \<Rightarrow> True"
    by (simp add: sample_response_def)
qed

theorem parse_response_roundtrip_witness:
  "parse_response (render_response ''OK'' sample_response) = Inr sample_response"
  by (rule parse_response_roundtrip [OF sample_response_ok])

text \<open>The steps of a request that ended in a response.\<close>

lemma send_request_steps:
  assumes "send_request net endpoint request = Some (Inr response)"
  obtains ep s0 u1 s1 u2 s2 u3 s3 out where
    "parse_endpoint endpoint = Inr ep"
    "net_connect net (pe_connect_target ep) = Inr s0"
    "write_all_socket (net_write net) (bytes_of_string (http_wire_request ep request)) s0 =
       (Inr u1, s1)"
    "(case hq_body request of
        Some body \<Rightarrow> write_all_socket (net_write net) body s1 | None \<Rightarrow> (Inr (), s1)) = (Inr u2, s2)"
    "net_flush net s2 = (Inr u3, s3)"
    "read_to_end (net_read net) s3 [] = Some (Inr out)"
    "parse_response out = Inr response"
  using assms unfolding send_request_def
  by (auto split: sum.split_asm prod.split_asm option.split_asm)

text \<open>C3: A response is only ever returned after the complete request went out: the socket was
  connected to the parsed endpoint, it accepted exactly the request text followed by the body,
  and the response is the parse of everything the peer sent until it closed, however it was
  chunked.\<close>

theorem send_request_delivers_then_parses:
  assumes "honest_writer sent (net_write net)"
    and "\<forall>s. sent (snd (net_flush net s)) = sent s"
    and "send_request net endpoint request = Some (Inr response)"
  shows "\<exists>ep s0 s3 data.
     parse_endpoint endpoint = Inr ep \<and>
     net_connect net (pe_connect_target ep) = Inr s0 \<and>
     sent s3 = sent s0 @ bytes_of_string (http_wire_request ep request) @
       unwrap_or (hq_body request) [] \<and>
     delivers (net_read net) s3 data \<and>
     parse_response data = Inr response"
  using assms(3)
proof (rule send_request_steps)
  fix ep s0 u1 s1 u2 s2 u3 s3 out
  assume a: "parse_endpoint endpoint = Inr ep"
    "net_connect net (pe_connect_target ep) = Inr s0"
    and w1: "write_all_socket (net_write net) (bytes_of_string (http_wire_request ep request)) s0 =
      (Inr u1, s1)"
    and w2: "(case hq_body request of
        Some body \<Rightarrow> write_all_socket (net_write net) body s1 | None \<Rightarrow> (Inr (), s1)) = (Inr u2, s2)"
    and fl: "net_flush net s2 = (Inr u3, s3)"
    and rd: "read_to_end (net_read net) s3 [] = Some (Inr out)"
    and pr: "parse_response out = Inr response"
  have "sent s1 = sent s0 @ bytes_of_string (http_wire_request ep request)"
    using write_all_socket_complete [OF assms(1) w1] .
  moreover have "sent s2 = sent s1 @ unwrap_or (hq_body request) []"
    using w2 write_all_socket_complete [OF assms(1)]
    by (cases "hq_body request") (auto simp: unwrap_or_def)
  moreover have "sent s3 = sent s2" using assms(2) fl by (metis snd_conv)
  moreover have "delivers (net_read net) s3 out"
    using read_to_end_only_delivers [OF rd refl] by auto
  ultimately show ?thesis using a pr by auto
qed

text \<open>A network for the witnesses: it accepts everything and replays chunks, then closes.\<close>

type_synonym replay = "bytes \<times> bytes list"

definition replay_read :: "replay \<Rightarrow> (net_error + bytes) \<times> replay" where
  "replay_read s = (Inr (case snd s of [] \<Rightarrow> [] | c # _ \<Rightarrow> c), (fst s, tl (snd s)))"

definition replay_net :: "bytes list \<Rightarrow> replay http_net" where
  "replay_net chunks =
     \<lparr> net_connect = (\<lambda>_. Inr ([], chunks)),
       net_write = (\<lambda>(w, cs) d. (Inr (length d), (w @ d, cs))),
       net_flush = (\<lambda>s. (Inr (), s)),
       net_read = replay_read \<rparr>"

definition sample_request :: http_request where
  "sample_request = \<lparr> hq_method = ''GET'', hq_path = ''/'', hq_body = None, hq_headers = [] \<rparr>"

lemma replay_write: "write_all_socket (net_write (replay_net c)) buf (w, cs) = (Inr (), (w @ buf, cs))"
  by (cases "buf = []")
    (simp_all add: write_all_socket_def write_all_loop.simps replay_net_def)

lemma replay_parse_endpoint: "\<exists>ep. parse_endpoint ''h:80'' = Inr ep"
  by (simp add: parse_endpoint_def strip_prefix_def starts_with_def Let_def)

lemma replay_read_simps:
  "replay_read (w, []) = (Inr [], (w, []))"
  "replay_read (w, d # cs) = (Inr d, (w, cs))"
  by (simp_all add: replay_read_def)

lemma replay_delivers: "[] \<notin> set cs \<Longrightarrow> delivers replay_read (w, cs) (concat cs)"
proof (induction cs)
  case Nil
  show ?case using delivers.eof [of replay_read, OF replay_read_simps(1)] by simp
next
  case (Cons d cs)
  then show ?case
    using delivers.chunk [of replay_read "(w, d # cs)" d "(w, cs)" "concat cs",
        OF replay_read_simps(2)]
    by auto
qed

lemma replay_send:
  assumes c: "[] \<notin> set chunks"
  shows "send_request (replay_net chunks) ''h:80'' sample_request =
    Some (parse_response (concat chunks))"
proof -
  obtain ep where ep: "parse_endpoint ''h:80'' = Inr ep" using replay_parse_endpoint by blast
  have "read_to_end (net_read (replay_net chunks)) (w, chunks) [] = Some (Inr (concat chunks))" for w
    using read_to_end_delivers [OF replay_delivers [OF c]] by (simp add: replay_net_def)
  moreover have "net_connect (replay_net chunks) t = Inr ([], chunks)"
    "net_flush (replay_net chunks) st = (Inr (), st)" for t st
    by (simp_all add: replay_net_def)
  ultimately show ?thesis
    by (simp add: send_request_def ep replay_write sample_request_def)
qed

theorem send_request_delivers_then_parses_witness:
  "\<exists>ep s3 data.
     parse_endpoint ''h:80'' = Inr ep \<and>
     fst s3 = bytes_of_string (http_wire_request ep sample_request) \<and>
     delivers (net_read (replay_net [render_response ''OK'' sample_response])) s3 data \<and>
     parse_response data = Inr sample_response"
proof -
  let ?net = "replay_net [render_response ''OK'' sample_response]"
  have parsed: "parse_response (render_response ''OK'' sample_response) = Inr sample_response"
    by (rule parse_render_response [OF sample_response_ok])
  have "honest_writer fst (net_write ?net)"
    by (auto simp: honest_writer_def replay_net_def)
  moreover have "\<forall>s. fst (snd (net_flush ?net s)) = fst s" by (simp add: replay_net_def)
  moreover have "send_request ?net ''h:80'' sample_request = Some (Inr sample_response)"
    using replay_send [of "[render_response ''OK'' sample_response]"] parsed
    by (simp add: render_response_def)
  ultimately show ?thesis
    using send_request_delivers_then_parses [of fst ?net "''h:80''" sample_request sample_response]
    by (auto simp: replay_net_def sample_request_def)
qed

text \<open>A parsed endpoint always names a port: normalising its connect target with any default port
  changes nothing, so connecting never depends on a port the endpoint did not resolve to.\<close>

theorem parse_endpoint_target_has_port:
  assumes "parse_endpoint endpoint = Inr ep"
  shows "normalize_host_port (pe_connect_target ep) q = pe_connect_target ep"
proof -
  have bare: "normalize_host_port (format_host_port a p) q = format_host_port a p"
    if "\<not> starts_with ''['' a" "1 < count_char (CHR '':'') a" for a p
  proof -
    have f: "format_host_port a p = ''['' @ a @ '']:'' @ decimal (unat p)"
      using that by (simp add: format_host_port_def bracket_ipv6_host_def)
    have "contains_str '']:'' (''['' @ a @ '']:'' @ decimal (unat p))"
      using contains_bracket_colon [of "''['' @ a"] by simp
    then show ?thesis unfolding f by (simp add: normalize_bracketed)
  qed
  have bracket: "normalize_host_port (format_host_port a p) q = format_host_port a p"
    if "starts_with ''['' a" "position (\<lambda>c. c = CHR '']'') a = Some i" "length a \<le> Suc i" for a p i
  proof -
    have i: "i < length a" "a ! i = CHR '']''" using position_SomeD [OF that(2)] by auto
    then have "a = take i a @ '']''" using that(3) id_take_nth_drop [OF i(1)] by simp
    then obtain b where b: "a = b @ '']''" by blast
    have f: "format_host_port a p = b @ '']:'' @ decimal (unat p)"
      using that(1) by (simp add: format_host_port_def bracket_ipv6_host_def b)
    have "starts_with ''['' (b @ '']:'' @ decimal (unat p))"
      using that(1) b by (cases b) (auto simp: starts_with_single)
    then show ?thesis
      unfolding f by (simp only: normalize_bracketed contains_bracket_colon if_True)
  qed
  have suffix: "normalize_host_port a q = a"
    if "starts_with ''['' a" "position (\<lambda>c. c = CHR '']'') a = Some i" "starts_with '':'' (drop (i + 1) a)"
    for a i
  proof -
    have i: "i < length a" "a ! i = CHR '']''" using position_SomeD [OF that(2)] by auto
    have "\<exists>t. drop (i + 1) a = '':'' @ t" using that(3) by (simp add: starts_with_iff)
    then obtain t where "drop (i + 1) a = '':'' @ t" by blast
    then have "a = take i a @ '']:'' @ t" using id_take_nth_drop [OF i(1)] i(2) by simp
    then have "contains_str '']:'' a" by (metis contains_bracket_colon)
    with that(1) show ?thesis by (simp add: normalize_bracketed)
  qed
  have one: "count_char (CHR '':'') a = 1"
    if "\<not> 1 < count_char (CHR '':'') a" "CHR '':'' \<in> set a" for a
    using that count_char_0_iff [of "CHR '':''" a] by linarith
  have none: "normalize_host_port (normalize_host_port a p) q = normalize_host_port a p"
    if "\<not> starts_with ''['' a" "CHR '':'' \<notin> set a" for a p
  proof -
    have n: "normalize_host_port a p = a @ '':'' @ decimal (unat p)"
      using that by (intro normalize_plain_host) (simp_all add: count_char_0_iff)
    have "\<not> starts_with ''['' (a @ '':'' @ decimal (unat p))"
      using that(1) by (cases a) (auto simp: starts_with_single)
    then show ?thesis
      using that by (simp only: n) (rule normalize_host_with_port, auto simp: count_char_0_iff)
  qed
  show ?thesis
    using assms unfolding parse_endpoint_def Let_def
    by (auto split: option.splits if_splits prod.splits
        simp: bare none one normalize_host_with_port intro: bracket suffix)
qed

theorem parse_endpoint_target_has_port_witness:
  "\<exists>ep. parse_endpoint ''http://[::1]/api'' = Inr ep \<and>
     normalize_host_port (pe_connect_target ep) 1883 = pe_connect_target ep"
proof -
  obtain ep where "parse_endpoint ''http://[::1]/api'' = Inr ep"
    by (simp add: parse_endpoint_def strip_prefix_def starts_with_def Let_def)
  from parse_endpoint_target_has_port [OF this] this show ?thesis by blast
qed

text \<open>C5: Header values are written verbatim: a value that contains CRLF and a second header gives the
  same request text as two headers, so a caller that controls one value controls further headers
  of the request.\<close>

theorem http_header_value_injection:
  "http_wire_request ep (request\<lparr> hq_headers := before @ (k, v @ CRLF @ k' @ '': '' @ v') # after \<rparr>) =
   http_wire_request ep (request\<lparr> hq_headers := before @ (k, v) # (k', v') # after \<rparr>)"
  by (simp add: http_wire_request_def http_header_line_def)

end
