(* ===== verification/Rust_Float.thy ===== *)
theory Rust_Float
  imports Prelude
begin

text \<open>
  The floating-point casts of the language that the Modbus codecs use, on IEEE bit patterns:
  \<open>f64 as f32\<close>, \<open>i64 as f32\<close>, \<open>u64 as f32\<close> and \<open>f64::from(f32)\<close>.  A finite value is
  \<open>(-1)^s * M * 2^E\<close> with natural \<open>M\<close>; rounding is to nearest, ties to even.  The payload of a NaN,
  which the language leaves open, keeps its top bits and is quiet, as the hardware does it.
\<close>

lemma len64: "LENGTH(64) = 64" and len32: "LENGTH(32) = 32"
  by simp_all

section \<open>Rounding\<close>

fun bitlen :: "nat \<Rightarrow> nat" where
  "bitlen n = (if n = 0 then 0 else Suc (bitlen (n div 2)))"

declare bitlen.simps [simp del]

definition div_half_even :: "nat \<Rightarrow> nat \<Rightarrow> nat" where
  "div_half_even n d =
     (let q = n div d; r = n mod d in
      if 2 * r < d \<or> 2 * r = d \<and> even q then q else q + 1)"

text \<open>
  The magnitude bits of the float nearest to \<open>m * 2 ^ e\<close> in the format with \<open>p\<close> significant bits,
  least exponent \<open>qmin\<close> and infinity \<open>top_mag\<close>.
\<close>

definition round_magnitude :: "nat \<Rightarrow> int \<Rightarrow> nat \<Rightarrow> nat \<Rightarrow> int \<Rightarrow> nat" where
  "round_magnitude p qmin top_mag m e =
     (if m = 0 then 0
      else
        let q = max (int (bitlen m) + e - int p) qmin;
            mant = (if q \<le> e then m * 2 ^ nat (e - q) else div_half_even m (2 ^ nat (q - e)));
            bits = nat (q - qmin) * 2 ^ (p - 1) + mant
        in min bits top_mag)"

abbreviation f32_magnitude :: "nat \<Rightarrow> int \<Rightarrow> nat" where
  "f32_magnitude \<equiv> round_magnitude 24 (- 149) (255 * 2 ^ 23)"

abbreviation f64_magnitude :: "nat \<Rightarrow> int \<Rightarrow> nat" where
  "f64_magnitude \<equiv> round_magnitude 53 (- 1074) (2047 * 2 ^ 52)"

definition f32_of_parts :: "bool \<Rightarrow> nat \<Rightarrow> f32" where
  "f32_of_parts s mag = of_nat ((if s then 2 ^ 31 else 0) + mag)"

definition f64_of_parts :: "bool \<Rightarrow> nat \<Rightarrow> f64" where
  "f64_of_parts s mag = of_nat ((if s then 2 ^ 63 else 0) + mag)"

definition f32_sign :: "f32 \<Rightarrow> bool" where "f32_sign x \<longleftrightarrow> 2 ^ 31 \<le> unat x"
definition f32_exp :: "f32 \<Rightarrow> nat" where "f32_exp x = unat x div 2 ^ 23 mod 2 ^ 8"
definition f32_frac :: "f32 \<Rightarrow> nat" where "f32_frac x = unat x mod 2 ^ 23"
definition f64_sign :: "f64 \<Rightarrow> bool" where "f64_sign x \<longleftrightarrow> 2 ^ 63 \<le> unat x"
definition f64_exp :: "f64 \<Rightarrow> nat" where "f64_exp x = unat x div 2 ^ 52 mod 2 ^ 11"
definition f64_frac :: "f64 \<Rightarrow> nat" where "f64_frac x = unat x mod 2 ^ 52"

definition f32_is_nan :: "f32 \<Rightarrow> bool" where
  "f32_is_nan x \<longleftrightarrow> f32_exp x = 255 \<and> f32_frac x \<noteq> 0"

section \<open>Casts\<close>

definition f64_as_f32 :: "f64 \<Rightarrow> f32" where
  "f64_as_f32 x =
     f32_of_parts (f64_sign x)
       (if f64_exp x = 2047 then
          (if f64_frac x = 0 then 255 * 2 ^ 23
           else 255 * 2 ^ 23 + 2 ^ 22 + f64_frac x div 2 ^ 29 mod 2 ^ 22)
        else if f64_exp x = 0 then f32_magnitude (f64_frac x) (- 1074)
        else f32_magnitude (2 ^ 52 + f64_frac x) (int (f64_exp x) - 1075))"

definition i64_as_f32 :: "i64 \<Rightarrow> f32" where
  "i64_as_f32 x = f32_of_parts (sint x < 0) (f32_magnitude (nat \<bar>sint x\<bar>) 0)"

definition u64_as_f32 :: "u64 \<Rightarrow> f32" where
  "u64_as_f32 x = f32_of_parts False (f32_magnitude (unat x) 0)"

definition f64_from_f32 :: "f32 \<Rightarrow> f64" where
  "f64_from_f32 x =
     f64_of_parts (f32_sign x)
       (if f32_exp x = 255 then
          (if f32_frac x = 0 then 2047 * 2 ^ 52
           else 2047 * 2 ^ 52 + 2 ^ 51 + f32_frac x mod 2 ^ 22 * 2 ^ 29)
        else if f32_exp x = 0 then f64_magnitude (f32_frac x) (- 149)
        else f64_magnitude (2 ^ 23 + f32_frac x) (int (f32_exp x) - 150))"

lemma one_and_a_half:
  "f64_as_f32 0x3FF8000000000000 = 0x3FC00000"
  "i64_as_f32 (- 3) = 0xC0400000"
  "u64_as_f32 16777217 = 0x4B800000"
  "f64_from_f32 0xC0400000 = 0xC008000000000000"
  "f64_as_f32 0x47F0000000000000 = 0x7F800000"
  by (simp_all add: f64_as_f32_def i64_as_f32_def u64_as_f32_def f64_from_f32_def f32_of_parts_def
      f64_of_parts_def f64_sign_def f64_exp_def f64_frac_def f32_sign_def f32_exp_def f32_frac_def
      round_magnitude_def bitlen.simps div_half_even_def Let_def)

section \<open>Widening and narrowing back\<close>

lemma bitlen_0 [simp]: "bitlen 0 = 0"
  by (simp add: bitlen.simps)

lemma bitlen_double: "0 < m \<Longrightarrow> bitlen (m * 2 ^ k) = bitlen m + k"
proof (induction k)
  case (Suc k)
  then have "bitlen (m * 2 ^ k * 2) = Suc (bitlen (m * 2 ^ k))"
    by (simp add: bitlen.simps [of "m * 2 ^ k * 2"])
  with Suc show ?case by (simp add: mult.assoc mult.commute [of 2])
qed simp

lemma bitlen_upper: "m < 2 ^ bitlen m"
proof (induction m rule: bitlen.induct)
  case (1 m)
  show ?case
  proof (cases "m = 0")
    case False
    then have "m div 2 < 2 ^ bitlen (m div 2)" using 1 by simp
    then show ?thesis using False by (simp add: bitlen.simps [of m])
  qed simp
qed

lemma bitlen_lower: "0 < m \<Longrightarrow> 2 ^ (bitlen m - 1) \<le> m"
proof (induction m rule: bitlen.induct)
  case (1 m)
  show ?case
  proof (cases "m div 2 = 0")
    case True
    with 1(2) show ?thesis by (simp add: bitlen.simps [of m])
  next
    case False
    then have "2 ^ (bitlen (m div 2) - 1) \<le> m div 2" using 1 by simp
    moreover have "bitlen (m div 2) = Suc (bitlen (m div 2) - 1)"
      using False by (simp add: bitlen.simps [of "m div 2"])
    then have "(2::nat) ^ bitlen (m div 2) = 2 * 2 ^ (bitlen (m div 2) - 1)"
      by (metis power_Suc)
    ultimately show ?thesis using 1(2) by (simp add: bitlen.simps [of m])
  qed
qed

lemma bitlen_le_iff: "m < 2 ^ k \<Longrightarrow> bitlen m \<le> k"
proof (rule ccontr)
  assume m: "m < 2 ^ k" and "\<not> bitlen m \<le> k"
  then have k: "k \<le> bitlen m - 1" and "0 < m" by (auto intro: Nat.gr0I)
  have "(2::nat) ^ k \<le> 2 ^ (bitlen m - 1)" using k by (simp add: power_increasing)
  with bitlen_lower [OF \<open>0 < m\<close>] m show False by linarith
qed

lemma bitlen_eq: "2 ^ k \<le> m \<Longrightarrow> m < 2 ^ Suc k \<Longrightarrow> bitlen m = Suc k"
proof (rule antisym)
  assume lo: "2 ^ k \<le> m" and hi: "m < 2 ^ Suc k"
  show "bitlen m \<le> Suc k" by (rule bitlen_le_iff [OF hi])
  show "Suc k \<le> bitlen m"
  proof (rule ccontr)
    assume "\<not> Suc k \<le> bitlen m"
    then have "(2::nat) ^ bitlen m \<le> 2 ^ k" by (simp add: power_increasing)
    with lo bitlen_upper [of m] show False by linarith
  qed
qed

lemma div_half_even_exact: "0 < d \<Longrightarrow> div_half_even (q * d) d = q"
  by (simp add: div_half_even_def)

text \<open>Scaling the significand and the exponent against each other changes nothing.\<close>

lemma round_magnitude_scale:
  assumes "0 < m" and q: "max (int (bitlen m) + e - int p) qmin \<le> e"
  shows "round_magnitude p qmin top_mag (m * 2 ^ j) (e - int j) = round_magnitude p qmin top_mag m e"
proof -
  define q where "q = max (int (bitlen m) + e - int p) qmin"
  have bl: "max (int (bitlen (m * 2 ^ j)) + (e - int j) - int p) qmin = q"
    using assms(1) by (simp add: bitlen_double q_def)
  have "(if q \<le> e - int j then m * 2 ^ j * 2 ^ nat (e - int j - q)
      else div_half_even (m * 2 ^ j) (2 ^ nat (q - (e - int j)))) = m * 2 ^ nat (e - q)"
  proof (cases "q \<le> e - int j")
    case True
    then have "nat (e - q) = j + nat (e - int j - q)" by linarith
    with True show ?thesis by (simp add: power_add)
  next
    case False
    then have "j = nat (e - q) + nat (q - (e - int j))" using q q_def by linarith
    then have "m * 2 ^ j = m * 2 ^ nat (e - q) * 2 ^ nat (q - (e - int j))"
      by (metis mult.assoc power_add)
    with False show ?thesis by (simp only: if_False div_half_even_exact zero_less_power zero_less_numeral)
  qed
  with bl q assms(1) show ?thesis
    by (simp add: round_magnitude_def Let_def flip: q_def)
qed

lemma f64_magnitude_exact:
  assumes "0 < m" and "bitlen m \<le> 53" and "- 1021 \<le> int (bitlen m) + e" and "int (bitlen m) + e \<le> 900"
  shows "f64_magnitude m e =
    nat (int (bitlen m) + e + 1021) * 2 ^ 52 + m * 2 ^ (53 - bitlen m)"
proof -
  define k where "k = nat (int (bitlen m) + e + 1021)"
  have q: "max (int (bitlen m) + e - 53) (- 1074) = int (bitlen m) + e - 53" using assms by simp
  have "m * 2 ^ (53 - bitlen m) < 2 ^ bitlen m * 2 ^ (53 - bitlen m)"
    using bitlen_upper by simp
  also have "\<dots> = 2 ^ 53" using assms(2) by (simp flip: power_add)
  finally have "m * 2 ^ (53 - bitlen m) < 2 ^ 53" .
  moreover have "k \<le> 1921" using assms by (simp add: k_def)
  ultimately have "k * 2 ^ 52 + m * 2 ^ (53 - bitlen m) \<le> 2047 * 2 ^ 52" by simp
  moreover have "nat (e - (int (bitlen m) + e - 53)) = 53 - bitlen m" using assms(2) by linarith
  moreover have "nat (int (bitlen m) + e - 53 - (- 1074)) = k" by (simp add: k_def)
  moreover have "int (bitlen m) + e - 53 \<le> e" using assms(2) by simp
  ultimately show ?thesis
    using assms(1) by (simp only: round_magnitude_def Let_def q of_nat_numeral) (simp add: k_def min_absorb1)
qed


text \<open>The three parts of a bit pattern and the pattern built from them.\<close>

lemma f64_parts:
  assumes "E < 2 ^ 11" and "M < 2 ^ 52"
  shows "f64_sign (f64_of_parts s (E * 2 ^ 52 + M)) = s"
    and "f64_exp (f64_of_parts s (E * 2 ^ 52 + M)) = E"
    and "f64_frac (f64_of_parts s (E * 2 ^ 52 + M)) = M"
proof -
  have lt: "(if s then 2 ^ 63 else 0) + (E * 2 ^ 52 + M) < (2::nat) ^ 64" using assms by simp
  have u: "unat (f64_of_parts s (E * 2 ^ 52 + M)) = (if s then 2 ^ 63 else 0) + (E * 2 ^ 52 + M)"
    unfolding f64_of_parts_def using lt
    by (simp only: unat_of_nat len64 mod_less)
  define h where "h = (if s then 2 ^ 11 else 0) + E"
  have h: "(if s then 2 ^ 63 else 0) + (E * 2 ^ 52 + M) = h * 2 ^ 52 + M"
    by (simp add: h_def)
  have hm: "h mod 2 ^ 11 = E" using assms(1) by (simp add: h_def)
  have "(h * 2 ^ 52 + M) div 2 ^ 52 = h"
    by (metis assms(2) div_less div_mult_self3 add_0_right add.commute power_not_zero zero_neq_numeral)
  then show "f64_exp (f64_of_parts s (E * 2 ^ 52 + M)) = E"
    unfolding f64_exp_def u h by (simp only: hm)
  show "f64_frac (f64_of_parts s (E * 2 ^ 52 + M)) = M"
    unfolding f64_frac_def u h by (simp only: mod_mult_self3 mod_less [OF assms(2)])
  show "f64_sign (f64_of_parts s (E * 2 ^ 52 + M)) = s"
    unfolding f64_sign_def u using assms by simp
qed

lemma f32_split:
  "f32_of_parts (f32_sign x) (f32_exp x * 2 ^ 23 + f32_frac x) = x"
  "f32_exp x < 2 ^ 8" "f32_frac x < 2 ^ 23"
proof -
  have lt: "unat x < 2 ^ 32" using unat_less [of x] by simp
  have "(if 2 ^ 31 \<le> unat x then 2 ^ 31 else 0) + (unat x div 2 ^ 23 mod 2 ^ 8 * 2 ^ 23 + unat x mod 2 ^ 23)
    = unat x"
  proof -
    have "unat x div 2 ^ 31 = (if 2 ^ 31 \<le> unat x then 1 else 0)"
      using lt by (auto simp: div_nat_eqI)
    moreover have "unat x div 2 ^ 23 div 2 ^ 8 = unat x div 2 ^ 31"
      by (simp flip: div_mult2_eq)
    moreover have "unat x = unat x div 2 ^ 23 div 2 ^ 8 * 2 ^ 31
        + unat x div 2 ^ 23 mod 2 ^ 8 * 2 ^ 23 + unat x mod 2 ^ 23"
    proof -
      have "n = n div 2 ^ 23 div 2 ^ 8 * 2 ^ 31 + n div 2 ^ 23 mod 2 ^ 8 * 2 ^ 23 + n mod 2 ^ 23"
        for n :: nat
      proof -
        define a where "a = n div 2 ^ 23"
        define b where "b = n mod 2 ^ 23"
        have "n = a * 2 ^ 23 + b" by (simp only: a_def b_def div_mult_mod_eq)
        moreover have "a * 2 ^ 23 = (a div 2 ^ 8 * 2 ^ 8 + a mod 2 ^ 8) * 2 ^ 23"
          by (simp only: div_mult_mod_eq)
        moreover have "(c * 2 ^ 8 + d) * 2 ^ 23 = c * 2 ^ 31 + d * 2 ^ 23" for c d :: nat by simp
        ultimately have "n = a div 2 ^ 8 * 2 ^ 31 + a mod 2 ^ 8 * 2 ^ 23 + b" by (simp only:)
        then show ?thesis by (simp only: a_def b_def)
      qed
      then show ?thesis .
    qed
    ultimately show ?thesis by (cases "2 ^ 31 \<le> unat x") simp_all
  qed
  then show "f32_of_parts (f32_sign x) (f32_exp x * 2 ^ 23 + f32_frac x) = x"
    by (simp only: f32_of_parts_def f32_sign_def f32_exp_def f32_frac_def) simp
qed (simp_all add: f32_exp_def f32_frac_def)

lemma f32_magnitude_exact:
  assumes "m = M \<and> E = 0 \<or> m = 2 ^ 23 + M \<and> 0 < E" and "M < 2 ^ 23" and "E < 255"
  shows "0 < m \<Longrightarrow> max (int (bitlen m) + (int (max E 1) - 150) - int 24) (- 149) \<le> int (max E 1) - 150"
    and "f32_magnitude m (int (max E 1) - 150) = E * 2 ^ 23 + M"
    and "bitlen m \<le> 24"
proof -
  have top: "E * 2 ^ 23 + M \<le> 255 * 2 ^ 23" using assms(2,3) by simp
  show bl: "bitlen m \<le> 24" using assms by (auto intro!: bitlen_le_iff)
  show le: "max (int (bitlen m) + (int (max E 1) - 150) - int 24) (- 149) \<le> int (max E 1) - 150"
    using bl by simp
  show "f32_magnitude m (int (max E 1) - 150) = E * 2 ^ 23 + M"
  proof (cases "E = 0")
    case True
    with assms have m: "m = M" by simp
    then have "bitlen M \<le> 23" using assms(2) by (auto intro!: bitlen_le_iff)
    then have "max (int (bitlen M) + - 149 - 24) (- 149) = - 149" by simp
    with True m top show ?thesis by (simp add: round_magnitude_def Let_def)
  next
    case False
    with assms have m: "m = 2 ^ 23 + M" by simp
    then have "bitlen m = Suc 23" using assms(2) by (intro bitlen_eq) simp_all
    with False have "max (int (bitlen m) + (int (max E 1) - 150) - 24) (- 149) = int E - 150" by simp
    moreover have "nat (int E - 150 - - 149) = E - 1" by simp
    moreover have "(E - 1) * 2 ^ 23 + m = E * 2 ^ 23 + M" using False m by (cases E) simp_all
    ultimately show ?thesis using False m top
      by (simp add: round_magnitude_def Let_def max_def)
  qed
qed

lemma f64_of_f32_finite:
  assumes "0 < m" and "bitlen m \<le> 24" and "- 149 \<le> e" and "e \<le> 104"
    and "max (int (bitlen m) + e - int 24) (- 149) \<le> e"
  shows "f64_as_f32 (f64_of_parts s (f64_magnitude m e)) = f32_of_parts s (f32_magnitude m e)"
proof -
  define k where "k = nat (int (bitlen m) + e + 1021)"
  define w where "w = m * 2 ^ (53 - bitlen m)"
  have "0 < bitlen m" using assms(1) by (simp add: bitlen.simps [of m])
  have "w < 2 ^ bitlen m * 2 ^ (53 - bitlen m)" unfolding w_def using bitlen_upper by simp
  also have "\<dots> = 2 ^ 53" using assms(2) by (simp flip: power_add)
  finally have hi: "w < 2 ^ 53" .
  have "2 ^ (bitlen m - 1) * 2 ^ (53 - bitlen m) \<le> w"
    unfolding w_def using bitlen_lower [OF assms(1)] by simp
  moreover have "2 ^ (bitlen m - 1) * 2 ^ (53 - bitlen m) = (2::nat) ^ 52"
    using assms(2) \<open>0 < bitlen m\<close> by (simp flip: power_add)
  ultimately have lo: "2 ^ 52 \<le> w" by simp
  have "f64_magnitude m e = k * 2 ^ 52 + w"
    unfolding k_def w_def by (rule f64_magnitude_exact) (use assms in auto)
  also have "\<dots> = Suc k * 2 ^ 52 + (w - 2 ^ 52)" using lo by simp
  finally have mag: "f64_magnitude m e = Suc k * 2 ^ 52 + (w - 2 ^ 52)" .
  have k: "Suc k < 2047" using assms by (simp add: k_def)
  then have k11: "Suc k < 2 ^ 11" by simp
  have wl: "w - 2 ^ 52 < 2 ^ 52" using hi by simp
  have e: "int (Suc k) - 1075 = e - int (53 - bitlen m)" using assms(2,3) by (simp add: k_def)
  have "f32_magnitude w (e - int (53 - bitlen m)) = f32_magnitude m e"
    unfolding w_def by (rule round_magnitude_scale [OF assms(1)]) (use assms(5) in simp)
  moreover have "2 ^ 52 + (w - 2 ^ 52) = w" using lo by simp
  ultimately show ?thesis using k
    by (simp only: f64_as_f32_def mag f64_parts [OF k11 wl] e) simp
qed

text \<open>
  Widening a float and narrowing it again is the identity on every value that is not NaN, zeros,
  subnormals and infinities included.
\<close>

lemma f32_narrow_widened:
  assumes "\<not> f32_is_nan x"
  shows "f64_as_f32 (f64_from_f32 x) = x"
proof (cases "f32_exp x = 255")
  case True
  with assms have zero: "f32_frac x = 0" by (simp add: f32_is_nan_def)
  have "f64_from_f32 x = f64_of_parts (f32_sign x) (2047 * 2 ^ 52 + 0)"
    by (simp only: f64_from_f32_def True zero) simp
  then have "f64_as_f32 (f64_from_f32 x) = f32_of_parts (f32_sign x) (255 * 2 ^ 23)"
    using f64_parts [of 2047 0 "f32_sign x"] by (simp only: f64_as_f32_def) simp
  also have "\<dots> = x" using f32_split(1) [of x] by (simp only: True zero add_0_right)
  finally show ?thesis .
next
  case False
  define E where "E = f32_exp x"
  define m where "m = (if E = 0 then f32_frac x else 2 ^ 23 + f32_frac x)"
  define e where "e = int (max E 1) - 150"
  have E: "E < 255" using False f32_split(2) [of x] by (simp add: E_def)
  have "m = f32_frac x \<and> E = 0 \<or> m = 2 ^ 23 + f32_frac x \<and> 0 < E" by (simp add: m_def)
  note ex = f32_magnitude_exact [OF this f32_split(3) E, folded e_def]
  have wide: "f64_from_f32 x = f64_of_parts (f32_sign x) (f64_magnitude m e)"
    using False by (cases "E = 0") (simp_all add: f64_from_f32_def m_def e_def max_absorb1 flip: E_def)
  show ?thesis
  proof (cases "m = 0")
    case True
    then have z: "E = 0" "f32_frac x = 0" by (auto simp: m_def split: if_splits)
    have "f64_as_f32 (f64_of_parts (f32_sign x) (0 * 2 ^ 52 + 0)) = f32_of_parts (f32_sign x) 0"
      using f64_parts [of 0 0 "f32_sign x"] by (simp only: f64_as_f32_def) (simp add: round_magnitude_def)
    with wide True f32_split(1) [of x] z show ?thesis by (simp add: round_magnitude_def E_def)
  next
    case False
    have "f64_as_f32 (f64_from_f32 x) = f32_of_parts (f32_sign x) (f32_magnitude m e)"
      unfolding wide by (rule f64_of_f32_finite) (use False ex E in \<open>auto simp: e_def\<close>)
    also have "\<dots> = x" using f32_split(1) [of x] by (simp only: ex(2) E_def)
    finally show ?thesis .
  qed
qed

end
