(* ===== verification/Modbus_Types.thy ===== *)
theory Modbus_Types
  imports Bridge Core_Net Rust_Float
begin

text \<open>
  The data model of the Modbus adapter (\<open>ferredge-proto-modbus\<close>): endpoint settings and the retry
  policy (\<open>endpoint.rs\<close>), resource attributes (\<open>attributes.rs\<close>), requests, responses, parser
  seeds, decoders and native plans (\<open>types.rs\<close>), and the third-party \<open>rmodbus\<close> client, which is
  a parameter of the model.
\<close>

section \<open>Wire framing and the rmodbus client\<close>

datatype modbus_proto = TcpUdp | Rtu | Ascii

text \<open>The error kinds of \<open>rmodbus\<close> that the adapter names; every other kind carries its name.\<close>

datatype rmodbus_error = OOB | FrameBroken | FrameCRCError | Utf8Error | OtherRmodbusError string

text \<open>
  The functions of \<open>rmodbus\<close> that the adapter calls.  A generator takes the request object and the
  output buffer it appends to and returns both; a parser starts from an empty output vector.
\<close>

record 'q rmodbus =
  rm_new :: "u8 \<Rightarrow> modbus_proto \<Rightarrow> 'q"
  rm_get_coils :: "'q \<Rightarrow> u16 \<Rightarrow> u16 \<Rightarrow> bytes \<Rightarrow> rmodbus_error + 'q \<times> bytes"
  rm_get_discretes :: "'q \<Rightarrow> u16 \<Rightarrow> u16 \<Rightarrow> bytes \<Rightarrow> rmodbus_error + 'q \<times> bytes"
  rm_get_holdings :: "'q \<Rightarrow> u16 \<Rightarrow> u16 \<Rightarrow> bytes \<Rightarrow> rmodbus_error + 'q \<times> bytes"
  rm_get_inputs :: "'q \<Rightarrow> u16 \<Rightarrow> u16 \<Rightarrow> bytes \<Rightarrow> rmodbus_error + 'q \<times> bytes"
  rm_set_coil :: "'q \<Rightarrow> u16 \<Rightarrow> bool \<Rightarrow> bytes \<Rightarrow> rmodbus_error + 'q \<times> bytes"
  rm_set_holding :: "'q \<Rightarrow> u16 \<Rightarrow> u16 \<Rightarrow> bytes \<Rightarrow> rmodbus_error + 'q \<times> bytes"
  rm_set_coils_bulk :: "'q \<Rightarrow> u16 \<Rightarrow> bytes \<Rightarrow> bytes \<Rightarrow> rmodbus_error + 'q \<times> bytes"
  rm_set_holdings_bulk :: "'q \<Rightarrow> u16 \<Rightarrow> u16 list \<Rightarrow> bytes \<Rightarrow> rmodbus_error + 'q \<times> bytes"
  rm_set_holdings_bulk_from_slice :: "'q \<Rightarrow> u16 \<Rightarrow> bytes \<Rightarrow> bytes \<Rightarrow> rmodbus_error + 'q \<times> bytes"
  rm_set_holdings_string :: "'q \<Rightarrow> u16 \<Rightarrow> string \<Rightarrow> bytes \<Rightarrow> rmodbus_error + 'q \<times> bytes"
  rm_parse_ok :: "'q \<Rightarrow> bytes \<Rightarrow> rmodbus_error + unit"
  rm_parse_bool_u8 :: "'q \<Rightarrow> bytes \<Rightarrow> rmodbus_error + bytes"
  rm_parse_u16 :: "'q \<Rightarrow> bytes \<Rightarrow> rmodbus_error + u16 list"
  rm_parse_i16 :: "'q \<Rightarrow> bytes \<Rightarrow> rmodbus_error + i16 list"
  rm_parse_u32_be :: "'q \<Rightarrow> bytes \<Rightarrow> rmodbus_error + u32 list"
  rm_parse_u32_le :: "'q \<Rightarrow> bytes \<Rightarrow> rmodbus_error + u32 list"
  rm_parse_i32_be :: "'q \<Rightarrow> bytes \<Rightarrow> rmodbus_error + i32 list"
  rm_parse_i32_le :: "'q \<Rightarrow> bytes \<Rightarrow> rmodbus_error + i32 list"
  rm_parse_f32_be :: "'q \<Rightarrow> bytes \<Rightarrow> rmodbus_error + f32 list"
  rm_parse_f32_le :: "'q \<Rightarrow> bytes \<Rightarrow> rmodbus_error + f32 list"
  rm_generate_ascii_frame :: "bytes \<Rightarrow> bytes \<Rightarrow> rmodbus_error + bytes"
  rm_parse_ascii_frame :: "bytes \<Rightarrow> nat \<Rightarrow> bytes \<Rightarrow> u8 \<Rightarrow> rmodbus_error + u8 \<times> bytes"
  rm_guess_response_frame_len :: "bytes \<Rightarrow> modbus_proto \<Rightarrow> rmodbus_error + u8"
  rm_error_debug :: "rmodbus_error \<Rightarrow> string"

section \<open>Endpoints and the retry policy\<close>

record modbus_reconnect_config =
  mr_enabled :: bool
  mr_initial_delay :: "duration option"
  mr_max_delay :: "duration option"
  mr_strategy :: backoff_strategy
  mr_multiplier :: u32
  mr_max_attempts :: u32
  mr_retry_writes :: bool

definition modbus_reconnect_config_default :: modbus_reconnect_config where
  "modbus_reconnect_config_default =
     \<lparr> mr_enabled = True, mr_initial_delay = None, mr_max_delay = None, mr_strategy = Fixed,
       mr_multiplier = 2, mr_max_attempts = 0, mr_retry_writes = False \<rparr>"

definition modbus_allows_attempt :: "modbus_reconnect_config \<Rightarrow> u32 \<Rightarrow> bool" where
  "modbus_allows_attempt c attempt \<longleftrightarrow> mr_enabled c \<and> attempt \<le> mr_max_attempts c"

text \<open>
  The loop over \<open>1..attempt\<close>, run \<open>n\<close> more times, on \<open>u128\<close> milliseconds with its early exit.
\<close>

fun modbus_backoff_loop :: "nat \<Rightarrow> nat \<Rightarrow> nat \<Rightarrow> nat \<Rightarrow> nat" where
  "modbus_backoff_loop multiplier max_millis 0 millis = millis"
| "modbus_backoff_loop multiplier max_millis (Suc n) millis =
     (let millis' = min (millis * multiplier) (2 ^ 128 - 1) in
      if max_millis \<le> millis' then max_millis
      else modbus_backoff_loop multiplier max_millis n millis')"

definition modbus_delay_for_attempt :: "modbus_reconnect_config \<Rightarrow> u32 \<Rightarrow> duration option" where
  "modbus_delay_for_attempt c attempt =
     (case mr_initial_delay c of
        None \<Rightarrow> None
      | Some initial_delay \<Rightarrow>
          if attempt \<le> 1 then Some initial_delay
          else
            let max_delay = unwrap_or (mr_max_delay c) initial_delay in
            (case mr_strategy c of
               Fixed \<Rightarrow> Some (min initial_delay max_delay)
             | Exponential \<Rightarrow>
                 let multiplier = unat (max (mr_multiplier c) 1);
                     millis = max (duration_as_millis initial_delay) 1;
                     max_millis = max (duration_as_millis max_delay) 1;
                     millis = modbus_backoff_loop multiplier max_millis (unat attempt - 1) millis
                 in Some (duration_from_millis (min millis (2 ^ 64 - 1)))))"

record modbus_client_options =
  mo_unit_id :: u8
  mo_request_timeout :: "duration option"
  mo_persistent_session :: bool
  mo_reconnect :: modbus_reconnect_config

definition modbus_client_options_default :: modbus_client_options where
  "modbus_client_options_default =
     \<lparr> mo_unit_id = 1, mo_request_timeout = None, mo_persistent_session = False,
       mo_reconnect = modbus_reconnect_config_default \<rparr>"

record modbus_tcp_endpoint_config =
  mte_addr :: string
  mte_port :: u16
  mte_options :: modbus_client_options

record modbus_rtu_over_tcp_endpoint_config =
  mrt_addr :: string
  mrt_port :: u16
  mrt_options :: modbus_client_options

record modbus_rtu_endpoint_config =
  mru_serial :: serial_port_config
  mru_options :: modbus_client_options

record modbus_ascii_endpoint_config =
  mas_serial :: serial_port_config
  mas_options :: modbus_client_options

record modbus_udp_endpoint_config =
  mud_addr :: string
  mud_port :: u16
  mud_options :: modbus_client_options

datatype modbus_endpoint =
    EpTcp modbus_tcp_endpoint_config
  | EpRtuOverTcp modbus_rtu_over_tcp_endpoint_config
  | EpRtu modbus_rtu_endpoint_config
  | EpAscii modbus_ascii_endpoint_config
  | EpUdp modbus_udp_endpoint_config

fun endpoint_options :: "modbus_endpoint \<Rightarrow> modbus_client_options" where
  "endpoint_options (EpTcp config) = mte_options config"
| "endpoint_options (EpRtuOverTcp config) = mrt_options config"
| "endpoint_options (EpRtu config) = mru_options config"
| "endpoint_options (EpAscii config) = mas_options config"
| "endpoint_options (EpUdp config) = mud_options config"

fun endpoint_proto :: "modbus_endpoint \<Rightarrow> modbus_proto" where
  "endpoint_proto (EpTcp _) = TcpUdp"
| "endpoint_proto (EpUdp _) = TcpUdp"
| "endpoint_proto (EpRtuOverTcp _) = Rtu"
| "endpoint_proto (EpRtu _) = Rtu"
| "endpoint_proto (EpAscii _) = Ascii"

definition modbus_endpoint_protocol :: "modbus_endpoint \<Rightarrow> protocol_id" where
  "modbus_endpoint_protocol e = MODBUS"

section \<open>Resources\<close>

datatype modbus_register_kind = Coil | DiscreteInput | HoldingRegister | InputRegister

datatype modbus_value_codec =
    CodecBool | CodecBits | CodecU16 | CodecI16 | CodecU32Be | CodecU32Le | CodecI32Be
  | CodecI32Le | CodecF32Be | CodecF32Le | CodecBytes | CodecUtf8String

record modbus_resource_attributes =
  ma_address :: u16
  ma_register_kind :: modbus_register_kind
  ma_codec :: modbus_value_codec
  ma_quantity :: "u16 option"
  ma_description :: "string option"

type_synonym modbus_device = "(modbus_resource_attributes, modbus_endpoint) device"

section \<open>Requests, responses and plans\<close>

datatype modbus_parser_seed =
    ReadCoils u16 u16
  | ReadDiscretes u16 u16
  | ReadHoldings u16 u16
  | ReadInputs u16 u16
  | WriteSingleCoil u16 bool
  | WriteSingleHolding u16 u16
  | WriteMultipleCoils u16 bytes
  | WriteMultipleHoldings u16 "u16 list"
  | WriteMultipleHoldingsBytes u16 bytes
  | WriteString u16 string

datatype modbus_response_decoder =
    DecAck | DecBool | DecBits u16 | DecU16 | DecI16 | DecU32Be | DecU32Le | DecI32Be | DecI32Le
  | DecF32Be | DecF32Le | DecBytes | DecUtf8String

record modbus_request =
  mq_resource :: string
  mq_is_write :: bool
  mq_frame :: bytes
  mq_proto :: modbus_proto
  mq_unit_id :: u8
  mq_parser_seed :: modbus_parser_seed
  mq_decoder :: modbus_response_decoder
  mq_timeout :: "duration option"

record modbus_response =
  ms_frame :: bytes
  ms_proto :: modbus_proto
  ms_unit_id :: u8
  ms_parser_seed :: modbus_parser_seed
  ms_decoder :: modbus_response_decoder

datatype modbus_command_conversion_error =
    ModbusUnsupportedIntent
  | ModbusUnknownResource string
  | ModbusInvalidResource string
  | ModbusInvalidPayload string
  | ModbusUnsupportedWrite string
  | ModbusBridge bridge_planner_error
  | ModbusInvalidBridgeMessage

fun modbus_error_str :: "modbus_command_conversion_error \<Rightarrow> string" where
  "modbus_error_str ModbusUnsupportedIntent = ''unsupported intent for Modbus driver''"
| "modbus_error_str (ModbusUnknownResource r) =
     ''resource '' @ r @ '' not found for Modbus driver''"
| "modbus_error_str (ModbusInvalidResource d) = ''invalid Modbus resource: '' @ d"
| "modbus_error_str (ModbusInvalidPayload d) = ''invalid Modbus payload: '' @ d"
| "modbus_error_str (ModbusUnsupportedWrite r) =
     ''resource '' @ r @ '' is not writable via Modbus''"
| "modbus_error_str (ModbusBridge e) = ''invalid bridge request: '' @ bridge_planner_error_str e"
| "modbus_error_str ModbusInvalidBridgeMessage =
     ''bridge message does not describe a Modbus register request''"

datatype modbus_value =
    MvAck
  | MvBool bool
  | MvBits "bool list"
  | MvU16 "u16 list"
  | MvI16 "i16 list"
  | MvU32 "u32 list"
  | MvI32 "i32 list"
  | MvF32 "f32 list"
  | MvBytes bytes
  | MvUtf8String string

record modbus_native_plan =
  mp_resource :: string
  mp_action :: register_access_action
  mp_payload :: "payload_value option"
  mp_register :: addressed_access_meta
  mp_unit_id :: u8

definition modbus_native_plan_into_owned :: "modbus_native_plan \<Rightarrow> modbus_native_plan" where
  "modbus_native_plan_into_owned p =
     \<lparr> mp_resource = cow_str_into_owned (mp_resource p),
       mp_action = mp_action p,
       mp_payload = map_option payload_into_owned (mp_payload p),
       mp_register = mp_register p,
       mp_unit_id = mp_unit_id p \<rparr>"

interpretation own_modbus_plan: content_preserving modbus_native_plan_into_owned
  by unfold_locales
    (simp add: modbus_native_plan_into_owned_def owned_simps own_payload.own_option)

section \<open>Properties\<close>

lemma modbus_backoff_loop_closed_form:
  assumes "1 \<le> mult" and "K \<le> 2 ^ 128 - 1" and "d < m \<or> 0 < n"
  shows "min (modbus_backoff_loop mult m n d) K = min (min (d * mult ^ n) m) K"
  using assms(3)
proof (induction n arbitrary: d)
  case 0
  then show ?case by simp
next
  case (Suc n)
  let ?d' = "min (d * mult) (2 ^ 128 - 1)"
  have grow: "d * mult \<le> d * mult * mult ^ n" using assms(1) by simp
  show ?case
  proof (cases "m \<le> ?d'")
    case True
    then have "m \<le> d * mult * mult ^ n" using grow by linarith
    with True show ?thesis by (simp add: mult.assoc)
  next
    case False
    then have IH: "min (modbus_backoff_loop mult m n ?d') K = min (min (?d' * mult ^ n) m) K"
      by (intro Suc.IH) linarith
    show ?thesis
    proof (cases "d * mult \<le> 2 ^ 128 - 1")
      case True
      then have d': "?d' = d * mult" by simp
      show ?thesis
        unfolding modbus_backoff_loop.simps Let_def if_not_P [OF False] IH unfolding d'
        by (simp add: mult.assoc)
    next
      case big: False
      then have d': "?d' = 2 ^ 128 - 1" by simp
      have "?d' \<le> ?d' * mult ^ n" using assms(1) by simp
      then have "K \<le> ?d' * mult ^ n" using assms(2) d' by linarith
      moreover have "K \<le> m" using False assms(2) d' by linarith
      moreover have "K \<le> d * mult * mult ^ n" using big grow assms(2) by linarith
      ultimately show ?thesis
        unfolding modbus_backoff_loop.simps Let_def if_not_P [OF False] IH
        by (simp add: mult.assoc min_absorb2 min_def)
    qed
  qed
qed

text \<open>the Modbus retry delay: without an initial delay there is no wait; the first retry waits
  the initial delay, whatever the maximum; later retries are capped by the maximum (the initial
  delay when none is set), the exponential strategy waiting
  \<open>max initial 1 * max multiplier 1 ^ (n - 1)\<close> milliseconds before the cap; neither saturation
  nor the early exit of the loop shows.\<close>

theorem modbus_delay_closed_form:
  "modbus_delay_for_attempt c attempt =
     map_option (\<lambda>initial.
       let cap = unwrap_or (mr_max_delay c) initial in
       if attempt \<le> 1 then initial
       else if mr_strategy c = Fixed then min initial cap
       else duration_from_millis
              (min (min (max (duration_as_millis initial) 1 *
                           max (unat (mr_multiplier c)) 1 ^ (unat attempt - 1))
                        (max (duration_as_millis cap) 1))
                   (2 ^ 64 - 1)))
       (mr_initial_delay c)"
proof (cases "mr_initial_delay c")
  case None
  then show ?thesis by (simp add: modbus_delay_for_attempt_def)
next
  case (Some initial)
  show ?thesis
  proof (cases "attempt \<le> 1 \<or> mr_strategy c = Fixed")
    case True
    with Some show ?thesis by (auto simp: modbus_delay_for_attempt_def Let_def)
  next
    case False
    then have "0 < unat attempt - 1" by (simp add: word_le_nat_alt)
    with False Some show ?thesis
      by (cases "mr_strategy c")
        (simp_all add: modbus_delay_for_attempt_def Let_def unat_max modbus_backoff_loop_closed_form)
  qed
qed

end
