(* ===== verification/Modbus_Codec.thy ===== *)
theory Modbus_Codec
  imports Modbus_Types
begin

text \<open>
  Response decoding of the Modbus adapter (\<open>codec.rs\<close>): the parser rebuilt from a parser seed,
  the decoders of response frames, the mapping of Modbus values to payload values, and the ASCII
  wire framing around \<open>rmodbus\<close>.
\<close>

section \<open>Errors and wire frames\<close>

definition map_rmodbus_error :: "'q rmodbus \<Rightarrow> rmodbus_error \<Rightarrow> string" where
  "map_rmodbus_error lib e = ''rmodbus error: '' @ rm_error_debug lib e"

definition map_rmodbus_decode_error ::
  "'q rmodbus \<Rightarrow> rmodbus_error \<Rightarrow> modbus_command_conversion_error" where
  "map_rmodbus_decode_error lib e = ModbusInvalidPayload (map_rmodbus_error lib e)"

definition encode_wire_frame :: "'q rmodbus \<Rightarrow> modbus_proto \<Rightarrow> bytes \<Rightarrow> rmodbus_error + bytes" where
  "encode_wire_frame lib proto binary_frame =
     (if proto = Ascii then rm_generate_ascii_frame lib binary_frame [] else Inr binary_frame)"

definition decode_ascii_wire_frame :: "'q rmodbus \<Rightarrow> bytes \<Rightarrow> string + bytes" where
  "decode_ascii_wire_frame lib frame =
     and_then (map_err (map_rmodbus_error lib)
                 (rm_parse_ascii_frame lib frame (length frame) (replicate 256 0) 0))
       (\<lambda>(parsed, buf). Inr (take (unat parsed) buf))"

definition build_modbus_response :: "modbus_request \<Rightarrow> bytes \<Rightarrow> string + modbus_response" where
  "build_modbus_response request raw_frame =
     Inr \<lparr> ms_frame = raw_frame, ms_proto = mq_proto request, ms_unit_id = mq_unit_id request,
           ms_parser_seed = mq_parser_seed request, ms_decoder = mq_decoder request \<rparr>"

section \<open>The parser of a response\<close>

fun run_seed ::
  "'q rmodbus \<Rightarrow> 'q \<Rightarrow> modbus_parser_seed \<Rightarrow> bytes \<Rightarrow> rmodbus_error + 'q \<times> bytes" where
  "run_seed lib q (ReadCoils addr quantity) buf = rm_get_coils lib q addr quantity buf"
| "run_seed lib q (ReadDiscretes addr quantity) buf = rm_get_discretes lib q addr quantity buf"
| "run_seed lib q (ReadHoldings addr quantity) buf = rm_get_holdings lib q addr quantity buf"
| "run_seed lib q (ReadInputs addr quantity) buf = rm_get_inputs lib q addr quantity buf"
| "run_seed lib q (WriteSingleCoil addr v) buf = rm_set_coil lib q addr v buf"
| "run_seed lib q (WriteSingleHolding addr v) buf = rm_set_holding lib q addr v buf"
| "run_seed lib q (WriteMultipleCoils addr vs) buf = rm_set_coils_bulk lib q addr vs buf"
| "run_seed lib q (WriteMultipleHoldings addr vs) buf = rm_set_holdings_bulk lib q addr vs buf"
| "run_seed lib q (WriteMultipleHoldingsBytes addr vs) buf =
     rm_set_holdings_bulk_from_slice lib q addr vs buf"
| "run_seed lib q (WriteString addr v) buf = rm_set_holdings_string lib q addr v buf"

definition make_parser ::
  "'q rmodbus \<Rightarrow> modbus_proto \<Rightarrow> u8 \<Rightarrow> modbus_parser_seed \<Rightarrow>
   modbus_command_conversion_error + 'q" where
  "make_parser lib proto unit_id seed =
     map_ok fst (map_err (map_rmodbus_decode_error lib)
       (run_seed lib (rm_new lib unit_id proto) seed []))"

section \<open>Decoding\<close>

text \<open>\<open>rposition\<close> from the end: everything up to the last byte that is not NUL.\<close>

definition trim_trailing_nuls :: "bytes \<Rightarrow> bytes" where
  "trim_trailing_nuls b =
     (let end = unwrap_or (map_option (\<lambda>i. length b - 1 - i + 1) (position (\<lambda>c. c \<noteq> 0) (rev b))) 0
      in take end b)"

definition response_data_slice ::
  "modbus_proto \<Rightarrow> bytes \<Rightarrow> modbus_command_conversion_error + bytes" where
  "response_data_slice proto frame =
     (let (count_index, data_index) = (case proto of TcpUdp \<Rightarrow> (8, 9) | Rtu \<Rightarrow> (2, 3) | Ascii \<Rightarrow> (2, 3))
      in and_then
           (ok_or (ModbusInvalidPayload ''response frame shorter than byte count header'')
              (if count_index < length frame then Some (frame ! count_index) else None)) (\<lambda>byte_count.
         and_then
           (ok_or (ModbusInvalidPayload ''response byte count overflow'')
              (checked_add_usize data_index (unat byte_count))) (\<lambda>data_end.
         if length frame < data_end
         then Inl (ModbusInvalidPayload ''response frame shorter than declared payload'')
         else Inr (take (data_end - data_index) (drop data_index frame)))))"

definition decode_modbus_value ::
  "'q rmodbus \<Rightarrow> modbus_proto \<Rightarrow> u8 \<Rightarrow> modbus_parser_seed \<Rightarrow> modbus_response_decoder \<Rightarrow> bytes \<Rightarrow>
   modbus_command_conversion_error + modbus_value" where
  "decode_modbus_value lib proto unit_id seed decoder frame =
     and_then (make_parser lib proto unit_id seed) (\<lambda>parser.
       (case decoder of
          DecAck \<Rightarrow>
            map_err (map_rmodbus_decode_error lib) (map_ok (\<lambda>_. MvAck) (rm_parse_ok lib parser frame))
        | DecBool \<Rightarrow>
            and_then (map_err (map_rmodbus_decode_error lib) (rm_parse_bool_u8 lib parser frame))
              (\<lambda>values. Inr (MvBool ((case values of [] \<Rightarrow> 0 | v # _ \<Rightarrow> v) \<noteq> 0)))
        | DecBits _ \<Rightarrow>
            and_then (map_err (map_rmodbus_decode_error lib) (rm_parse_bool_u8 lib parser frame))
              (\<lambda>values. Inr (MvBits (map (\<lambda>v. v \<noteq> 0) values)))
        | DecU16 \<Rightarrow> map_ok MvU16 (map_err (map_rmodbus_decode_error lib) (rm_parse_u16 lib parser frame))
        | DecI16 \<Rightarrow> map_ok MvI16 (map_err (map_rmodbus_decode_error lib) (rm_parse_i16 lib parser frame))
        | DecU32Be \<Rightarrow> map_ok MvU32 (map_err (map_rmodbus_decode_error lib) (rm_parse_u32_be lib parser frame))
        | DecU32Le \<Rightarrow> map_ok MvU32 (map_err (map_rmodbus_decode_error lib) (rm_parse_u32_le lib parser frame))
        | DecI32Be \<Rightarrow> map_ok MvI32 (map_err (map_rmodbus_decode_error lib) (rm_parse_i32_be lib parser frame))
        | DecI32Le \<Rightarrow> map_ok MvI32 (map_err (map_rmodbus_decode_error lib) (rm_parse_i32_le lib parser frame))
        | DecF32Be \<Rightarrow> map_ok MvF32 (map_err (map_rmodbus_decode_error lib) (rm_parse_f32_be lib parser frame))
        | DecF32Le \<Rightarrow> map_ok MvF32 (map_err (map_rmodbus_decode_error lib) (rm_parse_f32_le lib parser frame))
        | DecBytes \<Rightarrow> map_ok MvBytes (response_data_slice proto frame)
        | DecUtf8String \<Rightarrow>
            and_then (map_ok trim_trailing_nuls (response_data_slice proto frame)) (\<lambda>b.
              (case from_utf8 b of
                 Some s \<Rightarrow> Inr (MvUtf8String s)
               | None \<Rightarrow> Inl (ModbusInvalidPayload ''string payload must be valid utf8'')))))"

definition one_or_list :: "'v list \<Rightarrow> ('v \<Rightarrow> payload_value) \<Rightarrow> payload_value" where
  "one_or_list values f = (case values of [v] \<Rightarrow> f v | _ \<Rightarrow> PList (map f values))"

definition one_or_list_u16 :: "u16 list \<Rightarrow> payload_value" where
  "one_or_list_u16 values = one_or_list values (\<lambda>v. PU64 (ucast v))"

definition one_or_list_i16 :: "i16 list \<Rightarrow> payload_value" where
  "one_or_list_i16 values = one_or_list values (\<lambda>v. PI64 (scast v))"

definition one_or_list_u32 :: "u32 list \<Rightarrow> payload_value" where
  "one_or_list_u32 values = one_or_list values (\<lambda>v. PU64 (ucast v))"

definition one_or_list_i32 :: "i32 list \<Rightarrow> payload_value" where
  "one_or_list_i32 values = one_or_list values (\<lambda>v. PI64 (scast v))"

definition one_or_list_f32 :: "f32 list \<Rightarrow> payload_value" where
  "one_or_list_f32 values = one_or_list values (\<lambda>v. PF64 (f64_from_f32 v))"

fun payload_value_from_modbus_value :: "modbus_value \<Rightarrow> payload_value" where
  "payload_value_from_modbus_value MvAck = PNull"
| "payload_value_from_modbus_value (MvBool v) = PBool v"
| "payload_value_from_modbus_value (MvBits vs) = PList (map PBool vs)"
| "payload_value_from_modbus_value (MvU16 vs) = one_or_list_u16 vs"
| "payload_value_from_modbus_value (MvI16 vs) = one_or_list_i16 vs"
| "payload_value_from_modbus_value (MvU32 vs) = one_or_list_u32 vs"
| "payload_value_from_modbus_value (MvI32 vs) = one_or_list_i32 vs"
| "payload_value_from_modbus_value (MvF32 vs) = one_or_list_f32 vs"
| "payload_value_from_modbus_value (MvBytes b) = PBytes b"
| "payload_value_from_modbus_value (MvUtf8String s) = PString s"

definition decode_modbus_response ::
  "'q rmodbus \<Rightarrow> modbus_request \<Rightarrow> bytes \<Rightarrow> modbus_command_conversion_error + payload_value" where
  "decode_modbus_response lib request frame =
     map_ok payload_value_from_modbus_value
       (decode_modbus_value lib (mq_proto request) (mq_unit_id request) (mq_parser_seed request)
          (mq_decoder request) frame)"

definition modbus_response_payload ::
  "'q rmodbus \<Rightarrow> modbus_response \<Rightarrow> modbus_command_conversion_error + payload_value" where
  "modbus_response_payload lib response =
     map_ok payload_value_from_modbus_value
       (decode_modbus_value lib (ms_proto response) (ms_unit_id response)
          (ms_parser_seed response) (ms_decoder response) (ms_frame response))"

definition modbus_response_into_payload ::
  "'q rmodbus \<Rightarrow> modbus_response \<Rightarrow> modbus_command_conversion_error + payload_value" where
  "modbus_response_into_payload lib response =
     map_ok payload_into_owned (modbus_response_payload lib response)"

section \<open>Lemmas\<close>

lemma trim_trailing_nuls_snoc:
  "trim_trailing_nuls (b @ [c]) = (if c = 0 then trim_trailing_nuls b else b @ [c])"
proof (cases "position (\<lambda>c. c \<noteq> 0) (rev b)")
  case None
  then show ?thesis by (simp add: trim_trailing_nuls_def Let_def)
next
  case (Some i)
  then have "i < length b" using position_SomeD [OF Some] by simp
  with Some show ?thesis by (simp add: trim_trailing_nuls_def Let_def)
qed

lemma trim_trailing_nuls_Nil [simp]: "trim_trailing_nuls [] = []"
  by (simp add: trim_trailing_nuls_def)

text \<open>The result is the longest prefix that does not end in NUL.\<close>

lemma trim_trailing_nuls_eq:
  "\<exists>n. b = trim_trailing_nuls b @ replicate n 0 \<and>
       (trim_trailing_nuls b = [] \<or> last (trim_trailing_nuls b) \<noteq> 0)"
proof (induction b rule: rev_induct)
  case (snoc c b)
  then obtain n where "b = trim_trailing_nuls b @ replicate n 0"
    "trim_trailing_nuls b = [] \<or> last (trim_trailing_nuls b) \<noteq> 0" by blast
  then show ?case
    by (cases "c = 0")
      (auto simp: trim_trailing_nuls_snoc replicate_append_same [symmetric]
        intro: exI [of _ "Suc n"] exI [of _ 0])
qed simp

lemma trim_trailing_nuls_padded:
  "b = [] \<or> last b \<noteq> 0 \<Longrightarrow> trim_trailing_nuls (b @ replicate n 0) = b"
proof (induction n)
  case 0
  then show ?case by (cases b rule: rev_cases) (simp_all add: trim_trailing_nuls_snoc)
next
  case (Suc n)
  have e: "b @ replicate (Suc n) 0 = (b @ replicate n 0) @ [0]"
    by (simp add: replicate_append_same)
  show ?case unfolding e trim_trailing_nuls_snoc using Suc by simp
qed

text \<open>Where the data of a response starts.\<close>

definition data_index :: "modbus_proto \<Rightarrow> nat" where
  "data_index proto = (if proto = TcpUdp then 9 else 3)"

lemma response_data_slice_eq:
  "response_data_slice proto frame =
     (if length frame < data_index proto
      then Inl (ModbusInvalidPayload ''response frame shorter than byte count header'')
      else if length frame < data_index proto + unat (frame ! (data_index proto - 1))
      then Inl (ModbusInvalidPayload ''response frame shorter than declared payload'')
      else Inr (take (unat (frame ! (data_index proto - 1))) (drop (data_index proto) frame)))"
proof -
  have small: "unat (w :: u8) + 9 < 2 ^ 64" for w using unat_less [of w] by simp
  show ?thesis
    using small [of "frame ! (data_index proto - 1)"]
    by (cases proto) (auto simp: response_data_slice_def data_index_def checked_add_usize_def)
qed

lemma one_or_list_cases:
  "one_or_list vs f = (if length vs = 1 then f (hd vs) else PList (map f vs))"
  by (cases vs rule: remdups_adj.cases) (simp_all add: one_or_list_def)

end
