(* ===== verification/Modbus_Convert.thy ===== *)
theory Modbus_Convert
  imports Modbus_Codec
begin

text \<open>
  Request building of the Modbus adapter: the planners, the bridge conversions and the routed
  results of \<open>types.rs\<close>, and the encoder of \<open>convert.rs\<close> that checks a plan against the device's
  resource map, converts the payload to the register width and builds the frame with \<open>rmodbus\<close>.
\<close>

section \<open>Payloads to Modbus values\<close>

definition decode_payload_bool :: "payload_value \<Rightarrow> modbus_command_conversion_error + bool" where
  "decode_payload_bool payload =
     (case payload of
        PBool v \<Rightarrow> Inr v
      | _ \<Rightarrow> Inl (ModbusInvalidPayload ''bool payload must be a boolean''))"

definition decode_payload_bits ::
  "payload_value \<Rightarrow> modbus_command_conversion_error + bool list" where
  "decode_payload_bits payload =
     (case payload of
        PList vs \<Rightarrow>
          collect_results (\<lambda>v. case v of
              PBool flag \<Rightarrow> Inr flag
            | _ \<Rightarrow> Inl (ModbusInvalidPayload ''bits payload entries must be booleans'')) vs
      | _ \<Rightarrow> Inl (ModbusInvalidPayload ''payload must be a list''))"

text \<open>The 64-bit payload integers are widened to \<open>i128\<close>, here \<open>int\<close>, before the conversion.\<close>

definition decode_numeric_list ::
  "payload_value \<Rightarrow> string \<Rightarrow> (int \<Rightarrow> modbus_command_conversion_error + 'v) \<Rightarrow>
   modbus_command_conversion_error + 'v list" where
  "decode_numeric_list payload scalar_error conv =
     (case payload of
        PI64 v \<Rightarrow> map_ok (\<lambda>v. [v]) (conv (sint v))
      | PU64 v \<Rightarrow> map_ok (\<lambda>v. [v]) (conv (uint v))
      | PList vs \<Rightarrow>
          collect_results (\<lambda>v. case v of
              PI64 v \<Rightarrow> conv (sint v)
            | PU64 v \<Rightarrow> conv (uint v)
            | _ \<Rightarrow> Inl (ModbusInvalidPayload scalar_error)) vs
      | _ \<Rightarrow> Inl (ModbusInvalidPayload scalar_error))"

text \<open>\<open>try_from\<close> into a machine integer: the value must lie in its range.\<close>

definition try_from_int :: "int \<Rightarrow> int \<Rightarrow> string \<Rightarrow> int \<Rightarrow> modbus_command_conversion_error + 'a::len word" where
  "try_from_int lo hi msg v =
     (if lo \<le> v \<and> v \<le> hi then Inr (word_of_int v) else Inl (ModbusInvalidPayload msg))"

definition decode_payload_u16_list ::
  "payload_value \<Rightarrow> modbus_command_conversion_error + u16 list" where
  "decode_payload_u16_list payload =
     decode_numeric_list payload ''u16 payload must be unsigned integer''
       (try_from_int 0 65535 ''u16 payload out of range'')"

definition decode_payload_i16_list ::
  "payload_value \<Rightarrow> modbus_command_conversion_error + i16 list" where
  "decode_payload_i16_list payload =
     decode_numeric_list payload ''i16 payload must be integer''
       (try_from_int (- 32768) 32767 ''i16 payload out of range'')"

definition decode_payload_u32_list ::
  "payload_value \<Rightarrow> modbus_command_conversion_error + u32 list" where
  "decode_payload_u32_list payload =
     decode_numeric_list payload ''u32 payload must be unsigned integer''
       (try_from_int 0 4294967295 ''u32 payload out of range'')"

definition decode_payload_i32_list ::
  "payload_value \<Rightarrow> modbus_command_conversion_error + i32 list" where
  "decode_payload_i32_list payload =
     decode_numeric_list payload ''i32 payload must be integer''
       (try_from_int (- 2147483648) 2147483647 ''i32 payload out of range'')"

definition decode_payload_f32_list ::
  "payload_value \<Rightarrow> modbus_command_conversion_error + f32 list" where
  "decode_payload_f32_list payload =
     (case payload of
        PF64 v \<Rightarrow> Inr [f64_as_f32 v]
      | PI64 v \<Rightarrow> Inr [i64_as_f32 v]
      | PU64 v \<Rightarrow> Inr [u64_as_f32 v]
      | PList vs \<Rightarrow>
          collect_results (\<lambda>v. case v of
              PF64 v \<Rightarrow> Inr (f64_as_f32 v)
            | PI64 v \<Rightarrow> Inr (i64_as_f32 v)
            | PU64 v \<Rightarrow> Inr (u64_as_f32 v)
            | _ \<Rightarrow> Inl (ModbusInvalidPayload ''f32 payload entries must be numeric'')) vs
      | _ \<Rightarrow> Inl (ModbusInvalidPayload ''f32 payload must be numeric''))"

definition decode_bytes_from_payload_value ::
  "payload_value \<Rightarrow> modbus_command_conversion_error + bytes" where
  "decode_bytes_from_payload_value payload =
     (case payload of
        PBytes b \<Rightarrow> Inr b
      | _ \<Rightarrow> Inl (ModbusInvalidPayload ''bytes payload must be binary data''))"

definition decode_payload_string ::
  "payload_value \<Rightarrow> modbus_command_conversion_error + string" where
  "decode_payload_string payload =
     (case payload of
        PString s \<Rightarrow> Inr s
      | _ \<Rightarrow> Inl (ModbusInvalidPayload ''string payload must be utf8 text''))"

definition modbus_value_from_payload ::
  "modbus_resource_attributes \<Rightarrow> payload_value \<Rightarrow> modbus_command_conversion_error + modbus_value" where
  "modbus_value_from_payload attrs payload =
     (case ma_codec attrs of
        CodecBool \<Rightarrow> map_ok MvBool (decode_payload_bool payload)
      | CodecBits \<Rightarrow> map_ok MvBits (decode_payload_bits payload)
      | CodecU16 \<Rightarrow> map_ok MvU16 (decode_payload_u16_list payload)
      | CodecI16 \<Rightarrow> map_ok MvI16 (decode_payload_i16_list payload)
      | CodecU32Be \<Rightarrow> map_ok MvU32 (decode_payload_u32_list payload)
      | CodecU32Le \<Rightarrow> map_ok MvU32 (decode_payload_u32_list payload)
      | CodecI32Be \<Rightarrow> map_ok MvI32 (decode_payload_i32_list payload)
      | CodecI32Le \<Rightarrow> map_ok MvI32 (decode_payload_i32_list payload)
      | CodecF32Be \<Rightarrow> map_ok MvF32 (decode_payload_f32_list payload)
      | CodecF32Le \<Rightarrow> map_ok MvF32 (decode_payload_f32_list payload)
      | CodecBytes \<Rightarrow> map_ok MvBytes (decode_bytes_from_payload_value payload)
      | CodecUtf8String \<Rightarrow> map_ok MvUtf8String (decode_payload_string payload))"

section \<open>Modbus values to registers\<close>

definition decode_bool :: "modbus_value \<Rightarrow> modbus_command_conversion_error + bool" where
  "decode_bool payload =
     (case payload of
        MvBool v \<Rightarrow> Inr v
      | _ \<Rightarrow> Inl (ModbusInvalidPayload ''bool payload must be a boolean''))"

definition decode_bits :: "modbus_value \<Rightarrow> modbus_command_conversion_error + bytes" where
  "decode_bits payload =
     (case payload of
        MvBits vs \<Rightarrow> Inr (map (\<lambda>v. if v then 1 else 0) vs)
      | _ \<Rightarrow> Inl (ModbusInvalidPayload ''bits payload must be a boolean list''))"

definition decode_u16 :: "modbus_value \<Rightarrow> modbus_command_conversion_error + u16" where
  "decode_u16 payload =
     (case payload of
        MvU16 [v] \<Rightarrow> Inr v
      | MvI16 [v] \<Rightarrow> try_from_int 0 65535 ''i16 payload must fit into unsigned u16'' (sint v)
      | _ \<Rightarrow> Inl (ModbusInvalidPayload ''u16 payload must be a single 16-bit value''))"

definition to_be_bytes :: "u32 \<Rightarrow> bytes" where
  "to_be_bytes v = [ucast (drop_bit 24 v), ucast (drop_bit 16 v), ucast (drop_bit 8 v), ucast v]"

definition to_le_bytes :: "u32 \<Rightarrow> bytes" where
  "to_le_bytes v = rev (to_be_bytes v)"

definition u16_from_be_bytes :: "u8 \<Rightarrow> u8 \<Rightarrow> u16" where
  "u16_from_be_bytes a b = or (push_bit 8 (ucast a)) (ucast b)"

definition be_words :: "u32 \<Rightarrow> u16 list" where
  "be_words v =
     (let b = to_be_bytes v
      in [u16_from_be_bytes (b ! 0) (b ! 1), u16_from_be_bytes (b ! 2) (b ! 3)])"

definition le_words :: "u32 \<Rightarrow> u16 list" where
  "le_words v =
     (let b = to_le_bytes v
      in [u16_from_be_bytes (b ! 2) (b ! 3), u16_from_be_bytes (b ! 0) (b ! 1)])"

definition words_from_u32_be :: "modbus_value \<Rightarrow> modbus_command_conversion_error + u16 list" where
  "words_from_u32_be payload =
     (case payload of
        MvU32 vs \<Rightarrow> Inr (concat (map be_words vs))
      | _ \<Rightarrow> Inl (ModbusInvalidPayload ''u32 payload must be numeric''))"

definition words_from_i32_be :: "modbus_value \<Rightarrow> modbus_command_conversion_error + u16 list" where
  "words_from_i32_be payload =
     (case payload of
        MvI32 vs \<Rightarrow> Inr (concat (map be_words vs))
      | _ \<Rightarrow> Inl (ModbusInvalidPayload ''i32 payload must be numeric''))"

definition words_from_f32_be :: "modbus_value \<Rightarrow> modbus_command_conversion_error + u16 list" where
  "words_from_f32_be payload =
     (case payload of
        MvF32 vs \<Rightarrow> Inr (concat (map be_words vs))
      | _ \<Rightarrow> Inl (ModbusInvalidPayload ''f32 payload must be numeric''))"

definition words_from_u32_le :: "modbus_value \<Rightarrow> modbus_command_conversion_error + u16 list" where
  "words_from_u32_le payload =
     (case payload of
        MvU32 vs \<Rightarrow> Inr (concat (map le_words vs))
      | _ \<Rightarrow> Inl (ModbusInvalidPayload ''u32 payload must be numeric''))"

definition words_from_i32_le :: "modbus_value \<Rightarrow> modbus_command_conversion_error + u16 list" where
  "words_from_i32_le payload =
     (case payload of
        MvI32 vs \<Rightarrow> Inr (concat (map le_words vs))
      | _ \<Rightarrow> Inl (ModbusInvalidPayload ''i32 payload must be numeric''))"

definition words_from_f32_le :: "modbus_value \<Rightarrow> modbus_command_conversion_error + u16 list" where
  "words_from_f32_le payload =
     (case payload of
        MvF32 vs \<Rightarrow> Inr (concat (map le_words vs))
      | _ \<Rightarrow> Inl (ModbusInvalidPayload ''f32 payload must be numeric''))"

definition words_from_payload ::
  "modbus_resource_attributes \<Rightarrow> modbus_value \<Rightarrow> modbus_command_conversion_error + u16 list" where
  "words_from_payload attrs payload =
     (case ma_codec attrs of
        CodecU32Be \<Rightarrow> words_from_u32_be payload
      | CodecI32Be \<Rightarrow> words_from_i32_be payload
      | CodecF32Be \<Rightarrow> words_from_f32_be payload
      | CodecU32Le \<Rightarrow> words_from_u32_le payload
      | CodecI32Le \<Rightarrow> words_from_i32_le payload
      | CodecF32Le \<Rightarrow> words_from_f32_le payload
      | _ \<Rightarrow> Inl (ModbusInvalidPayload ''word conversion requires 32-bit codec''))"

definition decode_bytes :: "modbus_value \<Rightarrow> modbus_command_conversion_error + bytes" where
  "decode_bytes payload =
     (case payload of
        MvBytes b \<Rightarrow> Inr b
      | _ \<Rightarrow> Inl (ModbusInvalidPayload ''bytes payload must be binary data''))"

definition decode_string :: "modbus_value \<Rightarrow> modbus_command_conversion_error + string" where
  "decode_string payload =
     (case payload of
        MvUtf8String s \<Rightarrow> Inr s
      | _ \<Rightarrow> Inl (ModbusInvalidPayload ''string payload must be utf8 text''))"

section \<open>Building requests\<close>

definition map_rmodbus_build_error :: "rmodbus_error \<Rightarrow> modbus_command_conversion_error" where
  "map_rmodbus_build_error e =
     ModbusInvalidPayload
       (case e of
          OOB \<Rightarrow> ''out of bounds''
        | FrameBroken \<Rightarrow> ''frame broken''
        | FrameCRCError \<Rightarrow> ''frame crc error''
        | Utf8Error \<Rightarrow> ''utf8 error''
        | _ \<Rightarrow> ''rmodbus error'')"

definition quantity_for_read ::
  "modbus_resource_attributes \<Rightarrow> modbus_command_conversion_error + u16" where
  "quantity_for_read attrs =
     (case ma_quantity attrs of
        Some quantity \<Rightarrow>
          if quantity = 0 then Inl (ModbusInvalidResource ''quantity must be greater than zero'')
          else Inr quantity
      | None \<Rightarrow>
          (if ma_codec attrs \<in> {CodecBool, CodecBits, CodecU16, CodecI16} then Inr 1
           else if ma_codec attrs \<in> {CodecBytes, CodecUtf8String}
           then Inl (ModbusInvalidResource ''quantity is required for raw bytes and string codecs'')
           else Inr 2))"

definition decoder_for_codec :: "modbus_resource_attributes \<Rightarrow> u16 \<Rightarrow> modbus_response_decoder" where
  "decoder_for_codec attrs quantity =
     (case ma_codec attrs of
        CodecBool \<Rightarrow> DecBool
      | CodecBits \<Rightarrow> DecBits quantity
      | CodecU16 \<Rightarrow> DecU16
      | CodecI16 \<Rightarrow> DecI16
      | CodecU32Be \<Rightarrow> DecU32Be
      | CodecU32Le \<Rightarrow> DecU32Le
      | CodecI32Be \<Rightarrow> DecI32Be
      | CodecI32Le \<Rightarrow> DecI32Le
      | CodecF32Be \<Rightarrow> DecF32Be
      | CodecF32Le \<Rightarrow> DecF32Le
      | CodecBytes \<Rightarrow> DecBytes
      | CodecUtf8String \<Rightarrow> DecUtf8String)"

definition validate_bit_codec ::
  "modbus_resource_attributes \<Rightarrow> modbus_command_conversion_error + unit" where
  "validate_bit_codec attrs =
     (if ma_codec attrs = CodecBool \<or> ma_codec attrs = CodecBits then Inr ()
      else Inl (ModbusInvalidResource ''bit resources require Bool or Bits codec''))"

definition validate_register_codec ::
  "modbus_resource_attributes \<Rightarrow> modbus_command_conversion_error + unit" where
  "validate_register_codec attrs =
     (if ma_codec attrs = CodecBool \<or> ma_codec attrs = CodecBits
      then Inl (ModbusInvalidResource ''register resources cannot use Bool or Bits codec'')
      else Inr ())"

text \<open>The match on the register kind: the checked codec, the generated frame and the seed.\<close>

definition build_read_seed ::
  "'q rmodbus \<Rightarrow> modbus_resource_attributes \<Rightarrow> u16 \<Rightarrow> 'q \<Rightarrow>
   modbus_command_conversion_error + modbus_parser_seed \<times> bytes" where
  "build_read_seed lib attrs quantity builder =
     (let addr = ma_address attrs in
      case ma_register_kind attrs of
        Coil \<Rightarrow>
          and_then (validate_bit_codec attrs) (\<lambda>_.
          and_then (map_err map_rmodbus_build_error (rm_get_coils lib builder addr quantity []))
            (\<lambda>(_, frame). Inr (ReadCoils addr quantity, frame)))
      | DiscreteInput \<Rightarrow>
          and_then (validate_bit_codec attrs) (\<lambda>_.
          and_then (map_err map_rmodbus_build_error (rm_get_discretes lib builder addr quantity []))
            (\<lambda>(_, frame). Inr (ReadDiscretes addr quantity, frame)))
      | HoldingRegister \<Rightarrow>
          and_then (validate_register_codec attrs) (\<lambda>_.
          and_then (map_err map_rmodbus_build_error (rm_get_holdings lib builder addr quantity []))
            (\<lambda>(_, frame). Inr (ReadHoldings addr quantity, frame)))
      | InputRegister \<Rightarrow>
          and_then (validate_register_codec attrs) (\<lambda>_.
          and_then (map_err map_rmodbus_build_error (rm_get_inputs lib builder addr quantity []))
            (\<lambda>(_, frame). Inr (ReadInputs addr quantity, frame))))"

definition build_read_request ::
  "'q rmodbus \<Rightarrow> string \<Rightarrow> modbus_resource_attributes \<Rightarrow> modbus_proto \<Rightarrow> modbus_client_options \<Rightarrow>
   modbus_command_conversion_error + modbus_request" where
  "build_read_request lib resource attrs proto options =
     and_then (quantity_for_read attrs) (\<lambda>quantity.
       let builder = rm_new lib (mo_unit_id options) proto
       in and_then (build_read_seed lib attrs quantity builder) (\<lambda>(parser_seed, binary_frame).
         map_ok (\<lambda>wire.
           \<lparr> mq_resource = resource, mq_is_write = False, mq_frame = wire, mq_proto = proto,
             mq_unit_id = mo_unit_id options, mq_parser_seed = parser_seed,
             mq_decoder = decoder_for_codec attrs quantity,
             mq_timeout = mo_request_timeout options \<rparr>)
           (map_err map_rmodbus_build_error (encode_wire_frame lib proto binary_frame))))"

definition build_coil_write_request ::
  "'q rmodbus \<Rightarrow> string \<Rightarrow> modbus_resource_attributes \<Rightarrow> modbus_value \<Rightarrow> 'q \<Rightarrow>
   modbus_command_conversion_error + modbus_parser_seed \<times> bytes" where
  "build_coil_write_request lib resource attrs payload builder =
     (let addr = ma_address attrs in
      case ma_codec attrs of
        CodecBool \<Rightarrow>
          and_then (decode_bool payload) (\<lambda>v.
          and_then (map_err map_rmodbus_build_error (rm_set_coil lib builder addr v []))
            (\<lambda>(_, frame). Inr (WriteSingleCoil addr v, frame)))
      | CodecBits \<Rightarrow>
          and_then (decode_bits payload) (\<lambda>vs.
          and_then (map_err map_rmodbus_build_error (rm_set_coils_bulk lib builder addr vs []))
            (\<lambda>(_, frame). Inr (WriteMultipleCoils addr vs, frame)))
      | _ \<Rightarrow> Inl (ModbusUnsupportedWrite resource))"

definition build_holding_write_request ::
  "'q rmodbus \<Rightarrow> string \<Rightarrow> modbus_resource_attributes \<Rightarrow> modbus_value \<Rightarrow> 'q \<Rightarrow>
   modbus_command_conversion_error + modbus_parser_seed \<times> bytes" where
  "build_holding_write_request lib resource attrs payload builder =
     (let addr = ma_address attrs in
      if ma_codec attrs \<in> {CodecU16, CodecI16} then
        and_then (decode_u16 payload) (\<lambda>v.
        and_then (map_err map_rmodbus_build_error (rm_set_holding lib builder addr v []))
          (\<lambda>(_, frame). Inr (WriteSingleHolding addr v, frame)))
      else if ma_codec attrs = CodecBytes then
        and_then (decode_bytes payload) (\<lambda>vs.
        and_then (map_err map_rmodbus_build_error
                    (rm_set_holdings_bulk_from_slice lib builder addr vs []))
          (\<lambda>(_, frame). Inr (WriteMultipleHoldingsBytes addr vs, frame)))
      else if ma_codec attrs = CodecUtf8String then
        and_then (decode_string payload) (\<lambda>v.
        and_then (map_err map_rmodbus_build_error (rm_set_holdings_string lib builder addr v []))
          (\<lambda>(_, frame). Inr (WriteString addr v, frame)))
      else if ma_codec attrs \<in> {CodecBool, CodecBits} then Inl (ModbusUnsupportedWrite resource)
      else
        and_then (words_from_payload attrs payload) (\<lambda>vs.
        and_then (map_err map_rmodbus_build_error (rm_set_holdings_bulk lib builder addr vs []))
          (\<lambda>(_, frame). Inr (WriteMultipleHoldings addr vs, frame))))"

definition build_write_request ::
  "'q rmodbus \<Rightarrow> string \<Rightarrow> modbus_resource_attributes \<Rightarrow> payload_value \<Rightarrow> modbus_proto \<Rightarrow>
   modbus_client_options \<Rightarrow> modbus_command_conversion_error + modbus_request" where
  "build_write_request lib resource attrs payload proto options =
     and_then (modbus_value_from_payload attrs payload) (\<lambda>payload.
       let builder = rm_new lib (mo_unit_id options) proto
       in and_then
         (case ma_register_kind attrs of
            Coil \<Rightarrow> build_coil_write_request lib resource attrs payload builder
          | HoldingRegister \<Rightarrow> build_holding_write_request lib resource attrs payload builder
          | DiscreteInput \<Rightarrow> Inl (ModbusUnsupportedWrite resource)
          | InputRegister \<Rightarrow> Inl (ModbusUnsupportedWrite resource))
         (\<lambda>(parser_seed, binary_frame).
           map_ok (\<lambda>wire.
             \<lparr> mq_resource = resource, mq_is_write = True, mq_frame = wire, mq_proto = proto,
               mq_unit_id = mo_unit_id options, mq_parser_seed = parser_seed,
               mq_decoder = DecAck, mq_timeout = mo_request_timeout options \<rparr>)
             (map_err map_rmodbus_build_error (encode_wire_frame lib proto binary_frame))))"

definition modbus_encode_ref ::
  "'q rmodbus \<Rightarrow> modbus_device \<Rightarrow> modbus_native_plan \<Rightarrow>
   modbus_command_conversion_error + modbus_request" where
  "modbus_encode_ref lib dvc planned =
     (let proto = endpoint_proto (dev_endpoint dvc);
          options = endpoint_options (dev_endpoint dvc)
      in and_then (ok_or (ModbusUnknownResource (mp_resource planned))
                     (dev_resources dvc (mp_resource planned))) (\<lambda>resource_def.
        let attrs = dr_resource_attributes resource_def in
        (case mp_action planned of
           RARead \<Rightarrow> build_read_request lib (mp_resource planned) attrs proto options
         | RAWrite \<Rightarrow>
             and_then (ok_or ModbusInvalidBridgeMessage (mp_payload planned)) (\<lambda>payload.
               build_write_request lib (mp_resource planned) attrs payload proto options))))"

section \<open>Planning\<close>

definition register_meta :: "modbus_resource_attributes \<Rightarrow> addressed_access_meta" where
  "register_meta attrs =
     addressed_access_meta_new (ucast (ma_address attrs))
       (case ma_register_kind attrs of
          Coil \<Rightarrow> ''coil''
        | DiscreteInput \<Rightarrow> ''discrete-input''
        | HoldingRegister \<Rightarrow> ''holding-register''
        | InputRegister \<Rightarrow> ''input-register'')
       (ma_quantity attrs)"

definition modbus_plan_ref ::
  "modbus_device \<Rightarrow> command \<Rightarrow> modbus_command_conversion_error + modbus_native_plan" where
  "modbus_plan_ref dvc c =
     and_then
       (case cmd_intent c of
          Read resource _ \<Rightarrow> Inr (resource_name_str resource, RARead, None)
        | Write resource payload _ \<Rightarrow>
            Inr (resource_name_str resource, RAWrite, Some (payload_as_borrowed payload))
        | _ \<Rightarrow> Inl ModbusUnsupportedIntent) (\<lambda>(resource, action, payload).
       and_then (ok_or (ModbusUnknownResource resource) (dev_resources dvc resource))
         (\<lambda>resource_def.
           let unit_id = mo_unit_id (endpoint_options (dev_endpoint dvc))
           in Inr \<lparr> mp_resource = resource, mp_action = action, mp_payload = payload,
                    mp_register = register_meta (dr_resource_attributes resource_def),
                    mp_unit_id = unit_id \<rparr>))"

definition modbus_plan_native ::
  "modbus_device \<Rightarrow> command \<Rightarrow> modbus_command_conversion_error + modbus_native_plan" where
  "modbus_plan_native dvc c =
     and_then
       (case cmd_intent c of
          Read resource _ \<Rightarrow> Inr (resource_name_str resource, RARead, None)
        | Write resource payload _ \<Rightarrow> Inr (resource_name_str resource, RAWrite, Some payload)
        | _ \<Rightarrow> Inl ModbusUnsupportedIntent) (\<lambda>(resource, action, payload).
       and_then (ok_or (ModbusUnknownResource resource) (dev_resources dvc resource))
         (\<lambda>resource_def.
           let unit_id = mo_unit_id (endpoint_options (dev_endpoint dvc))
           in Inr \<lparr> mp_resource = resource, mp_action = action, mp_payload = payload,
                    mp_register = register_meta (dr_resource_attributes resource_def),
                    mp_unit_id = unit_id \<rparr>))"

definition modbus_plan_bridge ::
  "modbus_device \<Rightarrow> command \<Rightarrow> modbus_command_conversion_error + bridge_message" where
  "modbus_plan_bridge dvc c =
     (let meta = (\<lambda>resource.
        map_ok (\<lambda>resource_def. register_meta (dr_resource_attributes resource_def))
          (ok_or (ModbusUnknownResource (resource_name_str resource))
             (dev_resources dvc (resource_name_str resource))))
      in and_then
        (case cmd_intent c of
           Read resource _ \<Rightarrow> meta resource
         | Write resource _ _ \<Rightarrow> meta resource
         | _ \<Rightarrow> Inl ModbusUnsupportedIntent) (\<lambda>register.
        map_err ModbusBridge
          (command_to_register_access c register (mo_unit_id (endpoint_options (dev_endpoint dvc))))))"

definition modbus_plan_from_bridge ::
  "bridge_message \<Rightarrow> modbus_command_conversion_error + modbus_native_plan" where
  "modbus_plan_from_bridge message =
     (case message of
        BCommand c \<Rightarrow>
          (case bc_operation c of
             OpRegisterAccess operation \<Rightarrow>
               (case bc_route c of
                  AddressedAccess resource access node_id \<Rightarrow>
                    Inr \<lparr> mp_resource = resource, mp_action = rao_action operation,
                          mp_payload = map_option payload_as_borrowed (bc_payload c),
                          mp_register = access,
                          mp_unit_id = ucast (unwrap_or node_id 1) \<rparr>
                | _ \<Rightarrow> Inl ModbusInvalidBridgeMessage)
           | _ \<Rightarrow> Inl ModbusInvalidBridgeMessage)
      | _ \<Rightarrow> Inl ModbusInvalidBridgeMessage)"

definition modbus_native_request ::
  "'q rmodbus \<Rightarrow> modbus_device \<Rightarrow> command \<Rightarrow> modbus_command_conversion_error + modbus_request" where
  "modbus_native_request lib dvc c = and_then (modbus_plan_ref dvc c) (modbus_encode_ref lib dvc)"

definition modbus_bridge_request ::
  "'q rmodbus \<Rightarrow> modbus_device \<Rightarrow> command \<Rightarrow> modbus_command_conversion_error + modbus_request" where
  "modbus_bridge_request lib dvc c =
     (let meta = (\<lambda>resource.
        map_ok (\<lambda>resource_def. register_meta (dr_resource_attributes resource_def))
          (ok_or (ModbusUnknownResource (resource_name_str resource))
             (dev_resources dvc (resource_name_str resource))))
      in and_then
        (case cmd_intent c of
           Read resource _ \<Rightarrow> meta resource
         | Write resource _ _ \<Rightarrow> meta resource
         | _ \<Rightarrow> Inl ModbusUnsupportedIntent) (\<lambda>register.
        and_then
          (map_err ModbusBridge
            (command_to_register_access c register (mo_unit_id (endpoint_options (dev_endpoint dvc)))))
          (\<lambda>message. and_then (modbus_plan_from_bridge message) (modbus_encode_ref lib dvc))))"

section \<open>Responses\<close>

definition modbus_decoded_to_routed ::
  "'q rmodbus \<Rightarrow> modbus_device \<Rightarrow> command \<Rightarrow> modbus_response \<Rightarrow>
   modbus_command_conversion_error + routed_message" where
  "modbus_decoded_to_routed lib dvc c response =
     and_then
       (case cmd_intent c of
          Read resource _ \<Rightarrow> Inr (resource_name_str resource)
        | Write resource _ _ \<Rightarrow> Inr (resource_name_str resource)
        | _ \<Rightarrow> Inl ModbusUnsupportedIntent) (\<lambda>resource.
       and_then (modbus_response_payload lib response) (\<lambda>payload.
         let result = routed_result_new (endpoint_ref_new (dev_id dvc) MODBUS)
               (command_result_new (cmd_id c) (dev_id dvc) Completed (Some payload) None
                  (map_option correlation_as_borrowed (cmd_correlation c)))
               None;
             corr = opt_or (cr_correlation (rr_result result))
               (Some (correlation_new (cmd_id c) (Some (AResource resource))))
         in Inr (RResult (result\<lparr> rr_result := (rr_result result)\<lparr> cr_correlation := corr \<rparr> \<rparr>))))"

definition modbus_decoded_to_bridge ::
  "'q rmodbus \<Rightarrow> modbus_device \<Rightarrow> command \<Rightarrow> modbus_response \<Rightarrow>
   modbus_command_conversion_error + bridge_message" where
  "modbus_decoded_to_bridge lib dvc c response =
     and_then (modbus_decoded_to_routed lib dvc c response) (\<lambda>routed.
       case routed of RResult result \<Rightarrow> Inr (routed_result_to_bridge result))"

section \<open>Native and bridge requests\<close>

lemma ucast_u8_u32_back [simp]: "ucast (ucast (u :: u8) :: u32) = u"
  by (rule ucast_up_back) simp

lemma modbus_plan_ref_native: "modbus_plan_ref dvc c = modbus_plan_native dvc c"
  by (cases "cmd_intent c") (simp_all add: modbus_plan_ref_def modbus_plan_native_def owned_simps)

text \<open>The bridge message of a planned command, read back as a native plan.\<close>

lemma modbus_plan_from_bridge_register:
  "command_to_register_access c register unit_id = Inr message \<Longrightarrow>
   modbus_plan_from_bridge message =
     (case cmd_intent c of
        Read resource _ \<Rightarrow>
          Inr \<lparr> mp_resource = resource_name_str resource, mp_action = RARead, mp_payload = None,
                mp_register = register, mp_unit_id = unit_id \<rparr>
      | Write resource payload _ \<Rightarrow>
          Inr \<lparr> mp_resource = resource_name_str resource, mp_action = RAWrite,
                mp_payload = Some payload, mp_register = register, mp_unit_id = unit_id \<rparr>
      | _ \<Rightarrow> Inl ModbusInvalidBridgeMessage)"
  by (auto simp: command_to_register_access_def modbus_plan_from_bridge_def
      bridge_register_command_def owned_simps split: intent.splits)

text \<open>C6: the two ways to a Modbus request agree on every device and command, errors included:
  encoding the native plan gives the same request, or the same error, as going through the bridge
  message, and the owned planner gives the plan of the borrowing one.\<close>

theorem modbus_bridge_request_eq_native:
  "modbus_bridge_request lib dvc c = modbus_native_request lib dvc c \<and>
   modbus_plan_native dvc c = modbus_plan_ref dvc c \<and>
   and_then (modbus_plan_bridge dvc c) modbus_plan_from_bridge = modbus_plan_ref dvc c"
proof -
  have reg: "\<exists>m. command_to_register_access c r u = Inr m" if "cmd_intent c = Read n opts" for n opts r u
    using that by (simp add: command_to_register_access_def)
  have reg': "\<exists>m. command_to_register_access c r u = Inr m"
    if "cmd_intent c = Write n p opts" for n p opts r u
    using that by (simp add: command_to_register_access_def)
  show ?thesis
  proof (cases "cmd_intent c")
    case (Read n opts)
    show ?thesis
    proof (cases "dev_resources dvc (resource_name_str n)")
      case None
      with Read show ?thesis
        by (simp add: modbus_bridge_request_def modbus_native_request_def modbus_plan_ref_def
            modbus_plan_bridge_def modbus_plan_native_def)
    next
      case (Some rd)
      obtain m where "command_to_register_access c (register_meta (dr_resource_attributes rd))
          (mo_unit_id (endpoint_options (dev_endpoint dvc))) = Inr m"
        using reg [OF Read] by blast
      with Read Some modbus_plan_from_bridge_register [OF this] show ?thesis
        by (simp add: modbus_bridge_request_def modbus_native_request_def modbus_plan_ref_def
            modbus_plan_bridge_def modbus_plan_native_def)
    qed
  next
    case (Write n p opts)
    show ?thesis
    proof (cases "dev_resources dvc (resource_name_str n)")
      case None
      with Write show ?thesis
        by (simp add: modbus_bridge_request_def modbus_native_request_def modbus_plan_ref_def
            modbus_plan_bridge_def modbus_plan_native_def)
    next
      case (Some rd)
      obtain m where "command_to_register_access c (register_meta (dr_resource_attributes rd))
          (mo_unit_id (endpoint_options (dev_endpoint dvc))) = Inr m"
        using reg' [OF Write] by blast
      with Write Some modbus_plan_from_bridge_register [OF this] show ?thesis
        by (simp add: modbus_bridge_request_def modbus_native_request_def modbus_plan_ref_def
            modbus_plan_bridge_def modbus_plan_native_def owned_simps)
    qed
  qed (simp_all add: modbus_bridge_request_def modbus_native_request_def modbus_plan_ref_def
      modbus_plan_bridge_def modbus_plan_native_def)
qed

section \<open>What a request does\<close>

text \<open>The address space, the direction and the address that a parser seed stands for.\<close>

fun seed_target :: "modbus_parser_seed \<Rightarrow> modbus_register_kind \<times> bool \<times> u16" where
  "seed_target (ReadCoils a _) = (Coil, False, a)"
| "seed_target (ReadDiscretes a _) = (DiscreteInput, False, a)"
| "seed_target (ReadHoldings a _) = (HoldingRegister, False, a)"
| "seed_target (ReadInputs a _) = (InputRegister, False, a)"
| "seed_target (WriteSingleCoil a _) = (Coil, True, a)"
| "seed_target (WriteMultipleCoils a _) = (Coil, True, a)"
| "seed_target (WriteSingleHolding a _) = (HoldingRegister, True, a)"
| "seed_target (WriteMultipleHoldings a _) = (HoldingRegister, True, a)"
| "seed_target (WriteMultipleHoldingsBytes a _) = (HoldingRegister, True, a)"
| "seed_target (WriteString a _) = (HoldingRegister, True, a)"

fun seed_read_quantity :: "modbus_parser_seed \<Rightarrow> u16 option" where
  "seed_read_quantity (ReadCoils _ q) = Some q"
| "seed_read_quantity (ReadDiscretes _ q) = Some q"
| "seed_read_quantity (ReadHoldings _ q) = Some q"
| "seed_read_quantity (ReadInputs _ q) = Some q"
| "seed_read_quantity _ = None"

definition is_bit_codec :: "modbus_value_codec \<Rightarrow> bool" where
  "is_bit_codec codec \<longleftrightarrow> codec = CodecBool \<or> codec = CodecBits"

definition is_bit_kind :: "modbus_register_kind \<Rightarrow> bool" where
  "is_bit_kind kind \<longleftrightarrow> kind = Coil \<or> kind = DiscreteInput"

lemma quantity_for_read_pos: "quantity_for_read attrs = Inr q \<Longrightarrow> 0 < q"
  by (auto simp: quantity_for_read_def word_neq_0_conv split: option.splits if_splits)

lemma build_read_seed_effect:
  assumes "build_read_seed lib attrs n builder = Inr (seed, bin)"
  shows "\<exists>q. run_seed lib builder seed [] = Inr (q, bin)"
    and "seed_target seed = (ma_register_kind attrs, False, ma_address attrs)"
    and "seed_read_quantity seed = Some n"
    and "is_bit_codec (ma_codec attrs) = is_bit_kind (ma_register_kind attrs)"
  using assms
  by (cases "ma_register_kind attrs";
      auto simp: build_read_seed_def Let_def and_then_eq_Inr map_err_eq_Inr
        validate_bit_codec_def validate_register_codec_def is_bit_codec_def is_bit_kind_def
        split: if_splits prod.splits)+

lemma build_coil_write_effect:
  assumes "build_coil_write_request lib resource attrs payload builder = Inr (seed, bin)"
  shows "\<exists>q. run_seed lib builder seed [] = Inr (q, bin)"
    and "seed_target seed = (Coil, True, ma_address attrs)"
    and "is_bit_codec (ma_codec attrs)"
  using assms
  by (cases "ma_codec attrs";
      auto simp: build_coil_write_request_def Let_def and_then_eq_Inr map_err_eq_Inr
        is_bit_codec_def split: prod.splits)+

lemma build_holding_write_effect:
  assumes "build_holding_write_request lib resource attrs payload builder = Inr (seed, bin)"
  shows "\<exists>q. run_seed lib builder seed [] = Inr (q, bin)"
    and "seed_target seed = (HoldingRegister, True, ma_address attrs)"
    and "\<not> is_bit_codec (ma_codec attrs)"
  using assms
  by (auto simp: build_holding_write_request_def Let_def and_then_eq_Inr map_err_eq_Inr
        is_bit_codec_def split: prod.splits if_splits)

text \<open>
  What every request that was built has in common: its seed replays to the request's binary frame
  and targets the resource, and the codec fits the address space.
\<close>

definition request_built ::
  "'q rmodbus \<Rightarrow> modbus_resource_attributes \<Rightarrow> modbus_proto \<Rightarrow> modbus_client_options \<Rightarrow>
   modbus_request \<Rightarrow> bool" where
  "request_built lib attrs proto options r \<longleftrightarrow>
     (\<exists>q bin. run_seed lib (rm_new lib (mo_unit_id options) proto) (mq_parser_seed r) [] = Inr (q, bin) \<and>
        encode_wire_frame lib proto bin = Inr (mq_frame r)) \<and>
     mq_proto r = proto \<and> mq_unit_id r = mo_unit_id options \<and>
     mq_timeout r = mo_request_timeout options \<and>
     seed_target (mq_parser_seed r) = (ma_register_kind attrs, mq_is_write r, ma_address attrs) \<and>
     is_bit_codec (ma_codec attrs) = is_bit_kind (ma_register_kind attrs) \<and>
     (if mq_is_write r
      then mq_decoder r = DecAck \<and> ma_register_kind attrs \<in> {Coil, HoldingRegister}
      else \<exists>n. 0 < n \<and> seed_read_quantity (mq_parser_seed r) = Some n \<and>
             mq_decoder r = decoder_for_codec attrs n)"

lemma build_read_request_built:
  "build_read_request lib resource attrs proto options = Inr r \<Longrightarrow>
   request_built lib attrs proto options r \<and> mq_resource r = resource \<and> \<not> mq_is_write r"
proof -
  assume "build_read_request lib resource attrs proto options = Inr r"
  then obtain n seed bin wire where n: "quantity_for_read attrs = Inr n"
    and seed: "build_read_seed lib attrs n (rm_new lib (mo_unit_id options) proto) = Inr (seed, bin)"
    and wire: "encode_wire_frame lib proto bin = Inr wire"
    and r: "r = \<lparr> mq_resource = resource, mq_is_write = False, mq_frame = wire, mq_proto = proto,
             mq_unit_id = mo_unit_id options, mq_parser_seed = seed,
             mq_decoder = decoder_for_codec attrs n, mq_timeout = mo_request_timeout options \<rparr>"
    by (auto simp: build_read_request_def Let_def and_then_eq_Inr map_ok_eq_Inr map_err_eq_Inr)
  show ?thesis
    using build_read_seed_effect [OF seed] quantity_for_read_pos [OF n] wire
    by (auto simp: request_built_def r)
qed

lemma build_write_request_built:
  "build_write_request lib resource attrs payload proto options = Inr r \<Longrightarrow>
   request_built lib attrs proto options r \<and> mq_resource r = resource \<and> mq_is_write r"
  by (cases "ma_register_kind attrs")
    (auto simp: build_write_request_def Let_def and_then_eq_Inr map_ok_eq_Inr map_err_eq_Inr
      request_built_def is_bit_kind_def split: prod.splits
      dest: build_coil_write_effect build_holding_write_effect)

lemma modbus_native_request_built:
  assumes "modbus_native_request lib dvc c = Inr r"
  shows "\<exists>rd. dev_resources dvc (mq_resource r) = Some rd \<and>
     request_built lib (dr_resource_attributes rd) (endpoint_proto (dev_endpoint dvc))
       (endpoint_options (dev_endpoint dvc)) r \<and>
     (case cmd_intent c of
        Read n _ \<Rightarrow> mq_resource r = resource_name_str n \<and> \<not> mq_is_write r
      | Write n _ _ \<Rightarrow> mq_resource r = resource_name_str n \<and> mq_is_write r
      | _ \<Rightarrow> False)"
proof -
  obtain n action payload rd where plan: "dev_resources dvc n = Some rd"
    "case cmd_intent c of
        Read m _ \<Rightarrow> n = resource_name_str m \<and> action = RARead
      | Write m p _ \<Rightarrow> n = resource_name_str m \<and> action = RAWrite \<and> payload = Some p
      | _ \<Rightarrow> False"
    and req: "case action of
        RARead \<Rightarrow> build_read_request lib n (dr_resource_attributes rd)
          (endpoint_proto (dev_endpoint dvc)) (endpoint_options (dev_endpoint dvc)) = Inr r
      | RAWrite \<Rightarrow> \<exists>p. payload = Some p \<and> build_write_request lib n (dr_resource_attributes rd) p
          (endpoint_proto (dev_endpoint dvc)) (endpoint_options (dev_endpoint dvc)) = Inr r"
    using assms
    by (cases "cmd_intent c")
      (fastforce simp: modbus_native_request_def modbus_plan_ref_def modbus_encode_ref_def Let_def
        and_then_eq_Inr ok_or_eq_Inr owned_simps)+
  show ?thesis
  proof (cases action)
    case RARead
    with req have built: "request_built lib (dr_resource_attributes rd)
        (endpoint_proto (dev_endpoint dvc)) (endpoint_options (dev_endpoint dvc)) r"
      "mq_resource r = n" "\<not> mq_is_write r"
      by (auto dest: build_read_request_built)
    with plan RARead show ?thesis by (auto split: intent.splits)
  next
    case RAWrite
    with req have built: "request_built lib (dr_resource_attributes rd)
        (endpoint_proto (dev_endpoint dvc)) (endpoint_options (dev_endpoint dvc)) r"
      "mq_resource r = n" "mq_is_write r"
      by (auto dest: build_write_request_built)
    with plan RAWrite show ?thesis by (auto split: intent.splits)
  qed
qed

section \<open>A concrete client for the witnesses\<close>

text \<open>
  A client that frames Modbus/TCP reads and writes of holding registers as the protocol documents
  them and refuses every other request; its parser reads 16-bit registers.
\<close>

definition word_bytes :: "u16 \<Rightarrow> bytes" where
  "word_bytes w = [ucast (drop_bit 8 w), ucast w]"

definition tcp_request :: "u8 \<Rightarrow> u8 \<Rightarrow> u16 \<Rightarrow> u16 \<Rightarrow> bytes" where
  "tcp_request unit_id func addr v =
     [0, 1, 0, 0, 0, 6, unit_id, func] @ word_bytes addr @ word_bytes v"

definition sample_rmodbus :: "u8 rmodbus" where
  "sample_rmodbus =
     (let no = Inl (OtherRmodbusError ''IllegalFunction'') in
     \<lparr> rm_new = (\<lambda>unit_id proto. unit_id),
       rm_get_coils = (\<lambda>_ _ _ _. no),
       rm_get_discretes = (\<lambda>_ _ _ _. no),
       rm_get_holdings = (\<lambda>q addr n buf. Inr (q, buf @ tcp_request q 3 addr n)),
       rm_get_inputs = (\<lambda>_ _ _ _. no),
       rm_set_coil = (\<lambda>_ _ _ _. no),
       rm_set_holding = (\<lambda>q addr v buf. Inr (q, buf @ tcp_request q 6 addr v)),
       rm_set_coils_bulk = (\<lambda>_ _ _ _. no),
       rm_set_holdings_bulk = (\<lambda>_ _ _ _. no),
       rm_set_holdings_bulk_from_slice = (\<lambda>_ _ _ _. no),
       rm_set_holdings_string = (\<lambda>_ _ _ _. no),
       rm_parse_ok = (\<lambda>_ _. Inr ()),
       rm_parse_bool_u8 = (\<lambda>_ _. Inr []),
       rm_parse_u16 = (\<lambda>_ frame. Inr [u16_from_be_bytes (frame ! 9) (frame ! 10)]),
       rm_parse_i16 = (\<lambda>_ frame. Inr [u16_from_be_bytes (frame ! 9) (frame ! 10)]),
       rm_parse_u32_be = (\<lambda>_ _. Inr []),
       rm_parse_u32_le = (\<lambda>_ _. Inr []),
       rm_parse_i32_be = (\<lambda>_ _. Inr []),
       rm_parse_i32_le = (\<lambda>_ _. Inr []),
       rm_parse_f32_be = (\<lambda>_ _. Inr []),
       rm_parse_f32_le = (\<lambda>_ _. Inr []),
       rm_generate_ascii_frame = (\<lambda>b buf. Inr (buf @ b)),
       rm_parse_ascii_frame = (\<lambda>_ _ buf _. Inr (0, buf)),
       rm_guess_response_frame_len = (\<lambda>_ _. Inl FrameBroken),
       rm_error_debug = (\<lambda>_. ''IllegalFunction'') \<rparr>)"

definition sample_attributes :: "modbus_value_codec \<Rightarrow> modbus_resource_attributes" where
  "sample_attributes codec =
     \<lparr> ma_address = 100, ma_register_kind = HoldingRegister, ma_codec = codec,
       ma_quantity = Some 1, ma_description = None \<rparr>"

definition sample_modbus_device :: "modbus_client_options \<Rightarrow> modbus_device" where
  "sample_modbus_device options =
     \<lparr> dev_id = DeviceId ''dvc-1'', dev_name = ''modbus-test'', dev_status = Online,
       dev_endpoint = EpTcp \<lparr> mte_addr = ''127.0.0.1'', mte_port = 502, mte_options = options \<rparr>,
       dev_metadata = None, dev_max_connections = None,
       dev_resources = [''holding'' \<mapsto>
         \<lparr> dr_name = ''holding'', dr_resource_attributes = sample_attributes CodecU16,
           dr_unit = None, dr_permission = None \<rparr>],
       dev_message_endpoints = [] \<rparr>"

definition sample_modbus_read :: command where
  "sample_modbus_read =
     \<lparr> cmd_id = CommandId ''cmd-1'', cmd_source_device_id = None,
       cmd_target_device_id = DeviceId ''dvc-1'',
       cmd_intent = Read (ResourceName ''holding'') request_options_default,
       cmd_correlation = None \<rparr>"

definition sample_modbus_request :: modbus_request where
  "sample_modbus_request =
     \<lparr> mq_resource = ''holding'', mq_is_write = False,
       mq_frame = [0, 1, 0, 0, 0, 6, 1, 3, 0, 100, 0, 1], mq_proto = TcpUdp, mq_unit_id = 1,
       mq_parser_seed = ReadHoldings 100 1, mq_decoder = DecU16, mq_timeout = None \<rparr>"

lemma sample_modbus_request_built:
  "modbus_native_request sample_rmodbus (sample_modbus_device modbus_client_options_default)
     sample_modbus_read = Inr sample_modbus_request"
  by (simp add: modbus_native_request_def modbus_plan_ref_def modbus_encode_ref_def
      sample_modbus_read_def sample_modbus_device_def sample_attributes_def sample_rmodbus_def
      sample_modbus_request_def modbus_client_options_default_def build_read_request_def
      quantity_for_read_def build_read_seed_def validate_register_codec_def encode_wire_frame_def
      decoder_for_codec_def tcp_request_def word_bytes_def Let_def)

section \<open>Properties of requests\<close>

text \<open>the parser of a response is the request that was sent: for every request the driver
  builds, replaying its parser seed in a fresh \<open>rmodbus\<close> client yields exactly the client state
  and the binary frame of the request, so a response is checked against the function, the
  address and the quantity that went out, and rebuilding the parser never fails.\<close>

theorem modbus_parser_replays_request:
  assumes "modbus_native_request lib dvc c = Inr r"
  shows "\<exists>q bin.
     run_seed lib (rm_new lib (mq_unit_id r) (mq_proto r)) (mq_parser_seed r) [] = Inr (q, bin) \<and>
     encode_wire_frame lib (mq_proto r) bin = Inr (mq_frame r) \<and>
     make_parser lib (mq_proto r) (mq_unit_id r) (mq_parser_seed r) = Inr q"
  using modbus_native_request_built [OF assms]
  by (fastforce simp: request_built_def make_parser_def)

theorem modbus_parser_replays_request_witness:
  "make_parser sample_rmodbus TcpUdp 1 (ReadHoldings 100 1) = Inr 1"
  using modbus_parser_replays_request [OF sample_modbus_request_built]
  by (auto simp: sample_modbus_request_def sample_rmodbus_def Let_def)

text \<open>C7: a request does what the command and the resource allow and nothing else: it targets the
  address space and the address of the resource, it writes exactly when the intent is a write and
  then only to a coil or a holding register and expects an acknowledgement, it reads a positive
  quantity with the decoder of the resource's codec otherwise, bit codecs are only used on bit
  spaces, and framing, unit and timeout are those of the endpoint.\<close>

theorem modbus_request_respects_resource:
  assumes "modbus_native_request lib dvc c = Inr r"
  shows "\<exists>rd attrs options. dev_resources dvc (mq_resource r) = Some rd \<and>
     attrs = dr_resource_attributes rd \<and> options = endpoint_options (dev_endpoint dvc) \<and>
     (case cmd_intent c of
        Read n _ \<Rightarrow> mq_resource r = resource_name_str n \<and> \<not> mq_is_write r
      | Write n _ _ \<Rightarrow> mq_resource r = resource_name_str n \<and> mq_is_write r
      | _ \<Rightarrow> False) \<and>
     seed_target (mq_parser_seed r) = (ma_register_kind attrs, mq_is_write r, ma_address attrs) \<and>
     (mq_is_write r \<longrightarrow>
        mq_decoder r = DecAck \<and> ma_register_kind attrs \<in> {Coil, HoldingRegister}) \<and>
     (\<not> mq_is_write r \<longrightarrow>
        (\<exists>n. 0 < n \<and> seed_read_quantity (mq_parser_seed r) = Some n \<and>
             mq_decoder r = decoder_for_codec attrs n)) \<and>
     is_bit_codec (ma_codec attrs) = is_bit_kind (ma_register_kind attrs) \<and>
     mq_proto r = endpoint_proto (dev_endpoint dvc) \<and> mq_unit_id r = mo_unit_id options \<and>
     mq_timeout r = mo_request_timeout options"
  using modbus_native_request_built [OF assms] by (auto simp: request_built_def)

theorem modbus_request_respects_resource_witness:
  "seed_target (mq_parser_seed sample_modbus_request) = (HoldingRegister, False, 100) \<and>
   mq_decoder sample_modbus_request = DecU16"
  using modbus_request_respects_resource [OF sample_modbus_request_built]
  by (auto simp: sample_modbus_request_def sample_modbus_device_def sample_attributes_def
      sample_modbus_read_def)

end
