(* ===== verification/Modbus_Values.thy ===== *)
theory Modbus_Values
  imports Modbus_Convert
begin

text \<open>
  Properties of the value conversions of the Modbus adapter: integers are converted exactly or
  refused, the register layout of the 32-bit codecs, what writing back a value that was read puts
  into the registers, and the raw data of a response.
\<close>

section \<open>Numbers\<close>

lemma try_from_int_unsigned:
  "hi = 2 ^ LENGTH('a) - 1 \<Longrightarrow>
   try_from_int 0 hi msg (uint (v :: 'a::len word)) = Inr v"
  using uint_lt2p [of v] by (simp add: try_from_int_def)

lemma try_from_int_signed:
  "lo = - (2 ^ (LENGTH('a) - 1)) \<Longrightarrow> hi = 2 ^ (LENGTH('a) - 1) - 1 \<Longrightarrow>
   try_from_int lo hi msg (sint (v :: 'a::len word)) = Inr v"
  using sint_ge [of v] sint_lt [of v] by (auto simp: try_from_int_def)

lemma uint_up_16: "uint (ucast (v :: u16) :: u64) = uint v"
  by (simp add: uint_up_ucast is_up)

lemma uint_up_32: "uint (ucast (v :: u32) :: u64) = uint v"
  by (simp add: uint_up_ucast is_up)

lemma sint_up_16: "sint (scast (v :: i16) :: i64) = sint v"
  by (simp add: sint_up_scast is_up)

lemma sint_up_32: "sint (scast (v :: i32) :: i64) = sint v"
  by (simp add: sint_up_scast is_up)

lemma decode_numeric_unsigned:
  assumes "\<And>v. conv (uint (f v)) = Inr v"
  shows "decode_numeric_list (one_or_list vs (\<lambda>v. PU64 (f v))) msg conv = Inr vs"
proof (cases "length vs = 1")
  case True
  then obtain v where "vs = [v]" by (cases vs) auto
  with assms show ?thesis by (simp add: one_or_list_def decode_numeric_list_def)
next
  case False
  have "collect_results (\<lambda>p. case p of PI64 v \<Rightarrow> conv (sint v) | PU64 v \<Rightarrow> conv (uint v)
      | _ \<Rightarrow> Inl (ModbusInvalidPayload msg)) (map (\<lambda>v. PU64 (f v)) vs) = Inr vs"
    by (induction vs) (simp_all add: assms)
  with False show ?thesis by (simp add: one_or_list_cases decode_numeric_list_def)
qed

lemma decode_numeric_signed:
  assumes "\<And>v. conv (sint (f v)) = Inr v"
  shows "decode_numeric_list (one_or_list vs (\<lambda>v. PI64 (f v))) msg conv = Inr vs"
proof (cases "length vs = 1")
  case True
  then obtain v where "vs = [v]" by (cases vs) auto
  with assms show ?thesis by (simp add: one_or_list_def decode_numeric_list_def)
next
  case False
  have "collect_results (\<lambda>p. case p of PI64 v \<Rightarrow> conv (sint v) | PU64 v \<Rightarrow> conv (uint v)
      | _ \<Rightarrow> Inl (ModbusInvalidPayload msg)) (map (\<lambda>v. PI64 (f v)) vs) = Inr vs"
    by (induction vs) (simp_all add: assms)
  with False show ?thesis by (simp add: one_or_list_cases decode_numeric_list_def)
qed

lemma decode_f32_list:
  assumes "\<And>v. v \<in> set vs \<Longrightarrow> f64_as_f32 (f64_from_f32 v) = v"
  shows "decode_payload_f32_list (one_or_list vs (\<lambda>v. PF64 (f64_from_f32 v))) = Inr vs"
proof (cases "length vs = 1")
  case True
  then obtain v where "vs = [v]" by (cases vs) auto
  with assms show ?thesis by (simp add: one_or_list_def decode_payload_f32_list_def)
next
  case False
  have "collect_results (\<lambda>p. case p of PF64 v \<Rightarrow> Inr (f64_as_f32 v) | PI64 v \<Rightarrow> Inr (i64_as_f32 v)
      | PU64 v \<Rightarrow> Inr (u64_as_f32 v)
      | _ \<Rightarrow> Inl (ModbusInvalidPayload ''f32 payload entries must be numeric''))
      (map (\<lambda>v. PF64 (f64_from_f32 v)) vs) = Inr vs"
    using assms by (induction vs) simp_all
  with False show ?thesis by (simp add: one_or_list_cases decode_payload_f32_list_def)
qed

lemma decode_bits_list: "decode_payload_bits (PList (map PBool vs)) = Inr vs"
proof -
  have "collect_results (\<lambda>v. case v of PBool flag \<Rightarrow> Inr flag
      | _ \<Rightarrow> Inl (ModbusInvalidPayload ''bits payload entries must be booleans'')) (map PBool vs) = Inr vs"
    by (induction vs) simp_all
  then show ?thesis by (simp add: decode_payload_bits_def)
qed

text \<open>The values a resource with a given codec reads.\<close>

definition codec_value :: "modbus_value_codec \<Rightarrow> modbus_value \<Rightarrow> bool" where
  "codec_value codec v =
     (case v of
        MvAck \<Rightarrow> False
      | MvBool _ \<Rightarrow> codec = CodecBool
      | MvBits _ \<Rightarrow> codec = CodecBits
      | MvU16 _ \<Rightarrow> codec = CodecU16
      | MvI16 _ \<Rightarrow> codec = CodecI16
      | MvU32 _ \<Rightarrow> codec \<in> {CodecU32Be, CodecU32Le}
      | MvI32 _ \<Rightarrow> codec \<in> {CodecI32Be, CodecI32Le}
      | MvF32 vs \<Rightarrow> codec \<in> {CodecF32Be, CodecF32Le} \<and> (\<forall>v \<in> set vs. \<not> f32_is_nan v)
      | MvBytes _ \<Rightarrow> codec = CodecBytes
      | MvUtf8String _ \<Rightarrow> codec = CodecUtf8String)"

text \<open>Reading a value into a payload and converting that payload for a write gives the value back.\<close>

lemma modbus_value_round_trip:
  assumes "codec_value (ma_codec attrs) v"
  shows "modbus_value_from_payload attrs (payload_value_from_modbus_value v) = Inr v"
proof -
  have u16: "decode_payload_u16_list (one_or_list_u16 vs) = Inr vs" for vs
    unfolding decode_payload_u16_list_def one_or_list_u16_def
    by (rule decode_numeric_unsigned) (simp add: uint_up_16 try_from_int_unsigned)
  have u32: "decode_payload_u32_list (one_or_list_u32 vs) = Inr vs" for vs
    unfolding decode_payload_u32_list_def one_or_list_u32_def
    by (rule decode_numeric_unsigned) (simp add: uint_up_32 try_from_int_unsigned)
  have i16: "decode_payload_i16_list (one_or_list_i16 vs) = Inr vs" for vs
    unfolding decode_payload_i16_list_def one_or_list_i16_def
    by (rule decode_numeric_signed) (simp add: sint_up_16 try_from_int_signed)
  have i32: "decode_payload_i32_list (one_or_list_i32 vs) = Inr vs" for vs
    unfolding decode_payload_i32_list_def one_or_list_i32_def
    by (rule decode_numeric_signed) (simp add: sint_up_32 try_from_int_signed)
  have f32: "decode_payload_f32_list (one_or_list_f32 vs) = Inr vs"
    if "\<forall>v \<in> set vs. \<not> f32_is_nan v" for vs
    unfolding one_or_list_f32_def by (rule decode_f32_list) (use that f32_narrow_widened in blast)
  show ?thesis
    using assms
    by (cases v)
      (auto simp: codec_value_def modbus_value_from_payload_def u16 u32 i16 i32 f32 decode_bits_list
        decode_payload_bool_def decode_bytes_from_payload_value_def decode_payload_string_def)
qed

section \<open>Range checks\<close>

text \<open>The integers a payload and a Modbus value stand for.\<close>

fun payload_int :: "payload_value \<Rightarrow> int option" where
  "payload_int (PI64 v) = Some (sint v)"
| "payload_int (PU64 v) = Some (uint v)"
| "payload_int _ = None"

fun payload_ints :: "payload_value \<Rightarrow> int option list" where
  "payload_ints (PList vs) = map payload_int vs"
| "payload_ints v = [payload_int v]"

fun modbus_value_ints :: "modbus_value \<Rightarrow> int list" where
  "modbus_value_ints (MvU16 vs) = map uint vs"
| "modbus_value_ints (MvI16 vs) = map sint vs"
| "modbus_value_ints (MvU32 vs) = map uint vs"
| "modbus_value_ints (MvI32 vs) = map sint vs"
| "modbus_value_ints _ = []"

text \<open>The bounds of the integers a codec can carry.\<close>

fun codec_range :: "modbus_value_codec \<Rightarrow> (int \<times> int) option" where
  "codec_range CodecU16 = Some (0, 65535)"
| "codec_range CodecI16 = Some (- 32768, 32767)"
| "codec_range CodecU32Be = Some (0, 4294967295)"
| "codec_range CodecU32Le = Some (0, 4294967295)"
| "codec_range CodecI32Be = Some (- 2147483648, 2147483647)"
| "codec_range CodecI32Le = Some (- 2147483648, 2147483647)"
| "codec_range _ = None"

definition all_in_range :: "int \<Rightarrow> int \<Rightarrow> int option list \<Rightarrow> bool" where
  "all_in_range lo hi ns \<longleftrightarrow> (\<forall>n \<in> set ns. case n of None \<Rightarrow> False | Some i \<Rightarrow> lo \<le> i \<and> i \<le> hi)"

lemma collect_results_checked:
  assumes "\<And>x. g x = (if ok x then Inr (h x) else Inl (ModbusInvalidPayload (err x)))"
  shows "(\<forall>x \<in> set xs. ok x) \<and> collect_results g xs = Inr (map h xs) \<or>
    \<not> (\<forall>x \<in> set xs. ok x) \<and> (\<exists>e. collect_results g xs = Inl (ModbusInvalidPayload e))"
  by (induction xs) (auto simp: assms)

definition int_in_range :: "int \<Rightarrow> int \<Rightarrow> payload_value \<Rightarrow> bool" where
  "int_in_range lo hi p \<longleftrightarrow> (case payload_int p of None \<Rightarrow> False | Some i \<Rightarrow> lo \<le> i \<and> i \<le> hi)"

lemma all_in_range_map: "all_in_range lo hi (map payload_int vs) \<longleftrightarrow> (\<forall>v \<in> set vs. int_in_range lo hi v)"
  by (simp add: all_in_range_def int_in_range_def)

text \<open>A numeric payload is accepted exactly when every entry is an integer in range.\<close>

lemma decode_numeric_list_exact:
  "all_in_range lo hi (payload_ints p) \<and>
     decode_numeric_list p msg (try_from_int lo hi m) =
       Inr (map (\<lambda>n. word_of_int (the n) :: 'a::len word) (payload_ints p)) \<or>
   \<not> all_in_range lo hi (payload_ints p) \<and>
     (\<exists>e. decode_numeric_list p msg (try_from_int lo hi m :: int \<Rightarrow> _ + 'a word) =
        Inl (ModbusInvalidPayload e))"
proof (cases p)
  case (PList vs)
  let ?g = "\<lambda>v. case v of PI64 v \<Rightarrow> try_from_int lo hi m (sint v)
      | PU64 v \<Rightarrow> try_from_int lo hi m (uint v) | _ \<Rightarrow> Inl (ModbusInvalidPayload msg)"
  let ?h = "\<lambda>v. word_of_int (the (payload_int v)) :: 'a word"
  let ?err = "\<lambda>v. if payload_int v = None then msg else m"
  have "(?g v :: _ + 'a word) = (if int_in_range lo hi v then Inr (?h v)
      else Inl (ModbusInvalidPayload (?err v)))" for v
    by (cases v) (simp_all add: try_from_int_def int_in_range_def)
  then have "(\<forall>v \<in> set vs. int_in_range lo hi v) \<and> collect_results ?g vs = Inr (map ?h vs) \<or>
    \<not> (\<forall>v \<in> set vs. int_in_range lo hi v) \<and>
      (\<exists>e. collect_results ?g vs = (Inl (ModbusInvalidPayload e) :: _ + 'a word list))"
    by (rule collect_results_checked [where g = ?g and ok = "int_in_range lo hi" and h = ?h and err = ?err])
  with PList show ?thesis
    by (simp add: decode_numeric_list_def all_in_range_map o_def)
qed (auto simp: decode_numeric_list_def all_in_range_def try_from_int_def)

lemma int_word_exact:
  "0 \<le> i \<Longrightarrow> i < 2 ^ LENGTH('a) \<Longrightarrow> uint (word_of_int i :: 'a::len word) = i"
  "- (2 ^ (LENGTH('a) - 1)) \<le> i \<Longrightarrow> i < 2 ^ (LENGTH('a) - 1) \<Longrightarrow>
   sint (word_of_int i :: 'a word) = i"
  by (simp_all add: uint_word_of_int_eq take_bit_int_eq_self sint_sbintrunc'
      signed_take_bit_int_eq_self)

lemma words_in_range_exact:
  fixes ns :: "int option list"
  assumes "all_in_range lo hi ns"
    and "\<And>i. lo \<le> i \<Longrightarrow> i \<le> hi \<Longrightarrow> read (word_of_int i :: 'a::len word) = i"
  shows "map (Some \<circ> read) (map (\<lambda>n. word_of_int (the n)) ns) = ns"
proof -
  have "Some (read (word_of_int (the n) :: 'a word)) = n" if "n \<in> set ns" for n
    using assms(1) assms(2) [of "the n"] that
    by (cases n) (auto simp: all_in_range_def)
  then show ?thesis by (simp add: map_idI)
qed

text \<open>C12: no integer is truncated when a payload is converted for a write: a payload for an integer
  codec is accepted by the conversion exactly when it is an integer, or a list of integers, all
  within the range of the codec, and the Modbus value then holds those integers, in order; every
  other payload, floats and text included, is refused as an invalid payload.\<close>

theorem modbus_integer_writes_exact:
  assumes "codec_range (ma_codec attrs) = Some (lo, hi)"
  shows "case modbus_value_from_payload attrs p of
     Inr v \<Rightarrow> all_in_range lo hi (payload_ints p) \<and> map Some (modbus_value_ints v) = payload_ints p
   | Inl e \<Rightarrow> \<not> all_in_range lo hi (payload_ints p) \<and> (\<exists>m. e = ModbusInvalidPayload m)"
proof -
  note exact = words_in_range_exact [of _ _ "payload_ints p"]
  have u16: "all_in_range 0 65535 (payload_ints p) \<Longrightarrow>
      map (Some \<circ> uint) (map (\<lambda>n. word_of_int (the n) :: u16) (payload_ints p)) = payload_ints p"
    by (rule exact) (assumption, rule int_word_exact(1), simp_all)
  have i16: "all_in_range (- 32768) 32767 (payload_ints p) \<Longrightarrow>
      map (Some \<circ> sint) (map (\<lambda>n. word_of_int (the n) :: i16) (payload_ints p)) = payload_ints p"
    by (rule exact) (assumption, rule int_word_exact(2), simp_all)
  have u32: "all_in_range 0 4294967295 (payload_ints p) \<Longrightarrow>
      map (Some \<circ> uint) (map (\<lambda>n. word_of_int (the n) :: u32) (payload_ints p)) = payload_ints p"
    by (rule exact) (assumption, rule int_word_exact(1), simp_all)
  have i32: "all_in_range (- 2147483648) 2147483647 (payload_ints p) \<Longrightarrow>
      map (Some \<circ> sint) (map (\<lambda>n. word_of_int (the n) :: i32) (payload_ints p)) = payload_ints p"
    by (rule exact) (assumption, rule int_word_exact(2), simp_all)
  note range = decode_numeric_list_exact [of lo hi p]
  show ?thesis
    using assms u16 i16 u32 i32
      range [of "''u16 payload must be unsigned integer''" "''u16 payload out of range''", where 'a = 16]
      range [of "''i16 payload must be integer''" "''i16 payload out of range''", where 'a = 16]
      range [of "''u32 payload must be unsigned integer''" "''u32 payload out of range''", where 'a = 32]
      range [of "''i32 payload must be integer''" "''i32 payload out of range''", where 'a = 32]
    by (cases "ma_codec attrs")
      (auto simp: modbus_value_from_payload_def decode_payload_u16_list_def o_def
        decode_payload_i16_list_def decode_payload_u32_list_def decode_payload_i32_list_def)
qed

theorem modbus_integer_writes_exact_witness:
  "case modbus_value_from_payload (sample_attributes CodecU16) (PU64 65536) of
     Inr v \<Rightarrow> all_in_range 0 65535 [Some 65536] \<and> map Some (modbus_value_ints v) = [Some 65536]
   | Inl e \<Rightarrow> \<not> all_in_range 0 65535 [Some 65536] \<and> (\<exists>m. e = ModbusInvalidPayload m)"
proof -
  have ints: "payload_ints (PU64 65536) = [Some 65536]" by simp
  show ?thesis
    by (rule modbus_integer_writes_exact [of "sample_attributes CodecU16" 0 65535 "PU64 65536",
          unfolded ints]) (simp add: sample_attributes_def)
qed

section \<open>Register layout\<close>

lemma be_words_eq: "be_words v = [ucast (drop_bit 16 v), ucast v]"
proof -
  have "u16_from_be_bytes (ucast (drop_bit 24 v)) (ucast (drop_bit 16 v)) = ucast (drop_bit 16 v)"
    "u16_from_be_bytes (ucast (drop_bit 8 v)) (ucast v) = ucast v"
    by (rule bit_word_eqI; auto simp: u16_from_be_bytes_def bit_simps not_le)+
  then show ?thesis by (simp add: be_words_def to_be_bytes_def Let_def)
qed

definition swap_bytes :: "u16 \<Rightarrow> u16" where
  "swap_bytes w = u16_from_be_bytes (ucast w) (ucast (drop_bit 8 w))"

lemma le_words_eq: "le_words v = map swap_bytes (be_words v)"
proof -
  have "ucast (ucast (drop_bit 16 v) :: u16) = (ucast (drop_bit 16 v) :: u8)"
    "ucast (drop_bit 8 (ucast (drop_bit 16 v) :: u16)) = (ucast (drop_bit 24 v) :: u8)"
    "ucast (ucast v :: u16) = (ucast v :: u8)"
    "ucast (drop_bit 8 (ucast v :: u16)) = (ucast (drop_bit 8 v) :: u8)"
    by (rule bit_word_eqI; auto simp: bit_simps)+
  then show ?thesis
    by (simp add: le_words_def be_words_eq to_le_bytes_def to_be_bytes_def swap_bytes_def)
qed

lemma swap_bytes_involution: "swap_bytes (swap_bytes w) = w"
  by (rule bit_word_eqI) (auto simp: swap_bytes_def u16_from_be_bytes_def bit_simps)

text \<open>The value of two registers, high word first.\<close>

definition word_pair_value :: "u16 \<Rightarrow> u16 \<Rightarrow> u32" where
  "word_pair_value hi lo = or (push_bit 16 (ucast hi)) (ucast lo)"

fun word_pairs :: "u16 list \<Rightarrow> u32 list" where
  "word_pairs (hi # lo # ws) = word_pair_value hi lo # word_pairs ws"
| "word_pairs _ = []"

lemma word_pairs_be: "word_pairs (concat (map be_words vs)) = vs"
proof (induction vs)
  case (Cons v vs)
  have "word_pair_value (ucast (drop_bit 16 v)) (ucast v) = v"
    by (rule bit_word_eqI) (auto simp: word_pair_value_def bit_simps)
  with Cons show ?case by (simp add: be_words_eq)
qed simp

lemma word_pairs_le: "word_pairs (map swap_bytes (concat (map le_words vs))) = vs"
proof -
  have "map swap_bytes (le_words v) = be_words v" for v
    by (simp add: le_words_eq map_idI swap_bytes_involution)
  then have "map swap_bytes (concat (map le_words vs)) = concat (map be_words vs)"
    by (simp add: map_concat o_def)
  then show ?thesis by (simp add: word_pairs_be)
qed

text \<open>The 32-bit contents of a value.\<close>

fun value_words32 :: "modbus_value \<Rightarrow> u32 list" where
  "value_words32 (MvU32 vs) = vs"
| "value_words32 (MvI32 vs) = vs"
| "value_words32 (MvF32 vs) = vs"
| "value_words32 _ = []"

definition is_le_codec :: "modbus_value_codec \<Rightarrow> bool" where
  "is_le_codec codec \<longleftrightarrow> codec \<in> {CodecU32Le, CodecI32Le, CodecF32Le}"

text \<open>C14: the register image of a 32-bit write determines the values: the big-endian codecs send
  each value as its high word and its low word, the little-endian codecs send the same two words
  in the same order with the bytes of each word swapped, and in both cases the values are read
  back from the registers, two registers for each value.\<close>

theorem modbus_register_layout:
  assumes "words_from_payload attrs v = Inr ws"
  shows "length ws = 2 * length (value_words32 v) \<and>
     ws = concat (map (\<lambda>w. map (if is_le_codec (ma_codec attrs) then swap_bytes else id)
                              [ucast (drop_bit 16 w), ucast w]) (value_words32 v)) \<and>
     word_pairs (map (if is_le_codec (ma_codec attrs) then swap_bytes else id) ws) = value_words32 v"
proof -
  have ws: "ws = concat (map (if is_le_codec (ma_codec attrs) then le_words else be_words)
      (value_words32 v))"
    using assms
    by (cases "ma_codec attrs")
      (auto simp: words_from_payload_def words_from_u32_be_def words_from_i32_be_def
        words_from_f32_be_def words_from_u32_le_def words_from_i32_le_def words_from_f32_le_def
        is_le_codec_def split: modbus_value.splits)
  have be: "be_words = (\<lambda>w. [ucast (drop_bit 16 w), ucast w])" by (rule ext) (rule be_words_eq)
  have le: "le_words = (\<lambda>w. map swap_bytes [ucast (drop_bit 16 w), ucast w])"
    by (rule ext) (simp only: le_words_eq be_words_eq)
  have "length (concat (map f vs)) = 2 * length vs" if "\<And>w. length (f w) = 2" for f :: "u32 \<Rightarrow> u16 list" and vs
    using that by (induction vs) simp_all
  moreover have "length (be_words w) = 2" "length (le_words w) = 2" for w
    by (simp_all add: be_words_def le_words_def Let_def)
  ultimately have "length ws = 2 * length (value_words32 v)" by (simp add: ws)
  then show ?thesis
  proof (cases "is_le_codec (ma_codec attrs)")
    case True
    then have w: "ws = concat (map le_words (value_words32 v))" by (simp add: ws)
    from True \<open>length ws = _\<close> show ?thesis
      by (simp only: if_True word_pairs_le w) (simp add: le)
  next
    case False
    then have w: "ws = concat (map be_words (value_words32 v))" by (simp add: ws)
    from False \<open>length ws = _\<close> show ?thesis
      by (simp only: if_False word_pairs_be w list.map_id) (simp add: be)
  qed
qed

theorem modbus_register_layout_witness:
  "[0xBBAA :: u16, 0xDDCC] =
     concat (map (\<lambda>w. map swap_bytes [ucast (drop_bit 16 w), ucast w]) [0xAABBCCDD :: u32])"
proof -
  have "words_from_payload (sample_attributes CodecU32Le) (MvU32 [0xAABBCCDD]) = Inr [0xBBAA, 0xDDCC]"
    by (simp add: words_from_payload_def sample_attributes_def words_from_u32_le_def le_words_def
        to_le_bytes_def to_be_bytes_def u16_from_be_bytes_def Let_def)
  from modbus_register_layout [OF this] show ?thesis
    by (simp add: is_le_codec_def sample_attributes_def)
qed

section \<open>Writing back what was read\<close>











lemma negative_i16_write_rejected:
  assumes "ma_codec attrs = CodecI16" and "ma_register_kind attrs = HoldingRegister"
    and "sint v < 0"
  shows "build_write_request lib resource attrs (payload_value_from_modbus_value (MvI16 [v])) proto options =
    Inl (ModbusInvalidPayload ''i16 payload must fit into unsigned u16'')"
proof -
  have "modbus_value_from_payload attrs (payload_value_from_modbus_value (MvI16 [v])) = Inr (MvI16 [v])"
    using assms(1) by (intro modbus_value_round_trip) (simp add: codec_value_def)
  then show ?thesis
    using assms by (simp add: build_write_request_def build_holding_write_request_def decode_u16_def
        try_from_int_def Let_def)
qed

section \<open>Raw data of a response\<close>

text \<open>raw bytes and strings are read from the data field of the response and nothing else: for
  a frame made of a header of the framing's length, a byte count, that many data bytes and any
  trailer (checksum), the bytes codec yields exactly the data, and the string codec yields the
  text that was written with its padding of NUL bytes removed; a frame shorter than its header or
  than its declared data is an error, never a panic or a short read.\<close>

theorem modbus_raw_data_decode:
  assumes "make_parser lib proto unit_id seed = Inr q"
  shows "(length header = data_index proto - 1 \<longrightarrow> length data < 256 \<longrightarrow>
      decode_modbus_value lib proto unit_id seed DecBytes (header @ of_nat (length data) # data @ trailer) =
        Inr (MvBytes data)) \<and>
    (length header = data_index proto - 1 \<longrightarrow> length (bytes_of_string s) + n < 256 \<longrightarrow>
      utf8_valid (bytes_of_string s) \<longrightarrow> s = [] \<or> last (bytes_of_string s) \<noteq> 0 \<longrightarrow>
      decode_modbus_value lib proto unit_id seed DecUtf8String
        (header @ of_nat (length (bytes_of_string s) + n) # (bytes_of_string s @ replicate n 0) @ trailer) =
        Inr (MvUtf8String s)) \<and>
    (length frame < data_index proto \<or>
     length frame < data_index proto + unat (frame ! (data_index proto - 1)) \<longrightarrow>
      (\<exists>e. decode_modbus_value lib proto unit_id seed DecBytes frame = Inl (ModbusInvalidPayload e)))"
proof (intro conjI impI)
  have idx: "0 < data_index proto" by (simp add: data_index_def)
  have slice: "response_data_slice proto (header @ of_nat (length d) # d @ trailer) = Inr d"
    if "length header = data_index proto - 1" "length d < 256" for d
  proof -
    have "unat (of_nat (length d) :: u8) = length d"
      using that(2) by (simp add: unat_of_nat take_bit_nat_eq_self)
    with that(1) idx show ?thesis
      by (auto simp: response_data_slice_eq nth_append drop_Cons' not_less)
  qed
  show "decode_modbus_value lib proto unit_id seed DecBytes (header @ of_nat (length data) # data @ trailer) =
        Inr (MvBytes data)"
    if "length header = data_index proto - 1" "length data < 256"
    using slice [OF that] assms by (simp add: decode_modbus_value_def)
  show "decode_modbus_value lib proto unit_id seed DecUtf8String
        (header @ of_nat (length (bytes_of_string s) + n) # (bytes_of_string s @ replicate n 0) @ trailer) =
        Inr (MvUtf8String s)"
    if "length header = data_index proto - 1" "length (bytes_of_string s) + n < 256"
      "utf8_valid (bytes_of_string s)" "s = [] \<or> last (bytes_of_string s) \<noteq> 0"
  proof -
    have "bytes_of_string s = [] \<or> last (bytes_of_string s) \<noteq> 0"
      using that(4) by auto
    then have "trim_trailing_nuls (bytes_of_string s @ replicate n 0) = bytes_of_string s"
      by (rule trim_trailing_nuls_padded)
    with slice [of "bytes_of_string s @ replicate n 0"] that(1,2,3) assms show ?thesis
      by (simp add: decode_modbus_value_def from_utf8_def o_def)
  qed
  show "\<exists>e. decode_modbus_value lib proto unit_id seed DecBytes frame = Inl (ModbusInvalidPayload e)"
    if "length frame < data_index proto \<or>
     length frame < data_index proto + unat (frame ! (data_index proto - 1))"
    using that assms by (auto simp: decode_modbus_value_def response_data_slice_eq)
qed

theorem modbus_raw_data_decode_witness:
  "decode_modbus_value sample_rmodbus TcpUdp 1 (ReadHoldings 120 2) DecUtf8String
     ([0, 1, 0, 0, 0, 7, 1, 3] @ 4 # [0x68, 0x69, 0x21, 0]) = Inr (MvUtf8String ''hi!'')"
proof -
  have p: "make_parser sample_rmodbus TcpUdp 1 (ReadHoldings 120 2) = Inr 1"
    by (simp add: make_parser_def sample_rmodbus_def Let_def)
  have b: "bytes_of_string ''hi!'' = [0x68, 0x69, 0x21]" by code_simp
  have v: "utf8_valid [0x68, 0x69, 0x21]" by simp
  show ?thesis
    using modbus_raw_data_decode [OF p, of "[0, 1, 0, 0, 0, 7, 1, 3]" "[]" "[]" "''hi!''" 1 "[]"] b v
    by (simp add: data_index_def)
qed

end
