(* ===== verification/Runtime_Io.thy ===== *)
theory Runtime_Io
  imports Core_Net
begin

text \<open>
  The runtime interfaces that the adapters share: the byte stream and the stream network of
  \<open>ferredge-core\<close>'s \<open>net\<close> traits as parameters over a world state, and the sequencing of fallible
  effects, which is Rust's \<open>?\<close> on a state that survives the error.
\<close>

section \<open>Errors of tasks, channels and mutexes\<close>

datatype task_join_error = JoinCancelled | JoinRuntimeUnavailable
datatype channel_error = ChFull | ChEmpty | ChClosed | ChRuntimeUnavailable
datatype mutex_error = MutexBusy | MutexRuntimeUnavailable

section \<open>Sockets\<close>

text \<open>A byte stream; \<open>st_read\<close> is given the length of the buffer and returns the bytes read.\<close>

record ('w, 'h, 'e) stream_io =
  st_write :: "'h \<Rightarrow> 'w \<Rightarrow> bytes \<Rightarrow> ('e + nat) \<times> 'w"
  st_flush :: "'h \<Rightarrow> 'w \<Rightarrow> ('e + unit) \<times> 'w"
  st_read :: "'h \<Rightarrow> nat \<Rightarrow> 'w \<Rightarrow> ('e + bytes) \<times> 'w"
  st_close :: "'h \<Rightarrow> 'w \<Rightarrow> ('e + unit) \<times> 'w"

record ('w, 'h) tcp_net =
  tn_io :: "('w, 'h, net_error) stream_io"
  tn_connect :: "string \<Rightarrow> 'w \<Rightarrow> (net_error + 'h) \<times> 'w"
  tn_set_read_timeout :: "'h \<Rightarrow> duration option \<Rightarrow> 'w \<Rightarrow> (net_error + unit) \<times> 'w"
  tn_set_write_timeout :: "'h \<Rightarrow> duration option \<Rightarrow> 'w \<Rightarrow> (net_error + unit) \<times> 'w"

section \<open>Fallible steps\<close>

text \<open>A step that may fail, followed by the rest: the error of the step, rendered, ends it.\<close>

definition io_step :: "('e \<Rightarrow> 'd) \<Rightarrow> ('e + 'a) \<times> 'w \<Rightarrow> ('a \<Rightarrow> 'w \<Rightarrow> ('d + 'b) \<times> 'w) \<Rightarrow> ('d + 'b) \<times> 'w" where
  "io_step render r k = (case r of (Inl e, w) \<Rightarrow> (Inl (render e), w) | (Inr x, w) \<Rightarrow> k x w)"

lemma io_step_simps [simp]:
  "io_step f (Inl e, w) k = (Inl (f e), w)"
  "io_step f (Inr x, w) k = k x w"
  by (simp_all add: io_step_def)

lemma io_step_eq_Inr:
  "io_step f r k = (Inr y, w') \<longleftrightarrow> (\<exists>x w. r = (Inr x, w) \<and> k x w = (Inr y, w'))"
  by (cases r; cases "fst r") auto

text \<open>
  A computation on a state \<open>'s\<close> that may fail, with a message where it is \<open>fallible\<close>; the state
  reached so far is kept.
\<close>

type_synonym ('s, 'e, 'a) failing = "'s \<Rightarrow> ('e + 'a) \<times> 's"
type_synonym ('s, 'a) fallible = "('s, string, 'a) failing"

definition fl_return :: "'a \<Rightarrow> ('s, 'e, 'a) failing" where
  "fl_return x s = (Inr x, s)"

definition fl_fail :: "'e \<Rightarrow> ('s, 'e, 'a) failing" where
  "fl_fail e s = (Inl e, s)"

definition fl_bind ::
  "('s, 'e, 'a) failing \<Rightarrow> ('a \<Rightarrow> ('s, 'e, 'b) failing) \<Rightarrow> ('s, 'e, 'b) failing" where
  "fl_bind m f s = (case m s of (Inl e, s') \<Rightarrow> (Inl e, s') | (Inr x, s') \<Rightarrow> f x s')"

definition fl_get :: "('s \<Rightarrow> 'a) \<Rightarrow> ('s, 'e, 'a) failing" where
  "fl_get f s = (Inr (f s), s)"

definition fl_modify :: "('s \<Rightarrow> 's) \<Rightarrow> ('s, 'e, unit) failing" where
  "fl_modify f s = (Inr (), f s)"

definition fl_lift :: "'e + 'a \<Rightarrow> ('s, 'e, 'a) failing" where
  "fl_lift r s = (r, s)"

text \<open>\<open>let _ = m\<close>: the result is discarded, an error included.\<close>

definition fl_ignore :: "('s, 'e, 'a) failing \<Rightarrow> ('s, 'e, unit) failing" where
  "fl_ignore m s = (Inr (), snd (m s))"

text \<open>A \<open>for\<close> loop whose body may end it with an error.\<close>

fun fl_for :: "('x \<Rightarrow> ('s, 'e, unit) failing) \<Rightarrow> 'x list \<Rightarrow> ('s, 'e, unit) failing" where
  "fl_for body [] s = (Inr (), s)"
| "fl_for body (x # xs) s = fl_bind (body x) (\<lambda>_. fl_for body xs) s"

text \<open>A \<open>for\<close> loop that extends a vector.\<close>

fun fl_concat_map ::
  "('x \<Rightarrow> ('s, 'e, 'y list) failing) \<Rightarrow> 'x list \<Rightarrow> ('s, 'e, 'y list) failing" where
  "fl_concat_map body [] s = (Inr [], s)"
| "fl_concat_map body (x # xs) s =
     fl_bind (body x) (\<lambda>ys. fl_bind (fl_concat_map body xs) (\<lambda>zs. fl_return (ys @ zs))) s"

named_theorems fl_simps "evaluation of fallible computations"

lemma fl_run [fl_simps]:
  "fl_return x s = (Inr x, s)"
  "fl_fail e s = (Inl e, s)"
  "fl_get f s = (Inr (f s), s)"
  "fl_modify u s = (Inr (), u s)"
  "fl_lift r s = (r, s)"
  "fl_ignore m s = (Inr (), snd (m s))"
  by (simp_all add: fl_return_def fl_fail_def fl_get_def fl_modify_def fl_lift_def fl_ignore_def)

lemma fl_bind_cases [fl_simps]:
  "m s = (Inl e, s') \<Longrightarrow> fl_bind m f s = (Inl e, s')"
  "m s = (Inr x, s') \<Longrightarrow> fl_bind m f s = f x s'"
  by (simp_all add: fl_bind_def)

lemma fl_bind_steps [fl_simps]:
  "fl_bind (fl_return x) f s = f x s"
  "fl_bind (fl_fail e) f s = (Inl e, s)"
  "fl_bind (fl_get g) f s = f (g s) s"
  "fl_bind (fl_modify u) f s = f () (u s)"
  "fl_bind (fl_lift (Inr x)) f s = f x s"
  "fl_bind (fl_lift (Inl e)) f s = (Inl e, s)"
  "fl_bind (fl_ignore m) f s = f () (snd (m s))"
  by (simp_all add: fl_bind_def fl_run)

lemma fl_bind_eq_Inr:
  "fl_bind m f s = (Inr y, s'') \<longleftrightarrow> (\<exists>x s'. m s = (Inr x, s') \<and> f x s' = (Inr y, s''))"
  by (cases "m s"; cases "fst (m s)") (auto simp: fl_bind_def)

lemma fl_bind_eq_Inl:
  "fl_bind m f s = (Inl e, s'') \<longleftrightarrow>
     m s = (Inl e, s'') \<or> (\<exists>x s'. m s = (Inr x, s') \<and> f x s' = (Inl e, s''))"
  by (cases "m s"; cases "fst (m s)") (auto simp: fl_bind_def)

lemma fl_for_append:
  "fl_for body (xs @ ys) s = fl_bind (fl_for body xs) (\<lambda>_. fl_for body ys) s"
  by (induction xs arbitrary: s) (auto simp: fl_bind_def split: prod.split sum.split)

lemma fl_concat_map_append:
  "fl_concat_map body (xs @ ys) s =
     fl_bind (fl_concat_map body xs)
       (\<lambda>a. fl_bind (fl_concat_map body ys) (\<lambda>b. fl_return (a @ b))) s"
  by (induction xs arbitrary: s) (auto simp: fl_bind_def fl_run split: prod.split sum.split)

text \<open>What holds of the state after every prefix holds after the whole.\<close>

lemma fl_bind_state:
  assumes "P s (snd (m s))" and "\<And>x s'. m s = (Inr x, s') \<Longrightarrow> P s' (snd (f x s'))"
    and "\<And>a b c. P a b \<Longrightarrow> P b c \<Longrightarrow> P a c"
  shows "P s (snd (fl_bind m f s))"
proof -
  obtain r s' where m: "m s = (r, s')" by fastforce
  show ?thesis
  proof (cases r)
    case (Inl e)
    then show ?thesis using assms(1) m by (simp add: fl_bind_def)
  next
    case (Inr x)
    have "P s s'" using assms(1) m by simp
    moreover have "P s' (snd (f x s'))" using assms(2) m Inr by simp
    ultimately have "P s (snd (f x s'))" by (rule assms(3))
    then show ?thesis using m Inr by (simp add: fl_bind_def)
  qed
qed

section \<open>Steps that may not return\<close>

text \<open>A fallible computation with a loop that may run for ever, which is the value \<open>None\<close>.\<close>

type_synonym ('s, 'e, 'a) diverging = "'s \<Rightarrow> (('e + 'a) \<times> 's) option"
type_synonym ('s, 'a) looping = "('s, string, 'a) diverging"

definition lp_run :: "('s, 'e, 'a) failing \<Rightarrow> ('s, 'e, 'a) diverging" where
  "lp_run m s = Some (m s)"

definition lp_return :: "'a \<Rightarrow> ('s, 'e, 'a) diverging" where
  "lp_return x s = Some (Inr x, s)"

definition lp_fail :: "'e \<Rightarrow> ('s, 'e, 'a) diverging" where
  "lp_fail e s = Some (Inl e, s)"

definition lp_bind ::
  "('s, 'e, 'a) diverging \<Rightarrow> ('a \<Rightarrow> ('s, 'e, 'b) diverging) \<Rightarrow> ('s, 'e, 'b) diverging" where
  "lp_bind m f s =
     (case m s of
        None \<Rightarrow> None
      | Some (Inl e, s') \<Rightarrow> Some (Inl e, s')
      | Some (Inr x, s') \<Rightarrow> f x s')"

lemma lp_simps:
  "lp_run m s = Some (m s)"
  "lp_return x s = Some (Inr x, s)"
  "lp_fail e s = Some (Inl e, s)"
  by (simp_all add: lp_run_def lp_return_def lp_fail_def)

lemma lp_bind_run:
  "lp_bind (lp_run m) f s =
     (case m s of (Inl e, s') \<Rightarrow> Some (Inl e, s') | (Inr x, s') \<Rightarrow> f x s')"
  by (simp add: lp_bind_def lp_run_def)

lemma lp_bind_eq_Inr:
  "lp_bind m f s = Some (Inr y, s'') \<longleftrightarrow>
     (\<exists>x s'. m s = Some (Inr x, s') \<and> f x s' = Some (Inr y, s''))"
  by (auto simp: lp_bind_def split: option.splits prod.splits sum.splits)

lemma lp_bind_eq_Inl:
  "lp_bind m f s = Some (Inl e, s'') \<longleftrightarrow>
     m s = Some (Inl e, s'') \<or> (\<exists>x s'. m s = Some (Inr x, s') \<and> f x s' = Some (Inl e, s''))"
  by (auto simp: lp_bind_def split: option.splits prod.splits sum.splits)

end
