(* ===== verification/Modbus_Transport.thy ===== *)
theory Modbus_Transport
  imports Modbus_Convert Runtime_Io
begin

text \<open>
  The wire transports and the driver of the Modbus adapter (\<open>transport.rs\<close>): framing of responses,
  the read and write loops over a socket or a serial port, the TCP, UDP, serial and full-stack
  transports with their persistent session, and the driver's retry loop.  The runtime is a
  parameter: its operations take the state \<open>'w\<close> of the outside world and a handle and return the
  new state.  The locale \<open>modbus_transport\<close> is the contract of the \<open>ModbusTransport\<close> trait.
\<close>

section \<open>Framing\<close>

definition MAX_MODBUS_TCP_UDP_FRAME_LEN :: nat where "MAX_MODBUS_TCP_UDP_FRAME_LEN = 260"
definition MAX_MODBUS_RTU_FRAME_LEN :: nat where "MAX_MODBUS_RTU_FRAME_LEN = 256"
definition MAX_MODBUS_ASCII_FRAME_LEN :: nat where
  "MAX_MODBUS_ASCII_FRAME_LEN = MAX_MODBUS_RTU_FRAME_LEN * 2 + 3"

lemmas frame_len_defs = MAX_MODBUS_TCP_UDP_FRAME_LEN_def MAX_MODBUS_RTU_FRAME_LEN_def
  MAX_MODBUS_ASCII_FRAME_LEN_def

fun min_guess_len :: "modbus_proto \<Rightarrow> u8" where
  "min_guess_len TcpUdp = 6"
| "min_guess_len Rtu = 5"
| "min_guess_len Ascii = 7"

fun max_frame_len :: "modbus_proto \<Rightarrow> nat" where
  "max_frame_len TcpUdp = MAX_MODBUS_TCP_UDP_FRAME_LEN"
| "max_frame_len Rtu = MAX_MODBUS_RTU_FRAME_LEN"
| "max_frame_len Ascii = MAX_MODBUS_ASCII_FRAME_LEN"

definition tcp_udp_frame_len :: "bytes \<Rightarrow> nat option" where
  "tcp_udp_frame_len frame =
     (if length frame < unat (min_guess_len TcpUdp) then None
      else
        let protocol_id = u16_from_be_bytes (frame ! 2) (frame ! 3) in
        if protocol_id \<noteq> 0 then None
        else Some (unat (u16_from_be_bytes (frame ! 4) (frame ! 5)) + 6))"

definition ascii_frame_end :: "bytes \<Rightarrow> nat option" where
  "ascii_frame_end frame = map_option (\<lambda>i. i + 2) (window_position [0x0D, 0x0A] frame)"

definition ascii_frame_complete :: "bytes \<Rightarrow> bool" where
  "ascii_frame_complete frame \<longleftrightarrow>
     take 1 frame = [0x3A] \<and>
     (case ascii_frame_end frame of
        None \<Rightarrow> False
      | Some frame_end \<Rightarrow> unat (min_guess_len Ascii) \<le> frame_end)"

definition frame_complete :: "'q rmodbus \<Rightarrow> bytes \<Rightarrow> modbus_proto \<Rightarrow> bool" where
  "frame_complete lib frame proto \<longleftrightarrow>
     (case proto of
        TcpUdp \<Rightarrow>
          (case tcp_udp_frame_len frame of
             None \<Rightarrow> False
           | Some expected_len \<Rightarrow> expected_len \<le> length frame)
      | Ascii \<Rightarrow> ascii_frame_complete frame
      | _ \<Rightarrow>
          unat (min_guess_len proto) \<le> length frame \<and>
          (case rm_guess_response_frame_len lib frame proto of
             Inl _ \<Rightarrow> False
           | Inr expected_len \<Rightarrow> unat expected_len \<le> length frame))"

definition trim_frame :: "'q rmodbus \<Rightarrow> bytes \<Rightarrow> modbus_proto \<Rightarrow> bytes" where
  "trim_frame lib frame proto =
     (if frame = [] then frame
      else if proto = TcpUdp then
        (case tcp_udp_frame_len frame of Some frame_end \<Rightarrow> take frame_end frame | None \<Rightarrow> frame)
      else if proto = Ascii then
        (case ascii_frame_end frame of Some frame_end \<Rightarrow> take frame_end frame | None \<Rightarrow> frame)
      else
        (case rm_guess_response_frame_len lib frame proto of
           Inr expected_len \<Rightarrow> take (unat expected_len) frame
         | Inl _ \<Rightarrow> frame))"

section \<open>The runtime's sockets and ports\<close>

record ('w, 'h) udp_net =
  un_bind_datagram :: "string \<Rightarrow> 'w \<Rightarrow> (net_error + 'h) \<times> 'w"
  un_set_read_timeout :: "'h \<Rightarrow> duration option \<Rightarrow> 'w \<Rightarrow> (net_error + unit) \<times> 'w"
  un_send_to :: "'h \<Rightarrow> bytes \<Rightarrow> string \<Rightarrow> 'w \<Rightarrow> (net_error + nat) \<times> 'w"
  un_recv_from :: "'h \<Rightarrow> nat \<Rightarrow> 'w \<Rightarrow> (net_error + bytes \<times> string) \<times> 'w"

record ('w, 'h) serial_lines =
  sl_io :: "('w, 'h, serial_error) stream_io"
  sl_open :: "serial_port_config \<Rightarrow> 'w \<Rightarrow> (serial_error + 'h) \<times> 'w"

section \<open>Requests and responses on a stream\<close>

definition write_stream_request ::
  "('w, 'h, net_error) stream_io \<Rightarrow> 'h \<Rightarrow> bytes \<Rightarrow> string \<Rightarrow> 'w \<Rightarrow> (string + unit) \<times> 'w" where
  "write_stream_request io h frame label w =
     io_step (\<lambda>e. ''failed to write '' @ label @ '' request: '' @ net_error_debug e)
       (write_all_socket (st_write io h) frame w) (\<lambda>_ w.
     io_step (\<lambda>e. ''failed to flush '' @ label @ '' request: '' @ net_error_debug e)
       (st_flush io h w) (\<lambda>u w. (Inr u, w)))"

definition write_serial_request ::
  "('w, 'h, serial_error) stream_io \<Rightarrow> 'h \<Rightarrow> bytes \<Rightarrow> string \<Rightarrow> 'w \<Rightarrow> (string + unit) \<times> 'w" where
  "write_serial_request io h frame label w =
     io_step (\<lambda>e. ''failed to write '' @ label @ '' request: '' @ serial_error_debug e)
       (write_all_serial_port (st_write io h) frame w) (\<lambda>_ w.
     io_step (\<lambda>e. ''failed to flush '' @ label @ '' request: '' @ serial_error_debug e)
       (st_flush io h w) (\<lambda>u w. (Inr u, w)))"

text \<open>
  The loop the two response readers share.  \<open>rd\<close> reads into the 64-byte buffer; a closed stream
  or an empty read ends a response that has begun.
\<close>

function read_response_loop ::
  "('w \<Rightarrow> ('e + bytes) \<times> 'w) \<Rightarrow> 'e \<Rightarrow> ('e \<Rightarrow> string) \<Rightarrow> string \<Rightarrow> nat \<Rightarrow> (bytes \<Rightarrow> bool) \<Rightarrow>
   bytes \<Rightarrow> 'w \<Rightarrow> (string + bytes) \<times> 'w" where
  "read_response_loop rd closed debug prefix limit complete frame w =
     (case rd w of
        (Inl e, w') \<Rightarrow>
          if e = closed \<and> frame \<noteq> [] then (Inr frame, w') else (Inl (prefix @ debug e), w')
      | (Inr chunk, w') \<Rightarrow>
          if chunk = [] then
            (if frame = [] then (Inl (prefix @ ''Closed''), w') else (Inr frame, w'))
          else if limit < length frame + length chunk then
            (Inl (prefix @ ''frame exceeded '' @ decimal limit @ '' bytes''), w')
          else if complete (frame @ chunk) then (Inr (frame @ chunk), w')
          else read_response_loop rd closed debug prefix limit complete (frame @ chunk) w')"
  by pat_completeness auto
termination
  by (relation "measure (\<lambda>(_, _, _, _, limit, _, frame, _). Suc limit - length frame)")
    (auto simp: neq_Nil_conv)

declare read_response_loop.simps [simp del]

definition read_stream_response_socket ::
  "'q rmodbus \<Rightarrow> ('w, 'h, net_error) stream_io \<Rightarrow> 'h \<Rightarrow> modbus_proto \<Rightarrow> 'w \<Rightarrow> (string + bytes) \<times> 'w" where
  "read_stream_response_socket lib io h proto w =
     io_step (\<lambda>e. e)
       (read_response_loop (st_read io h 64) NetClosed net_error_debug
          ''failed to read Modbus socket response: '' (max_frame_len proto)
          (\<lambda>frame. frame_complete lib frame proto) [] w)
       (\<lambda>frame w. (Inr (trim_frame lib frame proto), w))"

definition read_stream_response_serial ::
  "'q rmodbus \<Rightarrow> ('w, 'h, serial_error) stream_io \<Rightarrow> 'h \<Rightarrow> modbus_proto \<Rightarrow> 'w \<Rightarrow> (string + bytes) \<times> 'w" where
  "read_stream_response_serial lib io h proto w =
     io_step (\<lambda>e. e)
       (read_response_loop (st_read io h 64) SerialClosed serial_error_debug
          ''failed to read Modbus serial response: '' (max_frame_len proto)
          (\<lambda>frame. frame_complete lib frame proto) [] w)
       (\<lambda>frame w. (Inr (trim_frame lib frame proto), w))"

definition read_datagram_response ::
  "('w, 'h) udp_net \<Rightarrow> 'h \<Rightarrow> 'w \<Rightarrow> (string + bytes) \<times> 'w" where
  "read_datagram_response net h w =
     io_step (\<lambda>e. ''failed to receive Modbus UDP response: '' @ net_error_debug e)
       (un_recv_from net h MAX_MODBUS_TCP_UDP_FRAME_LEN w) (\<lambda>(data, _) w. (Inr data, w))"

section \<open>Sessions\<close>

text \<open>
  What the stream transports do with the persistent session: reuse it, or close a stale one and
  open a new handle; keep the handle after a successful exchange when the endpoint is persistent,
  close it after a failed one.
\<close>

definition take_session ::
  "('h \<Rightarrow> 'w \<Rightarrow> 'w) \<Rightarrow> ('w \<Rightarrow> (string + 'h) \<times> 'w) \<Rightarrow> bool \<Rightarrow> 'h option \<Rightarrow> 'w \<Rightarrow> (string + 'h) \<times> 'w" where
  "take_session close opn persistent session w =
     (case (persistent, session) of
        (True, Some h) \<Rightarrow> (Inr h, w)
      | (_, taken) \<Rightarrow> opn (case taken of Some stale \<Rightarrow> close stale w | None \<Rightarrow> w))"

definition settle_session ::
  "('h \<Rightarrow> 'w \<Rightarrow> 'w) \<Rightarrow> bool \<Rightarrow> 'h \<Rightarrow> (string + bytes) \<times> 'w \<Rightarrow> (string + bytes) \<times> 'h option \<times> 'w" where
  "settle_session close persistent h result =
     (case result of
        (Inr frame, w) \<Rightarrow> (Inr frame, if persistent then Some h else None, w)
      | (Inl e, w) \<Rightarrow> (Inl e, None, close h w))"

text \<open>The result of \<open>close\<close> is ignored.\<close>

definition tcp_close :: "('w, 'h) tcp_net \<Rightarrow> 'h \<Rightarrow> 'w \<Rightarrow> 'w" where
  "tcp_close net h w = snd (st_close (tn_io net) h w)"

definition serial_close :: "('w, 'h) serial_lines \<Rightarrow> 'h \<Rightarrow> 'w \<Rightarrow> 'w" where
  "serial_close lines h w = snd (st_close (sl_io lines) h w)"

definition open_socket ::
  "('w, 'h) tcp_net \<Rightarrow> string \<Rightarrow> u16 \<Rightarrow> duration option \<Rightarrow> 'w \<Rightarrow> (string + 'h) \<times> 'w" where
  "open_socket net addr port timeout w =
     io_step (\<lambda>e. ''failed to connect Modbus TCP socket: '' @ net_error_debug e)
       (tn_connect net (format_host_port addr port) w) (\<lambda>h w.
     io_step (\<lambda>e. ''failed to set Modbus TCP read timeout: '' @ net_error_debug e)
       (tn_set_read_timeout net h timeout w) (\<lambda>_ w.
     io_step (\<lambda>e. ''failed to set Modbus TCP write timeout: '' @ net_error_debug e)
       (tn_set_write_timeout net h timeout w) (\<lambda>_ w. (Inr h, w))))"

definition tcp_execute ::
  "'q rmodbus \<Rightarrow> ('w, 'h) tcp_net \<Rightarrow> modbus_endpoint \<Rightarrow> modbus_request \<Rightarrow> 'h option \<Rightarrow> 'w \<Rightarrow>
   (string + bytes) \<times> 'h option \<times> 'w" where
  "tcp_execute lib net endpoint request session w =
     (case (case endpoint of
              EpTcp config \<Rightarrow>
                Some (mte_addr config, mte_port config,
                      mo_persistent_session (mte_options config), ''Modbus TCP'')
            | EpRtuOverTcp config \<Rightarrow>
                Some (mrt_addr config, mrt_port config,
                      mo_persistent_session (mrt_options config), ''Modbus RTU-over-TCP'')
            | _ \<Rightarrow> None) of
        None \<Rightarrow> (Inl ''device endpoint is not Modbus TCP'', session, w)
      | Some (addr, port, persistent, label) \<Rightarrow>
          (case take_session (tcp_close net) (open_socket net addr port (mq_timeout request))
                  persistent session w of
             (Inl e, w) \<Rightarrow> (Inl e, None, w)
           | (Inr h, w) \<Rightarrow>
               settle_session (tcp_close net) persistent h
                 (io_step (\<lambda>e. e) (write_stream_request (tn_io net) h (mq_frame request) label w)
                    (\<lambda>_ w. read_stream_response_socket lib (tn_io net) h (mq_proto request) w))))"

text \<open>The UDP transport keeps no session: its session type has no value.\<close>

definition udp_execute ::
  "('w, 'h) udp_net \<Rightarrow> modbus_endpoint \<Rightarrow> modbus_request \<Rightarrow> 'w \<Rightarrow> (string + bytes) \<times> 'w" where
  "udp_execute net endpoint request w =
     (case endpoint of
        EpUdp config \<Rightarrow>
          io_step (\<lambda>e. ''failed to bind Modbus UDP socket: '' @ net_error_debug e)
            (un_bind_datagram net ''0.0.0.0:0'' w) (\<lambda>h w.
          io_step (\<lambda>e. ''failed to set Modbus UDP read timeout: '' @ net_error_debug e)
            (un_set_read_timeout net h (mq_timeout request) w) (\<lambda>_ w.
          io_step (\<lambda>e. ''failed to send Modbus UDP request: '' @ net_error_debug e)
            (un_send_to net h (mq_frame request)
               (format_host_port (mud_addr config) (mud_port config)) w) (\<lambda>_ w.
          read_datagram_response net h w)))
      | _ \<Rightarrow> (Inl ''device endpoint is not Modbus UDP'', w))"

definition open_port ::
  "('w, 'h) serial_lines \<Rightarrow> serial_port_config \<Rightarrow> string \<Rightarrow> 'w \<Rightarrow> (string + 'h) \<times> 'w" where
  "open_port lines config label w =
     io_step (\<lambda>e. ''failed to open '' @ label @ '' serial port: '' @ serial_error_debug e)
       (sl_open lines config w) (\<lambda>h w. (Inr h, w))"

definition serial_execute ::
  "'q rmodbus \<Rightarrow> ('w, 'h) serial_lines \<Rightarrow> modbus_endpoint \<Rightarrow> modbus_request \<Rightarrow> 'h option \<Rightarrow> 'w \<Rightarrow>
   (string + bytes) \<times> 'h option \<times> 'w" where
  "serial_execute lib lines endpoint request session w =
     (case (case endpoint of
              EpRtu config \<Rightarrow>
                Some (mru_serial config, mo_persistent_session (mru_options config),
                      ''Modbus RTU'', False)
            | EpAscii config \<Rightarrow>
                Some (mas_serial config, mo_persistent_session (mas_options config),
                      ''Modbus ASCII'', True)
            | _ \<Rightarrow> None) of
        None \<Rightarrow> (Inl ''device endpoint is not Modbus serial'', session, w)
      | Some (config, persistent, label, is_ascii) \<Rightarrow>
          (case take_session (serial_close lines) (open_port lines config label) persistent session w of
             (Inl e, w) \<Rightarrow> (Inl e, None, w)
           | (Inr h, w) \<Rightarrow>
               settle_session (serial_close lines) persistent h
                 (io_step (\<lambda>e. e) (write_serial_request (sl_io lines) h (mq_frame request) label w)
                    (\<lambda>_ w.
                  io_step (\<lambda>e. e) (read_stream_response_serial lib (sl_io lines) h (mq_proto request) w)
                    (\<lambda>raw w. (if is_ascii then decode_ascii_wire_frame lib raw else Inr raw, w))))))"

section \<open>The full-stack transport\<close>

datatype ('h, 'p) stack_session = SessTcp 'h | SessSerial 'p

record ('w, 'h, 'd, 'p) stack_transport =
  stk_tcp :: "('w, 'h) tcp_net"
  stk_udp :: "('w, 'd) udp_net"
  stk_serial :: "('w, 'p) serial_lines"

definition stack_close :: "('w, 'h, 'd, 'p) stack_transport \<Rightarrow> ('h, 'p) stack_session \<Rightarrow> 'w \<Rightarrow> 'w" where
  "stack_close stack session w =
     (case session of
        SessTcp h \<Rightarrow> tcp_close (stk_tcp stack) h w
      | SessSerial p \<Rightarrow> serial_close (stk_serial stack) p w)"

definition stack_execute ::
  "'q rmodbus \<Rightarrow> ('w, 'h, 'd, 'p) stack_transport \<Rightarrow> modbus_endpoint \<Rightarrow> modbus_request \<Rightarrow>
   ('h, 'p) stack_session option \<Rightarrow> 'w \<Rightarrow> (string + bytes) \<times> ('h, 'p) stack_session option \<times> 'w" where
  "stack_execute lib stack endpoint request session w =
     (let via_tcp =
        (let (sub, w) = (case session of
               Some (SessTcp h) \<Rightarrow> (Some h, w)
             | Some other \<Rightarrow> (None, stack_close stack other w)
             | None \<Rightarrow> (None, w));
             (result, sub, w) = tcp_execute lib (stk_tcp stack) endpoint request sub w
         in (result, map_option SessTcp sub, w));
      via_serial =
        (let (sub, w) = (case session of
               Some (SessSerial p) \<Rightarrow> (Some p, w)
             | Some other \<Rightarrow> (None, stack_close stack other w)
             | None \<Rightarrow> (None, w));
             (result, sub, w) = serial_execute lib (stk_serial stack) endpoint request sub w
         in (result, map_option SessSerial sub, w))
      in case endpoint of
           EpTcp _ \<Rightarrow> via_tcp
         | EpRtuOverTcp _ \<Rightarrow> via_tcp
         | EpUdp _ \<Rightarrow>
             (let (result, w) = udp_execute (stk_udp stack) endpoint request w in (result, session, w))
         | EpRtu _ \<Rightarrow> via_serial
         | EpAscii _ \<Rightarrow> via_serial)"

section \<open>The driver\<close>

definition is_retryable_transport_error :: "string \<Rightarrow> bool" where
  "is_retryable_transport_error e \<longleftrightarrow>
     starts_with ''failed to connect '' e \<or> starts_with ''failed to bind '' e \<or>
     starts_with ''failed to open '' e \<or> starts_with ''failed to send '' e \<or>
     starts_with ''failed to write '' e \<or> starts_with ''failed to flush '' e \<or>
     starts_with ''failed to read '' e"

definition request_attempt_budget :: "modbus_reconnect_config \<Rightarrow> bool \<Rightarrow> u32" where
  "request_attempt_budget reconnect is_write =
     (if \<not> mr_enabled reconnect \<or> is_write \<and> \<not> mr_retry_writes reconnect then 1
      else sat_add (mr_max_attempts reconnect) 1)"

text \<open>The mutex around the session and the clock of the runtime.\<close>

record 'w runtime_env =
  rt_lock :: "'w \<Rightarrow> (unit + unit) \<times> 'w"
  rt_sleep :: "duration \<Rightarrow> 'w \<Rightarrow> 'w"

type_synonym ('s, 'w) transport_execute =
  "modbus_endpoint \<Rightarrow> modbus_request \<Rightarrow> 's option \<Rightarrow> 'w \<Rightarrow> (string + bytes) \<times> 's option \<times> 'w"

text \<open>The loop over \<open>0..max_attempts\<close> with \<open>remaining\<close> attempts left.\<close>

fun attempt_loop ::
  "('s, 'w) transport_execute \<Rightarrow> 'w runtime_env \<Rightarrow> modbus_endpoint \<Rightarrow> modbus_request \<Rightarrow> nat \<Rightarrow> nat \<Rightarrow>
   string option \<Rightarrow> 's option \<Rightarrow> 'w \<Rightarrow> (string + bytes) \<times> 's option \<times> 'w" where
  "attempt_loop execute rt endpoint request attempt 0 last_error session w =
     (Inl (unwrap_or last_error ''Modbus execute failed''), session, w)"
| "attempt_loop execute rt endpoint request attempt (Suc remaining) last_error session w =
     (case execute endpoint request session w of
        (Inr frame, session, w) \<Rightarrow> (Inr frame, session, w)
      | (Inl e, session, w) \<Rightarrow>
          if remaining = 0 \<or> \<not> is_retryable_transport_error e then (Inl e, session, w)
          else
            attempt_loop execute rt endpoint request (attempt + 1) remaining (Some e) session
              (case modbus_delay_for_attempt (mo_reconnect (endpoint_options endpoint))
                      (of_nat (attempt + 1)) of
                 Some delay \<Rightarrow> rt_sleep rt delay w
               | None \<Rightarrow> w))"

definition modbus_execute_on_endpoint ::
  "('s, 'w) transport_execute \<Rightarrow> 'w runtime_env \<Rightarrow> modbus_device \<Rightarrow> modbus_request \<Rightarrow> 's option \<Rightarrow> 'w \<Rightarrow>
   (string + bytes) \<times> 's option \<times> 'w" where
  "modbus_execute_on_endpoint execute rt dvc request session w =
     (let reconnect = mo_reconnect (endpoint_options (dev_endpoint dvc));
          max_attempts = request_attempt_budget reconnect (mq_is_write request)
      in case rt_lock rt w of
           (Inl _, w) \<Rightarrow> (Inl ''failed to lock Modbus persistent session'', session, w)
         | (Inr _, w) \<Rightarrow>
             attempt_loop execute rt (dev_endpoint dvc) request 0 (unat max_attempts) None session w)"

definition modbus_execute ::
  "('s, 'w) transport_execute \<Rightarrow> 'w runtime_env \<Rightarrow> modbus_device \<Rightarrow> modbus_request \<Rightarrow> 's option \<Rightarrow> 'w \<Rightarrow>
   (string + modbus_response) \<times> 's option \<times> 'w" where
  "modbus_execute execute rt dvc request session w =
     (let (result, session, w) = modbus_execute_on_endpoint execute rt dvc request session w
      in (and_then result (build_modbus_response request), session, w))"

definition modbus_execute_command ::
  "'q rmodbus \<Rightarrow> ('s, 'w) transport_execute \<Rightarrow> 'w runtime_env \<Rightarrow> modbus_device \<Rightarrow> command \<Rightarrow>
   's option \<Rightarrow> 'w \<Rightarrow> (string + modbus_response) \<times> 's option \<times> 'w" where
  "modbus_execute_command lib execute rt dvc c session w =
     (case map_err modbus_error_str (modbus_native_request lib dvc c) of
        Inl e \<Rightarrow> (Inl e, session, w)
      | Inr request \<Rightarrow> modbus_execute execute rt dvc request session w)"

definition close_persistent_session ::
  "('s \<Rightarrow> 'w \<Rightarrow> 'w) \<Rightarrow> 'w runtime_env \<Rightarrow> 's option \<Rightarrow> 'w \<Rightarrow> (string + unit) \<times> 's option \<times> 'w" where
  "close_persistent_session close rt session w =
     (case rt_lock rt w of
        (Inl _, w) \<Rightarrow> (Inl ''failed to lock Modbus persistent session'', session, w)
      | (Inr _, w) \<Rightarrow>
          (Inr (), None, case session of Some s \<Rightarrow> close s w | None \<Rightarrow> w))"

definition modbus_start :: "'s option \<Rightarrow> 'w \<Rightarrow> (string + unit) \<times> 's option \<times> 'w" where
  "modbus_start session w = (Inr (), session, w)"

definition modbus_stop ::
  "('s \<Rightarrow> 'w \<Rightarrow> 'w) \<Rightarrow> 'w runtime_env \<Rightarrow> 's option \<Rightarrow> 'w \<Rightarrow> (string + unit) \<times> 's option \<times> 'w" where
  "modbus_stop close rt session w = close_persistent_session close rt session w"

end
