(* ===== verification/Modbus_Driver.thy ===== *)
theory Modbus_Driver
  imports Modbus_Transport
begin

text \<open>
  The contract of the Modbus transports and what the driver guarantees over it: the locale
  \<open>modbus_transport\<close> states how a transport treats the persistent session, it is interpreted on the
  TCP, UDP, serial and full-stack transports, and the driver's properties rest on it.  The second
  half treats the response reader, the exchange and the retry budget.
\<close>

section \<open>The transport contract\<close>

text \<open>
  \<open>keeps\<close> tells the endpoints on which the transport manages a session, \<open>fits\<close> the sessions that
  belong to an endpoint.
\<close>

locale modbus_transport =
  fixes execute :: "modbus_endpoint \<Rightarrow> modbus_request \<Rightarrow> 's option \<Rightarrow> 'w \<Rightarrow>
      (string + bytes) \<times> 's option \<times> 'w"
    and keeps :: "modbus_endpoint \<Rightarrow> bool"
    and fits :: "modbus_endpoint \<Rightarrow> 's \<Rightarrow> bool"
  assumes failure_drops:
      "keeps ep \<Longrightarrow> execute ep r s w = (Inl e, s', w') \<Longrightarrow> s' = None"
    and success_keeps:
      "keeps ep \<Longrightarrow> execute ep r s w = (Inr f, s', w') \<Longrightarrow>
       (s' \<noteq> None) = mo_persistent_session (endpoint_options ep)"
    and success_fits:
      "keeps ep \<Longrightarrow> execute ep r s w = (Inr f, Some t, w') \<Longrightarrow> fits ep t"
    and others_untouched:
      "\<not> keeps ep \<Longrightarrow> execute ep r s w = (x, s', w') \<Longrightarrow> s' = s"
begin

lemma loop_untouched:
  "\<not> keeps ep \<Longrightarrow> attempt_loop execute rt ep r a n err0 s w = (x, s', w') \<Longrightarrow> s' = s"
proof (induction n arbitrary: a err0 s w)
  case (Suc n)
  obtain y t v where e: "execute ep r s w = (y, t, v)" by (metis prod_cases3)
  have "t = s" using others_untouched [OF Suc.prems(1) e] .
  with Suc e show ?case by (cases y) (auto split: if_splits)
qed simp

lemma loop_session:
  "keeps ep \<Longrightarrow> attempt_loop execute rt ep r a (Suc n) err0 s w = (x, s', w') \<Longrightarrow>
   (case x of
      Inl _ \<Rightarrow> s' = None
    | Inr _ \<Rightarrow> (s' \<noteq> None) = mo_persistent_session (endpoint_options ep) \<and>
        (\<forall>t. s' = Some t \<longrightarrow> fits ep t))"
proof (induction n arbitrary: a err0 s w)
  case 0
  obtain y t v where e: "execute ep r s w = (y, t, v)" by (metis prod_cases3)
  show ?case
    using 0 e failure_drops [OF 0(1)] success_keeps [OF 0(1)] success_fits [OF 0(1)]
    by (cases y) auto
next
  case (Suc n)
  obtain y t v where e: "execute ep r s w = (y, t, v)" by (metis prod_cases3)
  show ?case
  proof (cases y)
    case (Inl err)
    show ?thesis
    proof (cases "is_retryable_transport_error err")
      case True
      with Suc.prems(2) e Inl show ?thesis
        by (intro Suc.IH [OF Suc.prems(1)]) (simp del: attempt_loop.simps add: attempt_loop.simps(2) [of _ _ _ _ _ "Suc n"])
    next
      case False
      with Suc.prems e Inl failure_drops [OF Suc.prems(1)] show ?thesis by auto
    qed
  next
    case (Inr f)
    with Suc.prems e success_keeps [OF Suc.prems(1)] success_fits [OF Suc.prems(1)]
    show ?thesis by auto
  qed
qed

lemma budget_pos: "\<exists>n. unat (request_attempt_budget c b) = Suc n"
proof -
  have "0 < unat (request_attempt_budget c b)"
    by (simp add: request_attempt_budget_def unat_sat_add)
  then show ?thesis by (metis gr0_implies_Suc)
qed

text \<open>What an execution leaves in the session; without the lock it leaves everything.\<close>

lemma driver_session:
  assumes "modbus_execute execute rt dvc r s w = (x, s', w')" and "keeps (dev_endpoint dvc)"
  shows "(\<exists>e. fst (rt_lock rt w) = Inl e \<and> s' = s \<and> isl x) \<or>
    (case x of
       Inl _ \<Rightarrow> s' = None
     | Inr _ \<Rightarrow> (s' \<noteq> None) = mo_persistent_session (endpoint_options (dev_endpoint dvc)) \<and>
         (\<forall>t. s' = Some t \<longrightarrow> fits (dev_endpoint dvc) t))"
proof -
  obtain n where n: "unat (request_attempt_budget (mo_reconnect (endpoint_options (dev_endpoint dvc)))
      (mq_is_write r)) = Suc n"
    using budget_pos by blast
  obtain l v where l: "rt_lock rt w = (l, v)" by force
  show ?thesis
  proof (cases l)
    case (Inl e)
    with assms l show ?thesis
      by (auto simp: modbus_execute_def modbus_execute_on_endpoint_def Let_def)
  next
    case (Inr u)
    obtain y t z where y: "attempt_loop execute rt (dev_endpoint dvc) r 0 (Suc n) None s v = (y, t, z)"
      by (metis prod_cases3)
    have "x = and_then y (build_modbus_response r)" "s' = t"
      using assms(1) l Inr n y
      by (simp_all add: modbus_execute_def modbus_execute_on_endpoint_def Let_def)
    with loop_session [OF assms(2) y] show ?thesis
      by (cases y) (simp_all add: build_modbus_response_def)
  qed
qed

lemma driver_untouched:
  assumes "modbus_execute execute rt dvc r s w = (x, s', w')" and "\<not> keeps (dev_endpoint dvc)"
  shows "s' = s"
proof -
  obtain l v where l: "rt_lock rt w = (l, v)" by force
  obtain y t z where y: "attempt_loop execute rt (dev_endpoint dvc) r 0
      (unat (request_attempt_budget (mo_reconnect (endpoint_options (dev_endpoint dvc)))
        (mq_is_write r))) None s v = (y, t, z)"
    by (metis prod_cases3)
  from assms l y loop_untouched [OF assms(2) y] show ?thesis
    by (cases l) (simp_all add: modbus_execute_def modbus_execute_on_endpoint_def Let_def)
qed

end

section \<open>The transports keep the contract\<close>

lemma settle_session_cases:
  "settle_session close persistent h r = (x, s', w') \<Longrightarrow>
   (case x of Inl _ \<Rightarrow> s' = None | Inr _ \<Rightarrow> s' = (if persistent then Some h else None))"
  by (auto simp: settle_session_def split: prod.splits sum.splits)

definition tcp_keeps :: "modbus_endpoint \<Rightarrow> bool" where
  "tcp_keeps ep \<longleftrightarrow> (case ep of EpTcp _ \<Rightarrow> True | EpRtuOverTcp _ \<Rightarrow> True | _ \<Rightarrow> False)"

definition serial_keeps :: "modbus_endpoint \<Rightarrow> bool" where
  "serial_keeps ep \<longleftrightarrow> (case ep of EpRtu _ \<Rightarrow> True | EpAscii _ \<Rightarrow> True | _ \<Rightarrow> False)"

lemma tcp_execute_session:
  "tcp_execute lib net ep r s w = (x, s', w') \<Longrightarrow>
   if tcp_keeps ep
   then (case x of
      Inl _ \<Rightarrow> s' = None
    | Inr _ \<Rightarrow> (s' \<noteq> None) = mo_persistent_session (endpoint_options ep))
   else s' = s"
  by (cases ep)
    (auto simp: tcp_execute_def tcp_keeps_def split: prod.splits sum.splits if_splits
      dest!: settle_session_cases)

lemma serial_execute_session:
  "serial_execute lib lines ep r s w = (x, s', w') \<Longrightarrow>
   if serial_keeps ep
   then (case x of
      Inl _ \<Rightarrow> s' = None
    | Inr _ \<Rightarrow> (s' \<noteq> None) = mo_persistent_session (endpoint_options ep))
   else s' = s"
  by (cases ep)
    (auto simp: serial_execute_def serial_keeps_def split: prod.splits sum.splits if_splits
      dest!: settle_session_cases)

interpretation tcp: modbus_transport "tcp_execute lib net" tcp_keeps "\<lambda>_ _. True" for lib net
proof unfold_locales
  fix ep r s w e f s' w' x
  show "tcp_keeps ep \<Longrightarrow> tcp_execute lib net ep r s w = (Inl e, s', w') \<Longrightarrow> s' = None"
    "tcp_keeps ep \<Longrightarrow> tcp_execute lib net ep r s w = (Inr f, s', w') \<Longrightarrow>
       (s' \<noteq> None) = mo_persistent_session (endpoint_options ep)"
    "\<not> tcp_keeps ep \<Longrightarrow> tcp_execute lib net ep r s w = (x, s', w') \<Longrightarrow> s' = s"
    using tcp_execute_session [of lib net ep r s w] by auto
qed simp

interpretation serial: modbus_transport "serial_execute lib lines" serial_keeps "\<lambda>_ _. True"
  for lib lines
proof unfold_locales
  fix ep r s w e f s' w' x
  show "serial_keeps ep \<Longrightarrow> serial_execute lib lines ep r s w = (Inl e, s', w') \<Longrightarrow> s' = None"
    "serial_keeps ep \<Longrightarrow> serial_execute lib lines ep r s w = (Inr f, s', w') \<Longrightarrow>
       (s' \<noteq> None) = mo_persistent_session (endpoint_options ep)"
    "\<not> serial_keeps ep \<Longrightarrow> serial_execute lib lines ep r s w = (x, s', w') \<Longrightarrow> s' = s"
    using serial_execute_session [of lib lines ep r s w] by auto
qed simp

text \<open>The UDP transport in the shape of the trait; it never has a session to manage.\<close>

definition udp_transport_execute ::
  "('w, 'h) udp_net \<Rightarrow> modbus_endpoint \<Rightarrow> modbus_request \<Rightarrow> unit option \<Rightarrow> 'w \<Rightarrow>
   (string + bytes) \<times> unit option \<times> 'w" where
  "udp_transport_execute net ep r s w = (let (x, w) = udp_execute net ep r w in (x, s, w))"

interpretation udp: modbus_transport "udp_transport_execute net" "\<lambda>_. False" "\<lambda>_ _. True" for net
  by unfold_locales (auto simp: udp_transport_execute_def split: prod.splits)

definition stack_keeps :: "modbus_endpoint \<Rightarrow> bool" where
  "stack_keeps ep \<longleftrightarrow> tcp_keeps ep \<or> serial_keeps ep"

definition stack_fits :: "modbus_endpoint \<Rightarrow> ('h, 'p) stack_session \<Rightarrow> bool" where
  "stack_fits ep s \<longleftrightarrow>
     (case s of SessTcp _ \<Rightarrow> tcp_keeps ep | SessSerial _ \<Rightarrow> serial_keeps ep)"

lemma stack_execute_via:
  assumes "stack_execute lib stack ep r s w = (x, s', w')"
  shows "tcp_keeps ep \<Longrightarrow> \<exists>sub v t. tcp_execute lib (stk_tcp stack) ep r sub v = (x, t, w') \<and>
      s' = map_option SessTcp t"
    and "serial_keeps ep \<Longrightarrow> \<exists>sub v t. serial_execute lib (stk_serial stack) ep r sub v = (x, t, w') \<and>
      s' = map_option SessSerial t"
    and "\<not> stack_keeps ep \<Longrightarrow> s' = s"
  using assms
  by (cases ep; auto simp: stack_execute_def stack_keeps_def tcp_keeps_def serial_keeps_def Let_def
      split: prod.splits)+

lemma keeps_disjoint: "tcp_keeps ep \<Longrightarrow> \<not> serial_keeps ep"
  by (cases ep) (simp_all add: tcp_keeps_def serial_keeps_def)

interpretation stack: modbus_transport "stack_execute lib stack" stack_keeps stack_fits for lib stack
proof unfold_locales
  fix ep r s w e f s' t w' x
  show "stack_keeps ep \<Longrightarrow> stack_execute lib stack ep r s w = (Inl e, s', w') \<Longrightarrow> s' = None"
    using stack_execute_via [of lib stack ep r s w "Inl e" s' w']
    by (auto simp: stack_keeps_def dest: tcp.failure_drops serial.failure_drops)
  show "stack_keeps ep \<Longrightarrow> stack_execute lib stack ep r s w = (Inr f, s', w') \<Longrightarrow>
       (s' \<noteq> None) = mo_persistent_session (endpoint_options ep)"
  proof -
    assume k: "stack_keeps ep" and ex: "stack_execute lib stack ep r s w = (Inr f, s', w')"
    show ?thesis
    proof (cases "tcp_keeps ep")
      case True
      then show ?thesis
        using stack_execute_via(1) [OF ex] tcp.success_keeps [OF True] by fastforce
    next
      case False
      with k have "serial_keeps ep" by (simp add: stack_keeps_def)
      then show ?thesis
        using stack_execute_via(2) [OF ex] serial.success_keeps by fastforce
    qed
  qed
  show "stack_keeps ep \<Longrightarrow> stack_execute lib stack ep r s w = (Inr f, Some t, w') \<Longrightarrow> stack_fits ep t"
    using stack_execute_via [of lib stack ep r s w "Inr f" "Some t" w']
    by (auto simp: stack_keeps_def stack_fits_def dest!: sym [of "Some t"])
  show "\<not> stack_keeps ep \<Longrightarrow> stack_execute lib stack ep r s w = (x, s', w') \<Longrightarrow> s' = s"
    using stack_execute_via(3) [of lib stack ep r s w x s' w'] by blast
qed

section \<open>The session of a running driver\<close>

text \<open>
  The states a driver's session reaches: it starts without one, executes requests, is stopped, and
  the rest of the world may change in between.
\<close>

inductive modbus_run ::
  "('s, 'w) transport_execute \<Rightarrow> ('s \<Rightarrow> 'w \<Rightarrow> 'w) \<Rightarrow> 'w runtime_env \<Rightarrow> modbus_device \<Rightarrow>
   's option \<Rightarrow> 'w \<Rightarrow> bool"
  for execute close rt dvc where
  started: "modbus_run execute close rt dvc None w"
| executed: "modbus_run execute close rt dvc s w \<Longrightarrow>
    modbus_execute execute rt dvc r s w = (x, s', w') \<Longrightarrow> modbus_run execute close rt dvc s' w'"
| stopped: "modbus_run execute close rt dvc s w \<Longrightarrow>
    modbus_stop close rt s w = (x, s', w') \<Longrightarrow> modbus_run execute close rt dvc s' w'"
| elsewhere: "modbus_run execute close rt dvc s w \<Longrightarrow> modbus_run execute close rt dvc s w'"

lemma modbus_stop_session:
  "modbus_stop close rt s w = (x, s', w') \<Longrightarrow> s' = None \<or> s' = s"
  by (auto simp: modbus_stop_def close_persistent_session_def split: prod.splits sum.splits)

context modbus_transport
begin

text \<open>A session is only ever kept for an endpoint that asks for it, and it belongs to that endpoint.\<close>

lemma run_session:
  "modbus_run execute close rt dvc s w \<Longrightarrow> s = Some t \<Longrightarrow>
   keeps (dev_endpoint dvc) \<and> mo_persistent_session (endpoint_options (dev_endpoint dvc)) \<and>
   fits (dev_endpoint dvc) t"
proof (induction arbitrary: t rule: modbus_run.induct)
  case (executed s w r x s' w')
  show ?case
  proof (cases "keeps (dev_endpoint dvc)")
    case True
    from driver_session [OF executed.hyps(2) True] executed.prems executed.IH True show ?thesis
      by (cases x) auto
  next
    case False
    then have "s = Some t" using driver_untouched [OF executed.hyps(2)] executed.prems by simp
    with executed.IH show ?thesis by blast
  qed
next
  case (stopped s w x s' w')
  then show ?case using modbus_stop_session [OF stopped.hyps(2)] by auto
qed simp_all

end

text \<open>
  A network for the witnesses: a socket accepts everything, and reads deliver the chunks of a
  script and then end.
\<close>

type_synonym script = "bytes \<times> bytes list"

definition script_io :: "(script, unit, net_error) stream_io" where
  "script_io =
     \<lparr> st_write = (\<lambda>_ w d. (Inr (length d), (fst w @ d, snd w))),
       st_flush = (\<lambda>_ w. (Inr (), w)),
       st_read = (\<lambda>_ _ w. (Inr (case snd w of [] \<Rightarrow> [] | c # _ \<Rightarrow> c), (fst w, tl (snd w)))),
       st_close = (\<lambda>_ w. (Inr (), w)) \<rparr>"

definition script_net :: "(script, unit) tcp_net" where
  "script_net =
     \<lparr> tn_io = script_io, tn_connect = (\<lambda>_ w. (Inr (), w)),
       tn_set_read_timeout = (\<lambda>_ _ w. (Inr (), w)),
       tn_set_write_timeout = (\<lambda>_ _ w. (Inr (), w)) \<rparr>"

definition script_stack :: "(script, unit, unit, unit) stack_transport" where
  "script_stack =
     \<lparr> stk_tcp = script_net,
       stk_udp = \<lparr> un_bind_datagram = (\<lambda>_ w. (Inl NetUnsupported, w)),
         un_set_read_timeout = (\<lambda>_ _ w. (Inr (), w)), un_send_to = (\<lambda>_ _ _ w. (Inl NetUnsupported, w)),
         un_recv_from = (\<lambda>_ _ w. (Inl NetUnsupported, w)) \<rparr>,
       stk_serial = \<lparr> sl_io = \<lparr> st_write = (\<lambda>_ w _. (Inl SerialUnsupported, w)),
           st_flush = (\<lambda>_ w. (Inr (), w)), st_read = (\<lambda>_ _ w. (Inl SerialUnsupported, w)),
           st_close = (\<lambda>_ w. (Inr (), w)) \<rparr>,
         sl_open = (\<lambda>_ w. (Inl SerialUnsupported, w)) \<rparr> \<rparr>"

definition free_runtime :: "'w runtime_env" where
  "free_runtime = \<lparr> rt_lock = (\<lambda>w. (Inr (), w)), rt_sleep = (\<lambda>_ w. w) \<rparr>"

definition persistent_options :: modbus_client_options where
  "persistent_options = modbus_client_options_default\<lparr> mo_persistent_session := True \<rparr>"

definition sample_response_frame :: bytes where
  "sample_response_frame = [0, 1, 0, 0, 0, 5, 1, 3, 2, 0x12, 0x34]"

lemma script_write:
  "write_all_socket (st_write script_io h) buf w = (Inr (), (fst w @ buf, snd w))"
  by (cases "buf = []") (simp_all add: write_all_socket_def write_all_loop.simps script_io_def)

lemma sample_frame_complete:
  "frame_complete lib sample_response_frame TcpUdp"
  "trim_frame lib sample_response_frame TcpUdp = sample_response_frame"
  by (simp_all add: frame_complete_def trim_frame_def tcp_udp_frame_len_def sample_response_frame_def
      u16_from_be_bytes_def)

lemma script_read:
  "read_stream_response_socket lib script_io h TcpUdp (out, [sample_response_frame]) =
     (Inr sample_response_frame, (out, []))"
proof -
  have "read_response_loop (st_read script_io h 64) NetClosed net_error_debug p 260
      (\<lambda>f. frame_complete lib f TcpUdp) [] (out, [sample_response_frame]) =
    (Inr sample_response_frame, (out, []))" for p
    using sample_frame_complete(1) [of lib]
    by (subst read_response_loop.simps)
      (simp add: script_io_def, simp add: sample_response_frame_def)
  with sample_frame_complete(2) [of lib] show ?thesis
    by (simp add: read_stream_response_socket_def frame_len_defs)
qed

lemma script_flush: "st_flush script_io h w = (Inr (), w)"
  by (simp add: script_io_def)

lemma script_exchange:
  "mq_proto r = TcpUdp \<Longrightarrow>
   tcp_execute lib script_net (EpTcp config) r None (out, [sample_response_frame]) =
     (Inr sample_response_frame,
      if mo_persistent_session (mte_options config) then Some () else None, (out @ mq_frame r, []))"
  by (simp add: tcp_execute_def take_session_def open_socket_def script_net_def
      write_stream_request_def script_write script_flush script_read settle_session_def)

lemma script_driver:
  "modbus_execute (stack_execute lib script_stack) free_runtime (sample_modbus_device persistent_options)
     sample_modbus_request None ([], [sample_response_frame]) =
   (Inr \<lparr> ms_frame = sample_response_frame, ms_proto = TcpUdp, ms_unit_id = 1,
          ms_parser_seed = ReadHoldings 100 1, ms_decoder = DecU16 \<rparr>,
    Some (SessTcp ()), (mq_frame sample_modbus_request, []))"
proof -
  have b: "unat (request_attempt_budget c f) = Suc 0" if "mr_max_attempts c = 0" for c f
    using that by (simp add: request_attempt_budget_def unat_sat_add)
  show ?thesis
    by (simp add: modbus_execute_def modbus_execute_on_endpoint_def free_runtime_def b
        sample_modbus_device_def persistent_options_def modbus_client_options_default_def
        modbus_reconnect_config_default_def sample_modbus_request_def stack_execute_def Let_def
        script_stack_def script_exchange build_modbus_response_def)
qed

text \<open>C9: the session invariant of the default driver: however requests, failures, retries and
  stops follow one another, a session is held only for a TCP or serial endpoint that asks for
  persistent sessions, and it is a socket for a TCP endpoint and a port for a serial one.\<close>

theorem modbus_session_invariant:
  assumes "modbus_run (stack_execute lib stack) (stack_close stack) rt dvc (Some t) w"
  shows "mo_persistent_session (endpoint_options (dev_endpoint dvc)) \<and>
    (case dev_endpoint dvc of
       EpTcp _ \<Rightarrow> \<exists>h. t = SessTcp h
     | EpRtuOverTcp _ \<Rightarrow> \<exists>h. t = SessTcp h
     | EpRtu _ \<Rightarrow> \<exists>p. t = SessSerial p
     | EpAscii _ \<Rightarrow> \<exists>p. t = SessSerial p
     | EpUdp _ \<Rightarrow> False)"
  using stack.run_session [OF assms refl]
  by (cases "dev_endpoint dvc"; cases t)
    (simp_all add: stack_keeps_def stack_fits_def tcp_keeps_def serial_keeps_def)

theorem modbus_session_invariant_witness:
  "\<exists>h. SessTcp () = (SessTcp h :: (unit, unit) stack_session) \<and>
     mo_persistent_session persistent_options"
proof -
  have "modbus_run (stack_execute sample_rmodbus script_stack) (stack_close script_stack) free_runtime
      (sample_modbus_device persistent_options) (Some (SessTcp ())) (mq_frame sample_modbus_request, [])"
    by (rule modbus_run.executed [OF modbus_run.started script_driver])
  from modbus_session_invariant [OF this] show ?thesis by (simp add: sample_modbus_device_def)
qed

text \<open>a failed execution leaves no session behind and a successful one keeps it exactly when
  the endpoint is persistent, on every transport that manages sessions; only a failure to take the
  session lock leaves the session as it was.\<close>

theorem modbus_session_after_execute:
  assumes "modbus_execute (stack_execute lib stack) rt dvc r s w = (x, s', w')"
    and "\<forall>config. dev_endpoint dvc \<noteq> EpUdp config"
  shows "(\<exists>e. fst (rt_lock rt w) = Inl e \<and> s' = s \<and> isl x) \<or>
    (if isl x then s' = None
     else (s' \<noteq> None) = mo_persistent_session (endpoint_options (dev_endpoint dvc)))"
proof -
  have "stack_keeps (dev_endpoint dvc)"
    using assms(2) by (cases "dev_endpoint dvc") (simp_all add: stack_keeps_def tcp_keeps_def serial_keeps_def)
  from stack.driver_session [OF assms(1) this] show ?thesis by (cases x) auto
qed

theorem modbus_session_after_execute_witness:
  "(Some (SessTcp ()) \<noteq> (None :: (unit, unit) stack_session option)) =
     mo_persistent_session persistent_options"
  using modbus_session_after_execute [OF script_driver [of sample_rmodbus]]
  by (simp add: sample_modbus_device_def free_runtime_def)

section \<open>Reading a response\<close>

text \<open>\<open>data\<close> is what a run of non-empty reads delivered.\<close>

inductive stream_reads :: "('w \<Rightarrow> ('e + bytes) \<times> 'w) \<Rightarrow> 'w \<Rightarrow> bytes \<Rightarrow> 'w \<Rightarrow> bool" for rd where
  nothing: "stream_reads rd w [] w"
| more: "rd w = (Inr chunk, v) \<Longrightarrow> chunk \<noteq> [] \<Longrightarrow> stream_reads rd v data w' \<Longrightarrow>
    stream_reads rd w (chunk @ data) w'"

inductive_cases stream_readsE: "stream_reads rd w data w'"

text \<open>
  The reader returns what the peer sent, within the limit, and never an empty frame: it stops after
  the first chunk that completes the frame, or, with the frame incomplete, when the peer has closed.
\<close>

lemma read_response_loop_delivers:
  "read_response_loop rd closed debug prefix limit complete frame w = (Inr out, w') \<Longrightarrow>
   length frame \<le> limit \<Longrightarrow> \<not> complete frame \<Longrightarrow>
   \<exists>data v. stream_reads rd w data v \<and> out = frame @ data \<and> out \<noteq> [] \<and> length out \<le> limit \<and>
     (\<forall>d u. stream_reads rd w d u \<and> length d < length data \<longrightarrow> \<not> complete (frame @ d)) \<and>
     (complete out \<and> w' = v \<or>
      \<not> complete out \<and> (rd v = (Inl closed, w') \<or> rd v = (Inr [], w')))"
proof (induction rd closed debug prefix limit complete frame w rule: read_response_loop.induct)
  case (1 rd closed debug prefix limit complete frame w)
  obtain x v where x: "rd w = (x, v)" by force
  show ?case
  proof (cases x)
    case (Inl e)
    with 1(2) x have "out = frame" "frame \<noteq> []" "e = closed" "w' = v"
      by (auto simp: read_response_loop.simps [of rd _ _ _ _ _ frame w] split: if_splits)
    with 1(3,4) x Inl show ?thesis
      by (intro exI [of _ "[]"] exI [of _ w]) (auto intro: stream_reads.nothing)
  next
    case (Inr chunk)
    note step = 1(2) [unfolded read_response_loop.simps [of rd _ _ _ _ _ frame w] x Inr, simplified]
    show ?thesis
    proof (cases "chunk = []")
      case True
      with step have "out = frame" "frame \<noteq> []" "w' = v" by (auto split: if_splits)
      with 1(3,4) x Inr True show ?thesis
        by (intro exI [of _ "[]"] exI [of _ w]) (auto intro: stream_reads.nothing)
    next
      case False
      with step have lim: "length (frame @ chunk) \<le> limit" by (auto split: if_splits)
      have one: "stream_reads rd v data v' \<Longrightarrow> stream_reads rd w (chunk @ data) v'" for data v'
        using x Inr False by (auto intro: stream_reads.more)
      have first: "d = [] \<or> (\<exists>d'. d = chunk @ d' \<and> stream_reads rd v d' u)"
        if "stream_reads rd w d u" for d u
        using that x Inr by (auto elim: stream_readsE)
      show ?thesis
      proof (cases "complete (frame @ chunk)")
        case True
        with step False lim have out: "out = frame @ chunk" "w' = v" by (auto split: if_splits)
        have "\<not> complete (frame @ d)" if "stream_reads rd w d u" "length d < length chunk" for d u
          using first [OF that(1)] that(2) 1(4) by auto
        with out True lim False one [OF stream_reads.nothing] show ?thesis
          by (intro exI [of _ chunk] exI [of _ v]) auto
      next
        case incomplete: False
        with step False lim
        have run: "read_response_loop rd closed debug prefix limit complete (frame @ chunk) v = (Inr out, w')"
          by (auto split: if_splits)
        have "\<not> limit < length frame + length chunk" using lim by simp
        from 1(1) [OF x [symmetric] Inr False this incomplete run lim incomplete]
        obtain data v' where rest: "stream_reads rd v data v'" "out = (frame @ chunk) @ data"
            "out \<noteq> []" "length out \<le> limit"
            "\<forall>d u. stream_reads rd v d u \<and> length d < length data \<longrightarrow> \<not> complete ((frame @ chunk) @ d)"
            "complete out \<and> w' = v' \<or>
             \<not> complete out \<and> (rd v' = (Inl closed, w') \<or> rd v' = (Inr [], w'))"
          by blast
        have "\<not> complete (frame @ d)" if "stream_reads rd w d u" "length d < length (chunk @ data)" for d u
          using first [OF that(1)] that(2) 1(4) rest(5) by auto
        with rest one [OF rest(1)] show ?thesis
          by (intro exI [of _ "chunk @ data"] exI [of _ v']) auto
      qed
    qed
  qed
qed

text \<open>A frame that is complete only as a whole is read as it is, however it arrives.\<close>

lemma read_response_loop_chunks:
  "stream_reads rd w data w' \<Longrightarrow> data \<noteq> [] \<Longrightarrow> length (frame @ data) \<le> limit \<Longrightarrow>
   complete (frame @ data) \<Longrightarrow>
   (\<And>k. 0 < k \<Longrightarrow> k < length data \<Longrightarrow> \<not> complete (frame @ take k data)) \<Longrightarrow>
   read_response_loop rd closed debug prefix limit complete frame w = (Inr (frame @ data), w')"
proof (induction arbitrary: frame rule: stream_reads.induct)
  case (more w chunk v data w')
  have lim: "\<not> limit < length frame + length chunk" using more.prems(2) by simp
  show ?case
  proof (cases "data = []")
    case True
    with more.hyps(3) have "v = w'" by (auto elim: stream_readsE)
    with True more.hyps more.prems lim show ?thesis
      by (subst read_response_loop.simps) simp
  next
    case False
    have "\<not> complete (frame @ chunk)"
      using more.prems(4) [of "length chunk"] more.hyps(2) False by simp
    moreover have "read_response_loop rd closed debug prefix limit complete (frame @ chunk) v =
        (Inr ((frame @ chunk) @ data), w')"
    proof (rule more.IH)
      show "\<not> complete ((frame @ chunk) @ take k data)" if "0 < k" "k < length data" for k
        using more.prems(4) [of "length chunk + k"] that by simp
    qed (use False more.prems in simp_all)
    ultimately show ?thesis
      using more.hyps lim by (subst read_response_loop.simps) simp
  qed
qed simp

text \<open>
  Whole frames on the wire: the MBAP length, the length the library guesses for an RTU frame, or the
  first line end is the end of the frame.  The guess looks at the head of the frame only, which
  \<open>min_guess_len\<close> bytes hold, so every longer beginning of the frame gets the same answer.
\<close>

definition whole_frame :: "'q rmodbus \<Rightarrow> modbus_proto \<Rightarrow> bytes \<Rightarrow> bool" where
  "whole_frame lib proto frame \<longleftrightarrow>
     (case proto of
        TcpUdp \<Rightarrow> tcp_udp_frame_len frame = Some (length frame)
      | Ascii \<Rightarrow> take 1 frame = [0x3A] \<and> ascii_frame_end frame = Some (length frame) \<and> 7 \<le> length frame
      | Rtu \<Rightarrow> 5 \<le> length frame \<and>
          (\<forall>k \<in> {5..length frame}. \<exists>n. unat n = length frame \<and>
             rm_guess_response_frame_len lib (take k frame) Rtu = Inr n))"

lemma tcp_len_prefix:
  "tcp_udp_frame_len frame = Some n \<Longrightarrow>
   tcp_udp_frame_len (take k frame) = (if k < 6 then None else Some n)"
  by (auto simp: tcp_udp_frame_len_def Let_def split: if_splits)

lemma whole_frame_complete:
  assumes "whole_frame lib proto frame"
  shows "frame \<noteq> []" "frame_complete lib frame proto" "trim_frame lib frame proto = frame"
    and "k < length frame \<Longrightarrow> \<not> frame_complete lib (take k frame) proto"
proof -
  have rtu: "\<exists>n. unat n = length frame \<and> rm_guess_response_frame_len lib (take k frame) Rtu = Inr n"
    if "proto = Rtu" "5 \<le> k" "k \<le> length frame" for k
    using assms that by (simp add: whole_frame_def)
  show ne: "frame \<noteq> []"
    using assms by (cases proto) (auto simp: whole_frame_def tcp_udp_frame_len_def)
  show "frame_complete lib frame proto" "trim_frame lib frame proto = frame"
    using assms rtu [of "length frame"]
    by (cases proto; auto simp: whole_frame_def frame_complete_def ascii_frame_complete_def trim_frame_def)+
  show "k < length frame \<Longrightarrow> \<not> frame_complete lib (take k frame) proto"
  proof (cases proto)
    case TcpUdp
    with assms tcp_len_prefix [of frame "length frame" k] show "k < length frame \<Longrightarrow> ?thesis"
      by (simp add: whole_frame_def frame_complete_def)
  next
    case Rtu
    then show "k < length frame \<Longrightarrow> ?thesis"
      using rtu [of k] by (cases "5 \<le> k") (auto simp: frame_complete_def)
  next
    case Ascii
    assume k: "k < length frame"
    have "ascii_frame_end (take k frame) = None"
    proof (rule ccontr)
      assume "ascii_frame_end (take k frame) \<noteq> None"
      then obtain i where i: "window_position [0x0D, 0x0A] (take k frame) = Some i"
        by (auto simp: ascii_frame_end_def)
      with window_position_append [of "[0x0D, 0x0A]" "take k frame" i "drop k frame"]
      have "ascii_frame_end frame = Some (i + 2)" by (simp add: ascii_frame_end_def)
      with assms Ascii have "i + 2 = length frame" by (simp add: whole_frame_def)
      moreover have "i + 2 \<le> k"
        using window_position_bound [OF i] by simp
      ultimately show False using k by simp
    qed
    with Ascii show ?thesis by (simp add: frame_complete_def ascii_frame_complete_def)
  qed
qed

text \<open>C10: framing does not depend on how the network cuts the response: a whole Modbus/TCP, ASCII or
  RTU frame within the size limit (for RTU: one whose length the library's guess gives from its
  first five bytes on) is returned as it is by the socket and by the serial reader, in whatever
  non-empty chunks it arrives, and nothing is read past its end.\<close>

theorem modbus_frame_any_chunking:
  assumes "whole_frame lib proto frame" and "length frame \<le> max_frame_len proto"
  shows "(stream_reads (st_read io h 64) w frame w' \<longrightarrow>
      read_stream_response_socket lib io h proto w = (Inr frame, w')) \<and>
    (stream_reads (st_read sio p 64) v frame v' \<longrightarrow>
      read_stream_response_serial lib sio p proto v = (Inr frame, v'))"
proof -
  note whole = whole_frame_complete [OF assms(1)]
  have loop: "read_response_loop rd closed debug prefix (max_frame_len proto)
      (\<lambda>frame. frame_complete lib frame proto) [] u = (Inr frame, u')"
    if "stream_reads rd u frame u'" for rd :: "'x \<Rightarrow> ('y + bytes) \<times> 'x" and u u' closed debug prefix
    using read_response_loop_chunks [OF that whole(1), of "[]" "max_frame_len proto"
        "\<lambda>frame. frame_complete lib frame proto"] assms(2) whole(2,4) by simp
  show ?thesis
    by (simp add: read_stream_response_socket_def read_stream_response_serial_def whole(3) loop)
qed

text \<open>
  For the witness: a library that guesses RTU lengths from the byte count, as \<open>rmodbus\<close> does for
  register reads, and a response of one register in RTU framing.
\<close>

definition rtu_rmodbus :: "u8 rmodbus" where
  "rtu_rmodbus = sample_rmodbus\<lparr> rm_guess_response_frame_len :=
     (\<lambda>frame _. if length frame < 3 then Inl FrameBroken else Inr (frame ! 2 + 5)) \<rparr>"

definition sample_rtu_frame :: bytes where
  "sample_rtu_frame = [1, 3, 2, 0x12, 0x34, 0xB5, 0x33]"

lemma script_delivers:
  "c \<noteq> [] \<Longrightarrow> d \<noteq> [] \<Longrightarrow> stream_reads (st_read script_io () 64) (out, [c, d]) (c @ d) (out, [])"
  using stream_reads.more [of "st_read script_io () 64" "(out, [c, d])" c "(out, [d])" d "(out, [])"]
    stream_reads.more [of "st_read script_io () 64" "(out, [d])" d "(out, [])" "[]" "(out, [])"]
  by (simp add: script_io_def stream_reads.nothing)

theorem modbus_frame_any_chunking_witness:
  "read_stream_response_socket rtu_rmodbus script_io () TcpUdp
     ([], [take 4 sample_response_frame, drop 4 sample_response_frame]) =
       (Inr sample_response_frame, ([], [])) \<and>
   read_stream_response_socket rtu_rmodbus script_io () Rtu
     ([], [take 2 sample_rtu_frame, drop 2 sample_rtu_frame]) = (Inr sample_rtu_frame, ([], []))"
proof -
  have tcp: "whole_frame rtu_rmodbus TcpUdp sample_response_frame"
    by (simp add: whole_frame_def tcp_udp_frame_len_def sample_response_frame_def u16_from_be_bytes_def)
  have "{5..length sample_rtu_frame} = {5, 6, 7}" by (auto simp: sample_rtu_frame_def)
  then have rtu: "whole_frame rtu_rmodbus Rtu sample_rtu_frame"
    by (simp add: whole_frame_def) (simp add: rtu_rmodbus_def sample_rtu_frame_def)
  have len: "length sample_response_frame \<le> max_frame_len TcpUdp" "length sample_rtu_frame \<le> max_frame_len Rtu"
    by (simp_all add: sample_response_frame_def sample_rtu_frame_def frame_len_defs)
  have "stream_reads (st_read script_io () 64) ([], [take 4 sample_response_frame,
      drop 4 sample_response_frame]) sample_response_frame ([], [])"
    using script_delivers [of "take 4 sample_response_frame" "drop 4 sample_response_frame"]
    by (simp add: sample_response_frame_def)
  moreover have "stream_reads (st_read script_io () 64) ([], [take 2 sample_rtu_frame,
      drop 2 sample_rtu_frame]) sample_rtu_frame ([], [])"
    using script_delivers [of "take 2 sample_rtu_frame" "drop 2 sample_rtu_frame"]
    by (simp add: sample_rtu_frame_def)
  ultimately show ?thesis
    by (intro conjI conjunct1 [OF modbus_frame_any_chunking [OF tcp len(1)], THEN mp]
        conjunct1 [OF modbus_frame_any_chunking [OF rtu len(2)], THEN mp])
qed

text \<open>
  A peer that closes the stream in the middle of a frame is not an error: what arrived is returned
  as the response, and a persistent session keeps the closed handle.
\<close>

lemma truncated_response_accepted:
  assumes "st_read io h 64 w = (Inr chunk, w1)" and "chunk \<noteq> []" and "length chunk \<le> max_frame_len proto"
    and "\<not> frame_complete lib chunk proto" and "st_read io h 64 w1 = (Inl NetClosed, w2)"
  shows "read_stream_response_socket lib io h proto w = (Inr (trim_frame lib chunk proto), w2)"
  using assms
  by (simp add: read_stream_response_socket_def read_response_loop.simps [of _ _ _ _ _ _ "[]"]
      read_response_loop.simps [of _ _ _ _ _ _ chunk])

section \<open>An exchange over TCP\<close>

lemma write_stream_request_complete:
  assumes "honest_writer sent (st_write io h)" and "\<forall>w. sent (snd (st_flush io h w)) = sent w"
    and "write_stream_request io h frame label w = (Inr u, w')"
  shows "sent w' = sent w @ frame"
proof -
  obtain x v where v: "write_all_socket (st_write io h) frame w = (Inr x, v)"
    and f: "st_flush io h v = (Inr u, w')"
    using assms(3) by (auto simp: write_stream_request_def io_step_eq_Inr)
  have "sent v = sent w @ frame"
    by (rule write_all_socket_complete [OF assms(1) v])
  moreover have "sent w' = sent v" using assms(2) f by (metis snd_conv)
  ultimately show ?thesis by simp
qed

lemma nothing_complete: "\<not> frame_complete lib [] proto"
  by (cases proto)
    (simp_all add: frame_complete_def tcp_udp_frame_len_def ascii_frame_complete_def ascii_frame_end_def)

text \<open>Where a stream endpoint is reached, and the connection an exchange runs on.\<close>

definition tcp_address :: "modbus_endpoint \<Rightarrow> (string \<times> u16) option" where
  "tcp_address ep =
     (case ep of
        EpTcp config \<Rightarrow> Some (mte_addr config, mte_port config)
      | EpRtuOverTcp config \<Rightarrow> Some (mrt_addr config, mrt_port config)
      | _ \<Rightarrow> None)"

definition on_connection ::
  "('w, 'h) tcp_net \<Rightarrow> modbus_endpoint \<Rightarrow> duration option \<Rightarrow> 'h option \<Rightarrow> 'w \<Rightarrow> 'h \<Rightarrow> 'w \<Rightarrow> bool" where
  "on_connection net ep timeout s w h w0 \<longleftrightarrow>
     (if mo_persistent_session (endpoint_options ep) \<and> s \<noteq> None then s = Some h \<and> w0 = w
      else \<exists>addr port. tcp_address ep = Some (addr, port) \<and>
        open_socket net addr port timeout
          (case s of None \<Rightarrow> w | Some stale \<Rightarrow> tcp_close net stale w) = (Inr h, w0))"

lemma tcp_execute_success:
  assumes "tcp_execute lib net ep r s w = (Inr frame, s', w')"
  shows "\<exists>h w0 label w1. on_connection net ep (mq_timeout r) s w h w0 \<and>
    write_stream_request (tn_io net) h (mq_frame r) label w0 = (Inr (), w1) \<and>
    read_stream_response_socket lib (tn_io net) h (mq_proto r) w1 = (Inr frame, w') \<and>
    s' = (if mo_persistent_session (endpoint_options ep) then Some h else None)"
proof -
  define label where "label =
    (case ep of EpTcp _ \<Rightarrow> ''Modbus TCP'' | _ \<Rightarrow> ''Modbus RTU-over-TCP'')"
  obtain addr port where ep: "tcp_address ep = Some (addr, port)"
    using assms by (cases ep) (simp_all add: tcp_execute_def tcp_address_def)
  have run: "(case take_session (tcp_close net) (open_socket net addr port (mq_timeout r))
                  (mo_persistent_session (endpoint_options ep)) s w of
             (Inl e, w) \<Rightarrow> (Inl e, None, w)
           | (Inr h, w) \<Rightarrow>
               settle_session (tcp_close net) (mo_persistent_session (endpoint_options ep)) h
                 (io_step (\<lambda>e. e) (write_stream_request (tn_io net) h (mq_frame r) label w)
                    (\<lambda>_ w. read_stream_response_socket lib (tn_io net) h (mq_proto r) w)))
       = (Inr frame, s', w')"
  proof (cases ep)
    case (EpTcp config)
    with assms ep show ?thesis
      unfolding label_def EpTcp endpoint_options.simps modbus_endpoint.case by (simp add: tcp_execute_def tcp_address_def)
  next
    case (EpRtuOverTcp config)
    with assms ep show ?thesis
      unfolding label_def EpRtuOverTcp endpoint_options.simps modbus_endpoint.case by (simp add: tcp_execute_def tcp_address_def)
  qed (use ep in \<open>simp_all add: tcp_address_def\<close>)
  from run obtain h w0 where
    h: "take_session (tcp_close net) (open_socket net addr port (mq_timeout r))
          (mo_persistent_session (endpoint_options ep)) s w = (Inr h, w0)"
    and settle: "settle_session (tcp_close net) (mo_persistent_session (endpoint_options ep)) h
       (io_step (\<lambda>e. e) (write_stream_request (tn_io net) h (mq_frame r) label w0)
          (\<lambda>_ w. read_stream_response_socket lib (tn_io net) h (mq_proto r) w)) = (Inr frame, s', w')"
    by (auto split: prod.splits sum.splits)
  have "on_connection net ep (mq_timeout r) s w h w0"
    using h ep
    by (cases "mo_persistent_session (endpoint_options ep)"; cases s)
      (simp_all add: on_connection_def take_session_def)
  moreover obtain w1 where
    "write_stream_request (tn_io net) h (mq_frame r) label w0 = (Inr (), w1)"
    "read_stream_response_socket lib (tn_io net) h (mq_proto r) w1 = (Inr frame, w')"
    "s' = (if mo_persistent_session (endpoint_options ep) then Some h else None)"
    using settle by (auto simp: settle_session_def io_step_eq_Inr split: prod.splits sum.splits)
  ultimately show ?thesis by blast
qed

text \<open>C11: a response of the TCP transport is the answer on the connection the request went out on:
  the kept session, or a socket newly opened to the endpoint's address after closing a stale one.
  On it the whole request frame was accepted, and the response is the first frame of what the peer
  then sent on that handle: reading stopped with the first chunk that completed a frame, nothing
  later was read, and the rest of that chunk is cut off; or, when the peer closed the stream before
  the end of a frame, what had arrived until then (see the findings).  The handle is kept as the
  session exactly for a persistent endpoint.\<close>

theorem modbus_tcp_exchange:
  assumes "\<forall>h. honest_writer (sent h) (st_write (tn_io net) h)"
    and "\<forall>h w. sent h (snd (st_flush (tn_io net) h w)) = sent h w"
    and "tcp_execute lib net ep r s w = (Inr frame, s', w')"
  shows "\<exists>h w0 label w1 data w2. on_connection net ep (mq_timeout r) s w h w0 \<and>
     write_stream_request (tn_io net) h (mq_frame r) label w0 = (Inr (), w1) \<and>
     sent h w1 = sent h w0 @ mq_frame r \<and>
     stream_reads (st_read (tn_io net) h 64) w1 data w2 \<and> data \<noteq> [] \<and>
     length data \<le> max_frame_len (mq_proto r) \<and> frame = trim_frame lib data (mq_proto r) \<and>
     (\<forall>d u. stream_reads (st_read (tn_io net) h 64) w1 d u \<and> length d < length data \<longrightarrow>
        \<not> frame_complete lib d (mq_proto r)) \<and>
     (frame_complete lib data (mq_proto r) \<and> w' = w2 \<or>
      \<not> frame_complete lib data (mq_proto r) \<and>
        (st_read (tn_io net) h 64 w2 = (Inl NetClosed, w') \<or>
         st_read (tn_io net) h 64 w2 = (Inr [], w'))) \<and>
     s' = (if mo_persistent_session (endpoint_options ep) then Some h else None)"
proof -
  obtain h w0 label w1 where conn: "on_connection net ep (mq_timeout r) s w h w0"
    and wr: "write_stream_request (tn_io net) h (mq_frame r) label w0 = (Inr (), w1)"
    and rd: "read_stream_response_socket lib (tn_io net) h (mq_proto r) w1 = (Inr frame, w')"
    and s': "s' = (if mo_persistent_session (endpoint_options ep) then Some h else None)"
    using tcp_execute_success [OF assms(3)] by blast
  from rd obtain out where
    out: "read_response_loop (st_read (tn_io net) h 64) NetClosed net_error_debug
          ''failed to read Modbus socket response: '' (max_frame_len (mq_proto r))
          (\<lambda>frame. frame_complete lib frame (mq_proto r)) [] w1 = (Inr out, w')"
    and frame: "frame = trim_frame lib out (mq_proto r)"
    by (auto simp: read_stream_response_socket_def io_step_eq_Inr)
  have "sent h w1 = sent h w0 @ mq_frame r"
    using write_stream_request_complete [OF _ _ wr] assms(1,2) by blast
  with conn wr s' frame read_response_loop_delivers [OF out, simplified append_Nil]
  show ?thesis by (simp add: nothing_complete) blast
qed

theorem modbus_tcp_exchange_witness:
  "\<exists>w0 label w1 data w2. write_stream_request script_io () (mq_frame sample_modbus_request) label w0 = (Inr (), w1) \<and>
     fst w1 = fst w0 @ mq_frame sample_modbus_request \<and>
     stream_reads (st_read script_io () 64) w1 data w2 \<and>
     sample_response_frame = trim_frame sample_rmodbus data TcpUdp \<and>
     (frame_complete sample_rmodbus data TcpUdp \<and> (mq_frame sample_modbus_request, []) = w2 \<or>
      \<not> frame_complete sample_rmodbus data TcpUdp)"
proof -
  have "\<forall>h. honest_writer fst (st_write (tn_io script_net) h)"
    by (simp add: honest_writer_def script_net_def script_io_def)
  moreover have "\<forall>h w. fst (snd (st_flush (tn_io script_net) h w)) = fst w"
    by (simp add: script_net_def script_io_def)
  moreover have "tn_io script_net = script_io" by (simp add: script_net_def)
  moreover have "mq_proto sample_modbus_request = TcpUdp" by (simp add: sample_modbus_request_def)
  ultimately show ?thesis
    using modbus_tcp_exchange [of "\<lambda>_. fst" script_net, OF _ _ script_exchange
        [of sample_modbus_request sample_rmodbus
          "\<lparr> mte_addr = [], mte_port = 502, mte_options = persistent_options \<rparr>" "[]"]]
    by (simp del: append.simps) blast
qed

section \<open>Retries\<close>

lemma attempt_loop_count:
  assumes "\<forall>ep r s w. calls (snd (snd (execute ep r s w))) = Suc (calls w)"
    and "\<forall>d w. calls (rt_sleep rt d w) = calls w"
  shows "attempt_loop execute rt ep r a (Suc n) err0 s w = (x, s', w') \<Longrightarrow>
    calls w < calls w' \<and> calls w' \<le> calls w + Suc n \<and>
    (\<forall>e. x = Inl e \<longrightarrow> is_retryable_transport_error e \<longrightarrow> calls w' = calls w + Suc n)"
proof (induction n arbitrary: a err0 s w)
  case 0
  obtain y t v where e: "execute ep r s w = (y, t, v)" by (metis prod_cases3)
  have "calls v = Suc (calls w)" using assms(1) e by (metis snd_conv)
  with 0 e show ?case by (cases y) auto
next
  case (Suc n)
  obtain y t v where e: "execute ep r s w = (y, t, v)" by (metis prod_cases3)
  have v: "calls v = Suc (calls w)" using assms(1) e by (metis snd_conv)
  show ?case
  proof (cases y)
    case (Inl err)
    show ?thesis
    proof (cases "is_retryable_transport_error err")
      case True
      let ?u = "case modbus_delay_for_attempt (mo_reconnect (endpoint_options ep)) (of_nat (a + 1)) of
          Some delay \<Rightarrow> rt_sleep rt delay v | None \<Rightarrow> v"
      have "calls ?u = calls v" using assms(2) by (simp split: option.split)
      moreover have "attempt_loop execute rt ep r (a + 1) (Suc n) (Some err) t ?u = (x, s', w')"
        using Suc.prems e Inl True
        by (simp del: attempt_loop.simps add: attempt_loop.simps(2) [of _ _ _ _ _ "Suc n"])
      ultimately show ?thesis using Suc.IH [of "a + 1" "Some err" t ?u] v by auto
    next
      case False
      with Suc.prems e Inl v show ?thesis by auto
    qed
  next
    case (Inr f)
    with Suc.prems e v show ?thesis by auto
  qed
qed

text \<open>C8: retries are bounded and writes are safe: an execution exchanges at most
  \<open>max_attempts + 1\<close> times, exactly once when reconnecting is disabled and for a write that may
  not be retried; it ends with the first success, and a retryable error is only ever reported
  after the whole budget was spent.\<close>

theorem modbus_retry_budget:
  assumes "\<forall>ep r s w. calls (snd (snd (execute ep r s w))) = Suc (calls w)"
    and "\<forall>d w. calls (rt_sleep rt d w) = calls w"
    and "rt_lock rt w = (Inr u, w0)" and "calls w0 = calls w"
    and "modbus_execute_on_endpoint execute rt dvc request s w = (x, s', w')"
    and "c = mo_reconnect (endpoint_options (dev_endpoint dvc))"
    and "budget = (if \<not> mr_enabled c \<or> mq_is_write request \<and> \<not> mr_retry_writes c then 1
       else min (unat (mr_max_attempts c) + 1) (2 ^ 32 - 1))"
  shows "calls w < calls w' \<and> calls w' \<le> calls w + budget \<and>
    (\<forall>e. x = Inl e \<longrightarrow> is_retryable_transport_error e \<longrightarrow> calls w' = calls w + budget)"
proof -
  have b: "unat (request_attempt_budget c (mq_is_write request)) = budget"
    by (simp add: request_attempt_budget_def assms(7) unat_sat_add)
  have "0 < budget" by (simp add: assms(7))
  then obtain n where n: "budget = Suc n" by (cases budget) auto
  have "attempt_loop execute rt (dev_endpoint dvc) request 0 (Suc n) None s w0 = (x, s', w')"
    using assms(3,5) b n by (simp add: modbus_execute_on_endpoint_def assms(6) [symmetric] Let_def)
  from attempt_loop_count [OF assms(1,2) this] assms(4) n show ?thesis by simp
qed

lemma failing_loop:
  assumes "is_retryable_transport_error e"
  shows "attempt_loop (\<lambda>_ _ _ w. (Inl e, None, Suc w)) free_runtime ep r a (Suc n) err0 s w =
    (Inl e, None, w + Suc n)"
proof (induction n arbitrary: a err0 s w)
  case (Suc n)
  have "attempt_loop (\<lambda>_ _ _ w. (Inl e, None, Suc w)) free_runtime ep r a (Suc (Suc n)) err0 s w =
      attempt_loop (\<lambda>_ _ _ w. (Inl e, None, Suc w)) free_runtime ep r (a + 1) (Suc n) (Some e) None (Suc w)"
    using assms by (subst attempt_loop.simps) (simp add: free_runtime_def split: option.split)
  with Suc show ?case by simp
qed simp

definition retrying_device :: modbus_device where
  "retrying_device = sample_modbus_device (persistent_options\<lparr> mo_reconnect :=
     modbus_reconnect_config_default\<lparr> mr_max_attempts := 3 \<rparr> \<rparr>)"

theorem modbus_retry_budget_witness:
  "snd (snd (modbus_execute_on_endpoint (\<lambda>_ _ _ w. (Inl ''failed to connect '', None :: unit option, Suc w))
     free_runtime retrying_device sample_modbus_request None 0)) = 4"
proof -
  let ?ex = "\<lambda>_ _ _ w. (Inl ''failed to connect '', None :: unit option, Suc w)"
  let ?c = "mo_reconnect (endpoint_options (dev_endpoint retrying_device))"
  have retry: "is_retryable_transport_error ''failed to connect ''"
    by (simp add: is_retryable_transport_error_def starts_with_def)
  obtain n where n: "unat (request_attempt_budget ?c (mq_is_write sample_modbus_request)) = Suc n"
    using tcp.budget_pos by blast
  have run: "modbus_execute_on_endpoint ?ex free_runtime retrying_device sample_modbus_request None 0 =
      (Inl ''failed to connect '', None, Suc n)"
    using n failing_loop [OF retry, of "dev_endpoint retrying_device" sample_modbus_request 0 n None None 0]
    by (simp add: modbus_execute_on_endpoint_def free_runtime_def Let_def)
  have cfg: "mr_enabled ?c" "\<not> mq_is_write sample_modbus_request" "mr_max_attempts ?c = 3"
    by (simp_all add: retrying_device_def sample_modbus_device_def persistent_options_def
        modbus_reconnect_config_default_def modbus_client_options_default_def sample_modbus_request_def)
  have "(\<lambda>w. w) (Suc n) = (\<lambda>w. w) 0 + (4 :: nat)"
    using modbus_retry_budget [of "\<lambda>w. w" ?ex free_runtime 0 "()" 0, OF _ _ _ _ run refl refl] cfg retry
    by (simp add: free_runtime_def)
  then show ?thesis by (simp add: run)
qed

text \<open>
  A request over UDP whose answer does not arrive is never retried: the text of the receive error
  has none of the prefixes the classifier knows, whatever the retry policy says.
\<close>

lemma udp_receive_failure_not_retryable:
  "\<not> is_retryable_transport_error (''failed to receive Modbus UDP response: '' @ net_error_debug e)"
  by (simp add: is_retryable_transport_error_def starts_with_def)

end
