(* ===== verification/Mqtt_Meta.thy ===== *)
theory Mqtt_Meta
  imports Bridge
begin

text \<open>
  The typed MQTT view over a transport capture (\<open>ferredge-proto-mqtt/src/meta.rs\<close>): the capture
  keys, the payload format and retain handling vocabularies, the message and subscription options
  of a caller, the strict decoder and the encoder of \<open>MqttMeta\<close>, and the conversion errors of the
  adapter (\<open>types.rs\<close>).  The errors of \<open>serde_json\<close> and of the packet library, which the adapter
  only passes on, are represented by their text.  \<open>MqttMeta\<close> is interpreted as a \<open>typed_view\<close>.
\<close>

section \<open>Errors and vocabularies\<close>

datatype mqtt_command_conversion_error =
    MqttUnsupportedIntent
  | MqttUnsupportedChannelKind broker_channel_kind
  | MqttV5PublishOptionsOnV3
  | MqttV5SubscriptionOptionsOnV3
  | MqttInvalidPayload string
  | MqttPacketBuild string
  | MqttBridge bridge_planner_error
  | MqttInvalidBridgeMessage
  | MqttForeignExtensions protocol_id
  | MqttInvalidExtensionValue string u64
  | MqttInvalidExtensionName string string
  | MqttInvalidExtensionType string

definition KEY_TOPIC :: string where "KEY_TOPIC = ''topic''"
definition KEY_QOS :: string where "KEY_QOS = ''qos''"
definition KEY_RETAIN :: string where "KEY_RETAIN = ''retain''"
definition KEY_DUPLICATE :: string where "KEY_DUPLICATE = ''duplicate''"
definition KEY_PACKET_ID :: string where "KEY_PACKET_ID = ''packet-id''"
definition KEY_CONTENT_TYPE :: string where "KEY_CONTENT_TYPE = ''content-type''"
definition KEY_PAYLOAD_FORMAT :: string where "KEY_PAYLOAD_FORMAT = ''payload-format''"
definition KEY_MESSAGE_EXPIRY_INTERVAL_SECS :: string where
  "KEY_MESSAGE_EXPIRY_INTERVAL_SECS = ''message-expiry-interval-secs''"
definition KEY_RESPONSE_TOPIC :: string where "KEY_RESPONSE_TOPIC = ''response-topic''"
definition KEY_CORRELATION_DATA :: string where "KEY_CORRELATION_DATA = ''correlation-data''"
definition KEY_TOPIC_ALIAS :: string where "KEY_TOPIC_ALIAS = ''topic-alias''"
definition KEY_SUBSCRIPTION_IDENTIFIERS :: string where
  "KEY_SUBSCRIPTION_IDENTIFIERS = ''subscription-identifiers''"
definition KEY_REASON_CODES :: string where "KEY_REASON_CODES = ''reason-codes''"
definition KEY_REASON_STRING :: string where "KEY_REASON_STRING = ''reason-string''"
definition KEY_DURABLE_NAME :: string where "KEY_DURABLE_NAME = ''durable-name''"
definition KEY_SHARED_GROUP :: string where "KEY_SHARED_GROUP = ''shared-group''"
definition KEY_NO_LOCAL :: string where "KEY_NO_LOCAL = ''no-local''"
definition KEY_RETAIN_AS_PUBLISHED :: string where
  "KEY_RETAIN_AS_PUBLISHED = ''retain-as-published''"
definition KEY_RETAIN_HANDLING :: string where "KEY_RETAIN_HANDLING = ''retain-handling''"

lemmas mqtt_key_defs =
  KEY_TOPIC_def KEY_QOS_def KEY_RETAIN_def KEY_DUPLICATE_def KEY_PACKET_ID_def
  KEY_CONTENT_TYPE_def KEY_PAYLOAD_FORMAT_def KEY_MESSAGE_EXPIRY_INTERVAL_SECS_def
  KEY_RESPONSE_TOPIC_def KEY_CORRELATION_DATA_def KEY_TOPIC_ALIAS_def
  KEY_SUBSCRIPTION_IDENTIFIERS_def KEY_REASON_CODES_def KEY_REASON_STRING_def
  KEY_DURABLE_NAME_def KEY_SHARED_GROUP_def KEY_NO_LOCAL_def KEY_RETAIN_AS_PUBLISHED_def
  KEY_RETAIN_HANDLING_def

datatype mqtt_payload_format = PfBytes | PfUtf8

datatype mqtt_retain_handling = SendRetained | SendRetainedIfNotExists | DoNotSendRetained

text \<open>\<open>meta::qos_from_delivery\<close>: the QoS byte of a delivery guarantee.\<close>

fun qos_byte_from_delivery :: "delivery_guarantee \<Rightarrow> u8" where
  "qos_byte_from_delivery BestEffort = 0"
| "qos_byte_from_delivery AtLeastOnce = 1"
| "qos_byte_from_delivery ExactlyOnce = 2"

fun mqtt_payload_format_name :: "mqtt_payload_format \<Rightarrow> string" where
  "mqtt_payload_format_name PfBytes = ''bytes''"
| "mqtt_payload_format_name PfUtf8 = ''utf8''"

definition mqtt_payload_format_from_name :: "string \<Rightarrow> mqtt_payload_format option" where
  "mqtt_payload_format_from_name value =
     (if value = ''bytes'' then Some PfBytes else if value = ''utf8'' then Some PfUtf8 else None)"

fun retain_handling_code :: "mqtt_retain_handling \<Rightarrow> u64" where
  "retain_handling_code SendRetained = 0"
| "retain_handling_code SendRetainedIfNotExists = 1"
| "retain_handling_code DoNotSendRetained = 2"

definition retain_handling_from_code :: "u64 \<Rightarrow> mqtt_retain_handling option" where
  "retain_handling_from_code value =
     (if value = 0 then Some SendRetained
      else if value = 1 then Some SendRetainedIfNotExists
      else if value = 2 then Some DoNotSendRetained else None)"

lemma payload_format_name_back [simp]:
  "mqtt_payload_format_from_name (mqtt_payload_format_name f) = Some f"
  by (cases f) (simp_all add: mqtt_payload_format_from_name_def)

lemma retain_handling_code_back [simp]:
  "retain_handling_from_code (retain_handling_code h) = Some h"
  by (cases h) (simp_all add: retain_handling_from_code_def)

section \<open>Options of the caller\<close>

text \<open>\<open>MqttMessageOptions\<close> and \<open>MqttSubscriptionOptions\<close> with their captures.\<close>

record mqtt_message_options =
  mo_retain :: bool
  mo_payload_format :: "mqtt_payload_format option"
  mo_content_type :: "string option"
  mo_message_expiry_interval_secs :: "u32 option"
  mo_topic_alias :: "u16 option"
  mo_user_properties :: "(string \<times> string) list"
  mo_response_topic :: "string option"
  mo_correlation_data :: "bytes option"

definition set_flag :: "bool \<Rightarrow> meta_value option" where
  "set_flag b = (if b then Some (MBool True) else None)"

definition message_options_into_transport_meta :: "mqtt_message_options \<Rightarrow> transport_meta" where
  "message_options_into_transport_meta opts =
     (let meta = tm_set_fields
        [(KEY_RETAIN, set_flag (mo_retain opts)),
         (KEY_PAYLOAD_FORMAT,
            map_option (\<lambda>f. MStr (mqtt_payload_format_name f)) (mo_payload_format opts)),
         (KEY_CONTENT_TYPE, map_option MStr (mo_content_type opts)),
         (KEY_MESSAGE_EXPIRY_INTERVAL_SECS,
            map_option (\<lambda>n. MU64 (ucast n)) (mo_message_expiry_interval_secs opts)),
         (KEY_TOPIC_ALIAS, map_option (\<lambda>n. MU64 (ucast n)) (mo_topic_alias opts))]
        (tm_new MQTT);
       meta = (if mo_user_properties opts \<noteq> []
               then meta\<lparr> tm_headers := Some (headers_from_pairs (mo_user_properties opts)) \<rparr>
               else meta) in
      tm_set_fields
        [(KEY_RESPONSE_TOPIC, map_option MStr (mo_response_topic opts)),
         (KEY_CORRELATION_DATA, map_option MBytes (mo_correlation_data opts))] meta)"

record mqtt_subscription_options =
  so_no_local :: bool
  so_retain_as_published :: bool
  so_retain_handling :: "mqtt_retain_handling option"
  so_subscription_identifier :: "u32 option"
  so_user_properties :: "(string \<times> string) list"

definition subscription_options_into_transport_meta ::
  "mqtt_subscription_options \<Rightarrow> transport_meta" where
  "subscription_options_into_transport_meta opts =
     (let meta = tm_set_fields
        [(KEY_NO_LOCAL, set_flag (so_no_local opts)),
         (KEY_RETAIN_AS_PUBLISHED, set_flag (so_retain_as_published opts)),
         (KEY_RETAIN_HANDLING,
            map_option (\<lambda>h. MU64 (retain_handling_code h)) (so_retain_handling opts)),
         (KEY_SUBSCRIPTION_IDENTIFIERS,
            map_option (\<lambda>i. MU64List [ucast i]) (so_subscription_identifier opts))]
        (tm_new MQTT) in
      if so_user_properties opts \<noteq> []
      then meta\<lparr> tm_headers := Some (headers_from_pairs (so_user_properties opts)) \<rparr>
      else meta)"

section \<open>The typed view\<close>

record mqtt_meta =
  mm_topic :: "string option"
  mm_qos :: "u8 option"
  mm_retain :: bool
  mm_duplicate :: bool
  mm_packet_id :: "u16 option"
  mm_content_type :: "string option"
  mm_payload_format :: "mqtt_payload_format option"
  mm_message_expiry_interval_secs :: "u32 option"
  mm_response_topic :: "string option"
  mm_correlation_data :: "bytes option"
  mm_topic_alias :: "u16 option"
  mm_subscription_identifiers :: "u32 list"
  mm_reason_codes :: "string list"
  mm_reason_string :: "string option"
  mm_durable_name :: "string option"
  mm_shared_group :: "string option"
  mm_no_local :: bool
  mm_retain_as_published :: bool
  mm_retain_handling :: "mqtt_retain_handling option"
  mm_headers :: "headers option"

definition mqtt_meta_default :: mqtt_meta where
  "mqtt_meta_default =
     \<lparr> mm_topic = None, mm_qos = None, mm_retain = False, mm_duplicate = False,
       mm_packet_id = None, mm_content_type = None, mm_payload_format = None,
       mm_message_expiry_interval_secs = None, mm_response_topic = None,
       mm_correlation_data = None, mm_topic_alias = None, mm_subscription_identifiers = [],
       mm_reason_codes = [], mm_reason_string = None, mm_durable_name = None,
       mm_shared_group = None, mm_no_local = False, mm_retain_as_published = False,
       mm_retain_handling = None, mm_headers = None \<rparr>"

type_synonym 'a mqtt_result = "mqtt_command_conversion_error + 'a"

definition mqtt_expect_str :: "string \<Rightarrow> meta_value \<Rightarrow> string mqtt_result" where
  "mqtt_expect_str key v = (case v of MStr s \<Rightarrow> Inr s | _ \<Rightarrow> Inl (MqttInvalidExtensionType key))"

definition mqtt_expect_u64 :: "string \<Rightarrow> meta_value \<Rightarrow> u64 mqtt_result" where
  "mqtt_expect_u64 key v = (case v of MU64 n \<Rightarrow> Inr n | _ \<Rightarrow> Inl (MqttInvalidExtensionType key))"

definition mqtt_expect_bool :: "string \<Rightarrow> meta_value \<Rightarrow> bool mqtt_result" where
  "mqtt_expect_bool key v = (case v of MBool b \<Rightarrow> Inr b | _ \<Rightarrow> Inl (MqttInvalidExtensionType key))"

definition mqtt_expect_bytes :: "string \<Rightarrow> meta_value \<Rightarrow> bytes mqtt_result" where
  "mqtt_expect_bytes key v =
     (case v of MBytes b \<Rightarrow> Inr b | _ \<Rightarrow> Inl (MqttInvalidExtensionType key))"

definition mqtt_expect_u64_list :: "string \<Rightarrow> meta_value \<Rightarrow> u64 list mqtt_result" where
  "mqtt_expect_u64_list key v =
     (case v of MU64List ns \<Rightarrow> Inr ns | _ \<Rightarrow> Inl (MqttInvalidExtensionType key))"

definition mqtt_expect_str_list :: "string \<Rightarrow> meta_value \<Rightarrow> string list mqtt_result" where
  "mqtt_expect_str_list key v =
     (case v of MStrList ss \<Rightarrow> Inr ss | _ \<Rightarrow> Inl (MqttInvalidExtensionType key))"

lemmas mqtt_expect_defs =
  mqtt_expect_str_def mqtt_expect_u64_def mqtt_expect_bool_def mqtt_expect_bytes_def
  mqtt_expect_u64_list_def mqtt_expect_str_list_def

text \<open>\<open>checked_capture_value\<close>: a capture integer must fit its wire field.\<close>

definition checked_capture_value :: "string \<Rightarrow> u64 \<Rightarrow> ('w :: len word) mqtt_result" where
  "checked_capture_value key v =
     (if unat v < 2 ^ LENGTH('w) then Inr (ucast v) else Inl (MqttInvalidExtensionValue key v))"

text \<open>The \<open>match\<close> on one entry of the decode loop.\<close>

definition mqtt_meta_step :: "string \<Rightarrow> meta_value \<Rightarrow> mqtt_meta \<Rightarrow> mqtt_meta mqtt_result" where
  "mqtt_meta_step key v view =
     (if key = KEY_TOPIC then
        map_ok (\<lambda>s. view\<lparr> mm_topic := Some s \<rparr>) (mqtt_expect_str KEY_TOPIC v)
      else if key = KEY_QOS then
        and_then (mqtt_expect_u64 KEY_QOS v) (\<lambda>n.
          map_ok (\<lambda>q. view\<lparr> mm_qos := Some q \<rparr>) (checked_capture_value KEY_QOS n))
      else if key = KEY_RETAIN then
        map_ok (\<lambda>b. view\<lparr> mm_retain := b \<rparr>) (mqtt_expect_bool KEY_RETAIN v)
      else if key = KEY_DUPLICATE then
        map_ok (\<lambda>b. view\<lparr> mm_duplicate := b \<rparr>) (mqtt_expect_bool KEY_DUPLICATE v)
      else if key = KEY_PACKET_ID then
        and_then (mqtt_expect_u64 KEY_PACKET_ID v) (\<lambda>n.
          map_ok (\<lambda>q. view\<lparr> mm_packet_id := Some q \<rparr>) (checked_capture_value KEY_PACKET_ID n))
      else if key = KEY_CONTENT_TYPE then
        map_ok (\<lambda>s. view\<lparr> mm_content_type := Some s \<rparr>) (mqtt_expect_str KEY_CONTENT_TYPE v)
      else if key = KEY_PAYLOAD_FORMAT then
        and_then (mqtt_expect_str KEY_PAYLOAD_FORMAT v) (\<lambda>s.
          case mqtt_payload_format_from_name s of
            Some f \<Rightarrow> Inr (view\<lparr> mm_payload_format := Some f \<rparr>)
          | None \<Rightarrow> Inl (MqttInvalidExtensionName KEY_PAYLOAD_FORMAT s))
      else if key = KEY_MESSAGE_EXPIRY_INTERVAL_SECS then
        and_then (mqtt_expect_u64 KEY_MESSAGE_EXPIRY_INTERVAL_SECS v) (\<lambda>n.
          map_ok (\<lambda>q. view\<lparr> mm_message_expiry_interval_secs := Some q \<rparr>)
            (checked_capture_value KEY_MESSAGE_EXPIRY_INTERVAL_SECS n))
      else if key = KEY_RESPONSE_TOPIC then
        map_ok (\<lambda>s. view\<lparr> mm_response_topic := Some s \<rparr>) (mqtt_expect_str KEY_RESPONSE_TOPIC v)
      else if key = KEY_CORRELATION_DATA then
        map_ok (\<lambda>b. view\<lparr> mm_correlation_data := Some b \<rparr>)
          (mqtt_expect_bytes KEY_CORRELATION_DATA v)
      else if key = KEY_TOPIC_ALIAS then
        and_then (mqtt_expect_u64 KEY_TOPIC_ALIAS v) (\<lambda>n.
          map_ok (\<lambda>q. view\<lparr> mm_topic_alias := Some q \<rparr>) (checked_capture_value KEY_TOPIC_ALIAS n))
      else if key = KEY_SUBSCRIPTION_IDENTIFIERS then
        and_then (mqtt_expect_u64_list KEY_SUBSCRIPTION_IDENTIFIERS v) (\<lambda>ns.
          map_ok (\<lambda>ids. view\<lparr> mm_subscription_identifiers := ids \<rparr>)
            (collect_results (checked_capture_value KEY_SUBSCRIPTION_IDENTIFIERS) ns))
      else if key = KEY_REASON_CODES then
        map_ok (\<lambda>ss. view\<lparr> mm_reason_codes := ss \<rparr>) (mqtt_expect_str_list KEY_REASON_CODES v)
      else if key = KEY_REASON_STRING then
        map_ok (\<lambda>s. view\<lparr> mm_reason_string := Some s \<rparr>) (mqtt_expect_str KEY_REASON_STRING v)
      else if key = KEY_DURABLE_NAME then
        map_ok (\<lambda>s. view\<lparr> mm_durable_name := Some s \<rparr>) (mqtt_expect_str KEY_DURABLE_NAME v)
      else if key = KEY_SHARED_GROUP then
        map_ok (\<lambda>s. view\<lparr> mm_shared_group := Some s \<rparr>) (mqtt_expect_str KEY_SHARED_GROUP v)
      else if key = KEY_NO_LOCAL then
        map_ok (\<lambda>b. view\<lparr> mm_no_local := b \<rparr>) (mqtt_expect_bool KEY_NO_LOCAL v)
      else if key = KEY_RETAIN_AS_PUBLISHED then
        map_ok (\<lambda>b. view\<lparr> mm_retain_as_published := b \<rparr>)
          (mqtt_expect_bool KEY_RETAIN_AS_PUBLISHED v)
      else if key = KEY_RETAIN_HANDLING then
        and_then (mqtt_expect_u64 KEY_RETAIN_HANDLING v) (\<lambda>n.
          case retain_handling_from_code n of
            Some h \<Rightarrow> Inr (view\<lparr> mm_retain_handling := Some h \<rparr>)
          | None \<Rightarrow> Inl (MqttInvalidExtensionValue KEY_RETAIN_HANDLING n))
      else Inr view)"

definition mqtt_try_from_transport_meta :: "transport_meta \<Rightarrow> mqtt_meta mqtt_result" where
  "mqtt_try_from_transport_meta m =
     (if tm_protocol m \<noteq> MQTT then Inl (MqttForeignExtensions (tm_protocol m))
      else decode_entries mqtt_meta_step [] (tm_into_entries m)
             (mqtt_meta_default\<lparr> mm_headers := tm_headers m \<rparr>))"

definition mqtt_meta_fields :: "mqtt_meta \<Rightarrow> (string \<times> meta_value option) list" where
  "mqtt_meta_fields view =
     [(KEY_TOPIC, map_option MStr (mm_topic view)),
      (KEY_QOS, map_option (\<lambda>q. MU64 (ucast q)) (mm_qos view)),
      (KEY_RETAIN, set_flag (mm_retain view)),
      (KEY_DUPLICATE, set_flag (mm_duplicate view)),
      (KEY_PACKET_ID, map_option (\<lambda>n. MU64 (ucast n)) (mm_packet_id view)),
      (KEY_CONTENT_TYPE, map_option MStr (mm_content_type view)),
      (KEY_PAYLOAD_FORMAT,
         map_option (\<lambda>f. MStr (mqtt_payload_format_name f)) (mm_payload_format view)),
      (KEY_MESSAGE_EXPIRY_INTERVAL_SECS,
         map_option (\<lambda>n. MU64 (ucast n)) (mm_message_expiry_interval_secs view)),
      (KEY_RESPONSE_TOPIC, map_option MStr (mm_response_topic view)),
      (KEY_CORRELATION_DATA, map_option MBytes (mm_correlation_data view)),
      (KEY_TOPIC_ALIAS, map_option (\<lambda>n. MU64 (ucast n)) (mm_topic_alias view)),
      (KEY_SUBSCRIPTION_IDENTIFIERS,
         if mm_subscription_identifiers view \<noteq> []
         then Some (MU64List (map ucast (mm_subscription_identifiers view))) else None),
      (KEY_REASON_CODES,
         if mm_reason_codes view \<noteq> [] then Some (MStrList (mm_reason_codes view)) else None),
      (KEY_REASON_STRING, map_option MStr (mm_reason_string view)),
      (KEY_DURABLE_NAME, map_option MStr (mm_durable_name view)),
      (KEY_SHARED_GROUP, map_option MStr (mm_shared_group view)),
      (KEY_NO_LOCAL, set_flag (mm_no_local view)),
      (KEY_RETAIN_AS_PUBLISHED, set_flag (mm_retain_as_published view)),
      (KEY_RETAIN_HANDLING,
         map_option (\<lambda>h. MU64 (retain_handling_code h)) (mm_retain_handling view))]"

definition mqtt_into_transport_meta :: "mqtt_meta \<Rightarrow> transport_meta" where
  "mqtt_into_transport_meta view =
     (tm_set_fields (mqtt_meta_fields view) (tm_new MQTT))\<lparr> tm_headers := mm_headers view \<rparr>"

definition mqtt_from_transport_meta :: "transport_meta \<Rightarrow> mqtt_meta option" where
  "mqtt_from_transport_meta m = result_ok (mqtt_try_from_transport_meta m)"

definition mqtt_view :: "transport_meta \<Rightarrow> mqtt_meta option" where
  "mqtt_view m = result_ok (mqtt_try_from_transport_meta (tm_as_borrowed m))"

definition mqtt_meta_into_owned :: "mqtt_meta \<Rightarrow> mqtt_meta" where
  "mqtt_meta_into_owned v =
     \<lparr> mm_topic = option_into_owned cow_str_into_owned (mm_topic v), mm_qos = mm_qos v,
       mm_retain = mm_retain v, mm_duplicate = mm_duplicate v, mm_packet_id = mm_packet_id v,
       mm_content_type = option_into_owned cow_str_into_owned (mm_content_type v),
       mm_payload_format = mm_payload_format v,
       mm_message_expiry_interval_secs = mm_message_expiry_interval_secs v,
       mm_response_topic = option_into_owned cow_str_into_owned (mm_response_topic v),
       mm_correlation_data = option_into_owned cow_bytes_into_owned (mm_correlation_data v),
       mm_topic_alias = mm_topic_alias v,
       mm_subscription_identifiers = mm_subscription_identifiers v,
       mm_reason_codes = vec_into_owned cow_str_into_owned (mm_reason_codes v),
       mm_reason_string = option_into_owned cow_str_into_owned (mm_reason_string v),
       mm_durable_name = option_into_owned cow_str_into_owned (mm_durable_name v),
       mm_shared_group = option_into_owned cow_str_into_owned (mm_shared_group v),
       mm_no_local = mm_no_local v, mm_retain_as_published = mm_retain_as_published v,
       mm_retain_handling = mm_retain_handling v,
       mm_headers = option_into_owned headers_into_owned (mm_headers v) \<rparr>"

interpretation own_mqtt_meta: content_preserving mqtt_meta_into_owned
  by unfold_locales
    (simp add: mqtt_meta_into_owned_def owned_simps own_headers.content_preserving_axioms own_intros)

section \<open>Round trip\<close>

lemma mqtt_fields_distinct: "distinct (map fst (mqtt_meta_fields view))"
  by (simp add: mqtt_meta_fields_def mqtt_key_defs)

lemma mqtt_encode_entries:
  "mqtt_into_transport_meta view =
     \<lparr> tm_protocol = MQTT, tm_headers = mm_headers view,
       tm_entries = present (mqtt_meta_fields view) \<rparr>"
  using mqtt_fields_distinct [of view]
  by (simp add: mqtt_into_transport_meta_def tm_set_fields_new)

lemma checked_capture_back:
  "LENGTH('w) \<le> 64 \<Longrightarrow> checked_capture_value key (ucast (c :: 'w :: len word)) = Inr c"
  using unat_less [of c]
  by (simp add: checked_capture_value_def ucast_up_back unat_ucast_up)

lemmas checked_capture_back_widths [simp] =
  checked_capture_back [where 'w = 8, simplified] checked_capture_back [where 'w = 16, simplified]
  checked_capture_back [where 'w = 32, simplified]

lemma checked_capture_list_back [simp]:
  "collect_results (checked_capture_value key) (map ucast (ids :: u32 list)) = Inr ids"
  by (induction ids) simp_all

text \<open>One known key at a time.\<close>

lemma mqtt_step_simps:
  "mqtt_meta_step KEY_TOPIC (MStr s) view = Inr (view\<lparr> mm_topic := Some s \<rparr>)"
  "mqtt_meta_step KEY_QOS (MU64 (ucast q)) view = Inr (view\<lparr> mm_qos := Some q \<rparr>)"
  "mqtt_meta_step KEY_RETAIN (MBool b) view = Inr (view\<lparr> mm_retain := b \<rparr>)"
  "mqtt_meta_step KEY_DUPLICATE (MBool b) view = Inr (view\<lparr> mm_duplicate := b \<rparr>)"
  "mqtt_meta_step KEY_PACKET_ID (MU64 (ucast p)) view = Inr (view\<lparr> mm_packet_id := Some p \<rparr>)"
  "mqtt_meta_step KEY_CONTENT_TYPE (MStr s) view = Inr (view\<lparr> mm_content_type := Some s \<rparr>)"
  "mqtt_meta_step KEY_PAYLOAD_FORMAT (MStr (mqtt_payload_format_name f)) view =
     Inr (view\<lparr> mm_payload_format := Some f \<rparr>)"
  "mqtt_meta_step KEY_MESSAGE_EXPIRY_INTERVAL_SECS (MU64 (ucast n)) view =
     Inr (view\<lparr> mm_message_expiry_interval_secs := Some n \<rparr>)"
  "mqtt_meta_step KEY_RESPONSE_TOPIC (MStr s) view = Inr (view\<lparr> mm_response_topic := Some s \<rparr>)"
  "mqtt_meta_step KEY_CORRELATION_DATA (MBytes d) view =
     Inr (view\<lparr> mm_correlation_data := Some d \<rparr>)"
  "mqtt_meta_step KEY_TOPIC_ALIAS (MU64 (ucast p)) view = Inr (view\<lparr> mm_topic_alias := Some p \<rparr>)"
  "mqtt_meta_step KEY_SUBSCRIPTION_IDENTIFIERS (MU64List (map ucast ids)) view =
     Inr (view\<lparr> mm_subscription_identifiers := ids \<rparr>)"
  "mqtt_meta_step KEY_REASON_CODES (MStrList ss) view = Inr (view\<lparr> mm_reason_codes := ss \<rparr>)"
  "mqtt_meta_step KEY_REASON_STRING (MStr s) view = Inr (view\<lparr> mm_reason_string := Some s \<rparr>)"
  "mqtt_meta_step KEY_DURABLE_NAME (MStr s) view = Inr (view\<lparr> mm_durable_name := Some s \<rparr>)"
  "mqtt_meta_step KEY_SHARED_GROUP (MStr s) view = Inr (view\<lparr> mm_shared_group := Some s \<rparr>)"
  "mqtt_meta_step KEY_NO_LOCAL (MBool b) view = Inr (view\<lparr> mm_no_local := b \<rparr>)"
  "mqtt_meta_step KEY_RETAIN_AS_PUBLISHED (MBool b) view =
     Inr (view\<lparr> mm_retain_as_published := b \<rparr>)"
  "mqtt_meta_step KEY_RETAIN_HANDLING (MU64 (retain_handling_code h)) view =
     Inr (view\<lparr> mm_retain_handling := Some h \<rparr>)"
  by (simp_all add: mqtt_meta_step_def mqtt_expect_defs mqtt_key_defs)

text \<open>
  Folding one field over a view that still holds the default there installs the encoded value.
\<close>

lemma fold_field_option:
  assumes "\<And>x v. step key (g x) v = Inr (upd (\<lambda>_. Some x) v)" and "upd (\<lambda>_. None) v = v"
  shows "fold_fields step ((key, map_option g ox) # fs) v = fold_fields step fs (upd (\<lambda>_. ox) v)"
  using assms by (cases ox) simp_all

lemma fold_field_flag:
  assumes "\<And>b v. step key (MBool b) v = Inr (upd (\<lambda>_. b) v)" and "upd (\<lambda>_. False) v = v"
  shows "fold_fields step ((key, set_flag b) # fs) v = fold_fields step fs (upd (\<lambda>_. b) v)"
  using assms by (simp add: set_flag_def)

lemma fold_field_list:
  assumes "\<And>xs v. step key (g xs) v = Inr (upd (\<lambda>_. xs) v)" and "upd (\<lambda>_. []) v = v"
  shows "fold_fields step ((key, if xs \<noteq> [] then Some (g xs) else None) # fs) v =
    fold_fields step fs (upd (\<lambda>_. xs) v)"
  using assms by simp

lemmas mqtt_field_steps =
  fold_field_option [where step = mqtt_meta_step and key = KEY_TOPIC and g = MStr
    and upd = mm_topic_update, OF mqtt_step_simps(1)]
  fold_field_option [where step = mqtt_meta_step and key = KEY_QOS and g = "\<lambda>q. MU64 (ucast q)"
    and upd = mm_qos_update, OF mqtt_step_simps(2)]
  fold_field_flag [where step = mqtt_meta_step and key = KEY_RETAIN
    and upd = mm_retain_update, OF mqtt_step_simps(3)]
  fold_field_flag [where step = mqtt_meta_step and key = KEY_DUPLICATE
    and upd = mm_duplicate_update, OF mqtt_step_simps(4)]
  fold_field_option [where step = mqtt_meta_step and key = KEY_PACKET_ID and g = "\<lambda>n. MU64 (ucast n)"
    and upd = mm_packet_id_update, OF mqtt_step_simps(5)]
  fold_field_option [where step = mqtt_meta_step and key = KEY_CONTENT_TYPE and g = MStr
    and upd = mm_content_type_update, OF mqtt_step_simps(6)]
  fold_field_option [where step = mqtt_meta_step and key = KEY_PAYLOAD_FORMAT and g = "\<lambda>f. MStr (mqtt_payload_format_name f)"
    and upd = mm_payload_format_update, OF mqtt_step_simps(7)]
  fold_field_option [where step = mqtt_meta_step and key = KEY_MESSAGE_EXPIRY_INTERVAL_SECS and g = "\<lambda>n. MU64 (ucast n)"
    and upd = mm_message_expiry_interval_secs_update, OF mqtt_step_simps(8)]
  fold_field_option [where step = mqtt_meta_step and key = KEY_RESPONSE_TOPIC and g = MStr
    and upd = mm_response_topic_update, OF mqtt_step_simps(9)]
  fold_field_option [where step = mqtt_meta_step and key = KEY_CORRELATION_DATA and g = MBytes
    and upd = mm_correlation_data_update, OF mqtt_step_simps(10)]
  fold_field_option [where step = mqtt_meta_step and key = KEY_TOPIC_ALIAS and g = "\<lambda>n. MU64 (ucast n)"
    and upd = mm_topic_alias_update, OF mqtt_step_simps(11)]
  fold_field_list [where step = mqtt_meta_step and key = KEY_SUBSCRIPTION_IDENTIFIERS and g = "\<lambda>ids. MU64List (map ucast ids)"
    and upd = mm_subscription_identifiers_update, OF mqtt_step_simps(12)]
  fold_field_list [where step = mqtt_meta_step and key = KEY_REASON_CODES and g = MStrList
    and upd = mm_reason_codes_update, OF mqtt_step_simps(13)]
  fold_field_option [where step = mqtt_meta_step and key = KEY_REASON_STRING and g = MStr
    and upd = mm_reason_string_update, OF mqtt_step_simps(14)]
  fold_field_option [where step = mqtt_meta_step and key = KEY_DURABLE_NAME and g = MStr
    and upd = mm_durable_name_update, OF mqtt_step_simps(15)]
  fold_field_option [where step = mqtt_meta_step and key = KEY_SHARED_GROUP and g = MStr
    and upd = mm_shared_group_update, OF mqtt_step_simps(16)]
  fold_field_flag [where step = mqtt_meta_step and key = KEY_NO_LOCAL
    and upd = mm_no_local_update, OF mqtt_step_simps(17)]
  fold_field_flag [where step = mqtt_meta_step and key = KEY_RETAIN_AS_PUBLISHED
    and upd = mm_retain_as_published_update, OF mqtt_step_simps(18)]
  fold_field_option [where step = mqtt_meta_step and key = KEY_RETAIN_HANDLING and g = "\<lambda>h. MU64 (retain_handling_code h)"
    and upd = mm_retain_handling_update, OF mqtt_step_simps(19)]

lemma mqtt_decode_encode:
  "mqtt_try_from_transport_meta (mqtt_into_transport_meta view) = Inr view"
proof -
  let ?v0 = "mqtt_meta_default\<lparr> mm_headers := mm_headers view \<rparr>"
  have "fold_fields mqtt_meta_step (mqtt_meta_fields view) ?v0 = Inr view"
    by (simp add: mqtt_meta_fields_def mqtt_meta_default_def mqtt_field_steps
        del: fold_fields.simps(2,3))
  moreover have "decode_entries mqtt_meta_step [] (present (mqtt_meta_fields view)) ?v0 =
      fold_fields mqtt_meta_step (mqtt_meta_fields view) ?v0"
    using mqtt_fields_distinct by (intro decode_entries_present) simp_all
  ultimately show ?thesis
    by (simp add: mqtt_try_from_transport_meta_def mqtt_encode_entries tm_into_entries_def)
qed

interpretation mqtt_typed: typed_view MQTT mqtt_into_transport_meta mqtt_from_transport_meta mqtt_view
proof unfold_locales
  show "tm_protocol (mqtt_into_transport_meta v) = MQTT" for v
    by (simp add: mqtt_encode_entries)
  show "mqtt_from_transport_meta (mqtt_into_transport_meta v) = Some v" for v
    by (simp add: mqtt_from_transport_meta_def mqtt_decode_encode)
  show "mqtt_from_transport_meta m = Some v \<Longrightarrow> tm_protocol m = MQTT" for m v
    by (auto simp: mqtt_from_transport_meta_def mqtt_try_from_transport_meta_def split: if_splits)
  show "mqtt_view m = mqtt_from_transport_meta m" for m
    by (simp add: mqtt_view_def mqtt_from_transport_meta_def owned_simps)
qed

text \<open>The captures that the option records of a caller produce.\<close>

definition view_of_message_options :: "mqtt_message_options \<Rightarrow> mqtt_meta" where
  "view_of_message_options opts = mqtt_meta_default\<lparr>
     mm_retain := mo_retain opts, mm_payload_format := mo_payload_format opts,
     mm_content_type := mo_content_type opts,
     mm_message_expiry_interval_secs := mo_message_expiry_interval_secs opts,
     mm_topic_alias := mo_topic_alias opts, mm_response_topic := mo_response_topic opts,
     mm_correlation_data := mo_correlation_data opts,
     mm_headers := (if mo_user_properties opts = [] then None
                    else Some (headers_from_pairs (mo_user_properties opts))) \<rparr>"

definition view_of_subscription_options :: "mqtt_subscription_options \<Rightarrow> mqtt_meta" where
  "view_of_subscription_options opts = mqtt_meta_default\<lparr>
     mm_no_local := so_no_local opts, mm_retain_as_published := so_retain_as_published opts,
     mm_retain_handling := so_retain_handling opts,
     mm_subscription_identifiers :=
       (case so_subscription_identifier opts of None \<Rightarrow> [] | Some i \<Rightarrow> [i]),
     mm_headers := (if so_user_properties opts = [] then None
                    else Some (headers_from_pairs (so_user_properties opts))) \<rparr>"

lemma decode_present:
  assumes "distinct (map fst fs)"
  shows "mqtt_try_from_transport_meta
      \<lparr> tm_protocol = MQTT, tm_headers = h, tm_entries = present fs \<rparr> =
    fold_fields mqtt_meta_step fs (mqtt_meta_default\<lparr> mm_headers := h \<rparr>)"
  using assms
  by (simp add: mqtt_try_from_transport_meta_def tm_into_entries_def decode_entries_present)

lemma present_append: "present (fs @ gs) = present fs @ present gs"
  by (simp add: present_def)

lemma message_options_capture:
  "message_options_into_transport_meta opts =
     \<lparr> tm_protocol = MQTT,
       tm_headers = (if mo_user_properties opts = [] then None
                     else Some (headers_from_pairs (mo_user_properties opts))),
       tm_entries = present
         [(KEY_RETAIN, set_flag (mo_retain opts)),
          (KEY_PAYLOAD_FORMAT,
             map_option (\<lambda>f. MStr (mqtt_payload_format_name f)) (mo_payload_format opts)),
          (KEY_CONTENT_TYPE, map_option MStr (mo_content_type opts)),
          (KEY_MESSAGE_EXPIRY_INTERVAL_SECS,
             map_option (\<lambda>n. MU64 (ucast n)) (mo_message_expiry_interval_secs opts)),
          (KEY_TOPIC_ALIAS, map_option (\<lambda>n. MU64 (ucast n)) (mo_topic_alias opts)),
          (KEY_RESPONSE_TOPIC, map_option MStr (mo_response_topic opts)),
          (KEY_CORRELATION_DATA, map_option MBytes (mo_correlation_data opts))] \<rparr>"
  (is "_ = \<lparr> tm_protocol = _, tm_headers = ?h, tm_entries = present ?all \<rparr>")
proof -
  let ?fs = "take 5 ?all"
  let ?gs = "drop 5 ?all"
  have m: "tm_set_fields ?fs (tm_new MQTT) =
      \<lparr> tm_protocol = MQTT, tm_headers = None, tm_entries = present ?fs \<rparr>"
    by (rule tm_set_fields_new) (simp add: mqtt_key_defs)
  have "set (map fst (present ?fs)) \<subseteq> set (map fst ?fs)" by (rule present_keys)
  then have "fst ` set (present ?fs) \<inter> set (map fst ?gs) = {}"
    by (auto simp: mqtt_key_defs)
  then have "tm_set_fields ?gs \<lparr> tm_protocol = MQTT, tm_headers = ?h, tm_entries = present ?fs \<rparr> =
      \<lparr> tm_protocol = MQTT, tm_headers = ?h, tm_entries = present ?fs @ present ?gs \<rparr>"
    by (subst tm_set_fields_entries) (simp_all add: mqtt_key_defs)
  moreover have "message_options_into_transport_meta opts =
      tm_set_fields ?gs \<lparr> tm_protocol = MQTT, tm_headers = ?h, tm_entries = present ?fs \<rparr>"
    using m by (simp add: message_options_into_transport_meta_def)
  ultimately show ?thesis
    using present_append [of ?fs ?gs] by simp
qed

lemma decode_message_options:
  "mqtt_try_from_transport_meta (message_options_into_transport_meta opts) =
     Inr (view_of_message_options opts)"
  unfolding message_options_capture
  by (subst decode_present)
    (simp add: mqtt_key_defs,
     simp add: view_of_message_options_def mqtt_meta_default_def mqtt_field_steps
       del: fold_fields.simps(2,3))

lemma decode_subscription_options:
  "mqtt_try_from_transport_meta (subscription_options_into_transport_meta opts) =
     Inr (view_of_subscription_options opts)"
proof -
  let ?h = "if so_user_properties opts = [] then None
            else Some (headers_from_pairs (so_user_properties opts))"
  let ?ids = "case so_subscription_identifier opts of None \<Rightarrow> [] | Some i \<Rightarrow> [i]"
  let ?fs = "[(KEY_NO_LOCAL, set_flag (so_no_local opts)),
         (KEY_RETAIN_AS_PUBLISHED, set_flag (so_retain_as_published opts)),
         (KEY_RETAIN_HANDLING,
            map_option (\<lambda>h. MU64 (retain_handling_code h)) (so_retain_handling opts)),
         (KEY_SUBSCRIPTION_IDENTIFIERS,
            if ?ids \<noteq> [] then Some (MU64List (map ucast ?ids)) else None)]"
  have ids: "map_option (\<lambda>i. MU64List [ucast i]) (so_subscription_identifier opts) =
      (if ?ids \<noteq> [] then Some (MU64List (map ucast ?ids)) else None)"
    by (simp split: option.split)
  have "tm_set_fields ?fs (tm_new MQTT) =
      \<lparr> tm_protocol = MQTT, tm_headers = None, tm_entries = present ?fs \<rparr>"
    by (rule tm_set_fields_new) (simp add: mqtt_key_defs)
  then have "subscription_options_into_transport_meta opts =
      \<lparr> tm_protocol = MQTT, tm_headers = ?h, tm_entries = present ?fs \<rparr>"
    unfolding subscription_options_into_transport_meta_def ids Let_def by simp
  moreover have "fold_fields mqtt_meta_step ?fs (mqtt_meta_default\<lparr> mm_headers := ?h \<rparr>) =
      Inr (view_of_subscription_options opts)"
    by (simp add: view_of_subscription_options_def mqtt_meta_default_def mqtt_field_steps
        del: fold_fields.simps(2,3))
  ultimately show ?thesis
    using decode_present [of ?fs ?h] by (simp add: mqtt_key_defs)
qed

text \<open>The headers ride along: no entry of the capture reads or changes them.\<close>

lemma if_commute:
  "(c \<Longrightarrow> a = f b) \<Longrightarrow> (\<not> c \<Longrightarrow> a' = f b') \<Longrightarrow> (if c then a else a') = f (if c then b else b')"
  by simp

lemma mqtt_step_headers:
  "mqtt_meta_step k v (view\<lparr> mm_headers := h \<rparr>) =
     map_ok (\<lambda>v. v\<lparr> mm_headers := h \<rparr>) (mqtt_meta_step k v view)"
  unfolding mqtt_meta_step_def
  by (intro if_commute [where f = "map_ok (\<lambda>v. v\<lparr> mm_headers := h \<rparr>)"])
    (simp_all add: map_ok_def and_then_def split: sum.split option.split)

lemma mqtt_try_headers:
  "mqtt_try_from_transport_meta (m\<lparr> tm_headers := h \<rparr>) =
     map_ok (\<lambda>v. v\<lparr> mm_headers := h \<rparr>) (mqtt_try_from_transport_meta m)"
proof -
  have "decode_entries mqtt_meta_step seen es (view\<lparr> mm_headers := h \<rparr>) =
      map_ok (\<lambda>v. v\<lparr> mm_headers := h \<rparr>) (decode_entries mqtt_meta_step seen es view)"
    for seen es view
  proof (induction mqtt_meta_step seen es view rule: decode_entries.induct)
    case (2 seen key v es view)
    then show ?case by (cases "mqtt_meta_step key v view") (auto simp: mqtt_step_headers)
  qed simp
  from this [of "[]" "tm_entries m" "mqtt_meta_default\<lparr> mm_headers := tm_headers m \<rparr>"]
  show ?thesis
    by (simp add: mqtt_try_from_transport_meta_def tm_into_entries_def)
qed

lemma mqtt_try_headers_same:
  assumes "mqtt_try_from_transport_meta m = Inr view"
  shows "mm_headers view = tm_headers m"
proof -
  have "map_ok (\<lambda>v. v\<lparr> mm_headers := tm_headers m \<rparr>) (Inr view) =
      (Inr view :: mqtt_meta mqtt_result)"
    using mqtt_try_headers [where m = m and h = "tm_headers m"] assms by simp
  then have "view\<lparr> mm_headers := tm_headers m \<rparr> = view" by simp
  then show ?thesis by (metis mqtt_meta.select_convs(20) mqtt_meta.surjective mqtt_meta.update_convs(20))
qed

section \<open>Properties\<close>

text \<open>C15: Every typed MQTT view survives its capture, field for field, and the option records that
  a caller attaches to a publish or a subscription are read back with exactly the options that were
  set: nothing is lost, invented or stored under another key.\<close>

theorem mqtt_capture_round_trip:
  "mqtt_try_from_transport_meta (mqtt_into_transport_meta view) = Inr view \<and>
   mqtt_try_from_transport_meta (message_options_into_transport_meta mopts) =
     Inr (view_of_message_options mopts) \<and>
   mqtt_try_from_transport_meta (subscription_options_into_transport_meta sopts) =
     Inr (view_of_subscription_options sopts)"
  by (simp add: mqtt_decode_encode decode_message_options decode_subscription_options)

end
