(* ===== verification/Mqtt_Types.thy ===== *)
theory Mqtt_Types
  imports Mqtt_Meta Core_Device
begin

text \<open>
  The data model of the MQTT adapter (\<open>ferredge-proto-mqtt\<close>): the endpoint configuration
  (\<open>endpoint.rs\<close>), requests, native plans and the enhanced-authentication types (\<open>types.rs\<close>).

  The packets, properties and reason codes belong to the crate \<open>mqtt_protocol_core\<close>.  A packet is
  represented by what its accessors return, a property by the value of its \<open>val\<close>, a reason code by
  its text and its success and failure predicates.  How the crate's constructors and builders turn
  requested values into packets, or refuse them, is the parameter \<open>mqtt_lib\<close>; its errors are
  represented by their text.
\<close>

section \<open>Packets of the protocol library\<close>

datatype qos = QosAtMostOnce | QosAtLeastOnce | QosExactlyOnce

fun qos_u8 :: "qos \<Rightarrow> u8" where
  "qos_u8 QosAtMostOnce = 0"
| "qos_u8 QosAtLeastOnce = 1"
| "qos_u8 QosExactlyOnce = 2"

datatype mqtt_property =
    PrPayloadFormatIndicator u8
  | PrMessageExpiryInterval u32
  | PrContentType string
  | PrResponseTopic string
  | PrCorrelationData bytes
  | PrSubscriptionIdentifier u32
  | PrSessionExpiryInterval u32
  | PrAssignedClientIdentifier string
  | PrServerKeepAlive u16
  | PrAuthenticationMethod string
  | PrAuthenticationData bytes
  | PrRequestProblemInformation u8
  | PrWillDelayInterval u32
  | PrRequestResponseInformation u8
  | PrResponseInformation string
  | PrServerReference string
  | PrReasonString string
  | PrReceiveMaximum u16
  | PrTopicAliasMaximum u16
  | PrTopicAlias u16
  | PrMaximumQos u8
  | PrRetainAvailable u8
  | PrUserProperty string string
  | PrMaximumPacketSize u32
  | PrWildcardSubscriptionAvailable u8
  | PrSubscriptionIdentifierAvailable u8
  | PrSharedSubscriptionAvailable u8

type_synonym properties = "mqtt_property list"

record mqtt_code =
  code_text :: string
  code_is_success :: bool
  code_is_failure :: bool

datatype disconnect_reason = NormalDisconnection | DisconnectWithWillMessage | OtherDisconnection

record disconnect_code = mqtt_code +
  dc_reason :: disconnect_reason

datatype auth_reason = AuthSuccess | ContinueAuthentication | ReAuthenticate

record auth_code = mqtt_code +
  ac_reason :: auth_reason

record publish3 =
  pb_topic_name :: string
  pb_qos :: qos
  pb_retain :: bool
  pb_dup :: bool
  pb_packet_id :: "u16 option"
  pb_payload :: bytes

record publish5 = publish3 +
  pb_props :: properties

record sub_entry =
  se_topic :: string
  se_qos :: qos
  se_no_local :: bool
  se_retain_as_published :: bool
  se_retain_handling :: "mqtt_retain_handling option"

record subscribe3 =
  sb_packet_id :: u16
  sb_entries :: "sub_entry list"

record subscribe5 = subscribe3 +
  sb_props :: properties

record unsubscribe3 =
  us_packet_id :: u16
  us_entries :: "string list"

record unsubscribe5 = unsubscribe3 +
  us_props :: properties

text \<open>The acknowledgements of a publish (PUBACK, PUBREC, PUBREL, PUBCOMP) and of subscriptions.\<close>

record ack5 =
  ack_packet_id :: u16
  ack_reason_code :: "mqtt_code option"
  ack_props :: "properties option"

record suback5 =
  sa_packet_id :: u16
  sa_reason_codes :: "mqtt_code list"
  sa_props :: properties

record connack3 =
  ca_session_present :: bool
  ca_code :: mqtt_code

record connack5 = connack3 +
  ca_props :: properties

record disconnect5 =
  dp_reason_code :: "disconnect_code option"
  dp_props :: "properties option"

record auth5 =
  ap_reason_code :: "auth_code option"
  ap_props :: "properties option"

record will_message =
  wm_topic :: string
  wm_payload :: bytes
  wm_qos :: qos
  wm_retain :: bool
  wm_props :: properties

record connect_packet =
  cn_client_id :: string
  cn_clean_start :: bool
  cn_keep_alive :: u16
  cn_props :: properties
  cn_will :: "will_message option"
  cn_user_name :: "string option"
  cn_password :: "bytes option"

datatype mqtt_packet =
    V5_0Connect connect_packet
  | V3_1_1Connect connect_packet
  | V5_0Connack connack5
  | V3_1_1Connack connack3
  | V5_0Publish publish5
  | V3_1_1Publish publish3
  | V5_0Puback ack5
  | V3_1_1Puback u16
  | V5_0Pubrec ack5
  | V3_1_1Pubrec u16
  | V5_0Pubrel ack5
  | V3_1_1Pubrel u16
  | V5_0Pubcomp ack5
  | V3_1_1Pubcomp u16
  | V5_0Subscribe subscribe5
  | V3_1_1Subscribe subscribe3
  | V5_0Suback suback5
  | V3_1_1Suback u16
  | V5_0Unsubscribe unsubscribe5
  | V3_1_1Unsubscribe unsubscribe3
  | V5_0Unsuback suback5
  | V3_1_1Unsuback u16
  | V5_0Pingreq
  | V3_1_1Pingreq
  | V5_0Pingresp
  | V3_1_1Pingresp
  | V5_0Disconnect disconnect5
  | V3_1_1Disconnect
  | V5_0Auth auth5

text \<open>
  The constructors and builders of the library and \<open>serde_json::to_vec\<close>: each field takes the
  requested values and gives the finished property, entry or packet, or the error.  The CONNECT
  builder has several fallible setters, which are separate fields.
\<close>

record mqtt_lib =
  ml_property :: "mqtt_property \<Rightarrow> string + mqtt_property"
  ml_publish5 :: "publish5 \<Rightarrow> string + publish5"
  ml_publish3 :: "publish3 \<Rightarrow> string + publish3"
  ml_sub_entry :: "sub_entry \<Rightarrow> string + sub_entry"
  ml_subscribe5 :: "subscribe5 \<Rightarrow> string + subscribe5"
  ml_subscribe3 :: "subscribe3 \<Rightarrow> string + subscribe3"
  ml_unsubscribe5 :: "unsubscribe5 \<Rightarrow> string + unsubscribe5"
  ml_unsubscribe3 :: "unsubscribe3 \<Rightarrow> string + unsubscribe3"
  ml_client_id :: "string \<Rightarrow> string + string"
  ml_will_message :: "will_message \<Rightarrow> string + will_message"
  ml_user_name :: "string \<Rightarrow> string + string"
  ml_password :: "bytes \<Rightarrow> string + bytes"
  ml_connect5 :: "connect_packet \<Rightarrow> string + connect_packet"
  ml_connect3 :: "connect_packet \<Rightarrow> string + connect_packet"
  ml_disconnect5 :: "string + disconnect5"
  ml_disconnect3 :: "string + unit"
  ml_auth5 :: "auth_reason \<Rightarrow> properties \<Rightarrow> string + auth5"
  ml_pingreq5 :: "string + unit"
  ml_pingreq3 :: "string + unit"
  ml_json :: "payload_value \<Rightarrow> string + bytes"

section \<open>Endpoint configuration\<close>

datatype mqtt_protocol_version = V3_1_1 | V5_0

record mqtt_auth_config =
  au_username :: "string option"
  au_password :: "string option"

record mqtt_tls_config =
  tls_enabled :: bool
  tls_ca_certificate_pem :: "string option"
  tls_client_certificate_pem :: "string option"
  tls_client_key_pem :: "string option"

record mqtt_will_config =
  wi_topic :: string
  wi_payload :: bytes
  wi_delivery :: "delivery_guarantee option"
  wi_retain :: bool
  wi_delay_interval_secs :: "u32 option"
  wi_payload_format :: "mqtt_payload_format option"
  wi_message_expiry_interval_secs :: "u32 option"
  wi_content_type :: "string option"
  wi_response_topic :: "string option"
  wi_correlation_data :: "bytes option"
  wi_user_properties :: "(string \<times> string) list"

record mqtt_connect_properties =
  cp_receive_maximum :: "u16 option"
  cp_maximum_packet_size :: "u32 option"
  cp_topic_alias_maximum :: "u16 option"
  cp_request_response_information :: "bool option"
  cp_request_problem_information :: "bool option"
  cp_session_expiry_interval_secs :: "u32 option"
  cp_authentication_method :: "string option"
  cp_authentication_data :: "bytes option"
  cp_user_properties :: "(string \<times> string) list"

record mqtt_connack_properties =
  ck_session_present :: bool
  ck_reason_code :: "string option"
  ck_reason_string :: "string option"
  ck_assigned_client_identifier :: "string option"
  ck_response_information :: "string option"
  ck_server_reference :: "string option"
  ck_receive_maximum :: "u16 option"
  ck_maximum_packet_size :: "u32 option"
  ck_topic_alias_maximum :: "u16 option"
  ck_session_expiry_interval_secs :: "u32 option"
  ck_maximum_qos :: "u8 option"
  ck_retain_available :: "bool option"
  ck_server_keep_alive :: "u16 option"
  ck_wildcard_subscription_available :: "bool option"
  ck_subscription_identifier_available :: "bool option"
  ck_shared_subscription_available :: "bool option"
  ck_authentication_method :: "string option"
  ck_authentication_data :: "bytes option"
  ck_user_properties :: "(string \<times> string) list"

definition connack_default :: mqtt_connack_properties where
  "connack_default =
     \<lparr> ck_session_present = False, ck_reason_code = None, ck_reason_string = None,
       ck_assigned_client_identifier = None, ck_response_information = None,
       ck_server_reference = None, ck_receive_maximum = None, ck_maximum_packet_size = None,
       ck_topic_alias_maximum = None, ck_session_expiry_interval_secs = None,
       ck_maximum_qos = None, ck_retain_available = None, ck_server_keep_alive = None,
       ck_wildcard_subscription_available = None, ck_subscription_identifier_available = None,
       ck_shared_subscription_available = None, ck_authentication_method = None,
       ck_authentication_data = None, ck_user_properties = [] \<rparr>"

record mqtt_endpoint_config =
  me_broker :: string
  me_client_id :: string
  me_auth :: "mqtt_auth_config option"
  me_tls :: "mqtt_tls_config option"
  me_keepalive_secs :: "u16 option"
  me_clean_start :: bool
  me_session_expiry_secs :: "u32 option"
  me_topic_prefix :: "string option"
  me_connect_properties :: mqtt_connect_properties
  me_will :: "mqtt_will_config option"
  me_reconnect :: broker_reconnect_config
  me_supported_versions :: "mqtt_protocol_version list"

definition mqtt_endpoint_protocol :: "mqtt_endpoint_config \<Rightarrow> protocol_id" where
  "mqtt_endpoint_protocol config = MQTT"

definition preferred_protocol_version :: "mqtt_endpoint_config \<Rightarrow> mqtt_protocol_version" where
  "preferred_protocol_version config =
     (if V5_0 \<in> set (me_supported_versions config) then V5_0
      else if V3_1_1 \<in> set (me_supported_versions config) then V3_1_1
      else V5_0)"

definition supports_protocol_version ::
  "mqtt_endpoint_config \<Rightarrow> mqtt_protocol_version \<Rightarrow> bool" where
  "supports_protocol_version config version \<longleftrightarrow>
     me_supported_versions config = [] \<or> version \<in> set (me_supported_versions config)"

lemma preferred_version_supported:
  "supports_protocol_version config (preferred_protocol_version config)"
proof (cases "me_supported_versions config")
  case Nil
  then show ?thesis by (simp add: supports_protocol_version_def)
next
  case (Cons v vs)
  then show ?thesis
    by (cases v) (auto simp: supports_protocol_version_def preferred_protocol_version_def)
qed

section \<open>Requests, plans and authentication\<close>

text \<open>\<open>MqttResourceAttributes\<close> has no fields.\<close>

type_synonym mqtt_device = "(unit, mqtt_endpoint_config) device"

record mqtt_publish_plan =
  mpp_command_id :: command_id
  mpp_topic :: string
  mpp_payload :: payload_value
  mpp_delivery :: "delivery_guarantee option"
  mpp_retain :: bool
  mpp_payload_format :: "mqtt_payload_format option"
  mpp_content_type :: "string option"
  mpp_message_expiry_interval_secs :: "u32 option"
  mpp_topic_alias :: "u16 option"
  mpp_user_properties :: "(string \<times> string) list"
  mpp_reply_to :: "address option"
  mpp_response_topic :: "string option"
  mpp_correlation_id :: "command_id option"
  mpp_correlation_data :: "bytes option"

record mqtt_subscribe_plan =
  msp_command_id :: command_id
  msp_topic :: string
  msp_delivery :: "delivery_guarantee option"
  msp_durable_name :: "string option"
  msp_shared_group :: "string option"
  msp_no_local :: bool
  msp_retain_as_published :: bool
  msp_retain_handling :: "mqtt_retain_handling option"
  msp_subscription_identifier :: "u32 option"
  msp_user_properties :: "(string \<times> string) list"

datatype mqtt_native_plan =
    NpPublish mqtt_publish_plan
  | NpSubscribe mqtt_subscribe_plan
  | NpUnsubscribe command_id string

definition own_pairs :: "(string \<times> string) list \<Rightarrow> (string \<times> string) list" where
  "own_pairs kvs = map (\<lambda>(k, v). (cow_str_into_owned k, cow_str_into_owned v)) kvs"

fun mqtt_native_plan_into_owned :: "mqtt_native_plan \<Rightarrow> mqtt_native_plan" where
  "mqtt_native_plan_into_owned (NpPublish p) = NpPublish
     \<lparr> mpp_command_id = mpp_command_id p, mpp_topic = cow_str_into_owned (mpp_topic p),
       mpp_payload = payload_into_owned (mpp_payload p), mpp_delivery = mpp_delivery p,
       mpp_retain = mpp_retain p, mpp_payload_format = mpp_payload_format p,
       mpp_content_type = map_option cow_str_into_owned (mpp_content_type p),
       mpp_message_expiry_interval_secs = mpp_message_expiry_interval_secs p,
       mpp_topic_alias = mpp_topic_alias p,
       mpp_user_properties = own_pairs (mpp_user_properties p),
       mpp_reply_to = map_option address_into_owned (mpp_reply_to p),
       mpp_response_topic = map_option cow_str_into_owned (mpp_response_topic p),
       mpp_correlation_id = mpp_correlation_id p,
       mpp_correlation_data = map_option cow_bytes_into_owned (mpp_correlation_data p) \<rparr>"
| "mqtt_native_plan_into_owned (NpSubscribe s) = NpSubscribe
     \<lparr> msp_command_id = msp_command_id s, msp_topic = cow_str_into_owned (msp_topic s),
       msp_delivery = msp_delivery s, msp_durable_name = msp_durable_name s,
       msp_shared_group = msp_shared_group s, msp_no_local = msp_no_local s,
       msp_retain_as_published = msp_retain_as_published s,
       msp_retain_handling = msp_retain_handling s,
       msp_subscription_identifier = msp_subscription_identifier s,
       msp_user_properties = own_pairs (msp_user_properties s) \<rparr>"
| "mqtt_native_plan_into_owned (NpUnsubscribe c t) = NpUnsubscribe c (cow_str_into_owned t)"

lemma own_pairs_same: "own_pairs kvs = kvs"
  by (induction kvs) (auto simp: own_pairs_def owned_simps)

interpretation own_mqtt_plan: content_preserving mqtt_native_plan_into_owned
proof unfold_locales
  show "mqtt_native_plan_into_owned p = p" for p
    by (cases p) (simp_all add: own_pairs_same owned_simps own_payload.own_content
        cow_str.own_option cow_bytes.own_option own_address.own_option)
qed

datatype mqtt_wire_packet =
    V5Publish publish5
  | V3Publish publish3
  | V5Subscribe subscribe5
  | V3Subscribe subscribe3
  | V5Unsubscribe unsubscribe5
  | V3Unsubscribe unsubscribe3

record mqtt_packet_request =
  pr_command_id :: command_id
  pr_packet :: mqtt_wire_packet

text \<open>Enhanced authentication.\<close>

datatype mqtt_auth_stage = StageConnect | StageReauthenticate

datatype mqtt_auth_flow_reason = FlowSuccess | FlowContinueAuthentication | FlowReAuthenticate

record mqtt_auth_challenge =
  ch_stage :: mqtt_auth_stage
  ch_reason :: mqtt_auth_flow_reason
  ch_authentication_method :: "string option"
  ch_authentication_data :: "bytes option"
  ch_reason_string :: "string option"
  ch_user_properties :: "(string \<times> string) list"

record mqtt_auth_response =
  ar_reason :: mqtt_auth_flow_reason
  ar_authentication_method :: "string option"
  ar_authentication_data :: "bytes option"
  ar_reason_string :: "string option"
  ar_user_properties :: "(string \<times> string) list"

type_synonym mqtt_auth_provider = "mqtt_auth_challenge \<Rightarrow> string + mqtt_auth_response option"

end
