(* ===== verification/Mqtt_Convert.thy ===== *)
theory Mqtt_Convert
  imports Mqtt_Types
begin

text \<open>
  Request building of the MQTT adapter: the planners of \<open>lib.rs\<close> and the conversions of
  \<open>convert.rs\<close>, from routed commands, natively or through a bridge message, to version-specific
  packet requests.
\<close>

section \<open>Views of a request\<close>

record publish_view =
  pv_command_id :: command_id
  pv_topic :: string
  pv_payload :: bytes
  pv_delivery :: "delivery_guarantee option"
  pv_retain :: bool
  pv_payload_format :: "mqtt_payload_format option"
  pv_content_type :: "string option"
  pv_message_expiry_interval_secs :: "u32 option"
  pv_topic_alias :: "u16 option"
  pv_reply_to :: "string option"
  pv_response_topic :: "string option"
  pv_correlation_id :: "string option"
  pv_correlation_data :: "bytes option"
  pv_projected_user_properties :: "(string \<times> string) list"

record subscribe_view =
  sv_command_id :: command_id
  sv_topic :: string
  sv_delivery :: "delivery_guarantee option"
  sv_durable_name :: "string option"
  sv_shared_group :: "string option"
  sv_no_local :: bool
  sv_retain_as_published :: bool
  sv_retain_handling :: "mqtt_retain_handling option"
  sv_subscription_identifier :: "u32 option"
  sv_projected_user_properties :: "(string \<times> string) list"

datatype packet_semantics =
    SemPublish publish_view
  | SemSubscribe subscribe_view
  | SemUnsubscribe subscribe_view

definition mqtt_payload_bytes :: "mqtt_lib \<Rightarrow> payload_value \<Rightarrow> bytes mqtt_result" where
  "mqtt_payload_bytes lib payload =
     (case payload of
        PBytes b \<Rightarrow> Inr b
      | PString v \<Rightarrow> Inr (bytes_of_string v)
      | PNull \<Rightarrow> Inr []
      | other \<Rightarrow> map_err MqttInvalidPayload (ml_json lib other))"

definition mqtt_capture_view :: "transport_meta option \<Rightarrow> mqtt_meta mqtt_result" where
  "mqtt_capture_view transport =
     (case transport of
        Some meta \<Rightarrow> mqtt_try_from_transport_meta (tm_as_borrowed meta)
      | None \<Rightarrow> Inr mqtt_meta_default)"

definition header_user_properties :: "headers option \<Rightarrow> (string \<times> string) list" where
  "header_user_properties hs =
     unwrap_or (map_option (map (\<lambda>h. (hdr_key h, hdr_value h))) hs) []"

definition channel_reply_to :: "address \<Rightarrow> string option" where
  "channel_reply_to a = (case a of AChannel v \<Rightarrow> Some v | _ \<Rightarrow> None)"

definition publish_view_from_bridge ::
  "mqtt_lib \<Rightarrow> bridge_message \<Rightarrow> publish_view mqtt_result" where
  "publish_view_from_bridge lib message =
     (case message of
        BCommand bridge \<Rightarrow>
          (case bc_operation bridge of
             OpMessaging operation \<Rightarrow>
               (case bc_route bridge of
                  Messaging topic \<Rightarrow>
                    and_then (mqtt_capture_view (bc_transport bridge)) (\<lambda>mqtt.
                    and_then (ok_or MqttInvalidBridgeMessage (bc_payload bridge)) (\<lambda>payload.
                    map_ok (\<lambda>body.
                      \<lparr> pv_command_id = bc_id bridge, pv_topic = topic, pv_payload = body,
                        pv_delivery = mso_delivery operation, pv_retain = mm_retain mqtt,
                        pv_payload_format = mm_payload_format mqtt,
                        pv_content_type = mm_content_type mqtt,
                        pv_message_expiry_interval_secs = mm_message_expiry_interval_secs mqtt,
                        pv_topic_alias = mm_topic_alias mqtt,
                        pv_reply_to = Option.bind
                          (Option.bind (bc_correlation bridge) co_reply_to) channel_reply_to,
                        pv_response_topic = mm_response_topic mqtt,
                        pv_correlation_id =
                          map_option (\<lambda>c. command_id_str (co_request_id c)) (bc_correlation bridge),
                        pv_correlation_data =
                          map_option cow_bytes_into_owned (mm_correlation_data mqtt),
                        pv_projected_user_properties = header_user_properties (bc_headers bridge) \<rparr>)
                      (mqtt_payload_bytes lib payload)))
                | _ \<Rightarrow> Inl MqttInvalidBridgeMessage)
           | _ \<Rightarrow> Inl MqttInvalidBridgeMessage)
      | _ \<Rightarrow> Inl MqttInvalidBridgeMessage)"

definition subscription_view_from_bridge :: "bridge_message \<Rightarrow> subscribe_view mqtt_result" where
  "subscription_view_from_bridge message =
     (case message of
        BCommand bridge \<Rightarrow>
          (case bc_operation bridge of
             OpMessaging operation \<Rightarrow>
               (case bc_route bridge of
                  Messaging topic \<Rightarrow>
                    map_ok (\<lambda>mqtt.
                      \<lparr> sv_command_id = bc_id bridge, sv_topic = topic,
                        sv_delivery = mso_delivery operation,
                        sv_durable_name = mso_durable_name operation,
                        sv_shared_group = mso_shared_group operation,
                        sv_no_local = mm_no_local mqtt,
                        sv_retain_as_published = mm_retain_as_published mqtt,
                        sv_retain_handling = mm_retain_handling mqtt,
                        sv_subscription_identifier =
                          (case mm_subscription_identifiers mqtt of [] \<Rightarrow> None | i # _ \<Rightarrow> Some i),
                        sv_projected_user_properties = header_user_properties (bc_headers bridge) \<rparr>)
                      (mqtt_capture_view (bc_transport bridge))
                | _ \<Rightarrow> Inl MqttInvalidBridgeMessage)
           | _ \<Rightarrow> Inl MqttInvalidBridgeMessage)
      | _ \<Rightarrow> Inl MqttInvalidBridgeMessage)"

definition publish_view_from_native_plan ::
  "mqtt_lib \<Rightarrow> mqtt_publish_plan \<Rightarrow> publish_view mqtt_result" where
  "publish_view_from_native_plan lib plan =
     map_ok (\<lambda>body.
       \<lparr> pv_command_id = mpp_command_id plan, pv_topic = mpp_topic plan, pv_payload = body,
         pv_delivery = mpp_delivery plan, pv_retain = mpp_retain plan,
         pv_payload_format = mpp_payload_format plan,
         pv_content_type = mpp_content_type plan,
         pv_message_expiry_interval_secs = mpp_message_expiry_interval_secs plan,
         pv_topic_alias = mpp_topic_alias plan,
         pv_reply_to = Option.bind (mpp_reply_to plan) channel_reply_to,
         pv_response_topic = mpp_response_topic plan,
         pv_correlation_id = map_option command_id_str (mpp_correlation_id plan),
         pv_correlation_data = mpp_correlation_data plan,
         pv_projected_user_properties = mpp_user_properties plan \<rparr>)
       (mqtt_payload_bytes lib (mpp_payload plan))"

text \<open>The two arms of \<open>subscription_view_from_native_plan\<close>.\<close>

definition subscription_view_from_subscribe :: "mqtt_subscribe_plan \<Rightarrow> subscribe_view" where
  "subscription_view_from_subscribe plan =
     \<lparr> sv_command_id = msp_command_id plan, sv_topic = msp_topic plan,
       sv_delivery = msp_delivery plan, sv_durable_name = msp_durable_name plan,
       sv_shared_group = msp_shared_group plan, sv_no_local = msp_no_local plan,
       sv_retain_as_published = msp_retain_as_published plan,
       sv_retain_handling = msp_retain_handling plan,
       sv_subscription_identifier = msp_subscription_identifier plan,
       sv_projected_user_properties = msp_user_properties plan \<rparr>"

definition subscription_view_from_unsubscribe :: "command_id \<Rightarrow> string \<Rightarrow> subscribe_view" where
  "subscription_view_from_unsubscribe command topic =
     \<lparr> sv_command_id = command, sv_topic = topic, sv_delivery = None, sv_durable_name = None,
       sv_shared_group = None, sv_no_local = False, sv_retain_as_published = False,
       sv_retain_handling = None, sv_subscription_identifier = None,
       sv_projected_user_properties = [] \<rparr>"

definition packet_semantics_from_bridge ::
  "mqtt_lib \<Rightarrow> bridge_message \<Rightarrow> packet_semantics mqtt_result" where
  "packet_semantics_from_bridge lib message =
     (case message of
        BCommand command \<Rightarrow>
          (case bc_operation command of
             OpMessaging operation \<Rightarrow>
               (case mso_action operation of
                  MPublish \<Rightarrow> map_ok SemPublish (publish_view_from_bridge lib message)
                | MSubscribe \<Rightarrow> map_ok SemSubscribe (subscription_view_from_bridge message)
                | MUnsubscribe \<Rightarrow> map_ok SemUnsubscribe (subscription_view_from_bridge message))
           | _ \<Rightarrow> Inl MqttInvalidBridgeMessage)
      | _ \<Rightarrow> Inl MqttInvalidBridgeMessage)"

definition packet_semantics_from_native_plan ::
  "mqtt_lib \<Rightarrow> mqtt_native_plan \<Rightarrow> packet_semantics mqtt_result" where
  "packet_semantics_from_native_plan lib plan =
     (case plan of
        NpPublish p \<Rightarrow> map_ok SemPublish (publish_view_from_native_plan lib p)
      | NpSubscribe s \<Rightarrow> Inr (SemSubscribe (subscription_view_from_subscribe s))
      | NpUnsubscribe c t \<Rightarrow> Inr (SemUnsubscribe (subscription_view_from_unsubscribe c t)))"

section \<open>Packets\<close>

definition qos_from_delivery :: "delivery_guarantee option \<Rightarrow> qos" where
  "qos_from_delivery delivery =
     (case delivery of
        Some ExactlyOnce \<Rightarrow> QosExactlyOnce
      | Some AtLeastOnce \<Rightarrow> QosAtLeastOnce
      | _ \<Rightarrow> QosAtMostOnce)"

fun packet_id_for_qos :: "qos \<Rightarrow> u16 option" where
  "packet_id_for_qos QosAtMostOnce = None"
| "packet_id_for_qos QosAtLeastOnce = Some 1"
| "packet_id_for_qos QosExactlyOnce = Some 1"

lemma packet_id_for_qos_eq: "packet_id_for_qos q = (if q = QosAtMostOnce then None else Some 1)"
  by (cases q) simp_all

definition mqtt_topic_from_subscription_parts :: "string \<Rightarrow> string option \<Rightarrow> string" where
  "mqtt_topic_from_subscription_parts topic shared_group =
     (case shared_group of
        Some grp \<Rightarrow> ''$share/'' @ grp @ ''/'' @ topic
      | None \<Rightarrow> topic)"

definition opt_prop :: "('a \<Rightarrow> mqtt_property) \<Rightarrow> 'a option \<Rightarrow> properties" where
  "opt_prop f z = (case z of None \<Rightarrow> [] | Some v \<Rightarrow> [f v])"

fun payload_format_u8 :: "mqtt_payload_format \<Rightarrow> u8" where
  "payload_format_u8 PfBytes = 0"
| "payload_format_u8 PfUtf8 = 1"

definition user_props :: "(string \<times> string) list \<Rightarrow> properties" where
  "user_props kvs = map (\<lambda>(k, v). PrUserProperty k v) kvs"

text \<open>
  The properties a function pushes, in order; each is built by the library, and the first refusal
  ends the function.
\<close>

definition build_props :: "mqtt_lib \<Rightarrow> properties \<Rightarrow> string + properties" where
  "build_props lib requested = collect_results (ml_property lib) requested"

definition publish_correlation_data :: "publish_view \<Rightarrow> bytes option" where
  "publish_correlation_data publish =
     opt_or (pv_correlation_data publish)
       (opt_or (map_option bytes_of_string (pv_correlation_id publish))
          (if pv_reply_to publish \<noteq> None \<or> pv_response_topic publish \<noteq> None
           then Some (bytes_of_string (command_id_str (pv_command_id publish)))
           else None))"

definition v5_publish_props :: "publish_view \<Rightarrow> properties" where
  "v5_publish_props publish =
     opt_prop (\<lambda>f. PrPayloadFormatIndicator (payload_format_u8 f)) (pv_payload_format publish) @
     opt_prop PrMessageExpiryInterval (pv_message_expiry_interval_secs publish) @
     opt_prop PrTopicAlias (pv_topic_alias publish) @
     opt_prop PrResponseTopic (opt_or (pv_response_topic publish) (pv_reply_to publish)) @
     opt_prop PrContentType (pv_content_type publish) @
     opt_prop PrCorrelationData (publish_correlation_data publish) @
     user_props (pv_projected_user_properties publish)"

definition build_v5_publish_props :: "mqtt_lib \<Rightarrow> publish_view \<Rightarrow> properties mqtt_result" where
  "build_v5_publish_props lib publish =
     map_err MqttPacketBuild (build_props lib (v5_publish_props publish))"

definition build_v5_subscribe_props :: "mqtt_lib \<Rightarrow> subscribe_view \<Rightarrow> properties mqtt_result" where
  "build_v5_subscribe_props lib subscription =
     map_err MqttPacketBuild (build_props lib
       (opt_prop PrSubscriptionIdentifier (sv_subscription_identifier subscription) @
        user_props (sv_projected_user_properties subscription)))"

definition build_v5_unsubscribe_props ::
  "mqtt_lib \<Rightarrow> subscribe_view \<Rightarrow> properties mqtt_result" where
  "build_v5_unsubscribe_props lib subscription =
     map_err MqttPacketBuild (build_props lib
       [PrUserProperty ''ferredge-command-id'' (command_id_str (sv_command_id subscription))])"

definition validate_v3_publish_support :: "publish_view \<Rightarrow> unit mqtt_result" where
  "validate_v3_publish_support publish =
     (if pv_payload_format publish \<noteq> None \<or> pv_content_type publish \<noteq> None \<or>
         pv_message_expiry_interval_secs publish \<noteq> None \<or> pv_topic_alias publish \<noteq> None \<or>
         pv_response_topic publish \<noteq> None \<or> pv_correlation_data publish \<noteq> None \<or>
         pv_projected_user_properties publish \<noteq> [] \<or> pv_reply_to publish \<noteq> None \<or>
         pv_correlation_id publish \<noteq> None
      then Inl MqttV5PublishOptionsOnV3 else Inr ())"

definition validate_v3_subscribe_support :: "subscribe_view \<Rightarrow> unit mqtt_result" where
  "validate_v3_subscribe_support subscription =
     (if sv_no_local subscription \<or> sv_retain_as_published subscription \<or>
         sv_retain_handling subscription \<noteq> None \<or>
         sv_subscription_identifier subscription \<noteq> None \<or>
         sv_projected_user_properties subscription \<noteq> [] \<or>
         sv_durable_name subscription \<noteq> None \<or> sv_shared_group subscription \<noteq> None
      then Inl MqttV5SubscriptionOptionsOnV3 else Inr ())"

definition v3_publish_of_view :: "publish_view \<Rightarrow> publish3" where
  "v3_publish_of_view publish =
     (let q = qos_from_delivery (pv_delivery publish)
      in \<lparr> pb_topic_name = pv_topic publish, pb_qos = q, pb_retain = pv_retain publish,
           pb_dup = False, pb_packet_id = packet_id_for_qos q, pb_payload = pv_payload publish \<rparr>)"

definition build_publish_packet ::
  "mqtt_lib \<Rightarrow> publish_view \<Rightarrow> mqtt_protocol_version \<Rightarrow> mqtt_packet_request mqtt_result" where
  "build_publish_packet lib publish version =
     (case version of
        V5_0 \<Rightarrow>
          and_then (build_v5_publish_props lib publish) (\<lambda>props.
          map_ok (\<lambda>packet.
              \<lparr> pr_command_id = pv_command_id publish, pr_packet = V5Publish packet \<rparr>)
            (map_err MqttPacketBuild
              (ml_publish5 lib
                (publish3.extend (v3_publish_of_view publish) (publish5.fields props)))))
      | V3_1_1 \<Rightarrow>
          and_then (validate_v3_publish_support publish) (\<lambda>_.
          map_ok (\<lambda>packet.
              \<lparr> pr_command_id = pv_command_id publish, pr_packet = V3Publish packet \<rparr>)
            (map_err MqttPacketBuild (ml_publish3 lib (v3_publish_of_view publish)))))"

definition build_subscribe_packet ::
  "mqtt_lib \<Rightarrow> subscribe_view \<Rightarrow> mqtt_protocol_version \<Rightarrow> mqtt_packet_request mqtt_result" where
  "build_subscribe_packet lib subscription version =
     and_then (map_err MqttPacketBuild (ml_sub_entry lib
         \<lparr> se_topic = mqtt_topic_from_subscription_parts (sv_topic subscription)
                        (sv_shared_group subscription),
           se_qos = qos_from_delivery (sv_delivery subscription),
           se_no_local = sv_no_local subscription,
           se_retain_as_published = sv_retain_as_published subscription,
           se_retain_handling = sv_retain_handling subscription \<rparr>)) (\<lambda>entry.
     case version of
        V5_0 \<Rightarrow>
          and_then (build_v5_subscribe_props lib subscription) (\<lambda>props.
          map_ok (\<lambda>packet.
              \<lparr> pr_command_id = sv_command_id subscription, pr_packet = V5Subscribe packet \<rparr>)
            (map_err MqttPacketBuild (ml_subscribe5 lib
              \<lparr> sb_packet_id = 1, sb_entries = [entry], sb_props = props \<rparr>)))
      | V3_1_1 \<Rightarrow>
          and_then (validate_v3_subscribe_support subscription) (\<lambda>_.
          map_ok (\<lambda>packet.
              \<lparr> pr_command_id = sv_command_id subscription, pr_packet = V3Subscribe packet \<rparr>)
            (map_err MqttPacketBuild (ml_subscribe3 lib
              \<lparr> sb_packet_id = 1, sb_entries = [entry] \<rparr>))))"

definition build_unsubscribe_packet ::
  "mqtt_lib \<Rightarrow> subscribe_view \<Rightarrow> mqtt_protocol_version \<Rightarrow> mqtt_packet_request mqtt_result" where
  "build_unsubscribe_packet lib subscription version =
     (let topic = mqtt_topic_from_subscription_parts (sv_topic subscription)
                    (sv_shared_group subscription)
      in case version of
        V5_0 \<Rightarrow>
          and_then (build_v5_unsubscribe_props lib subscription) (\<lambda>props.
          map_ok (\<lambda>packet.
              \<lparr> pr_command_id = sv_command_id subscription, pr_packet = V5Unsubscribe packet \<rparr>)
            (map_err MqttPacketBuild (ml_unsubscribe5 lib
              \<lparr> us_packet_id = 1, us_entries = [topic], us_props = props \<rparr>)))
      | V3_1_1 \<Rightarrow>
          and_then (validate_v3_subscribe_support subscription) (\<lambda>_.
          map_ok (\<lambda>packet.
              \<lparr> pr_command_id = sv_command_id subscription, pr_packet = V3Unsubscribe packet \<rparr>)
            (map_err MqttPacketBuild (ml_unsubscribe3 lib
              \<lparr> us_packet_id = 1, us_entries = [topic] \<rparr>))))"

definition build_packet_request ::
  "mqtt_lib \<Rightarrow> packet_semantics \<Rightarrow> mqtt_protocol_version \<Rightarrow> mqtt_packet_request mqtt_result" where
  "build_packet_request lib semantics version =
     (case semantics of
        SemPublish publish \<Rightarrow> build_publish_packet lib publish version
      | SemSubscribe subscription \<Rightarrow> build_subscribe_packet lib subscription version
      | SemUnsubscribe subscription \<Rightarrow> build_unsubscribe_packet lib subscription version)"

text \<open>The two encoders of \<open>MqttBridgeCodec\<close>.\<close>

definition mqtt_encode_bridge ::
  "mqtt_lib \<Rightarrow> mqtt_device \<Rightarrow> bridge_message \<Rightarrow> mqtt_packet_request mqtt_result" where
  "mqtt_encode_bridge lib dvc message =
     and_then (packet_semantics_from_bridge lib message) (\<lambda>semantics.
       build_packet_request lib semantics (preferred_protocol_version (dev_endpoint dvc)))"

definition mqtt_encode_native ::
  "mqtt_lib \<Rightarrow> mqtt_device \<Rightarrow> mqtt_native_plan \<Rightarrow> mqtt_packet_request mqtt_result" where
  "mqtt_encode_native lib dvc plan =
     and_then (packet_semantics_from_native_plan lib plan) (\<lambda>semantics.
       build_packet_request lib semantics (preferred_protocol_version (dev_endpoint dvc)))"

section \<open>Planning\<close>

definition split_mqtt_extensions :: "transport_meta option \<Rightarrow> mqtt_meta mqtt_result" where
  "split_mqtt_extensions extensions =
     (case extensions of
        Some meta \<Rightarrow> mqtt_try_from_transport_meta meta
      | None \<Rightarrow> Inr mqtt_meta_default)"

definition merged_user_properties :: "headers \<Rightarrow> headers option \<Rightarrow> (string \<times> string) list" where
  "merged_user_properties hs from_capture =
     map (\<lambda>h. (hdr_key h, hdr_value h))
       (case from_capture of Some ch \<Rightarrow> headers_merge ch hs | None \<Rightarrow> hs)"

text \<open>The channel check: \<open>Topic\<close> or no kind.\<close>

definition topic_of_channel :: "broker_address \<Rightarrow> string mqtt_result" where
  "topic_of_channel channel =
     (case ba_kind channel of
        None \<Rightarrow> Inr (channel_name_str (ba_name channel))
      | Some Topic \<Rightarrow> Inr (channel_name_str (ba_name channel))
      | Some kind \<Rightarrow> Inl (MqttUnsupportedChannelKind kind))"

definition mqtt_planner_message_for_command :: "command \<Rightarrow> bridge_message mqtt_result" where
  "mqtt_planner_message_for_command c =
     (let plan = (\<lambda>channel.
        case ba_kind channel of
          Some kind \<Rightarrow>
            if kind \<noteq> Topic then Inl (MqttUnsupportedChannelKind kind)
            else map_err MqttBridge (command_to_messaging c)
        | None \<Rightarrow> map_err MqttBridge (command_to_messaging c))
      in case cmd_intent c of
        Send channel _ _ \<Rightarrow> plan channel
      | Subscribe channel _ \<Rightarrow> plan channel
      | Unsubscribe channel \<Rightarrow> plan channel
      | _ \<Rightarrow> Inl MqttUnsupportedIntent)"

definition mqtt_plan_native :: "command \<Rightarrow> mqtt_native_plan mqtt_result" where
  "mqtt_plan_native c =
     (case cmd_intent c of
        Send channel payload options \<Rightarrow>
          and_then (split_mqtt_extensions (bm_extensions options)) (\<lambda>view.
          map_ok (\<lambda>topic. NpPublish
            \<lparr> mpp_command_id = cmd_id c, mpp_topic = topic, mpp_payload = payload,
              mpp_delivery = bm_delivery options, mpp_retain = mm_retain view,
              mpp_payload_format = mm_payload_format view,
              mpp_content_type = mm_content_type view,
              mpp_message_expiry_interval_secs = mm_message_expiry_interval_secs view,
              mpp_topic_alias = mm_topic_alias view,
              mpp_user_properties = merged_user_properties (bm_headers options) (mm_headers view),
              mpp_reply_to = Option.bind (cmd_correlation c) co_reply_to,
              mpp_response_topic = mm_response_topic view,
              mpp_correlation_id = map_option co_request_id (cmd_correlation c),
              mpp_correlation_data = mm_correlation_data view \<rparr>)
            (topic_of_channel channel))
      | Subscribe channel options \<Rightarrow>
          and_then (split_mqtt_extensions (bs_extensions options)) (\<lambda>view.
          map_ok (\<lambda>topic. NpSubscribe
            \<lparr> msp_command_id = cmd_id c, msp_topic = topic, msp_delivery = bs_delivery options,
              msp_durable_name = bs_durable_name options,
              msp_shared_group = bs_shared_group options,
              msp_no_local = mm_no_local view,
              msp_retain_as_published = mm_retain_as_published view,
              msp_retain_handling = mm_retain_handling view,
              msp_subscription_identifier =
                (case mm_subscription_identifiers view of [] \<Rightarrow> None | i # _ \<Rightarrow> Some i),
              msp_user_properties = merged_user_properties [] (mm_headers view) \<rparr>)
            (topic_of_channel channel))
      | Unsubscribe channel \<Rightarrow>
          map_ok (NpUnsubscribe (cmd_id c)) (topic_of_channel channel)
      | _ \<Rightarrow> Inl MqttUnsupportedIntent)"

definition mqtt_bridge_packet_request ::
  "mqtt_lib \<Rightarrow> mqtt_device \<Rightarrow> command \<Rightarrow> mqtt_packet_request mqtt_result" where
  "mqtt_bridge_packet_request lib dvc c =
     and_then (mqtt_planner_message_for_command c) (mqtt_encode_bridge lib dvc)"

definition mqtt_native_packet_request ::
  "mqtt_lib \<Rightarrow> mqtt_device \<Rightarrow> command \<Rightarrow> mqtt_packet_request mqtt_result" where
  "mqtt_native_packet_request lib dvc c =
     and_then (mqtt_plan_native c) (mqtt_encode_native lib dvc)"

section \<open>Native and bridge requests\<close>

lemma mqtt_capture_view_strip:
  "mqtt_capture_view (strip_headers ext) =
     map_ok (\<lambda>v. v\<lparr> mm_headers := None \<rparr>) (split_mqtt_extensions ext)"
  by (cases ext)
    (simp_all add: mqtt_capture_view_def strip_headers_def split_mqtt_extensions_def owned_simps
      mqtt_try_headers mqtt_meta_default_def)

lemma split_mqtt_headers:
  "split_mqtt_extensions ext = Inr view \<Longrightarrow> capture_headers ext = unwrap_or (mm_headers view) []"
  by (cases ext)
    (auto simp: split_mqtt_extensions_def capture_headers_def mqtt_meta_default_def unwrap_or_def
      dest: mqtt_try_headers_same split: option.split)

lemma merged_user_properties_eq:
  "split_mqtt_extensions ext = Inr view \<Longrightarrow>
   merged_user_properties hs (mm_headers view) =
     map (\<lambda>h. (hdr_key h, hdr_value h)) (hs @ capture_headers ext)"
  by (cases "mm_headers view")
    (simp_all add: merged_user_properties_def headers_merge_def split_mqtt_headers unwrap_or_def)

lemma header_user_properties_nonempty:
  "header_user_properties (nonempty_headers hs) = map (\<lambda>h. (hdr_key h, hdr_value h)) hs"
  by (simp add: header_user_properties_def nonempty_headers_def unwrap_or_def)

text \<open>The broker channel of an intent whose kind the adapter cannot map.\<close>

definition unsupported_kind :: "intent \<Rightarrow> broker_channel_kind option" where
  "unsupported_kind i =
     (let check = (\<lambda>channel.
        case ba_kind channel of Some kind \<Rightarrow> if kind = Topic then None else Some kind | None \<Rightarrow> None)
      in case i of
        Send channel _ _ \<Rightarrow> check channel
      | Subscribe channel _ \<Rightarrow> check channel
      | Unsubscribe channel \<Rightarrow> check channel
      | _ \<Rightarrow> None)"

lemma topic_of_channel_cases:
  "topic_of_channel channel =
     (case (case ba_kind channel of Some kind \<Rightarrow> if kind = Topic then None else Some kind
            | None \<Rightarrow> None) of
        None \<Rightarrow> Inr (channel_name_str (ba_name channel))
      | Some kind \<Rightarrow> Inl (MqttUnsupportedChannelKind kind))"
  by (auto simp: topic_of_channel_def split: option.split broker_channel_kind.split)

lemma semantics_send:
  assumes "ba_kind channel = None \<or> ba_kind channel = Some Topic"
    and "cmd_intent c = Send channel payload options"
  shows "and_then (mqtt_planner_message_for_command c) (packet_semantics_from_bridge lib) =
    and_then (mqtt_plan_native c) (packet_semantics_from_native_plan lib)"
proof (cases "split_mqtt_extensions (bm_extensions options)")
  case (Inl e)
  with assms show ?thesis
    by (auto simp: mqtt_planner_message_for_command_def mqtt_plan_native_def
        command_to_messaging_def messaging_command_def capture_with_headers_eq
        packet_semantics_from_bridge_def publish_view_from_bridge_def mqtt_capture_view_strip)
next
  case (Inr view)
  with assms show ?thesis
    by (auto simp: mqtt_planner_message_for_command_def mqtt_plan_native_def
        command_to_messaging_def messaging_command_def capture_with_headers_eq
        packet_semantics_from_bridge_def publish_view_from_bridge_def mqtt_capture_view_strip
        packet_semantics_from_native_plan_def publish_view_from_native_plan_def
        topic_of_channel_def merged_user_properties_eq [OF Inr] header_user_properties_nonempty
        cow_bytes.own_option option.map_comp o_def)
qed

lemma semantics_subscribe:
  assumes "ba_kind channel = None \<or> ba_kind channel = Some Topic"
    and "cmd_intent c = Subscribe channel options"
  shows "and_then (mqtt_planner_message_for_command c) (packet_semantics_from_bridge lib) =
    and_then (mqtt_plan_native c) (packet_semantics_from_native_plan lib)"
proof (cases "split_mqtt_extensions (bs_extensions options)")
  case (Inl e)
  with assms show ?thesis
    by (auto simp: mqtt_planner_message_for_command_def mqtt_plan_native_def
        command_to_messaging_def messaging_command_def capture_with_headers_eq
        packet_semantics_from_bridge_def subscription_view_from_bridge_def mqtt_capture_view_strip)
next
  case (Inr view)
  with assms show ?thesis
    by (auto simp: mqtt_planner_message_for_command_def mqtt_plan_native_def
        command_to_messaging_def messaging_command_def capture_with_headers_eq
        packet_semantics_from_bridge_def subscription_view_from_bridge_def mqtt_capture_view_strip
        packet_semantics_from_native_plan_def subscription_view_from_subscribe_def
        topic_of_channel_def merged_user_properties_eq [OF Inr] header_user_properties_nonempty)
qed

lemma semantics_unsubscribe:
  assumes "ba_kind channel = None \<or> ba_kind channel = Some Topic"
    and "cmd_intent c = Unsubscribe channel"
  shows "and_then (mqtt_planner_message_for_command c) (packet_semantics_from_bridge lib) =
    and_then (mqtt_plan_native c) (packet_semantics_from_native_plan lib)"
  using assms
  by (auto simp: mqtt_planner_message_for_command_def mqtt_plan_native_def
      command_to_messaging_def messaging_command_def packet_semantics_from_bridge_def
      subscription_view_from_bridge_def mqtt_capture_view_def mqtt_meta_default_def
      packet_semantics_from_native_plan_def subscription_view_from_unsubscribe_def
      topic_of_channel_def header_user_properties_def)

lemma and_then_assoc: "and_then (and_then r f) g = and_then r (\<lambda>x. and_then (f x) g)"
  by (cases r) simp_all

lemma semantics_eq:
  assumes "unsupported_kind (cmd_intent c) = None"
  shows "and_then (mqtt_planner_message_for_command c) (packet_semantics_from_bridge lib) =
    and_then (mqtt_plan_native c) (packet_semantics_from_native_plan lib)"
proof -
  have kind: "(case ba_kind channel of Some kind \<Rightarrow> if kind = Topic then None else Some kind
      | None \<Rightarrow> None) = None \<longleftrightarrow> ba_kind channel = None \<or> ba_kind channel = Some Topic" for channel
    by (auto split: option.split)
  show ?thesis
  proof (cases "cmd_intent c")
    case (Send channel payload options)
    then show ?thesis using assms by (intro semantics_send) (simp_all add: unsupported_kind_def kind)
  next
    case (Subscribe channel options)
    then show ?thesis
      using assms by (intro semantics_subscribe) (simp_all add: unsupported_kind_def kind)
  next
    case (Unsubscribe channel)
    then show ?thesis
      using assms by (intro semantics_unsubscribe) (simp_all add: unsupported_kind_def kind)
  qed (simp_all add: mqtt_planner_message_for_command_def mqtt_plan_native_def)
qed

text \<open>C16: For every device and command the MQTT request built through the bridge is the request
  built natively, error for error; on a channel that is not a topic both refuse, the bridge with
  the unsupported kind, the native planner with the kind or with the defect of the capture, which
  it checks first.\<close>

theorem mqtt_bridge_request_eq_native:
  "(case unsupported_kind (cmd_intent c) of
      None \<Rightarrow> mqtt_bridge_packet_request lib dvc c = mqtt_native_packet_request lib dvc c
    | Some kind \<Rightarrow>
        mqtt_bridge_packet_request lib dvc c = Inl (MqttUnsupportedChannelKind kind) \<and>
        mqtt_native_packet_request lib dvc c =
          (case split_mqtt_extensions (intent_extensions (cmd_intent c)) of
             Inl e \<Rightarrow> Inl e | Inr _ \<Rightarrow> Inl (MqttUnsupportedChannelKind kind)))"
proof (cases "unsupported_kind (cmd_intent c)")
  case None
  from semantics_eq [OF this, of lib] show ?thesis
    by (simp add: None mqtt_bridge_packet_request_def mqtt_native_packet_request_def
        mqtt_encode_bridge_def [abs_def] mqtt_encode_native_def [abs_def]
        and_then_assoc [symmetric])
next
  case (Some kind)
  then show ?thesis
    by (cases "cmd_intent c")
      (auto simp: unsupported_kind_def mqtt_bridge_packet_request_def
        mqtt_native_packet_request_def mqtt_planner_message_for_command_def mqtt_plan_native_def
        topic_of_channel_cases split_mqtt_extensions_def
        split: option.splits if_splits sum.splits)
qed

section \<open>What a request carries\<close>

text \<open>
  The documented behaviour of the builders: a property, entry or packet that is built reads back
  the values it was built from.
\<close>

definition honest_builders :: "mqtt_lib \<Rightarrow> bool" where
  "honest_builders lib \<longleftrightarrow>
     (\<forall>p q. ml_property lib p = Inr q \<longrightarrow> q = p) \<and>
     (\<forall>p q. ml_publish5 lib p = Inr q \<longrightarrow> q = p) \<and>
     (\<forall>p q. ml_publish3 lib p = Inr q \<longrightarrow> q = p) \<and>
     (\<forall>p q. ml_sub_entry lib p = Inr q \<longrightarrow> q = p) \<and>
     (\<forall>p q. ml_subscribe5 lib p = Inr q \<longrightarrow> q = p) \<and>
     (\<forall>p q. ml_subscribe3 lib p = Inr q \<longrightarrow> q = p) \<and>
     (\<forall>p q. ml_unsubscribe5 lib p = Inr q \<longrightarrow> q = p) \<and>
     (\<forall>p q. ml_unsubscribe3 lib p = Inr q \<longrightarrow> q = p)"

lemma honest_buildersD:
  assumes "honest_builders lib"
  shows "ml_property lib pr = Inr pr' \<Longrightarrow> pr' = pr"
    and "ml_publish5 lib p5 = Inr p5' \<Longrightarrow> p5' = p5"
    and "ml_publish3 lib p3 = Inr p3' \<Longrightarrow> p3' = p3"
    and "ml_sub_entry lib se = Inr se' \<Longrightarrow> se' = se"
    and "ml_subscribe5 lib s5 = Inr s5' \<Longrightarrow> s5' = s5"
    and "ml_subscribe3 lib s3 = Inr s3' \<Longrightarrow> s3' = s3"
    and "ml_unsubscribe5 lib u5 = Inr u5' \<Longrightarrow> u5' = u5"
    and "ml_unsubscribe3 lib u3 = Inr u3' \<Longrightarrow> u3' = u3"
  using assms by (simp_all add: honest_builders_def)

lemma honest_props:
  assumes "honest_builders lib"
  shows "build_props lib ps = Inr qs \<Longrightarrow> qs = ps"
proof (induction ps arbitrary: qs)
  case (Cons p ps)
  then show ?case
    using honest_buildersD(1) [OF assms]
    by (auto simp: build_props_def split: sum.splits)
qed (simp add: build_props_def)

lemma build_publish_packet_honest:
  assumes "honest_builders lib" and "build_publish_packet lib v version = Inr r"
  shows "pr_command_id r = pv_command_id v \<and>
    (case version of
       V5_0 \<Rightarrow> pr_packet r = V5Publish
         (publish3.extend (v3_publish_of_view v) (publish5.fields (v5_publish_props v)))
     | V3_1_1 \<Rightarrow> validate_v3_publish_support v = Inr () \<and>
         pr_packet r = V3Publish (v3_publish_of_view v))"
  using assms(2)
  by (cases version)
    (auto simp: build_publish_packet_def build_v5_publish_props_def and_then_eq_Inr map_ok_eq_Inr
      map_err_eq_Inr
      dest!: honest_props [OF assms(1)] honest_buildersD(2,3) [OF assms(1)])

definition subscription_entry :: "subscribe_view \<Rightarrow> sub_entry" where
  "subscription_entry s =
     \<lparr> se_topic = mqtt_topic_from_subscription_parts (sv_topic s) (sv_shared_group s),
       se_qos = qos_from_delivery (sv_delivery s), se_no_local = sv_no_local s,
       se_retain_as_published = sv_retain_as_published s,
       se_retain_handling = sv_retain_handling s \<rparr>"

lemma build_subscribe_packet_honest:
  assumes "honest_builders lib" and "build_subscribe_packet lib s version = Inr r"
  shows "pr_command_id r = sv_command_id s \<and>
    (case version of
       V5_0 \<Rightarrow> pr_packet r = V5Subscribe
         \<lparr> sb_packet_id = 1, sb_entries = [subscription_entry s],
           sb_props = opt_prop PrSubscriptionIdentifier (sv_subscription_identifier s) @
                      user_props (sv_projected_user_properties s) \<rparr>
     | V3_1_1 \<Rightarrow> validate_v3_subscribe_support s = Inr () \<and>
         pr_packet r = V3Subscribe \<lparr> sb_packet_id = 1, sb_entries = [subscription_entry s] \<rparr>)"
  using assms(2)
  by (cases version)
    (auto simp: build_subscribe_packet_def build_v5_subscribe_props_def subscription_entry_def
      and_then_eq_Inr map_ok_eq_Inr map_err_eq_Inr
      dest!: honest_props [OF assms(1)] honest_buildersD(4,5,6) [OF assms(1)])

text \<open>C17: A publish command is either refused or put on the wire whole.  On MQTT 5 the packet
  carries the topic, payload, quality of service and retain flag of the command, and as properties,
  in this order, every option that the command or its capture sets: a reply topic (the capture's,
  else the correlation's reply channel), correlation data (the capture's, else the request id, else
  the command id when a reply is expected) and all headers as user properties.  On MQTT 3.1.1,
  which has no properties, success means that the command set none of these options.\<close>

theorem mqtt_publish_carries_command:
  assumes "honest_builders lib"
    and "cmd_intent c = Send channel payload options"
    and "mqtt_native_packet_request lib dvc c = Inr r"
  shows "\<exists>view body. split_mqtt_extensions (bm_extensions options) = Inr view \<and>
    mqtt_payload_bytes lib payload = Inr body \<and> pr_command_id r = cmd_id c \<and>
    (let reply = Option.bind (Option.bind (cmd_correlation c) co_reply_to) channel_reply_to;
         reply_topic = opt_or (mm_response_topic view) reply;
         correlation_bytes = opt_or (mm_correlation_data view)
           (case cmd_correlation c of
              Some corr \<Rightarrow> Some (bytes_of_string (command_id_str (co_request_id corr)))
            | None \<Rightarrow> if reply_topic = None then None
                      else Some (bytes_of_string (command_id_str (cmd_id c))));
         q = qos_from_delivery (bm_delivery options);
         hs = bm_headers options @ capture_headers (bm_extensions options);
         base = \<lparr> pb_topic_name = channel_name_str (ba_name channel), pb_qos = q,
                  pb_retain = mm_retain view, pb_dup = False,
                  pb_packet_id = (if q = QosAtMostOnce then None else Some 1),
                  pb_payload = body \<rparr>
     in case preferred_protocol_version (dev_endpoint dvc) of
          V5_0 \<Rightarrow> \<exists>p. pr_packet r = V5Publish p \<and> publish3.truncate p = base \<and> pb_props p =
            (opt_prop (\<lambda>f. PrPayloadFormatIndicator (payload_format_u8 f)) (mm_payload_format view) @
             opt_prop PrMessageExpiryInterval (mm_message_expiry_interval_secs view) @
             opt_prop PrTopicAlias (mm_topic_alias view) @
             opt_prop PrResponseTopic reply_topic @
             opt_prop PrContentType (mm_content_type view) @
             opt_prop PrCorrelationData correlation_bytes @
             map (\<lambda>h. PrUserProperty (hdr_key h) (hdr_value h)) hs)
        | V3_1_1 \<Rightarrow> pr_packet r = V3Publish base \<and>
            mm_payload_format view = None \<and> mm_message_expiry_interval_secs view = None \<and>
            mm_topic_alias view = None \<and> reply_topic = None \<and> mm_content_type view = None \<and>
            mm_correlation_data view = None \<and> cmd_correlation c = None \<and> hs = [])"
proof -
  from assms(2,3) obtain view topic body where
    view: "split_mqtt_extensions (bm_extensions options) = Inr view"
    and topic: "topic_of_channel channel = Inr topic"
    and body: "mqtt_payload_bytes lib payload = Inr body"
    by (auto simp: mqtt_native_packet_request_def mqtt_plan_native_def and_then_eq_Inr
        map_ok_eq_Inr mqtt_encode_native_def packet_semantics_from_native_plan_def
        publish_view_from_native_plan_def)
  have name: "topic = channel_name_str (ba_name channel)"
    using topic by (auto simp: topic_of_channel_cases split: option.splits if_splits)
  let ?version = "preferred_protocol_version (dev_endpoint dvc)"
  let ?hs = "bm_headers options @ capture_headers (bm_extensions options)"
  let ?v = "\<lparr> pv_command_id = cmd_id c, pv_topic = topic, pv_payload = body,
     pv_delivery = bm_delivery options, pv_retain = mm_retain view,
     pv_payload_format = mm_payload_format view, pv_content_type = mm_content_type view,
     pv_message_expiry_interval_secs = mm_message_expiry_interval_secs view,
     pv_topic_alias = mm_topic_alias view,
     pv_reply_to = Option.bind (Option.bind (cmd_correlation c) co_reply_to) channel_reply_to,
     pv_response_topic = mm_response_topic view,
     pv_correlation_id = map_option (\<lambda>corr. command_id_str (co_request_id corr)) (cmd_correlation c),
     pv_correlation_data = mm_correlation_data view,
     pv_projected_user_properties = map (\<lambda>h. (hdr_key h, hdr_value h)) ?hs \<rparr>"
  have "build_publish_packet lib ?v ?version = Inr r"
    using assms(2,3) view topic body merged_user_properties_eq [OF view, of "bm_headers options"]
    by (simp add: mqtt_native_packet_request_def mqtt_plan_native_def mqtt_encode_native_def
        packet_semantics_from_native_plan_def publish_view_from_native_plan_def
        build_packet_request_def option.map_comp o_def)
  note built = build_publish_packet_honest [OF assms(1) this]
  show ?thesis
  proof (cases ?version)
    case V5_0
    have corr: "publish_correlation_data ?v = opt_or (mm_correlation_data view)
        (case cmd_correlation c of
           Some corr \<Rightarrow> Some (bytes_of_string (command_id_str (co_request_id corr)))
         | None \<Rightarrow> if opt_or (mm_response_topic view) (pv_reply_to ?v) = None then None
                   else Some (bytes_of_string (command_id_str (cmd_id c))))"
      by (simp add: publish_correlation_data_def opt_or_def split: option.split)
    show ?thesis
      using built view body V5_0 corr
      by (auto simp: Let_def name v3_publish_of_view_def v5_publish_props_def user_props_def o_def
          publish3.defs publish5.defs packet_id_for_qos_eq)
  next
    case V3_1_1
    show ?thesis
      using built view body V3_1_1
      by (auto simp: Let_def name v3_publish_of_view_def packet_id_for_qos_eq validate_v3_publish_support_def
          opt_or_def split: if_splits)
  qed
qed

text \<open>A library that builds everything, a device and commands for the witnesses.\<close>

definition plain_mqtt_lib :: mqtt_lib where
  "plain_mqtt_lib =
     \<lparr> ml_property = Inr, ml_publish5 = Inr, ml_publish3 = Inr, ml_sub_entry = Inr,
       ml_subscribe5 = Inr, ml_subscribe3 = Inr, ml_unsubscribe5 = Inr, ml_unsubscribe3 = Inr,
       ml_client_id = Inr, ml_will_message = Inr, ml_user_name = Inr, ml_password = Inr,
       ml_connect5 = Inr, ml_connect3 = Inr,
       ml_disconnect5 = Inr \<lparr> dp_reason_code = None, dp_props = None \<rparr>, ml_disconnect3 = Inr (),
       ml_auth5 = (\<lambda>_ props. Inr \<lparr> ap_reason_code = None, ap_props = Some props \<rparr>),
       ml_pingreq5 = Inr (), ml_pingreq3 = Inr (), ml_json = (\<lambda>_. Inr []) \<rparr>"

lemma plain_mqtt_lib_honest: "honest_builders plain_mqtt_lib"
  by (simp add: honest_builders_def plain_mqtt_lib_def)

definition plain_mqtt_config :: "mqtt_protocol_version \<Rightarrow> mqtt_endpoint_config" where
  "plain_mqtt_config version =
     \<lparr> me_broker = ''mqtt://broker'', me_client_id = ''edge'', me_auth = None, me_tls = None,
       me_keepalive_secs = Some 30, me_clean_start = True, me_session_expiry_secs = None,
       me_topic_prefix = None,
       me_connect_properties =
         \<lparr> cp_receive_maximum = None, cp_maximum_packet_size = None, cp_topic_alias_maximum = None,
           cp_request_response_information = None, cp_request_problem_information = None,
           cp_session_expiry_interval_secs = None, cp_authentication_method = None,
           cp_authentication_data = None, cp_user_properties = [] \<rparr>,
       me_will = None, me_reconnect = broker_reconnect_config_default,
       me_supported_versions = [version] \<rparr>"

definition plain_mqtt_device :: "mqtt_protocol_version \<Rightarrow> mqtt_device" where
  "plain_mqtt_device version =
     \<lparr> dev_id = DeviceId ''dev-1'', dev_name = ''broker'', dev_status = Online,
       dev_endpoint = plain_mqtt_config version, dev_metadata = None, dev_max_connections = None,
       dev_resources = Map.empty, dev_message_endpoints = [] \<rparr>"

definition plain_channel :: broker_address where
  "plain_channel = \<lparr> ba_name = ChannelName ''plant/7'', ba_kind = Some Topic \<rparr>"

lemma plain_mqtt_simps [simp]:
  "preferred_protocol_version (plain_mqtt_config version) = version"
  "dev_endpoint (plain_mqtt_device version) = plain_mqtt_config version"
  by (cases version; simp add: plain_mqtt_device_def plain_mqtt_config_def
      preferred_protocol_version_def)+

text \<open>A confirmed command that expects its reply on a channel.\<close>

definition plain_publish_options :: broker_message_options where
  "plain_publish_options =
     \<lparr> bm_delivery = Some AtLeastOnce, bm_headers = [\<lparr> hdr_key = ''site'', hdr_value = ''north'' \<rparr>],
       bm_extensions = None \<rparr>"

definition plain_publish :: command where
  "plain_publish =
     \<lparr> cmd_id = CommandId ''cmd-1'', cmd_source_device_id = None,
       cmd_target_device_id = DeviceId ''dev-1'',
       cmd_intent = Send plain_channel (PString ''on'') plain_publish_options,
       cmd_correlation = Some \<lparr> co_request_id = CommandId ''req-9'',
                                co_reply_to = Some (AChannel ''replies'') \<rparr> \<rparr>"

definition plain_publish_packet :: publish5 where
  "plain_publish_packet =
     \<lparr> pb_topic_name = ''plant/7'', pb_qos = QosAtLeastOnce, pb_retain = False, pb_dup = False,
       pb_packet_id = Some 1, pb_payload = bytes_of_string ''on'',
       pb_props = [PrResponseTopic ''replies'', PrCorrelationData (bytes_of_string ''req-9''),
                   PrUserProperty ''site'' ''north''] \<rparr>"

lemmas plain_publish_defs =
  plain_publish_def plain_publish_options_def plain_channel_def plain_mqtt_lib_def

lemma plain_publish_request:
  "mqtt_native_packet_request plain_mqtt_lib (plain_mqtt_device V5_0) plain_publish =
     Inr \<lparr> pr_command_id = CommandId ''cmd-1'', pr_packet = V5Publish plain_publish_packet \<rparr>"
  by (simp add: mqtt_native_packet_request_def mqtt_plan_native_def mqtt_encode_native_def
      packet_semantics_from_native_plan_def publish_view_from_native_plan_def build_packet_request_def
      build_publish_packet_def build_v5_publish_props_def build_props_def v5_publish_props_def
      publish_correlation_data_def v3_publish_of_view_def qos_from_delivery_def user_props_def
      split_mqtt_extensions_def topic_of_channel_def merged_user_properties_def opt_prop_def
      mqtt_meta_default_def mqtt_payload_bytes_def channel_reply_to_def plain_publish_packet_def
      publish3.defs publish5.defs plain_publish_defs)

theorem mqtt_publish_carries_command_witness:
  "\<exists>view body. split_mqtt_extensions (bm_extensions plain_publish_options) = Inr view \<and>
     mqtt_payload_bytes plain_mqtt_lib (PString ''on'') = Inr body \<and>
     pb_props plain_publish_packet = [PrResponseTopic ''replies'',
       PrCorrelationData (bytes_of_string ''req-9''), PrUserProperty ''site'' ''north'']"
  using mqtt_publish_carries_command [OF plain_mqtt_lib_honest _ plain_publish_request,
      of plain_channel "PString ''on''" plain_publish_options]
  by (fastforce simp: plain_publish_def plain_publish_packet_def)

lemma build_unsubscribe_packet_honest:
  assumes "honest_builders lib" and "build_unsubscribe_packet lib s version = Inr r"
  shows "pr_command_id r = sv_command_id s \<and>
    (case version of
       V5_0 \<Rightarrow> pr_packet r = V5Unsubscribe
         \<lparr> us_packet_id = 1,
           us_entries = [mqtt_topic_from_subscription_parts (sv_topic s) (sv_shared_group s)],
           us_props = [PrUserProperty ''ferredge-command-id'' (command_id_str (sv_command_id s))] \<rparr>
     | V3_1_1 \<Rightarrow> pr_packet r = V3Unsubscribe
         \<lparr> us_packet_id = 1,
           us_entries = [mqtt_topic_from_subscription_parts (sv_topic s) (sv_shared_group s)] \<rparr>)"
  using assms(2)
  by (cases version)
    (auto simp: build_unsubscribe_packet_def build_v5_unsubscribe_props_def Let_def
      and_then_eq_Inr map_ok_eq_Inr map_err_eq_Inr
      dest!: honest_props [OF assms(1)] honest_buildersD(7,8) [OF assms(1)])

lemmas native_request_defs =
  mqtt_native_packet_request_def mqtt_plan_native_def mqtt_encode_native_def
  packet_semantics_from_native_plan_def build_packet_request_def topic_of_channel_cases
  and_then_eq_Inr map_ok_eq_Inr

lemma native_subscribe_request:
  assumes "honest_builders lib" and "mqtt_native_packet_request lib dvc c = Inr r"
    and "cmd_intent c = Subscribe channel options"
  shows "pr_command_id r = cmd_id c \<and>
   (\<exists>view entry. split_mqtt_extensions (bs_extensions options) = Inr view \<and>
      entry = \<lparr> se_topic = (case bs_shared_group options of
                             None \<Rightarrow> channel_name_str (ba_name channel)
                           | Some grp \<Rightarrow> ''$share/'' @ grp @ ''/'' @
                                         channel_name_str (ba_name channel)),
                se_qos = qos_from_delivery (bs_delivery options),
                se_no_local = mm_no_local view,
                se_retain_as_published = mm_retain_as_published view,
                se_retain_handling = mm_retain_handling view \<rparr> \<and>
      (case preferred_protocol_version (dev_endpoint dvc) of
         V5_0 \<Rightarrow> \<exists>ps. pr_packet r = V5Subscribe
           \<lparr> sb_packet_id = 1, sb_entries = [entry], sb_props = ps \<rparr>
       | V3_1_1 \<Rightarrow> pr_packet r = V3Subscribe \<lparr> sb_packet_id = 1, sb_entries = [entry] \<rparr> \<and>
           \<not> mm_no_local view \<and> \<not> mm_retain_as_published view \<and>
           mm_retain_handling view = None \<and> mm_subscription_identifiers view = [] \<and>
           capture_headers (bs_extensions options) = [] \<and>
           bs_durable_name options = None \<and> bs_shared_group options = None))"
proof -
  let ?version = "preferred_protocol_version (dev_endpoint dvc)"
  from assms(2,3) obtain view where view: "split_mqtt_extensions (bs_extensions options) = Inr view"
    by (auto simp: native_request_defs)
  let ?s = "subscription_view_from_subscribe
    \<lparr> msp_command_id = cmd_id c, msp_topic = channel_name_str (ba_name channel),
      msp_delivery = bs_delivery options, msp_durable_name = bs_durable_name options,
      msp_shared_group = bs_shared_group options, msp_no_local = mm_no_local view,
      msp_retain_as_published = mm_retain_as_published view,
      msp_retain_handling = mm_retain_handling view,
      msp_subscription_identifier =
        (case mm_subscription_identifiers view of [] \<Rightarrow> None | i # _ \<Rightarrow> Some i),
      msp_user_properties = merged_user_properties [] (mm_headers view) \<rparr>"
  from assms(2,3) view have "build_subscribe_packet lib ?s ?version = Inr r"
    by (auto simp: native_request_defs split: option.splits if_splits)
  from build_subscribe_packet_honest [OF assms(1) this] show ?thesis
    using view merged_user_properties_eq [OF view, of "[]"]
    by (cases ?version)
      (auto simp: subscription_entry_def subscription_view_from_subscribe_def
        mqtt_topic_from_subscription_parts_def validate_v3_subscribe_support_def
        split: option.splits list.splits if_splits)
qed

lemma native_unsubscribe_request:
  assumes "honest_builders lib" and "mqtt_native_packet_request lib dvc c = Inr r"
    and "cmd_intent c = Unsubscribe channel"
  shows "pr_command_id r = cmd_id c \<and>
    (case preferred_protocol_version (dev_endpoint dvc) of
       V5_0 \<Rightarrow> \<exists>ps. pr_packet r = V5Unsubscribe
         \<lparr> us_packet_id = 1, us_entries = [channel_name_str (ba_name channel)], us_props = ps \<rparr>
     | V3_1_1 \<Rightarrow> pr_packet r = V3Unsubscribe
         \<lparr> us_packet_id = 1, us_entries = [channel_name_str (ba_name channel)] \<rparr>)"
proof -
  let ?version = "preferred_protocol_version (dev_endpoint dvc)"
  let ?s = "subscription_view_from_unsubscribe (cmd_id c) (channel_name_str (ba_name channel))"
  from assms(2,3) have "build_unsubscribe_packet lib ?s ?version = Inr r"
    by (auto simp: native_request_defs split: option.splits if_splits)
  from build_unsubscribe_packet_honest [OF assms(1) this] show ?thesis
    by (cases ?version)
      (auto simp: subscription_view_from_unsubscribe_def mqtt_topic_from_subscription_parts_def)
qed

text \<open>C18: A subscribe command becomes one subscription to the channel's name, prefixed with the
  shared group when the command names one, with the command's quality of service and the capture's
  flags; MQTT 3.1.1 accepts it only when no option of MQTT 5 is set.  An unsubscribe command names
  the plain channel, whatever group the subscription was made with.\<close>

theorem mqtt_subscription_requests:
  assumes "honest_builders lib" and "mqtt_native_packet_request lib dvc c = Inr r"
  shows "pr_command_id r = cmd_id c \<and>
   (case cmd_intent c of
      Subscribe channel options \<Rightarrow>
        \<exists>view entry. split_mqtt_extensions (bs_extensions options) = Inr view \<and>
          entry = \<lparr> se_topic = (case bs_shared_group options of
                                 None \<Rightarrow> channel_name_str (ba_name channel)
                               | Some grp \<Rightarrow> ''$share/'' @ grp @ ''/'' @
                                             channel_name_str (ba_name channel)),
                    se_qos = qos_from_delivery (bs_delivery options),
                    se_no_local = mm_no_local view,
                    se_retain_as_published = mm_retain_as_published view,
                    se_retain_handling = mm_retain_handling view \<rparr> \<and>
          (case preferred_protocol_version (dev_endpoint dvc) of
             V5_0 \<Rightarrow> \<exists>ps. pr_packet r = V5Subscribe
               \<lparr> sb_packet_id = 1, sb_entries = [entry], sb_props = ps \<rparr>
           | V3_1_1 \<Rightarrow> pr_packet r = V3Subscribe \<lparr> sb_packet_id = 1, sb_entries = [entry] \<rparr> \<and>
               \<not> mm_no_local view \<and> \<not> mm_retain_as_published view \<and>
               mm_retain_handling view = None \<and> mm_subscription_identifiers view = [] \<and>
               capture_headers (bs_extensions options) = [] \<and>
               bs_durable_name options = None \<and> bs_shared_group options = None)
    | Unsubscribe channel \<Rightarrow>
        (case preferred_protocol_version (dev_endpoint dvc) of
           V5_0 \<Rightarrow> \<exists>ps. pr_packet r = V5Unsubscribe
             \<lparr> us_packet_id = 1, us_entries = [channel_name_str (ba_name channel)], us_props = ps \<rparr>
         | V3_1_1 \<Rightarrow> pr_packet r = V3Unsubscribe
             \<lparr> us_packet_id = 1, us_entries = [channel_name_str (ba_name channel)] \<rparr>)
    | Send channel payload options \<Rightarrow> True
    | _ \<Rightarrow> False)"
proof (cases "cmd_intent c")
  case (Send channel payload options)
  with assms(2) show ?thesis
    by (auto simp: native_request_defs publish_view_from_native_plan_def
        dest!: build_publish_packet_honest [OF assms(1), THEN conjunct1])
next
  case (Subscribe channel options)
  with native_subscribe_request [OF assms this] show ?thesis by simp
next
  case (Unsubscribe channel)
  with native_unsubscribe_request [OF assms this] show ?thesis by simp
qed (use assms(2) in \<open>simp_all add: native_request_defs\<close>)

definition shared_subscribe :: command where
  "shared_subscribe = plain_publish\<lparr> cmd_intent := Subscribe plain_channel
     \<lparr> bs_delivery = Some AtLeastOnce, bs_durable_name = None, bs_shared_group = Some ''team'',
       bs_extensions = None \<rparr> \<rparr>"

definition shared_subscribe_packet :: subscribe5 where
  "shared_subscribe_packet =
     \<lparr> sb_packet_id = 1,
       sb_entries = [\<lparr> se_topic = ''$share/team/plant/7'', se_qos = QosAtLeastOnce,
                       se_no_local = False, se_retain_as_published = False,
                       se_retain_handling = None \<rparr>],
       sb_props = [] \<rparr>"

lemma shared_subscribe_request:
  "mqtt_native_packet_request plain_mqtt_lib (plain_mqtt_device V5_0) shared_subscribe =
     Inr \<lparr> pr_command_id = CommandId ''cmd-1'', pr_packet = V5Subscribe shared_subscribe_packet \<rparr>"
  by (simp add: mqtt_native_packet_request_def mqtt_plan_native_def mqtt_encode_native_def
      packet_semantics_from_native_plan_def subscription_view_from_subscribe_def
      build_packet_request_def build_subscribe_packet_def build_v5_subscribe_props_def
      build_props_def qos_from_delivery_def user_props_def split_mqtt_extensions_def
      topic_of_channel_def merged_user_properties_def opt_prop_def mqtt_meta_default_def
      mqtt_topic_from_subscription_parts_def shared_subscribe_def shared_subscribe_packet_def
      plain_publish_defs)

theorem mqtt_subscription_requests_witness:
  "\<exists>view. split_mqtt_extensions None = Inr view \<and>
     map se_topic (sb_entries shared_subscribe_packet) = [''$share/team/plant/7''] \<and>
     \<not> mm_no_local view \<and> preferred_protocol_version (plain_mqtt_config V5_0) = V5_0"
  using mqtt_subscription_requests [OF plain_mqtt_lib_honest shared_subscribe_request]
  by (fastforce simp: shared_subscribe_def shared_subscribe_packet_def plain_channel_def)

end
