(* ===== verification/Mqtt_Inbound.thy ===== *)
theory Mqtt_Inbound
  imports Mqtt_Types
begin

text \<open>
  The inbound decoder of the MQTT adapter (\<open>runtime.rs\<close>): which outbound requests are remembered,
  how every received packet becomes a routed event or result, and how acknowledgements and replies
  find the command they belong to.  The decoder's two interior maps are threaded explicitly.
\<close>

section \<open>State\<close>

record pending_reply_route =
  prr_command_id :: command_id
  prr_reply_to :: "address option"

record mqtt_inbound_decoder =
  id_device_id :: device_id
  id_pending_command_ids :: "u16 \<rightharpoonup> command_id"
  id_pending_reply_routes :: "string \<rightharpoonup> pending_reply_route"

datatype mqtt_decoded_inbound =
    DiIgnored
  | DiEvent routed_event
  | DiResult routed_result

definition mqtt_inbound_decoder_new :: "device_id \<Rightarrow> mqtt_inbound_decoder" where
  "mqtt_inbound_decoder_new device =
     \<lparr> id_device_id = device, id_pending_command_ids = Map.empty,
       id_pending_reply_routes = Map.empty \<rparr>"

section \<open>Outbound requests\<close>

fun packet_request_packet_id :: "mqtt_wire_packet \<Rightarrow> u16 option" where
  "packet_request_packet_id (V5Publish p) = pb_packet_id p"
| "packet_request_packet_id (V3Publish p) = pb_packet_id p"
| "packet_request_packet_id (V5Subscribe p) = Some (sb_packet_id p)"
| "packet_request_packet_id (V3Subscribe p) = Some (sb_packet_id p)"
| "packet_request_packet_id (V5Unsubscribe p) = Some (us_packet_id p)"
| "packet_request_packet_id (V3Unsubscribe p) = Some (us_packet_id p)"

abbreviation lossy_text :: "bytes \<Rightarrow> string" where
  "lossy_text b \<equiv> string_of_bytes (utf8_lossy b)"

text \<open>The loop over the properties of a publish: the last occurrence of a property wins.\<close>

fun reply_route_step ::
  "mqtt_property \<Rightarrow> string option \<times> address option \<Rightarrow> string option \<times> address option" where
  "reply_route_step (PrCorrelationData b) (key, reply_to) = (Some (lossy_text b), reply_to)"
| "reply_route_step (PrResponseTopic t) (key, reply_to) = (key, Some (AChannel t))"
| "reply_route_step _ acc = acc"

definition pending_reply_route_from_packet ::
  "mqtt_packet_request \<Rightarrow> (string \<times> pending_reply_route) option" where
  "pending_reply_route_from_packet request =
     (case pr_packet request of
        V5Publish packet \<Rightarrow>
          (let (key, reply_to) = fold reply_route_step (pb_props packet) (None, None)
           in map_option (\<lambda>k. (k, \<lparr> prr_command_id = pr_command_id request,
                                    prr_reply_to = reply_to \<rparr>)) key)
      | _ \<Rightarrow> None)"

definition record_outbound_request ::
  "mqtt_packet_request \<Rightarrow> mqtt_inbound_decoder \<Rightarrow> mqtt_inbound_decoder" where
  "record_outbound_request request d =
     (let d = (case pending_reply_route_from_packet request of
                 Some (key, route) \<Rightarrow>
                   d\<lparr> id_pending_reply_routes := (id_pending_reply_routes d)(key \<mapsto> route) \<rparr>
               | None \<Rightarrow> d)
      in case packet_request_packet_id (pr_packet request) of
           Some packet_id \<Rightarrow>
             d\<lparr> id_pending_command_ids :=
                  (id_pending_command_ids d)(packet_id \<mapsto> pr_command_id request) \<rparr>
         | None \<Rightarrow> d)"

section \<open>Received publishes\<close>

definition mqtt_source :: "device_id \<Rightarrow> endpoint_ref" where
  "mqtt_source device = endpoint_ref_new device MQTT"

definition payload_format_of_indicator :: "u8 \<Rightarrow> mqtt_payload_format" where
  "payload_format_of_indicator v = (if v = 1 then PfUtf8 else PfBytes)"

definition payload_value_from_mqtt_bytes ::
  "bytes \<Rightarrow> mqtt_payload_format option \<Rightarrow> payload_value" where
  "payload_value_from_mqtt_bytes body payload_format =
     (if payload_format = Some PfUtf8
      then (case from_utf8 body of Some txt \<Rightarrow> PString txt | None \<Rightarrow> PBytes body)
      else PBytes body)"

definition mqtt_payload_format_of :: "publish5 \<Rightarrow> mqtt_payload_format option" where
  "mqtt_payload_format_of packet =
     find_map (\<lambda>p. case p of
         PrPayloadFormatIndicator v \<Rightarrow> Some (payload_format_of_indicator v)
       | _ \<Rightarrow> None) (pb_props packet)"

text \<open>The accumulators of the property loops: the view under construction and the user properties.\<close>

fun publish_meta_step ::
  "mqtt_property \<Rightarrow> mqtt_meta \<times> (string \<times> string) list \<Rightarrow>
   mqtt_meta \<times> (string \<times> string) list" where
  "publish_meta_step (PrContentType v) (m, ups) = (m\<lparr> mm_content_type := Some v \<rparr>, ups)"
| "publish_meta_step (PrPayloadFormatIndicator v) (m, ups) =
     (m\<lparr> mm_payload_format := Some (payload_format_of_indicator v) \<rparr>, ups)"
| "publish_meta_step (PrMessageExpiryInterval v) (m, ups) =
     (m\<lparr> mm_message_expiry_interval_secs := Some v \<rparr>, ups)"
| "publish_meta_step (PrResponseTopic v) (m, ups) = (m\<lparr> mm_response_topic := Some v \<rparr>, ups)"
| "publish_meta_step (PrCorrelationData v) (m, ups) =
     ((if mm_correlation_data m = None then m\<lparr> mm_correlation_data := Some v \<rparr> else m), ups)"
| "publish_meta_step (PrTopicAlias v) (m, ups) = (m\<lparr> mm_topic_alias := Some v \<rparr>, ups)"
| "publish_meta_step (PrSubscriptionIdentifier v) (m, ups) =
     (m\<lparr> mm_subscription_identifiers := mm_subscription_identifiers m @ [v] \<rparr>, ups)"
| "publish_meta_step (PrUserProperty k v) (m, ups) = (m, ups @ [(k, v)])"
| "publish_meta_step _ acc = acc"

text \<open>The fields that both publish versions share.\<close>

definition publish_base_meta :: "'a publish3_scheme \<Rightarrow> mqtt_meta" where
  "publish_base_meta packet = mqtt_meta_default\<lparr>
     mm_topic := Some (pb_topic_name packet), mm_qos := Some (qos_u8 (pb_qos packet)),
     mm_retain := pb_retain packet, mm_duplicate := pb_dup packet,
     mm_packet_id := pb_packet_id packet \<rparr>"

definition user_property_headers :: "(string \<times> string) list \<Rightarrow> headers option" where
  "user_property_headers ups = (if ups = [] then None else Some (headers_from_pairs ups))"

definition mqtt_meta_from_v5_publish :: "publish5 \<Rightarrow> string option \<Rightarrow> transport_meta" where
  "mqtt_meta_from_v5_publish packet correlation_override =
     (let start = (publish_base_meta packet)
            \<lparr> mm_correlation_data := map_option bytes_of_string correlation_override \<rparr>;
          (m, ups) = fold publish_meta_step (pb_props packet) (start, [])
      in mqtt_into_transport_meta (m\<lparr> mm_headers := user_property_headers ups \<rparr>))"

text \<open>
  The loop of \<open>routed_event_from_v5_publish\<close> keeps the last correlation data, and derives the
  correlation id and the reply address from the same properties.
\<close>

fun event_meta_step ::
  "mqtt_property \<Rightarrow> mqtt_meta \<times> (string \<times> string) list \<Rightarrow>
   mqtt_meta \<times> (string \<times> string) list" where
  "event_meta_step (PrCorrelationData v) (m, ups) = (m\<lparr> mm_correlation_data := Some v \<rparr>, ups)"
| "event_meta_step p acc = publish_meta_step p acc"

definition routed_event_from_v5_publish :: "device_id \<Rightarrow> publish5 \<Rightarrow> routed_event" where
  "routed_event_from_v5_publish device packet =
     (let (m, ups) = fold event_meta_step (pb_props packet) (publish_base_meta packet, []);
          correlation_id = map_option lossy_text (mm_correlation_data m);
          reply_to = map_option AChannel (mm_response_topic m)
      in routed_event_new (mqtt_source device) (Messaging (pb_topic_name packet))
           (payload_value_from_mqtt_bytes (pb_payload packet) (mm_payload_format m))
           (if correlation_id \<noteq> None \<or> reply_to \<noteq> None
            then Some (correlation_new (CommandId (unwrap_or correlation_id [])) reply_to)
            else None)
           (Some (mqtt_into_transport_meta (m\<lparr> mm_headers := user_property_headers ups \<rparr>))))"

definition routed_event_from_v3_publish :: "device_id \<Rightarrow> publish3 \<Rightarrow> routed_event" where
  "routed_event_from_v3_publish device packet =
     routed_event_new (mqtt_source device) (Messaging (pb_topic_name packet))
       (PBytes (pb_payload packet)) None
       (Some (mqtt_into_transport_meta (publish_base_meta packet)))"

text \<open>The correlation key of an inbound publish: its first correlation data.\<close>

definition reply_key :: "publish5 \<Rightarrow> string option" where
  "reply_key packet =
     find_map (\<lambda>p. case p of PrCorrelationData b \<Rightarrow> Some (lossy_text b) | _ \<Rightarrow> None) (pb_props packet)"

definition routed_reply_or_event_from_v5_publish ::
  "mqtt_inbound_decoder \<Rightarrow> publish5 \<Rightarrow> routed_message \<times> mqtt_inbound_decoder" where
  "routed_reply_or_event_from_v5_publish d packet =
     (let device = id_device_id d;
          event = REvent (routed_event_into_owned (routed_event_from_v5_publish device packet))
      in case reply_key packet of
           None \<Rightarrow> (event, d)
         | Some key \<Rightarrow>
             (case id_pending_reply_routes d key of
                None \<Rightarrow> (event, d)
              | Some route \<Rightarrow>
                  (RResult (routed_result_new (mqtt_source device)
                     (command_result_new (prr_command_id route) device Completed
                        (Some (payload_into_owned (payload_value_from_mqtt_bytes
                           (pb_payload packet) (mqtt_payload_format_of packet))))
                        None
                        (Some (correlation_new (prr_command_id route) (prr_reply_to route))))
                     (Some (mqtt_meta_from_v5_publish packet (Some key)))),
                   d\<lparr> id_pending_reply_routes := (id_pending_reply_routes d)(key := None) \<rparr>)))"

section \<open>Acknowledgements\<close>

definition reason_string_from_props :: "properties \<Rightarrow> string option" where
  "reason_string_from_props props =
     find_map (\<lambda>p. case p of PrReasonString v \<Rightarrow> Some v | _ \<Rightarrow> None) props"

definition reason_string_from_props_opt :: "properties option \<Rightarrow> string option" where
  "reason_string_from_props_opt props = Option.bind props reason_string_from_props"

definition mqtt_result_meta :: "u16 option \<Rightarrow> string list \<Rightarrow> string option \<Rightarrow> transport_meta" where
  "mqtt_result_meta packet_id reason_codes reason_string =
     mqtt_into_transport_meta (mqtt_meta_default
       \<lparr> mm_packet_id := packet_id, mm_reason_codes := reason_codes,
         mm_reason_string := reason_string \<rparr>)"

definition routed_result_from_packet_id_with_transport ::
  "mqtt_inbound_decoder \<Rightarrow> u16 \<Rightarrow> delivery_state \<Rightarrow> string option \<Rightarrow> bool \<Rightarrow>
   transport_meta option \<Rightarrow> routed_result \<times> mqtt_inbound_decoder" where
  "routed_result_from_packet_id_with_transport d packet_id state err remove transport =
     (let device = id_device_id d;
          pending = id_pending_command_ids d;
          command = unwrap_or (pending packet_id) (CommandId (decimal (unat packet_id)))
      in (routed_result_new (mqtt_source device)
            (command_result_new command device state None err None) transport,
          if remove then d\<lparr> id_pending_command_ids := pending(packet_id := None) \<rparr> else d))"

definition routed_result_from_packet_id ::
  "mqtt_inbound_decoder \<Rightarrow> u16 \<Rightarrow> delivery_state \<Rightarrow> bool \<Rightarrow> routed_result \<times> mqtt_inbound_decoder" where
  "routed_result_from_packet_id d packet_id state remove =
     routed_result_from_packet_id_with_transport d packet_id state None remove None"

text \<open>
  The bodies of \<open>routed_result_from_v5_puback\<close>, \<open>_pubrec\<close>, \<open>_pubrel\<close> and \<open>_pubcomp\<close>, which differ
  in the state of success and in whether the packet id is released.
\<close>

definition routed_result_from_v5_ack ::
  "mqtt_inbound_decoder \<Rightarrow> delivery_state \<Rightarrow> bool \<Rightarrow> ack5 \<Rightarrow> routed_result \<times> mqtt_inbound_decoder" where
  "routed_result_from_v5_ack d success_state remove packet =
     (let reason_code = ack_reason_code packet
      in routed_result_from_packet_id_with_transport d (ack_packet_id packet)
           (case reason_code of
              None \<Rightarrow> success_state
            | Some code \<Rightarrow> if code_is_success code then success_state else Rejected)
           (case reason_code of
              Some code \<Rightarrow> if code_is_failure code then Some (code_text code) else None
            | None \<Rightarrow> None)
           remove
           (Some (mqtt_result_meta (Some (ack_packet_id packet))
              (case reason_code of Some code \<Rightarrow> [code_text code] | None \<Rightarrow> [])
              (reason_string_from_props_opt (ack_props packet)))))"

definition routed_result_from_v5_puback where
  "routed_result_from_v5_puback d packet = routed_result_from_v5_ack d Completed True packet"

definition routed_result_from_v5_pubrec where
  "routed_result_from_v5_pubrec d packet = routed_result_from_v5_ack d Dispatched False packet"

definition routed_result_from_v5_pubrel where
  "routed_result_from_v5_pubrel d packet = routed_result_from_v5_ack d Dispatched False packet"

definition routed_result_from_v5_pubcomp where
  "routed_result_from_v5_pubcomp d packet = routed_result_from_v5_ack d Completed True packet"

fun join_comma :: "string list \<Rightarrow> string" where
  "join_comma [] = []"
| "join_comma [s] = s"
| "join_comma (s # ss) = s @ '','' @ join_comma ss"

text \<open>\<open>routed_result_from_v5_suback\<close> and \<open>routed_result_from_v5_unsuback\<close> have the same body.\<close>

definition routed_result_from_v5_suback ::
  "mqtt_inbound_decoder \<Rightarrow> suback5 \<Rightarrow> routed_result \<times> mqtt_inbound_decoder" where
  "routed_result_from_v5_suback d packet =
     (let failed_codes = map code_text (filter code_is_failure (sa_reason_codes packet))
      in routed_result_from_packet_id_with_transport d (sa_packet_id packet)
           (if failed_codes = [] then Completed else Rejected)
           (if failed_codes = [] then None else Some (join_comma failed_codes))
           True
           (Some (mqtt_result_meta (Some (sa_packet_id packet))
              (map code_text (sa_reason_codes packet))
              (reason_string_from_props (sa_props packet)))))"

definition routed_result_from_v5_unsuback ::
  "mqtt_inbound_decoder \<Rightarrow> suback5 \<Rightarrow> routed_result \<times> mqtt_inbound_decoder" where
  "routed_result_from_v5_unsuback d packet = routed_result_from_v5_suback d packet"

definition routed_result_from_v5_disconnect :: "device_id \<Rightarrow> disconnect5 \<Rightarrow> routed_result" where
  "routed_result_from_v5_disconnect device packet =
     (let code = dp_reason_code packet;
          reason_text = map_option code_text code;
          state = (case code of
              None \<Rightarrow> Completed
            | Some c \<Rightarrow> (case dc_reason c of
                  NormalDisconnection \<Rightarrow> Completed
                | DisconnectWithWillMessage \<Rightarrow> Completed
                | OtherDisconnection \<Rightarrow> Rejected))
      in routed_result_new (mqtt_source device)
           (command_result_new (CommandId ''__mqtt_disconnect__'') device state None
              (if state = Rejected then reason_text else None) None)
           (Some (mqtt_result_meta None (case reason_text of Some t \<Rightarrow> [t] | None \<Rightarrow> [])
              (reason_string_from_props_opt (dp_props packet)))))"

definition routed_result_from_v5_auth :: "device_id \<Rightarrow> auth5 \<Rightarrow> routed_result" where
  "routed_result_from_v5_auth device packet =
     (let code = ap_reason_code packet;
          reason_text = map_option code_text code;
          state = (case code of
              None \<Rightarrow> Accepted
            | Some c \<Rightarrow> if code_is_success c then Accepted else Rejected)
      in routed_result_new (mqtt_source device)
           (command_result_new (CommandId ''__mqtt_auth__'') device state None
              (if state = Rejected then reason_text else None) None)
           (Some (mqtt_result_meta None (case reason_text of Some t \<Rightarrow> [t] | None \<Rightarrow> [])
              (reason_string_from_props_opt (ap_props packet)))))"

section \<open>Decoding\<close>

definition as_result ::
  "routed_result \<times> mqtt_inbound_decoder \<Rightarrow> routed_message option \<times> mqtt_inbound_decoder" where
  "as_result r = (Some (RResult (fst r)), snd r)"

fun decode_packet ::
  "mqtt_inbound_decoder \<Rightarrow> mqtt_packet \<Rightarrow> routed_message option \<times> mqtt_inbound_decoder" where
  "decode_packet d (V5_0Publish packet) =
     (let (m, d') = routed_reply_or_event_from_v5_publish d packet in (Some m, d'))"
| "decode_packet d (V3_1_1Publish packet) =
     (Some (REvent (routed_event_into_owned
        (routed_event_from_v3_publish (id_device_id d) packet))), d)"
| "decode_packet d (V5_0Puback packet) = as_result (routed_result_from_v5_puback d packet)"
| "decode_packet d (V3_1_1Puback pid) = as_result (routed_result_from_packet_id d pid Completed True)"
| "decode_packet d (V5_0Pubrec packet) = as_result (routed_result_from_v5_pubrec d packet)"
| "decode_packet d (V5_0Pubrel packet) = as_result (routed_result_from_v5_pubrel d packet)"
| "decode_packet d (V3_1_1Pubrec pid) =
     as_result (routed_result_from_packet_id d pid Dispatched False)"
| "decode_packet d (V3_1_1Pubrel pid) =
     as_result (routed_result_from_packet_id d pid Dispatched False)"
| "decode_packet d (V5_0Pubcomp packet) = as_result (routed_result_from_v5_pubcomp d packet)"
| "decode_packet d (V3_1_1Pubcomp pid) =
     as_result (routed_result_from_packet_id d pid Completed True)"
| "decode_packet d (V5_0Suback packet) = as_result (routed_result_from_v5_suback d packet)"
| "decode_packet d (V3_1_1Suback pid) = as_result (routed_result_from_packet_id d pid Completed True)"
| "decode_packet d (V5_0Unsuback packet) = as_result (routed_result_from_v5_unsuback d packet)"
| "decode_packet d (V3_1_1Unsuback pid) =
     as_result (routed_result_from_packet_id d pid Completed True)"
| "decode_packet d (V5_0Disconnect packet) =
     (Some (RResult (routed_result_from_v5_disconnect (id_device_id d) packet)), d)"
| "decode_packet d (V5_0Auth packet) =
     (Some (RResult (routed_result_from_v5_auth (id_device_id d) packet)), d)"
| "decode_packet d _ = (None, d)"

definition mqtt_inbound_decode ::
  "mqtt_inbound_decoder \<Rightarrow> mqtt_packet \<Rightarrow> mqtt_decoded_inbound \<times> mqtt_inbound_decoder" where
  "mqtt_inbound_decode d packet =
     (let (decoded, d') = decode_packet d packet
      in (case decoded of
            Some (REvent event) \<Rightarrow> DiEvent event
          | Some (RResult result) \<Rightarrow> DiResult result
          | _ \<Rightarrow> DiIgnored, d'))"

fun inbound_to_routed :: "mqtt_decoded_inbound \<Rightarrow> string + routed_message" where
  "inbound_to_routed (DiEvent event) = Inr (REvent event)"
| "inbound_to_routed (DiResult result) = Inr (RResult result)"
| "inbound_to_routed DiIgnored = Inl ''mqtt packet does not project to routed message''"

fun inbound_to_bridge :: "mqtt_decoded_inbound \<Rightarrow> string + bridge_message" where
  "inbound_to_bridge (DiEvent event) = Inr (routed_event_to_bridge event)"
| "inbound_to_bridge (DiResult result) = Inr (routed_result_to_bridge result)"
| "inbound_to_bridge DiIgnored = Inl ''mqtt packet does not project to bridge message''"

definition routed_message_from_packet ::
  "(u16 \<rightharpoonup> command_id) \<Rightarrow> (string \<rightharpoonup> pending_reply_route) \<Rightarrow> device_id \<Rightarrow> mqtt_packet \<Rightarrow>
   routed_message option \<times> (u16 \<rightharpoonup> command_id) \<times> (string \<rightharpoonup> pending_reply_route)" where
  "routed_message_from_packet commands routes device packet =
     (let (decoded, d) = mqtt_inbound_decode
            \<lparr> id_device_id = device, id_pending_command_ids = commands,
              id_pending_reply_routes = routes \<rparr> packet
      in (result_ok (inbound_to_routed decoded), id_pending_command_ids d,
          id_pending_reply_routes d))"

section \<open>Lemmas\<close>

text \<open>The packet id that a packet acknowledges, and whether the acknowledgement is final.\<close>

fun acknowledged :: "mqtt_packet \<Rightarrow> (u16 \<times> bool) option" where
  "acknowledged (V5_0Puback p) = Some (ack_packet_id p, True)"
| "acknowledged (V3_1_1Puback pid) = Some (pid, True)"
| "acknowledged (V5_0Pubrec p) = Some (ack_packet_id p, False)"
| "acknowledged (V3_1_1Pubrec pid) = Some (pid, False)"
| "acknowledged (V5_0Pubrel p) = Some (ack_packet_id p, False)"
| "acknowledged (V3_1_1Pubrel pid) = Some (pid, False)"
| "acknowledged (V5_0Pubcomp p) = Some (ack_packet_id p, True)"
| "acknowledged (V3_1_1Pubcomp pid) = Some (pid, True)"
| "acknowledged (V5_0Suback p) = Some (sa_packet_id p, True)"
| "acknowledged (V3_1_1Suback pid) = Some (pid, True)"
| "acknowledged (V5_0Unsuback p) = Some (sa_packet_id p, True)"
| "acknowledged (V3_1_1Unsuback pid) = Some (pid, True)"
| "acknowledged _ = None"

definition received_key :: "mqtt_packet \<Rightarrow> string option" where
  "received_key packet = (case packet of V5_0Publish p \<Rightarrow> reply_key p | _ \<Rightarrow> None)"

definition decode_all :: "mqtt_inbound_decoder \<Rightarrow> mqtt_packet list \<Rightarrow> mqtt_inbound_decoder" where
  "decode_all d packets = foldl (\<lambda>d p. snd (mqtt_inbound_decode d p)) d packets"

lemmas ack_defs =
  routed_result_from_v5_puback_def routed_result_from_v5_pubrec_def
  routed_result_from_v5_pubrel_def routed_result_from_v5_pubcomp_def routed_result_from_v5_ack_def
  routed_result_from_v5_unsuback_def routed_result_from_v5_suback_def
  routed_result_from_packet_id_def routed_result_from_packet_id_with_transport_def as_result_def

lemma reply_or_event_state:
  "snd (routed_reply_or_event_from_v5_publish d p) =
     (case reply_key p of
        None \<Rightarrow> d
      | Some k \<Rightarrow> d\<lparr> id_pending_reply_routes := (id_pending_reply_routes d)(k := None) \<rparr>)"
proof (cases "reply_key p")
  case (Some k)
  show ?thesis
  proof (cases "id_pending_reply_routes d k")
    case None
    then have "(id_pending_reply_routes d)(k := None) = id_pending_reply_routes d" by (auto simp: fun_eq_iff)
    with Some None show ?thesis
      by (simp add: routed_reply_or_event_from_v5_publish_def Let_def)
  qed (simp add: Some routed_reply_or_event_from_v5_publish_def Let_def)
qed (simp add: routed_reply_or_event_from_v5_publish_def Let_def)

text \<open>A received packet touches at most the entry of its own packet id or reply key.\<close>

lemma decode_state:
  "snd (mqtt_inbound_decode d packet) =
     d\<lparr> id_pending_command_ids :=
          (case acknowledged packet of
             Some (pid, True) \<Rightarrow> (id_pending_command_ids d)(pid := None)
           | _ \<Rightarrow> id_pending_command_ids d),
        id_pending_reply_routes :=
          (case received_key packet of
             Some k \<Rightarrow> (id_pending_reply_routes d)(k := None)
           | None \<Rightarrow> id_pending_reply_routes d) \<rparr>"
proof (cases packet)
  case (V5_0Publish p)
  then show ?thesis
    using reply_or_event_state [of d p]
    by (auto simp: mqtt_inbound_decode_def received_key_def case_prod_unfold split: option.split)
qed (simp_all add: mqtt_inbound_decode_def ack_defs received_key_def case_prod_unfold Let_def)

lemma decode_all_simps [simp]:
  "decode_all d [] = d"
  "decode_all d (p # ps) = decode_all (snd (mqtt_inbound_decode d p)) ps"
  by (simp_all add: decode_all_def)

lemma decode_all_keeps:
  "(\<forall>p\<in>set ps. acknowledged p \<noteq> Some (pid, True)) \<Longrightarrow>
     id_pending_command_ids (decode_all d ps) pid = id_pending_command_ids d pid"
  "(\<forall>p\<in>set ps. received_key p \<noteq> Some k) \<Longrightarrow>
     id_pending_reply_routes (decode_all d ps) k = id_pending_reply_routes d k"
  "id_device_id (decode_all d ps) = id_device_id d"
  by (induction ps arbitrary: d) (auto simp: decode_state split: option.split bool.split)

lemma decode_acknowledgement:
  assumes "acknowledged packet = Some (pid, final)"
  shows "\<exists>result. fst (mqtt_inbound_decode d packet) = DiResult result \<and>
    cr_command_id (rr_result result) =
      unwrap_or (id_pending_command_ids d pid) (CommandId (decimal (unat pid))) \<and>
    cr_device_id (rr_result result) = id_device_id d"
  using assms
  by (cases packet)
    (auto simp: mqtt_inbound_decode_def ack_defs case_prod_unfold routed_result_new_def
      command_result_new_def Let_def)

lemma record_outbound_state:
  "id_device_id (record_outbound_request request d) = id_device_id d"
  "packet_request_packet_id (pr_packet request) = Some pid \<Longrightarrow>
     id_pending_command_ids (record_outbound_request request d) pid = Some (pr_command_id request)"
  "pending_reply_route_from_packet request = Some (k, route) \<Longrightarrow>
     id_pending_reply_routes (record_outbound_request request d) k = Some route"
  by (simp_all add: record_outbound_request_def Let_def split: option.split)

lemma decode_reply:
  assumes "reply_key p = Some k" and "id_pending_reply_routes d k = Some route"
  shows "\<exists>transport. fst (mqtt_inbound_decode d (V5_0Publish p)) = DiResult
      \<lparr> rr_source = \<lparr> ep_device_id = id_device_id d, ep_protocol = MQTT \<rparr>,
        rr_result = \<lparr> cr_command_id = prr_command_id route, cr_device_id = id_device_id d,
          cr_state = Completed,
          cr_payload = Some (payload_value_from_mqtt_bytes (pb_payload p) (mqtt_payload_format_of p)),
          cr_error = None,
          cr_correlation = Some \<lparr> co_request_id = prr_command_id route,
                                  co_reply_to = prr_reply_to route \<rparr> \<rparr>,
        rr_transport = Some transport \<rparr>"
  using assms
  by (simp add: mqtt_inbound_decode_def routed_reply_or_event_from_v5_publish_def Let_def
      routed_result_new_def command_result_new_def correlation_new_def mqtt_source_def
      endpoint_ref_new_def own_payload.own_content)

lemma decode_unsolicited:
  assumes "reply_key p = Some k" and "id_pending_reply_routes d k = None"
  shows "\<exists>event. fst (mqtt_inbound_decode d (V5_0Publish p)) = DiEvent event"
  using assms by (simp add: mqtt_inbound_decode_def routed_reply_or_event_from_v5_publish_def Let_def)

section \<open>Properties\<close>

text \<open>C19: An acknowledgement is attributed to the command it acknowledges: after a request with a
  packet id was recorded, whatever is received in between short of a final acknowledgement of that
  id, every acknowledgement of the id becomes a result of that command on this device; a final one
  releases the id, so that a further acknowledgement of it names no command.\<close>

theorem mqtt_ack_matches_request:
  assumes "packet_request_packet_id (pr_packet request) = Some pid"
    and "\<forall>p\<in>set received. acknowledged p \<noteq> Some (pid, True)"
    and "acknowledged ack = Some (pid, final)"
  shows "\<exists>result d'.
    mqtt_inbound_decode (decode_all (record_outbound_request request d) received) ack =
      (DiResult result, d') \<and>
    cr_command_id (rr_result result) = pr_command_id request \<and>
    cr_device_id (rr_result result) = id_device_id d \<and>
    id_pending_command_ids d' pid = (if final then None else Some (pr_command_id request)) \<and>
    (\<exists>again. fst (mqtt_inbound_decode d' ack) = DiResult again \<and>
       cr_command_id (rr_result again) =
         (if final then CommandId (decimal (unat pid)) else pr_command_id request))"
proof -
  let ?d = "decode_all (record_outbound_request request d) received"
  have pending: "id_pending_command_ids ?d pid = Some (pr_command_id request)"
    and device: "id_device_id ?d = id_device_id d"
    using assms(1,2) by (simp_all add: decode_all_keeps record_outbound_state)
  obtain result where result: "fst (mqtt_inbound_decode ?d ack) = DiResult result"
    "cr_command_id (rr_result result) = pr_command_id request"
    "cr_device_id (rr_result result) = id_device_id d"
    using decode_acknowledgement [OF assms(3), of ?d] by (auto simp: pending device unwrap_or_def)
  obtain d' where d': "d' = snd (mqtt_inbound_decode ?d ack)" by simp
  have pending': "id_pending_command_ids d' pid = (if final then None else Some (pr_command_id request))"
    using assms(3) pending by (cases final) (simp_all add: d' decode_state)
  obtain again where "fst (mqtt_inbound_decode d' ack) = DiResult again"
    "cr_command_id (rr_result again) =
      (if final then CommandId (decimal (unat pid)) else pr_command_id request)"
    using decode_acknowledgement [OF assms(3), of d'] by (auto simp: pending' unwrap_or_def)
  with result pending' show ?thesis by (metis d' prod.collapse)
qed

definition sample_mqtt_request :: mqtt_packet_request where
  "sample_mqtt_request =
     \<lparr> pr_command_id = CommandId ''cmd-1'',
       pr_packet = V5Publish
         \<lparr> pb_topic_name = ''plant/7'', pb_qos = QosExactlyOnce, pb_retain = False, pb_dup = False,
           pb_packet_id = Some 9, pb_payload = [],
           pb_props = [PrResponseTopic ''replies'', PrCorrelationData [65, 66]] \<rparr> \<rparr>"

definition sample_mqtt_reply :: publish5 where
  "sample_mqtt_reply =
     \<lparr> pb_topic_name = ''replies'', pb_qos = QosAtMostOnce, pb_retain = False, pb_dup = False,
       pb_packet_id = None, pb_payload = [1, 2], pb_props = [PrCorrelationData [65, 66]] \<rparr>"

theorem mqtt_ack_matches_request_witness:
  "\<exists>result d'.
    mqtt_inbound_decode
      (decode_all (record_outbound_request sample_mqtt_request
         (mqtt_inbound_decoder_new (DeviceId ''dev-1'')))
         [V3_1_1Pubrec 9, V5_0Publish sample_mqtt_reply, V3_1_1Puback 8]) (V3_1_1Pubcomp 9) =
      (DiResult result, d') \<and>
    cr_command_id (rr_result result) = CommandId ''cmd-1'' \<and> id_pending_command_ids d' 9 = None"
proof -
  have "packet_request_packet_id (pr_packet sample_mqtt_request) = Some 9"
    by (simp add: sample_mqtt_request_def)
  from mqtt_ack_matches_request [OF this, of
      "[V3_1_1Pubrec 9, V5_0Publish sample_mqtt_reply, V3_1_1Puback 8]" "V3_1_1Pubcomp 9" True
      "mqtt_inbound_decoder_new (DeviceId ''dev-1'')"]
  show ?thesis by (auto simp: sample_mqtt_request_def)
qed

text \<open>C20: Request and reply over topics: after a publish that carries correlation data was
  recorded, and as long as nothing else with that correlation was received, the first publish that
  carries it becomes the completed result of the command, with the reply's payload, the command as
  its correlation and the route the command asked for; the reply is delivered once, and a second
  publish with the same correlation is an ordinary event.\<close>

theorem mqtt_reply_delivered_once:
  assumes "pending_reply_route_from_packet request = Some (k, route)"
    and "\<forall>p\<in>set received. received_key p \<noteq> Some k"
    and "reply_key reply = Some k" and "reply_key second = Some k"
  shows "\<exists>result d' event.
    mqtt_inbound_decode (decode_all (record_outbound_request request d) received)
      (V5_0Publish reply) = (DiResult result, d') \<and>
    rr_result result =
      \<lparr> cr_command_id = pr_command_id request, cr_device_id = id_device_id d, cr_state = Completed,
        cr_payload = Some (payload_value_from_mqtt_bytes (pb_payload reply)
                             (mqtt_payload_format_of reply)),
        cr_error = None,
        cr_correlation = Some \<lparr> co_request_id = pr_command_id request,
                                co_reply_to = prr_reply_to route \<rparr> \<rparr> \<and>
    fst (mqtt_inbound_decode d' (V5_0Publish second)) = DiEvent event"
proof -
  let ?d = "decode_all (record_outbound_request request d) received"
  have pending: "id_pending_reply_routes ?d k = Some route"
    and device: "id_device_id ?d = id_device_id d"
    using assms(1,2) by (simp_all add: decode_all_keeps record_outbound_state)
  have command: "prr_command_id route = pr_command_id request"
    using assms(1)
    by (auto simp: pending_reply_route_from_packet_def split: mqtt_wire_packet.splits prod.splits)
  let ?d' = "snd (mqtt_inbound_decode ?d (V5_0Publish reply))"
  have "id_pending_reply_routes ?d' k = None"
    using assms(3) by (simp add: decode_state received_key_def)
  from decode_unsolicited [OF assms(4) this] decode_reply [OF assms(3) pending]
  show ?thesis
    by (auto simp: command device prod_eq_iff)
qed

theorem mqtt_reply_delivered_once_witness:
  "\<exists>result d' event.
    mqtt_inbound_decode
      (decode_all (record_outbound_request sample_mqtt_request
         (mqtt_inbound_decoder_new (DeviceId ''dev-1''))) [V3_1_1Pubrec 9])
      (V5_0Publish sample_mqtt_reply) = (DiResult result, d') \<and>
    cr_command_id (rr_result result) = CommandId ''cmd-1'' \<and>
    cr_payload (rr_result result) = Some (PBytes [1, 2]) \<and>
    fst (mqtt_inbound_decode d' (V5_0Publish sample_mqtt_reply)) = DiEvent event"
proof -
  have lossy: "lossy_text [65, 66] = ''AB''" by code_simp
  have "pending_reply_route_from_packet sample_mqtt_request = Some (''AB'',
      \<lparr> prr_command_id = CommandId ''cmd-1'', prr_reply_to = Some (AChannel ''replies'') \<rparr>)"
    and "reply_key sample_mqtt_reply = Some ''AB''"
    using lossy
    by (simp_all add: sample_mqtt_request_def sample_mqtt_reply_def reply_key_def
        pending_reply_route_from_packet_def)
  from mqtt_reply_delivered_once [OF this(1) _ this(2) this(2), of "[V3_1_1Pubrec 9]"
      "mqtt_inbound_decoder_new (DeviceId ''dev-1'')"]
  show ?thesis
    by (fastforce simp: received_key_def sample_mqtt_request_def sample_mqtt_reply_def
        payload_value_from_mqtt_bytes_def mqtt_payload_format_of_def)
qed

text \<open>
  Correlation data is compared as lossily decoded text, so two correlations that differ only in
  bytes outside UTF-8 are the same one: the reply to one command completes the other.
\<close>

lemma correlation_collision:
  "reply_key (sample_mqtt_reply\<lparr> pb_props := [PrCorrelationData [0xFF]] \<rparr>) =
   reply_key (sample_mqtt_reply\<lparr> pb_props := [PrCorrelationData [0xFE]] \<rparr>)"
proof -
  have "lossy_text [0xFF] = lossy_text [0xFE]" by code_simp
  then show ?thesis by (simp add: reply_key_def sample_mqtt_reply_def)
qed

end
