(* ===== verification/Mqtt_Session.thy ===== *)
theory Mqtt_Session
  imports Mqtt_Convert Mqtt_Inbound Runtime_Io
begin

text \<open>
  The live client session of the MQTT adapter (\<open>runtime.rs\<close>): the CONNECT packet, the assignment of
  packet ids, sending and receiving, the events of the connection, keep-alive, negotiation and
  enhanced authentication.

  The connection state machine of \<open>mqtt_protocol_core\<close>, the socket, the clock and the lock of the
  runtime are the parameter \<open>mqtt_env\<close>: the connection is an opaque state that turns packets to
  send and bytes received into lists of events.  Time is a duration since the clock's origin.
\<close>

section \<open>Environment and state\<close>

datatype mqtt_event =
    EvRequestSendPacket mqtt_packet
  | EvNotifyPacketReceived mqtt_packet
  | EvNotifyError string
  | EvRequestClose
  | EvNotifyPacketIdReleased u16
  | EvRequestTimerReset
  | EvRequestTimerCancel

record ('w, 'h, 'c) mqtt_env =
  mx_lib :: mqtt_lib
  mx_net :: "('w, 'h) tcp_net"
  mx_new_connection :: "mqtt_protocol_version \<Rightarrow> 'c"
  mx_checked_send :: "mqtt_packet \<Rightarrow> 'c \<Rightarrow> mqtt_event list \<times> 'c"
  mx_recv :: "bytes \<Rightarrow> 'c \<Rightarrow> mqtt_event list \<times> 'c"
  mx_acquire_packet_id :: "'c \<Rightarrow> (string + u16) \<times> 'c"
  mx_packet_bytes :: "mqtt_packet \<Rightarrow> bytes"
  mx_now :: "'w \<Rightarrow> duration \<times> 'w"
  mx_lock :: "'w \<Rightarrow> bool \<times> 'w"

record ('h, 'c) mqtt_session =
  ms_stream :: 'h
  ms_connection :: 'c
  ms_protocol_version :: mqtt_protocol_version
  ms_keepalive_secs :: "u16 option"
  ms_last_activity :: duration
  ms_awaiting_pingresp :: bool
  ms_inbound_decoder :: mqtt_inbound_decoder
  ms_authentication_method :: "string option"

text \<open>What a session operation works on: the session, the world, and the shared cells.\<close>

record ('w, 'h, 'c) mqtt_io =
  io_world :: 'w
  io_session :: "('h, 'c) mqtt_session"
  io_connack :: "mqtt_connack_properties option"
  io_auth :: "mqtt_auth_provider option"

type_synonym ('w, 'h, 'c, 'a) mqtt_op = "(('w, 'h, 'c) mqtt_io, 'a) fallible"

definition upd_session ::
  "(('h, 'c) mqtt_session \<Rightarrow> ('h, 'c) mqtt_session) \<Rightarrow> ('w, 'h, 'c, unit) mqtt_op" where
  "upd_session f = fl_modify (\<lambda>st. st\<lparr> io_session := f (io_session st) \<rparr>)"

definition on_world :: "('w \<Rightarrow> (string + 'a) \<times> 'w) \<Rightarrow> ('w, 'h, 'c, 'a) mqtt_op" where
  "on_world f st = (let (r, w) = f (io_world st) in (r, st\<lparr> io_world := w \<rparr>))"

definition mqtt_now :: "('w, 'h, 'c) mqtt_env \<Rightarrow> ('w, 'h, 'c, duration) mqtt_op" where
  "mqtt_now env = on_world (\<lambda>w. let (t, w') = mx_now env w in (Inr t, w'))"

definition mqtt_lock :: "('w, 'h, 'c) mqtt_env \<Rightarrow> string \<Rightarrow> ('w, 'h, 'c, unit) mqtt_op" where
  "mqtt_lock env what =
     on_world (\<lambda>w. let (ok, w') = mx_lock env w
                   in (if ok then Inr () else Inl (''failed to lock '' @ what), w'))"

definition mqtt_connection_send ::
  "('w, 'h, 'c) mqtt_env \<Rightarrow> mqtt_packet \<Rightarrow> ('w, 'h, 'c, mqtt_event list) mqtt_op" where
  "mqtt_connection_send env packet st =
     (let (events, c) = mx_checked_send env packet (ms_connection (io_session st))
      in (Inr events, st\<lparr> io_session := (io_session st)\<lparr> ms_connection := c \<rparr> \<rparr>))"

section \<open>The CONNECT packet\<close>

definition normalize_broker_addr :: "string \<Rightarrow> string" where
  "normalize_broker_addr broker =
     normalize_host_port
       (unwrap_or (opt_or (strip_prefix ''mqtt://'' broker) (strip_prefix ''tcp://'' broker)) broker)
       1883"

definition bool_u8 :: "bool \<Rightarrow> u8" where
  "bool_u8 b = (if b then 1 else 0)"

definition connect_props :: "mqtt_endpoint_config \<Rightarrow> properties" where
  "connect_props config =
     (let cp = me_connect_properties config
      in opt_prop PrSessionExpiryInterval
           (opt_or (cp_session_expiry_interval_secs cp) (me_session_expiry_secs config)) @
         opt_prop PrReceiveMaximum (cp_receive_maximum cp) @
         opt_prop PrMaximumPacketSize (cp_maximum_packet_size cp) @
         opt_prop PrTopicAliasMaximum (cp_topic_alias_maximum cp) @
         opt_prop (\<lambda>b. PrRequestProblemInformation (bool_u8 b)) (cp_request_problem_information cp) @
         opt_prop (\<lambda>b. PrRequestResponseInformation (bool_u8 b))
           (cp_request_response_information cp) @
         opt_prop PrAuthenticationMethod (cp_authentication_method cp) @
         opt_prop PrAuthenticationData (cp_authentication_data cp) @
         user_props (cp_user_properties cp))"

definition build_v5_will_props :: "mqtt_lib \<Rightarrow> mqtt_will_config \<Rightarrow> string + properties" where
  "build_v5_will_props lib will =
     build_props lib
       (opt_prop PrWillDelayInterval (wi_delay_interval_secs will) @
        opt_prop (\<lambda>f. PrPayloadFormatIndicator (payload_format_u8 f)) (wi_payload_format will) @
        opt_prop PrMessageExpiryInterval (wi_message_expiry_interval_secs will) @
        opt_prop PrContentType (wi_content_type will) @
        opt_prop PrResponseTopic (wi_response_topic will) @
        opt_prop PrCorrelationData (wi_correlation_data will) @
        user_props (wi_user_properties will))"

text \<open>The builder with client id, clean start and keep-alive set, and the credentials at its end.\<close>

definition connect_start ::
  "mqtt_lib \<Rightarrow> mqtt_endpoint_config \<Rightarrow> properties \<Rightarrow> string + connect_packet" where
  "connect_start lib config props =
     map_ok (\<lambda>client.
       \<lparr> cn_client_id = client, cn_clean_start = me_clean_start config,
         cn_keep_alive = unwrap_or (me_keepalive_secs config) 0, cn_props = props,
         cn_will = None, cn_user_name = None, cn_password = None \<rparr>)
       (ml_client_id lib (me_client_id config))"

definition connect_credentials ::
  "mqtt_lib \<Rightarrow> mqtt_endpoint_config \<Rightarrow> connect_packet \<Rightarrow> string + connect_packet" where
  "connect_credentials lib config packet =
     (case me_auth config of
        None \<Rightarrow> Inr packet
      | Some auth \<Rightarrow>
          and_then (opt_traverse (ml_user_name lib) (au_username auth)) (\<lambda>user.
          map_ok (\<lambda>password. packet\<lparr> cn_user_name := user, cn_password := password \<rparr>)
            (opt_traverse (\<lambda>p. ml_password lib (bytes_of_string p)) (au_password auth))))"

definition build_connect_packet :: "mqtt_lib \<Rightarrow> mqtt_endpoint_config \<Rightarrow> string + mqtt_packet" where
  "build_connect_packet lib config =
     (case preferred_protocol_version config of
        V5_0 \<Rightarrow>
          and_then (build_props lib (connect_props config)) (\<lambda>props.
          and_then (connect_start lib config props) (\<lambda>packet.
          and_then
            (case me_will config of
               None \<Rightarrow> Inr packet
             | Some will \<Rightarrow>
                 and_then (ml_will_message lib
                     \<lparr> wm_topic = wi_topic will, wm_payload = wi_payload will,
                       wm_qos = qos_from_delivery (wi_delivery will), wm_retain = wi_retain will,
                       wm_props = [] \<rparr>) (\<lambda>message.
                 map_ok (\<lambda>will_props. packet\<lparr> cn_will := Some (message\<lparr> wm_props := will_props \<rparr>) \<rparr>)
                   (build_v5_will_props lib will)))
            (\<lambda>packet.
          and_then (connect_credentials lib config packet) (\<lambda>packet.
          map_ok V5_0Connect (ml_connect5 lib packet)))))
      | V3_1_1 \<Rightarrow>
          and_then (connect_start lib config []) (\<lambda>packet.
          and_then (connect_credentials lib config packet) (\<lambda>packet.
          map_ok V3_1_1Connect (ml_connect3 lib packet))))"

section \<open>Packet ids\<close>

fun packet_request_into_packet :: "mqtt_wire_packet \<Rightarrow> mqtt_packet" where
  "packet_request_into_packet (V5Publish p) = V5_0Publish p"
| "packet_request_into_packet (V3Publish p) = V3_1_1Publish p"
| "packet_request_into_packet (V5Subscribe p) = V5_0Subscribe p"
| "packet_request_into_packet (V3Subscribe p) = V3_1_1Subscribe p"
| "packet_request_into_packet (V5Unsubscribe p) = V5_0Unsubscribe p"
| "packet_request_into_packet (V3Unsubscribe p) = V3_1_1Unsubscribe p"

fun publish_requires_packet_id :: "mqtt_wire_packet \<Rightarrow> bool" where
  "publish_requires_packet_id (V5Publish p) = (pb_qos p \<noteq> QosAtMostOnce)"
| "publish_requires_packet_id (V3Publish p) = (pb_qos p \<noteq> QosAtMostOnce)"
| "publish_requires_packet_id _ = False"

definition is_subscription :: "mqtt_wire_packet \<Rightarrow> bool" where
  "is_subscription packet = (case packet of V5Publish _ \<Rightarrow> False | V3Publish _ \<Rightarrow> False | _ \<Rightarrow> True)"

fun rebuild_packet :: "mqtt_lib \<Rightarrow> u16 \<Rightarrow> mqtt_wire_packet \<Rightarrow> string + mqtt_wire_packet" where
  "rebuild_packet lib pid (V5Publish p) =
     map_ok V5Publish (ml_publish5 lib (p\<lparr> pb_packet_id := Some pid \<rparr>))"
| "rebuild_packet lib pid (V3Publish p) =
     map_ok V3Publish (ml_publish3 lib (p\<lparr> pb_packet_id := Some pid \<rparr>))"
| "rebuild_packet lib pid (V5Subscribe p) =
     map_ok V5Subscribe (ml_subscribe5 lib (p\<lparr> sb_packet_id := pid \<rparr>))"
| "rebuild_packet lib pid (V3Subscribe p) =
     map_ok V3Subscribe (ml_subscribe3 lib (p\<lparr> sb_packet_id := pid \<rparr>))"
| "rebuild_packet lib pid (V5Unsubscribe p) =
     map_ok V5Unsubscribe (ml_unsubscribe5 lib (p\<lparr> us_packet_id := pid \<rparr>))"
| "rebuild_packet lib pid (V3Unsubscribe p) =
     map_ok V3Unsubscribe (ml_unsubscribe3 lib (p\<lparr> us_packet_id := pid \<rparr>))"

definition rebuild_with_packet_id ::
  "mqtt_lib \<Rightarrow> mqtt_packet_request \<Rightarrow> u16 \<Rightarrow> string + mqtt_packet_request" where
  "rebuild_with_packet_id lib request pid =
     map_ok (\<lambda>packet. \<lparr> pr_command_id = pr_command_id request, pr_packet = packet \<rparr>)
       (rebuild_packet lib pid (pr_packet request))"

definition assign_runtime_packet_id ::
  "('w, 'h, 'c) mqtt_env \<Rightarrow> mqtt_packet_request \<Rightarrow> ('w, 'h, 'c, mqtt_packet_request) mqtt_op" where
  "assign_runtime_packet_id env request st =
     (if publish_requires_packet_id (pr_packet request) \<or> is_subscription (pr_packet request)
      then
        let (acquired, c) = mx_acquire_packet_id env (ms_connection (io_session st));
            st = st\<lparr> io_session := (io_session st)\<lparr> ms_connection := c \<rparr> \<rparr>
        in (and_then acquired (rebuild_with_packet_id (mx_lib env) request), st)
      else (Inr request, st))"

section \<open>Writing packets\<close>

text \<open>The arm of \<open>RequestSendPacket\<close>; \<open>what\<close> tells authentication packets apart in the errors.\<close>

definition write_packet ::
  "('w, 'h, 'c) mqtt_env \<Rightarrow> string \<Rightarrow> mqtt_packet \<Rightarrow> ('w, 'h, 'c, unit) mqtt_op" where
  "write_packet env what packet =
     fl_bind (fl_get (\<lambda>st. ms_stream (io_session st))) (\<lambda>h.
     fl_bind (on_world (\<lambda>w.
         io_step (\<lambda>e. ''failed to write MQTT '' @ what @ ''packet: '' @ net_error_debug e)
           (write_all_socket (st_write (tn_io (mx_net env)) h) (mx_packet_bytes env packet) w)
           (\<lambda>_ w.
         io_step (\<lambda>e. ''failed to flush MQTT '' @ what @ ''packet: '' @ net_error_debug e)
           (st_flush (tn_io (mx_net env)) h w) (\<lambda>u w. (Inr u, w))))) (\<lambda>_.
     fl_bind (mqtt_now env) (\<lambda>now.
     upd_session (\<lambda>s. s\<lparr> ms_last_activity := now \<rparr>))))"

section \<open>Enhanced authentication\<close>

fun auth_flow_reason_from_v5 :: "auth_reason \<Rightarrow> mqtt_auth_flow_reason" where
  "auth_flow_reason_from_v5 AuthSuccess = FlowSuccess"
| "auth_flow_reason_from_v5 ContinueAuthentication = FlowContinueAuthentication"
| "auth_flow_reason_from_v5 ReAuthenticate = FlowReAuthenticate"

fun auth_reason_of_flow :: "mqtt_auth_flow_reason \<Rightarrow> auth_reason" where
  "auth_reason_of_flow FlowSuccess = AuthSuccess"
| "auth_reason_of_flow FlowContinueAuthentication = ContinueAuthentication"
| "auth_reason_of_flow FlowReAuthenticate = ReAuthenticate"

fun auth_challenge_step :: "mqtt_property \<Rightarrow> mqtt_auth_challenge \<Rightarrow> mqtt_auth_challenge" where
  "auth_challenge_step (PrAuthenticationMethod v) c = c\<lparr> ch_authentication_method := Some v \<rparr>"
| "auth_challenge_step (PrAuthenticationData v) c = c\<lparr> ch_authentication_data := Some v \<rparr>"
| "auth_challenge_step (PrReasonString v) c = c\<lparr> ch_reason_string := Some v \<rparr>"
| "auth_challenge_step (PrUserProperty k v) c =
     c\<lparr> ch_user_properties := ch_user_properties c @ [(k, v)] \<rparr>"
| "auth_challenge_step _ c = c"

definition auth_challenge_from_auth ::
  "auth5 \<Rightarrow> ('h, 'c) mqtt_session \<Rightarrow> mqtt_auth_challenge \<times> ('h, 'c) mqtt_session" where
  "auth_challenge_from_auth packet session =
     (let start =
        \<lparr> ch_stage =
            (case ap_reason_code packet of
               Some code \<Rightarrow> if ac_reason code = ReAuthenticate then StageReauthenticate
                            else StageConnect
             | None \<Rightarrow> StageConnect),
          ch_reason = auth_flow_reason_from_v5
            (unwrap_or (map_option ac_reason (ap_reason_code packet)) AuthSuccess),
          ch_authentication_method = ms_authentication_method session,
          ch_authentication_data = None, ch_reason_string = None, ch_user_properties = [] \<rparr>;
        challenge = fold auth_challenge_step (unwrap_or (ap_props packet) []) start
      in (challenge,
          session\<lparr> ms_authentication_method := ch_authentication_method challenge \<rparr>))"

definition build_auth_packet ::
  "mqtt_lib \<Rightarrow> mqtt_auth_response \<Rightarrow> ('w, 'h, 'c, mqtt_packet) mqtt_op" where
  "build_auth_packet lib response =
     fl_bind (fl_get (\<lambda>st. opt_or (ar_authentication_method response)
                                  (ms_authentication_method (io_session st)))) (\<lambda>auth_method.
     fl_bind (fl_lift (build_props lib
         (opt_prop PrAuthenticationMethod auth_method @
          opt_prop PrAuthenticationData (ar_authentication_data response) @
          opt_prop PrReasonString (ar_reason_string response) @
          user_props (ar_user_properties response)))) (\<lambda>props.
     fl_bind (upd_session (\<lambda>s. s\<lparr> ms_authentication_method := auth_method \<rparr>)) (\<lambda>_.
     fl_lift (map_ok V5_0Auth (ml_auth5 lib (auth_reason_of_flow (ar_reason response)) props)))))"

definition outbound_auth_event ::
  "('w, 'h, 'c) mqtt_env \<Rightarrow> mqtt_event \<Rightarrow> ('w, 'h, 'c, unit) mqtt_op" where
  "outbound_auth_event env event =
     (case event of
        EvRequestSendPacket packet \<Rightarrow> write_packet env ''auth '' packet
      | EvNotifyError e \<Rightarrow> fl_fail (''mqtt protocol error during auth exchange: '' @ e)
      | EvRequestClose \<Rightarrow> fl_fail ''mqtt auth exchange requested close''
      | _ \<Rightarrow> fl_return ())"

definition process_outbound_auth_events ::
  "('w, 'h, 'c) mqtt_env \<Rightarrow> mqtt_event list \<Rightarrow> ('w, 'h, 'c, unit) mqtt_op" where
  "process_outbound_auth_events env events = fl_for (outbound_auth_event env) events"

definition process_incoming_auth ::
  "('w, 'h, 'c) mqtt_env \<Rightarrow> mqtt_packet \<Rightarrow> ('w, 'h, 'c, unit) mqtt_op" where
  "process_incoming_auth env packet =
     (case packet of
        V5_0Auth auth \<Rightarrow>
          fl_bind (fl_get (\<lambda>st. auth_challenge_from_auth auth (io_session st))) (\<lambda>(challenge, session).
          fl_bind (upd_session (\<lambda>_. session)) (\<lambda>_.
          fl_bind (mqtt_lock env ''MQTT auth handler'') (\<lambda>_.
          fl_bind (fl_get io_auth) (\<lambda>handler.
          case handler of
            None \<Rightarrow> fl_fail
              ''mqtt broker requested enhanced authentication but no auth handler is configured''
          | Some respond \<Rightarrow>
              fl_bind (fl_lift (respond challenge)) (\<lambda>answer.
              case answer of
                None \<Rightarrow> fl_fail ''mqtt auth handler returned no response for broker challenge''
              | Some response \<Rightarrow>
                  fl_bind (build_auth_packet (mx_lib env) response) (\<lambda>packet.
                  fl_bind (mqtt_connection_send env packet) (\<lambda>events.
                  process_outbound_auth_events env events)))))))
      | _ \<Rightarrow> fl_return ())"

section \<open>Negotiation\<close>

fun connack_step :: "mqtt_property \<Rightarrow> mqtt_connack_properties \<Rightarrow> mqtt_connack_properties" where
  "connack_step (PrAssignedClientIdentifier v) k = k\<lparr> ck_assigned_client_identifier := Some v \<rparr>"
| "connack_step (PrResponseInformation v) k = k\<lparr> ck_response_information := Some v \<rparr>"
| "connack_step (PrServerReference v) k = k\<lparr> ck_server_reference := Some v \<rparr>"
| "connack_step (PrReceiveMaximum v) k = k\<lparr> ck_receive_maximum := Some v \<rparr>"
| "connack_step (PrMaximumPacketSize v) k = k\<lparr> ck_maximum_packet_size := Some v \<rparr>"
| "connack_step (PrTopicAliasMaximum v) k = k\<lparr> ck_topic_alias_maximum := Some v \<rparr>"
| "connack_step (PrSessionExpiryInterval v) k = k\<lparr> ck_session_expiry_interval_secs := Some v \<rparr>"
| "connack_step (PrMaximumQos v) k = k\<lparr> ck_maximum_qos := Some v \<rparr>"
| "connack_step (PrRetainAvailable v) k = k\<lparr> ck_retain_available := Some (v \<noteq> 0) \<rparr>"
| "connack_step (PrServerKeepAlive v) k = k\<lparr> ck_server_keep_alive := Some v \<rparr>"
| "connack_step (PrWildcardSubscriptionAvailable v) k =
     k\<lparr> ck_wildcard_subscription_available := Some (v \<noteq> 0) \<rparr>"
| "connack_step (PrSubscriptionIdentifierAvailable v) k =
     k\<lparr> ck_subscription_identifier_available := Some (v \<noteq> 0) \<rparr>"
| "connack_step (PrSharedSubscriptionAvailable v) k =
     k\<lparr> ck_shared_subscription_available := Some (v \<noteq> 0) \<rparr>"
| "connack_step (PrAuthenticationMethod v) k = k\<lparr> ck_authentication_method := Some v \<rparr>"
| "connack_step (PrAuthenticationData v) k = k\<lparr> ck_authentication_data := Some v \<rparr>"
| "connack_step (PrReasonString v) k = k\<lparr> ck_reason_string := Some v \<rparr>"
| "connack_step (PrUserProperty key v) k =
     k\<lparr> ck_user_properties := ck_user_properties k @ [(key, v)] \<rparr>"
| "connack_step _ k = k"

definition connack_snapshot_from_v5 :: "connack5 \<Rightarrow> mqtt_connack_properties" where
  "connack_snapshot_from_v5 packet =
     (fold connack_step (ca_props packet) connack_default)
       \<lparr> ck_session_present := ca_session_present packet,
         ck_reason_code := Some (code_text (ca_code packet)) \<rparr>"

definition connack_snapshot :: "mqtt_packet \<Rightarrow> mqtt_connack_properties option" where
  "connack_snapshot packet =
     (case packet of
        V5_0Connack p \<Rightarrow> Some (connack_snapshot_from_v5 p)
      | V3_1_1Connack p \<Rightarrow>
          Some (connack_default\<lparr> ck_session_present := ca_session_present p,
                                 ck_reason_code := Some (code_text (ca_code p)) \<rparr>)
      | _ \<Rightarrow> None)"

definition update_negotiated_connack ::
  "('w, 'h, 'c) mqtt_env \<Rightarrow> mqtt_packet \<Rightarrow> ('w, 'h, 'c, unit) mqtt_op" where
  "update_negotiated_connack env packet =
     (case connack_snapshot packet of
        None \<Rightarrow> fl_return ()
      | Some snapshot \<Rightarrow>
          fl_bind (mqtt_lock env ''negotiated MQTT CONNACK state'') (\<lambda>_.
          fl_modify (io_connack_update (\<lambda>_. Some snapshot))))"

section \<open>Events of the connection\<close>

text \<open>
  \<open>negotiating\<close> and \<open>authenticating\<close> say whether the caller passed the cells of the negotiated
  CONNACK and of the authentication handler.
\<close>

definition decode_received ::
  "mqtt_packet \<Rightarrow> ('w, 'h, 'c, routed_message list) mqtt_op" where
  "decode_received packet st =
     (let (decoded, d) = mqtt_inbound_decode (ms_inbound_decoder (io_session st)) packet;
          st = st\<lparr> io_session := (io_session st)\<lparr> ms_inbound_decoder := d \<rparr> \<rparr>
      in case inbound_to_routed decoded of
           Inr message \<Rightarrow> (Inr [routed_message_into_owned message], st)
         | Inl _ \<Rightarrow> (Inr [], st))"

definition handle_event ::
  "('w, 'h, 'c) mqtt_env \<Rightarrow> bool \<Rightarrow> bool \<Rightarrow> mqtt_event \<Rightarrow>
   ('w, 'h, 'c, routed_message list) mqtt_op" where
  "handle_event env negotiating authenticating event =
     (case event of
        EvRequestSendPacket packet \<Rightarrow>
          fl_bind (write_packet env [] packet) (\<lambda>_. fl_return [])
      | EvNotifyPacketReceived packet \<Rightarrow>
          fl_bind (if negotiating then update_negotiated_connack env packet else fl_return ()) (\<lambda>_.
          fl_bind (if authenticating then process_incoming_auth env packet else fl_return ()) (\<lambda>_.
          decode_received packet))
      | EvNotifyError e \<Rightarrow> fl_fail (''mqtt protocol error: '' @ e)
      | EvRequestClose \<Rightarrow> fl_fail ''mqtt connection requested close''
      | _ \<Rightarrow> fl_return [])"

definition handle_connection_events ::
  "('w, 'h, 'c) mqtt_env \<Rightarrow> bool \<Rightarrow> bool \<Rightarrow> mqtt_event list \<Rightarrow>
   ('w, 'h, 'c, routed_message list) mqtt_op" where
  "handle_connection_events env negotiating authenticating events =
     fl_concat_map (handle_event env negotiating authenticating) events"

definition mqtt_send_packet ::
  "('w, 'h, 'c) mqtt_env \<Rightarrow> mqtt_packet \<Rightarrow> ('w, 'h, 'c, routed_message list) mqtt_op" where
  "mqtt_send_packet env packet =
     fl_bind (mqtt_connection_send env packet) (handle_connection_events env False False)"

definition send_packet_request ::
  "('w, 'h, 'c) mqtt_env \<Rightarrow> mqtt_packet_request \<Rightarrow> ('w, 'h, 'c, unit) mqtt_op" where
  "send_packet_request env request =
     fl_bind (assign_runtime_packet_id env request) (\<lambda>request.
     fl_bind (upd_session (\<lambda>s. s\<lparr> ms_inbound_decoder :=
         record_outbound_request request (ms_inbound_decoder s) \<rparr>)) (\<lambda>_.
     fl_bind (mqtt_send_packet env (packet_request_into_packet (pr_packet request))) (\<lambda>_.
     fl_return ())))"

definition pingreq_packet :: "mqtt_lib \<Rightarrow> mqtt_protocol_version \<Rightarrow> string + mqtt_packet" where
  "pingreq_packet lib version =
     (case version of
        V5_0 \<Rightarrow> map_ok (\<lambda>_. V5_0Pingreq) (ml_pingreq5 lib)
      | V3_1_1 \<Rightarrow> map_ok (\<lambda>_. V3_1_1Pingreq) (ml_pingreq3 lib))"

text \<open>A second is \<open>10 ^ 9\<close> nanoseconds.\<close>

definition send_keepalive_ping_if_due ::
  "('w, 'h, 'c) mqtt_env \<Rightarrow> ('w, 'h, 'c, unit) mqtt_op" where
  "send_keepalive_ping_if_due env =
     fl_bind (fl_get io_session) (\<lambda>session.
     case ms_keepalive_secs session of
       None \<Rightarrow> fl_return ()
     | Some keepalive_secs \<Rightarrow>
         if keepalive_secs = 0 then fl_return ()
         else
           fl_bind (mqtt_now env) (\<lambda>now.
           if now - ms_last_activity session < unat keepalive_secs * 10 ^ 9 then fl_return ()
           else if ms_awaiting_pingresp session
           then fl_fail ''mqtt keepalive timed out waiting for ping response''
           else
             fl_bind (fl_lift (pingreq_packet (mx_lib env) (ms_protocol_version session))) (\<lambda>ping.
             fl_bind (mqtt_connection_send env ping) (\<lambda>events.
             fl_bind (upd_session (\<lambda>s. s\<lparr> ms_awaiting_pingresp := True \<rparr>)) (\<lambda>_.
             fl_bind (handle_connection_events env False False events) (\<lambda>_.
             fl_return ()))))))"

definition mqtt_set_read_timeout ::
  "('w, 'h, 'c) mqtt_env \<Rightarrow> duration option \<Rightarrow> ('w, 'h, 'c, unit) mqtt_op" where
  "mqtt_set_read_timeout env timeout =
     fl_bind (fl_get (\<lambda>st. ms_stream (io_session st))) (\<lambda>h.
     on_world (\<lambda>w.
       io_step (\<lambda>e. ''failed to set MQTT read timeout: '' @ net_error_debug e)
         (tn_set_read_timeout (mx_net env) h timeout w) (\<lambda>u w. (Inr u, w))))"

definition read_from_session ::
  "('w, 'h, 'c) mqtt_env \<Rightarrow> bool \<Rightarrow> bool \<Rightarrow> duration option \<Rightarrow>
   ('w, 'h, 'c, routed_message list) mqtt_op" where
  "read_from_session env negotiating authenticating timeout =
     fl_bind (mqtt_set_read_timeout env timeout) (\<lambda>_.
     fl_bind (fl_get (\<lambda>st. ms_stream (io_session st))) (\<lambda>h.
     fl_bind (on_world (\<lambda>w. let (r, w') = st_read (tn_io (mx_net env)) h 4096 w in (Inr r, w')))
       (\<lambda>r.
     case r of
       Inr chunk \<Rightarrow>
         if chunk = [] then fl_fail ''mqtt stream closed''
         else
           fl_bind (mqtt_now env) (\<lambda>now.
           fl_bind (upd_session (\<lambda>s. s\<lparr> ms_last_activity := now, ms_awaiting_pingresp := False \<rparr>))
             (\<lambda>_.
           fl_bind (fl_get (\<lambda>st. mx_recv env chunk (ms_connection (io_session st))))
             (\<lambda>(events, c).
           fl_bind (upd_session (\<lambda>s. s\<lparr> ms_connection := c \<rparr>)) (\<lambda>_.
           handle_connection_events env negotiating authenticating events))))
     | Inl e \<Rightarrow>
         if e = NetTimedOut
         then fl_bind (send_keepalive_ping_if_due env) (\<lambda>_. fl_return [])
         else fl_fail (''failed reading MQTT stream: '' @ net_error_debug e))))"

definition disconnect_session :: "('w, 'h, 'c) mqtt_env \<Rightarrow> ('w, 'h, 'c, unit) mqtt_op" where
  "disconnect_session env =
     fl_bind (fl_get io_session) (\<lambda>session.
     fl_bind (fl_lift
       (case ms_protocol_version session of
          V5_0 \<Rightarrow> map_ok V5_0Disconnect (ml_disconnect5 (mx_lib env))
        | V3_1_1 \<Rightarrow> map_ok (\<lambda>_. V3_1_1Disconnect) (ml_disconnect3 (mx_lib env)))) (\<lambda>packet.
     fl_bind (mqtt_send_packet env packet) (\<lambda>_.
     on_world (\<lambda>w.
       io_step (\<lambda>e. ''failed to close MQTT socket: '' @ net_error_debug e)
         (st_close (tn_io (mx_net env)) (ms_stream session) w) (\<lambda>u w. (Inr u, w))))))"

section \<open>Lemmas\<close>

text \<open>
  The documented behaviour of the runtime: the socket's writes accept prefixes, and flushing, the
  clock and the lock send nothing.  \<open>sent h\<close> reads what the socket \<open>h\<close> has accepted.
\<close>

definition honest_env :: "('h \<Rightarrow> 'w \<Rightarrow> bytes) \<Rightarrow> ('w, 'h, 'c) mqtt_env \<Rightarrow> bool" where
  "honest_env sent env \<longleftrightarrow>
     (\<forall>h. honest_writer (sent h) (st_write (tn_io (mx_net env)) h)) \<and>
     (\<forall>h h' w. sent h (snd (st_flush (tn_io (mx_net env)) h' w)) = sent h w) \<and>
     (\<forall>h w. sent h (snd (mx_now env w)) = sent h w) \<and>
     (\<forall>h w. sent h (snd (mx_lock env w)) = sent h w)"

text \<open>What a session operation may not touch while it handles events.\<close>

definition same_link :: "('w, 'h, 'c) mqtt_io \<Rightarrow> ('w, 'h, 'c) mqtt_io \<Rightarrow> bool" where
  "same_link st st' \<longleftrightarrow>
     ms_stream (io_session st') = ms_stream (io_session st) \<and>
     ms_connection (io_session st') = ms_connection (io_session st)"

definition sent_packets :: "mqtt_event list \<Rightarrow> mqtt_packet list" where
  "sent_packets events =
     concat (map (\<lambda>e. case e of EvRequestSendPacket p \<Rightarrow> [p] | _ \<Rightarrow> []) events)"

definition received_packets :: "mqtt_event list \<Rightarrow> mqtt_packet list" where
  "received_packets events =
     concat (map (\<lambda>e. case e of EvNotifyPacketReceived p \<Rightarrow> [p] | _ \<Rightarrow> []) events)"

fun decoded_messages :: "mqtt_inbound_decoder \<Rightarrow> mqtt_packet list \<Rightarrow> routed_message list" where
  "decoded_messages d [] = []"
| "decoded_messages d (p # ps) =
     (case inbound_to_routed (fst (mqtt_inbound_decode d p)) of Inr m \<Rightarrow> [m] | Inl _ \<Rightarrow> []) @
     decoded_messages (snd (mqtt_inbound_decode d p)) ps"

lemma write_packet_sends:
  assumes "honest_env sent env" and "write_packet env what packet st = (Inr u, st')"
  shows "sent (ms_stream (io_session st)) (io_world st') =
      sent (ms_stream (io_session st)) (io_world st) @ mx_packet_bytes env packet"
    and "same_link st st'"
    and "ms_inbound_decoder (io_session st') = ms_inbound_decoder (io_session st)"
proof -
  let ?h = "ms_stream (io_session st)"
  let ?io = "tn_io (mx_net env)"
  let ?w = "io_world st"
  obtain r w1 where r: "write_all_socket (st_write ?io ?h) (mx_packet_bytes env packet) ?w = (r, w1)"
    by fastforce
  obtain f w2 where f: "st_flush ?io ?h w1 = (f, w2)" by fastforce
  obtain t w3 where t: "mx_now env w2 = (t, w3)" by fastforce
  from assms(2) r f t have ok: "r = Inr ()" "\<exists>v. f = Inr v"
    by (cases r; cases f; simp add: write_packet_def fl_simps fl_bind_def on_world_def Let_def)+
  then have st': "st' = st\<lparr> io_world := w3,
      io_session := (io_session st)\<lparr> ms_last_activity := t \<rparr> \<rparr>"
    using assms(2) r f t
    by (auto simp: write_packet_def fl_bind_def fl_run on_world_def Let_def mqtt_now_def
        upd_session_def)
  have "sent ?h w1 = sent ?h ?w @ mx_packet_bytes env packet"
    using assms(1) r ok(1) by (auto simp: honest_env_def intro: write_all_socket_complete)
  moreover have "sent ?h w2 = sent ?h w1" "sent ?h w3 = sent ?h w2"
    using assms(1) f t by (metis honest_env_def snd_conv)+
  ultimately show "sent ?h (io_world st') = sent ?h ?w @ mx_packet_bytes env packet"
    by (simp add: st')
  show "same_link st st'" "ms_inbound_decoder (io_session st') = ms_inbound_decoder (io_session st)"
    by (simp_all add: st' same_link_def)
qed

lemma connack_keeps:
  assumes "honest_env sent env" and "update_negotiated_connack env packet st = (Inr u, st')"
  shows "sent h (io_world st') = sent h (io_world st)" and "io_session st' = io_session st"
proof -
  obtain ok w where l: "mx_lock env (io_world st) = (ok, w)" by fastforce
  have "sent h w = sent h (io_world st)" using assms(1) l by (metis honest_env_def snd_conv)
  with assms(2) l show "sent h (io_world st') = sent h (io_world st)" "io_session st' = io_session st"
    by (auto simp: update_negotiated_connack_def fl_bind_def fl_run mqtt_lock_def on_world_def Let_def
        split: option.splits if_splits)
qed

lemma decode_received_eq:
  "decode_received packet st =
     (Inr (decoded_messages (ms_inbound_decoder (io_session st)) [packet]),
      st\<lparr> io_session := (io_session st)\<lparr> ms_inbound_decoder :=
            snd (mqtt_inbound_decode (ms_inbound_decoder (io_session st)) packet) \<rparr> \<rparr>)"
  by (auto simp: decode_received_def Let_def case_prod_unfold own_message.own_content
      split: sum.split)

text \<open>One event.\<close>

definition event_effect ::
  "('h \<Rightarrow> 'w \<Rightarrow> bytes) \<Rightarrow> ('w, 'h, 'c) mqtt_env \<Rightarrow> mqtt_event list \<Rightarrow> routed_message list \<Rightarrow>
   ('w, 'h, 'c) mqtt_io \<Rightarrow> ('w, 'h, 'c) mqtt_io \<Rightarrow> bool" where
  "event_effect sent env events routed st st' \<longleftrightarrow>
     same_link st st' \<and>
     sent (ms_stream (io_session st)) (io_world st') =
       sent (ms_stream (io_session st)) (io_world st) @
         concat (map (mx_packet_bytes env) (sent_packets events)) \<and>
     routed = decoded_messages (ms_inbound_decoder (io_session st)) (received_packets events) \<and>
     ms_inbound_decoder (io_session st') =
       decode_all (ms_inbound_decoder (io_session st)) (received_packets events)"

lemma handle_event_effect:
  assumes "honest_env sent env" and "handle_event env negotiating False event st = (Inr routed, st')"
  shows "event_effect sent env [event] routed st st'"
proof (cases event)
  case (EvRequestSendPacket p)
  then obtain u where "write_packet env [] p st = (Inr u, st')" and "routed = []"
    using assms(2) by (auto simp: handle_event_def fl_bind_eq_Inr fl_run)
  with write_packet_sends [OF assms(1), of "[]" p st u st'] EvRequestSendPacket show ?thesis
    by (simp add: event_effect_def sent_packets_def received_packets_def)
next
  case (EvNotifyPacketReceived p)
  then obtain u s1 where
    u: "(if negotiating then update_negotiated_connack env p else fl_return ()) st = (Inr u, s1)"
    and d: "decode_received p s1 = (Inr routed, st')"
    using assms(2) by (auto simp: handle_event_def fl_bind_eq_Inr fl_run)
  have "sent h (io_world s1) = sent h (io_world st)" "io_session s1 = io_session st" for h
    using u connack_keeps [OF assms(1), of p st u s1] by (auto simp: fl_run split: if_splits)
  with d EvNotifyPacketReceived show ?thesis
    by (auto simp: event_effect_def sent_packets_def received_packets_def decode_received_eq
        same_link_def)
qed (use assms(2) in \<open>auto simp: handle_event_def event_effect_def sent_packets_def
      received_packets_def same_link_def fl_run\<close>)

lemma decoded_messages_append:
  "decoded_messages d (ps @ qs) = decoded_messages d ps @ decoded_messages (decode_all d ps) qs"
  by (induction ps arbitrary: d) simp_all

lemma decode_all_append: "decode_all d (ps @ qs) = decode_all (decode_all d ps) qs"
  by (simp add: decode_all_def)

lemma event_effect_trans:
  assumes "event_effect sent env es ms st st'" and "event_effect sent env es' ms' st' st''"
  shows "event_effect sent env (es @ es') (ms @ ms') st st''"
  using assms
  by (simp add: event_effect_def same_link_def sent_packets_def received_packets_def
      decoded_messages_append decode_all_append)

lemma handle_events_effect:
  assumes "honest_env sent env"
  shows "handle_connection_events env negotiating False events st = (Inr routed, st') \<Longrightarrow>
    event_effect sent env events routed st st'"
  unfolding handle_connection_events_def
proof (induction events arbitrary: st routed)
  case Nil
  then show ?case
    by (simp add: event_effect_def same_link_def sent_packets_def received_packets_def)
next
  case (Cons e es)
  then obtain ms ms' s1 where e: "handle_event env negotiating False e st = (Inr ms, s1)"
    and es: "fl_concat_map (handle_event env negotiating False) es s1 = (Inr ms', st')"
    and routed: "routed = ms @ ms'"
    by (auto simp: fl_bind_eq_Inr fl_run)
  from event_effect_trans [OF handle_event_effect [OF assms e] Cons.IH [OF es]]
  show ?case by (simp add: routed)
qed

text \<open>The packet of a request without its packet id.\<close>

fun without_packet_id :: "mqtt_wire_packet \<Rightarrow> mqtt_wire_packet" where
  "without_packet_id (V5Publish p) = V5Publish (p\<lparr> pb_packet_id := None \<rparr>)"
| "without_packet_id (V3Publish p) = V3Publish (p\<lparr> pb_packet_id := None \<rparr>)"
| "without_packet_id (V5Subscribe p) = V5Subscribe (p\<lparr> sb_packet_id := 0 \<rparr>)"
| "without_packet_id (V3Subscribe p) = V3Subscribe (p\<lparr> sb_packet_id := 0 \<rparr>)"
| "without_packet_id (V5Unsubscribe p) = V5Unsubscribe (p\<lparr> us_packet_id := 0 \<rparr>)"
| "without_packet_id (V3Unsubscribe p) = V3Unsubscribe (p\<lparr> us_packet_id := 0 \<rparr>)"

definition needs_packet_id :: "mqtt_packet_request \<Rightarrow> bool" where
  "needs_packet_id request \<longleftrightarrow>
     publish_requires_packet_id (pr_packet request) \<or> is_subscription (pr_packet request)"

lemma rebuild_honest:
  assumes "honest_builders lib" and "rebuild_with_packet_id lib request pid = Inr request'"
  shows "pr_command_id request' = pr_command_id request"
    and "packet_request_packet_id (pr_packet request') = Some pid"
    and "without_packet_id (pr_packet request') = without_packet_id (pr_packet request)"
  using assms(2)
  by (cases "pr_packet request";
      auto simp: rebuild_with_packet_id_def map_ok_eq_Inr
        dest!: honest_buildersD(2,3,5-8) [OF assms(1)])+

lemma assign_packet_id:
  assumes "honest_builders (mx_lib env)"
    and "assign_runtime_packet_id env request st = (Inr request', st')"
  shows "pr_command_id request' = pr_command_id request"
    and "without_packet_id (pr_packet request') = without_packet_id (pr_packet request)"
    and "if needs_packet_id request
      then (\<exists>pid. mx_acquire_packet_id env (ms_connection (io_session st)) =
               (Inr pid, ms_connection (io_session st')) \<and>
             packet_request_packet_id (pr_packet request') = Some pid)
      else request' = request \<and> st' = st"
    and "io_world st' = io_world st" and "ms_stream (io_session st') = ms_stream (io_session st)"
    and "ms_inbound_decoder (io_session st') = ms_inbound_decoder (io_session st)"
proof -
  obtain r c where a: "mx_acquire_packet_id env (ms_connection (io_session st)) = (r, c)"
    by fastforce
  have "if needs_packet_id request
    then (\<exists>pid. r = Inr pid \<and> rebuild_with_packet_id (mx_lib env) request pid = Inr request' \<and>
           st' = st\<lparr> io_session := (io_session st)\<lparr> ms_connection := c \<rparr> \<rparr>)
    else request' = request \<and> st' = st"
    using assms(2) a
    by (auto simp: assign_runtime_packet_id_def needs_packet_id_def Let_def and_then_eq_Inr)
  then show "pr_command_id request' = pr_command_id request"
    "without_packet_id (pr_packet request') = without_packet_id (pr_packet request)"
    "if needs_packet_id request
      then (\<exists>pid. mx_acquire_packet_id env (ms_connection (io_session st)) =
               (Inr pid, ms_connection (io_session st')) \<and>
             packet_request_packet_id (pr_packet request') = Some pid)
      else request' = request \<and> st' = st"
    "io_world st' = io_world st" "ms_stream (io_session st') = ms_stream (io_session st)"
    "ms_inbound_decoder (io_session st') = ms_inbound_decoder (io_session st)"
    using a by (auto split: if_splits dest: rebuild_honest [OF assms(1)])
qed

text \<open>
  What enhanced authentication depends on and changes: the negotiated method and the connection.
  \<open>auth_reply\<close> is the answer to an AUTH packet: the handler sees the challenge the packet makes of the
  method in use, and the events are those of the connection when it sends the handler's response.
\<close>

type_synonym 'c auth_state = "string option \<times> 'c"

definition auth_state :: "('h, 'c) mqtt_session \<Rightarrow> 'c auth_state" where
  "auth_state s = (ms_authentication_method s, ms_connection s)"

definition auth_answer ::
  "mqtt_lib \<Rightarrow> mqtt_auth_response \<Rightarrow> string option \<Rightarrow> string + mqtt_packet" where
  "auth_answer lib response auth_method =
     and_then (build_props lib
         (opt_prop PrAuthenticationMethod auth_method @
          opt_prop PrAuthenticationData (ar_authentication_data response) @
          opt_prop PrReasonString (ar_reason_string response) @
          user_props (ar_user_properties response)))
       (\<lambda>props. map_ok V5_0Auth (ml_auth5 lib (auth_reason_of_flow (ar_reason response)) props))"

definition auth_challenge :: "auth5 \<Rightarrow> string option \<Rightarrow> mqtt_auth_challenge" where
  "auth_challenge packet auth_method =
     fold auth_challenge_step (unwrap_or (ap_props packet) [])
       \<lparr> ch_stage =
           (if map_option ac_reason (ap_reason_code packet) = Some ReAuthenticate
            then StageReauthenticate else StageConnect),
         ch_reason = auth_flow_reason_from_v5
           (unwrap_or (map_option ac_reason (ap_reason_code packet)) AuthSuccess),
         ch_authentication_method = auth_method, ch_authentication_data = None,
         ch_reason_string = None, ch_user_properties = [] \<rparr>"

definition auth_reply ::
  "('w, 'h, 'c) mqtt_env \<Rightarrow> mqtt_auth_provider option \<Rightarrow> auth5 \<Rightarrow> 'c auth_state \<Rightarrow>
   (mqtt_event list \<times> 'c auth_state) option" where
  "auth_reply env handler packet a =
     (let challenge = auth_challenge packet (fst a) in
      case map_option (\<lambda>respond. respond challenge) handler of
        Some (Inr (Some response)) \<Rightarrow>
          (let auth_method = opt_or (ar_authentication_method response)
                               (ch_authentication_method challenge)
           in case auth_answer (mx_lib env) response auth_method of
                Inr answer \<Rightarrow>
                  (let (events, c) = mx_checked_send env answer (snd a)
                   in Some (events, auth_method, c))
              | Inl _ \<Rightarrow> None)
      | _ \<Rightarrow> None)"

text \<open>
  The packets written while events are handled: those the connection asks to send and, when the
  caller authenticates, those of the answers to AUTH packets, which must not ask to close.
\<close>

definition no_failure :: "mqtt_event list \<Rightarrow> bool" where
  "no_failure events \<longleftrightarrow> EvRequestClose \<notin> set events \<and> (\<nexists>e. EvNotifyError e \<in> set events)"

fun event_writes ::
  "('w, 'h, 'c) mqtt_env \<Rightarrow> bool \<Rightarrow> mqtt_auth_provider option \<Rightarrow> mqtt_event \<Rightarrow> 'c auth_state \<Rightarrow>
   (mqtt_packet list \<times> 'c auth_state) option" where
  "event_writes env authenticating handler (EvRequestSendPacket p) a = Some ([p], a)"
| "event_writes env authenticating handler (EvNotifyPacketReceived (V5_0Auth packet)) a =
     (if authenticating
      then case auth_reply env handler packet a of
             Some (events, a') \<Rightarrow> if no_failure events then Some (sent_packets events, a') else None
           | None \<Rightarrow> None
      else Some ([], a))"
| "event_writes env authenticating handler (EvNotifyError e) a = None"
| "event_writes env authenticating handler EvRequestClose a = None"
| "event_writes env authenticating handler _ a = Some ([], a)"

fun events_write ::
  "('w, 'h, 'c) mqtt_env \<Rightarrow> bool \<Rightarrow> mqtt_auth_provider option \<Rightarrow> mqtt_event list \<Rightarrow> 'c auth_state \<Rightarrow>
   (mqtt_packet list \<times> 'c auth_state) option" where
  "events_write env authenticating handler [] a = Some ([], a)"
| "events_write env authenticating handler (e # es) a =
     (case event_writes env authenticating handler e a of
        None \<Rightarrow> None
      | Some (ps, a') \<Rightarrow>
          map_option (\<lambda>(qs, a''). (ps @ qs, a'')) (events_write env authenticating handler es a'))"

lemma write_packet_state:
  assumes "write_packet env what packet st = (Inr u, st')"
  shows "\<exists>w t. st' = st\<lparr> io_world := w, io_session := (io_session st)\<lparr> ms_last_activity := t \<rparr> \<rparr>"
  using assms
  by (auto simp: write_packet_def fl_bind_eq_Inr fl_run on_world_def Let_def mqtt_now_def
      upd_session_def case_prod_unfold)

text \<open>What an operation leaves alone while it writes packets.\<close>

definition writes_only ::
  "('h \<Rightarrow> 'w \<Rightarrow> bytes) \<Rightarrow> ('w, 'h, 'c) mqtt_env \<Rightarrow> mqtt_packet list \<Rightarrow>
   ('w, 'h, 'c) mqtt_io \<Rightarrow> ('w, 'h, 'c) mqtt_io \<Rightarrow> bool" where
  "writes_only sent env packets st st' \<longleftrightarrow>
     ms_stream (io_session st') = ms_stream (io_session st) \<and> io_auth st' = io_auth st \<and>
     ms_inbound_decoder (io_session st') = ms_inbound_decoder (io_session st) \<and>
     sent (ms_stream (io_session st)) (io_world st') =
       sent (ms_stream (io_session st)) (io_world st) @ concat (map (mx_packet_bytes env) packets)"

lemma writes_only_trans:
  "writes_only sent env ps st st' \<Longrightarrow> writes_only sent env qs st' st'' \<Longrightarrow>
   writes_only sent env (ps @ qs) st st''"
  by (simp add: writes_only_def)

lemma write_packet_writes:
  assumes "honest_env sent env" and "write_packet env what packet st = (Inr u, st')"
  shows "writes_only sent env [packet] st st'" and "auth_state (io_session st') = auth_state (io_session st)"
  using write_packet_sends [OF assms] write_packet_state [OF assms(2)]
  by (auto simp: writes_only_def auth_state_def same_link_def)

lemma outbound_auth_events_write:
  assumes "honest_env sent env"
  shows "process_outbound_auth_events env events st = (Inr u, st') \<Longrightarrow>
    no_failure events \<and> writes_only sent env (sent_packets events) st st' \<and>
    auth_state (io_session st') = auth_state (io_session st)"
  unfolding process_outbound_auth_events_def
proof (induction events arbitrary: st)
  case Nil
  then show ?case by (simp add: no_failure_def writes_only_def sent_packets_def)
next
  case (Cons e es)
  then obtain v s1 where e: "outbound_auth_event env e st = (Inr v, s1)"
    and es: "fl_for (outbound_auth_event env) es s1 = (Inr u, st')"
    by (auto simp: fl_bind_eq_Inr)
  note rest = Cons.IH [OF es]
  show ?case
  proof (cases e)
    case (EvRequestSendPacket p)
    with e have "write_packet env ''auth '' p st = (Inr v, s1)" by (simp add: outbound_auth_event_def)
    from write_packet_writes [OF assms this] rest EvRequestSendPacket show ?thesis
      using writes_only_trans [of sent env "[p]" st s1 "sent_packets es" st']
      by (simp add: no_failure_def sent_packets_def)
  qed (use e rest in \<open>auto simp: outbound_auth_event_def fl_run no_failure_def sent_packets_def\<close>)
qed

lemma lock_keeps:
  assumes "honest_env sent env" and "mqtt_lock env what st = (Inr u, st')"
  shows "\<exists>w. st' = st\<lparr> io_world := w \<rparr> \<and> sent h w = sent h (io_world st)"
proof -
  obtain ok w where l: "mx_lock env (io_world st) = (ok, w)" by fastforce
  have "sent h w = sent h (io_world st)" using assms(1) l by (metis honest_env_def snd_conv)
  with assms(2) l show ?thesis by (auto simp: mqtt_lock_def on_world_def Let_def split: if_splits)
qed

lemma build_auth_packet_eq:
  "build_auth_packet lib response st = (Inr packet, st') \<longleftrightarrow>
   (let auth_method = opt_or (ar_authentication_method response)
                        (ms_authentication_method (io_session st))
    in auth_answer lib response auth_method = Inr packet \<and>
       st' = st\<lparr> io_session := (io_session st)\<lparr> ms_authentication_method := auth_method \<rparr> \<rparr>)"
  by (auto simp: build_auth_packet_def auth_answer_def fl_bind_eq_Inr fl_run upd_session_def Let_def
      and_then_eq_Inr)

lemma auth_challenge_from_auth_eq:
  "auth_challenge_from_auth packet s =
     (auth_challenge packet (ms_authentication_method s),
      s\<lparr> ms_authentication_method :=
           ch_authentication_method (auth_challenge packet (ms_authentication_method s)) \<rparr>)"
  by (auto simp: auth_challenge_from_auth_def auth_challenge_def Let_def split: option.split)

lemma incoming_auth_writes:
  assumes "honest_env sent env" and "process_incoming_auth env (V5_0Auth packet) st = (Inr u, st')"
  shows "\<exists>events. auth_reply env (io_auth st) packet (auth_state (io_session st)) =
      Some (events, auth_state (io_session st')) \<and> no_failure events \<and>
    writes_only sent env (sent_packets events) st st'"
proof -
  let ?ch = "auth_challenge packet (ms_authentication_method (io_session st))"
  let ?s = "(io_session st)\<lparr> ms_authentication_method := ch_authentication_method ?ch \<rparr>"
  obtain s1 respond response answer s2 events s3 v where
    lock: "mqtt_lock env ''MQTT auth handler'' (st\<lparr> io_session := ?s \<rparr>) = (Inr v, s1)"
    and handler: "io_auth s1 = Some respond" "respond ?ch = Inr (Some response)"
    and build: "build_auth_packet (mx_lib env) response s1 = (Inr answer, s2)"
    and sd: "mqtt_connection_send env answer s2 = (Inr events, s3)"
    and wr: "process_outbound_auth_events env events s3 = (Inr u, st')"
    using assms(2)
    by (auto simp: process_incoming_auth_def auth_challenge_from_auth_eq fl_bind_eq_Inr fl_run
        upd_session_def split: option.splits)
  obtain w where s1: "s1 = st\<lparr> io_session := ?s, io_world := w \<rparr>"
    and w: "sent (ms_stream (io_session st)) w = sent (ms_stream (io_session st)) (io_world st)"
    using lock_keeps [OF assms(1) lock, where h = "ms_stream (io_session st)"] by auto
  let ?m = "opt_or (ar_authentication_method response) (ch_authentication_method ?ch)"
  have b: "auth_answer (mx_lib env) response ?m = Inr answer"
    "s2 = s1\<lparr> io_session := (io_session s1)\<lparr> ms_authentication_method := ?m \<rparr> \<rparr>"
    using build by (simp_all add: build_auth_packet_eq Let_def s1)
  obtain c where c: "mx_checked_send env answer (ms_connection (io_session st)) = (events, c)"
    "s3 = s2\<lparr> io_session := (io_session s2)\<lparr> ms_connection := c \<rparr> \<rparr>"
    using sd by (auto simp: mqtt_connection_send_def b(2) s1 split: prod.splits)
  note out = outbound_auth_events_write [OF assms(1) wr]
  have "auth_reply env (io_auth st) packet (auth_state (io_session st)) = Some (events, ?m, c)"
    using handler b(1) c(1) by (simp add: auth_reply_def auth_state_def s1 Let_def)
  moreover have "auth_state (io_session st') = (?m, c)"
    using out by (simp add: auth_state_def c(2) b(2))
  moreover have "writes_only sent env [] st s3"
    using w by (simp add: writes_only_def c(2) b(2) s1)
  ultimately show ?thesis
    using out writes_only_trans [of sent env "[]" st s3] by auto
qed

text \<open>One event, and a series of them, whatever cells the caller passed.\<close>

definition handled ::
  "('h \<Rightarrow> 'w \<Rightarrow> bytes) \<Rightarrow> ('w, 'h, 'c) mqtt_env \<Rightarrow> mqtt_packet list \<Rightarrow> mqtt_packet list \<Rightarrow>
   routed_message list \<Rightarrow> ('w, 'h, 'c) mqtt_io \<Rightarrow> ('w, 'h, 'c) mqtt_io \<Rightarrow> bool" where
  "handled sent env written received routed st st' \<longleftrightarrow>
     ms_stream (io_session st') = ms_stream (io_session st) \<and> io_auth st' = io_auth st \<and>
     sent (ms_stream (io_session st)) (io_world st') =
       sent (ms_stream (io_session st)) (io_world st) @ concat (map (mx_packet_bytes env) written) \<and>
     routed = decoded_messages (ms_inbound_decoder (io_session st)) received \<and>
     ms_inbound_decoder (io_session st') = decode_all (ms_inbound_decoder (io_session st)) received"

lemma handled_trans:
  "handled sent env ps rs ms st st' \<Longrightarrow> handled sent env qs rs' ms' st' st'' \<Longrightarrow>
   handled sent env (ps @ qs) (rs @ rs') (ms @ ms') st st''"
  by (simp add: handled_def decoded_messages_append decode_all_append)

lemma writes_then_decode:
  assumes "writes_only sent env ps st s1" and "decode_received p s1 = (Inr routed, st')"
  shows "handled sent env ps [p] routed st st' \<and> auth_state (io_session st') = auth_state (io_session s1)"
  using assms by (auto simp: handled_def writes_only_def decode_received_eq auth_state_def)

lemma connack_writes:
  assumes "honest_env sent env"
    and "(if negotiating then update_negotiated_connack env p else fl_return ()) st = (Inr u, st')"
  shows "writes_only sent env [] st st' \<and> io_session st' = io_session st \<and> io_auth st' = io_auth st"
proof (cases "negotiating \<and> connack_snapshot p \<noteq> None")
  case True
  then obtain snapshot v s1 where l: "mqtt_lock env ''negotiated MQTT CONNACK state'' st = (Inr v, s1)"
    and st': "st' = io_connack_update (\<lambda>_. Some snapshot) s1"
    using assms(2) by (auto simp: update_negotiated_connack_def fl_bind_eq_Inr fl_run)
  obtain w where "s1 = st\<lparr> io_world := w \<rparr>"
      "sent (ms_stream (io_session st)) w = sent (ms_stream (io_session st)) (io_world st)"
    using lock_keeps [OF assms(1) l, where h = "ms_stream (io_session st)"] by blast
  with st' show ?thesis by (simp add: writes_only_def)
next
  case False
  then have "st' = st"
    using assms(2) by (auto simp: update_negotiated_connack_def fl_run split: if_splits)
  then show ?thesis by (simp add: writes_only_def)
qed

lemma handle_event_handled:
  assumes "honest_env sent env"
    and "handle_event env negotiating authenticating event st = (Inr routed, st')"
  shows "\<exists>ps. event_writes env authenticating (io_auth st) event (auth_state (io_session st)) =
      Some (ps, auth_state (io_session st')) \<and>
    handled sent env ps (received_packets [event]) routed st st'"
proof (cases event)
  case (EvRequestSendPacket p)
  then obtain u where "write_packet env [] p st = (Inr u, st')" and "routed = []"
    using assms(2) by (auto simp: handle_event_def fl_bind_eq_Inr fl_run)
  with write_packet_writes [OF assms(1), of "[]" p st u st'] EvRequestSendPacket show ?thesis
    by (simp add: handled_def writes_only_def received_packets_def)
next
  case (EvNotifyPacketReceived p)
  then obtain u s1 v s2 where
    u: "(if negotiating then update_negotiated_connack env p else fl_return ()) st = (Inr u, s1)"
    and v: "(if authenticating then process_incoming_auth env p else fl_return ()) s1 = (Inr v, s2)"
    and d: "decode_received p s2 = (Inr routed, st')"
    using assms(2) by (auto simp: handle_event_def fl_bind_eq_Inr)
  note first = connack_writes [OF assms(1) u]
  have received: "received_packets [event] = [p]"
    by (simp add: EvNotifyPacketReceived received_packets_def)
  show ?thesis
  proof (cases "authenticating \<and> (\<exists>packet. p = V5_0Auth packet)")
    case True
    then obtain packet where p: "p = V5_0Auth packet" by blast
    obtain events where reply: "auth_reply env (io_auth s1) packet (auth_state (io_session s1)) =
          Some (events, auth_state (io_session s2))"
        "no_failure events" "writes_only sent env (sent_packets events) s1 s2"
      using incoming_auth_writes [OF assms(1), of packet s1 v s2] v True p by auto
    have "writes_only sent env (sent_packets events) st s2"
      using writes_only_trans [OF conjunct1 [OF first] reply(3)] by simp
    from writes_then_decode [OF this d] reply(1,2) first True show ?thesis
      by (simp add: EvNotifyPacketReceived p received_packets_def)
  next
    case False
    then have "s2 = s1"
      using v by (auto simp: process_incoming_auth_def fl_run split: if_splits mqtt_packet.splits)
    with writes_then_decode [OF conjunct1 [OF first]] d first False show ?thesis
      by (cases p) (auto simp: EvNotifyPacketReceived received_packets_def)
  qed
qed (use assms(2) in \<open>auto simp: handle_event_def handled_def received_packets_def fl_run\<close>)

lemma handle_events_handled:
  assumes "honest_env sent env"
  shows "handle_connection_events env negotiating authenticating events st = (Inr routed, st') \<Longrightarrow>
    \<exists>ps. events_write env authenticating (io_auth st) events (auth_state (io_session st)) =
        Some (ps, auth_state (io_session st')) \<and>
      handled sent env ps (received_packets events) routed st st'"
  unfolding handle_connection_events_def
proof (induction events arbitrary: st routed)
  case Nil
  then show ?case by (simp add: handled_def received_packets_def)
next
  case (Cons e es)
  then obtain ms ms' s1 where e: "handle_event env negotiating authenticating e st = (Inr ms, s1)"
    and es: "fl_concat_map (handle_event env negotiating authenticating) es s1 = (Inr ms', st')"
    and routed: "routed = ms @ ms'"
    by (auto simp: fl_bind_eq_Inr fl_run)
  obtain ps where ps: "event_writes env authenticating (io_auth st) e (auth_state (io_session st)) =
      Some (ps, auth_state (io_session s1))" "handled sent env ps (received_packets [e]) ms st s1"
    using handle_event_handled [OF assms e] by blast
  obtain qs where qs: "events_write env authenticating (io_auth s1) es (auth_state (io_session s1)) =
      Some (qs, auth_state (io_session st'))" "handled sent env qs (received_packets es) ms' s1 st'"
    using Cons.IH [OF es] by blast
  have "io_auth s1 = io_auth st" using ps(2) by (simp add: handled_def)
  moreover have "received_packets (e # es) = received_packets [e] @ received_packets es"
    by (simp add: received_packets_def)
  ultimately show ?case
    using ps(1) qs(1) handled_trans [OF ps(2) qs(2)] by (simp add: routed)
qed

lemma events_write_no_failure:
  "events_write env authenticating handler events a = Some x \<Longrightarrow> no_failure events"
  by (induction events arbitrary: a x)
    (auto simp: no_failure_def split: option.splits elim!: event_writes.elims)

section \<open>Properties\<close>

text \<open>C21: Events are handled in order and completely: when the handler of a connection's events
  succeeds, the socket has accepted exactly the bytes of the packets to write, in order: those the
  connection asked to send and, where the caller passed the authentication handler as every receive
  does, the packets the connection sent for the handler's answer to each AUTH packet received, the
  handler being shown the challenge with the authentication method then in use; the messages
  returned are the decodings of the packets received, in that order, through the pending maps as
  each packet left them; and no event was an error or a close.\<close>

theorem mqtt_events_in_order:
  assumes "honest_env sent env"
    and "handle_connection_events env negotiating authenticating events st = (Inr routed, st')"
  shows "(\<exists>packets.
      events_write env authenticating (io_auth st) events (auth_state (io_session st)) =
        Some (packets, auth_state (io_session st')) \<and>
      sent (ms_stream (io_session st)) (io_world st') =
        sent (ms_stream (io_session st)) (io_world st) @ concat (map (mx_packet_bytes env) packets)) \<and>
    routed = decoded_messages (ms_inbound_decoder (io_session st)) (received_packets events) \<and>
    ms_inbound_decoder (io_session st') =
      decode_all (ms_inbound_decoder (io_session st)) (received_packets events) \<and>
    EvRequestClose \<notin> set events \<and> (\<nexists>e. EvNotifyError e \<in> set events)"
proof -
  obtain packets where
    "events_write env authenticating (io_auth st) events (auth_state (io_session st)) =
        Some (packets, auth_state (io_session st'))"
    "handled sent env packets (received_packets events) routed st st'"
    using handle_events_handled [OF assms] by blast
  moreover from events_write_no_failure [OF this(1)] have "no_failure events" .
  ultimately show ?thesis by (simp add: handled_def no_failure_def)
qed

text \<open>C22: A request that was sent reached the connection as it was built, except that a packet that
  needs an acknowledgement carries the id the connection handed out for it; under that id the
  command was recorded before anything was written, and what the connection asked to send is on the
  wire.\<close>

theorem mqtt_request_recorded_and_sent:
  assumes "honest_builders (mx_lib env)" and "honest_env sent env"
    and "send_packet_request env request st = (Inr u, st')"
  shows "\<exists>request' c events.
    pr_command_id request' = pr_command_id request \<and>
    without_packet_id (pr_packet request') = without_packet_id (pr_packet request) \<and>
    (if needs_packet_id request
     then (\<exists>pid. mx_acquire_packet_id env (ms_connection (io_session st)) = (Inr pid, c) \<and>
            packet_request_packet_id (pr_packet request') = Some pid)
     else request' = request \<and> c = ms_connection (io_session st)) \<and>
    mx_checked_send env (packet_request_into_packet (pr_packet request')) c =
      (events, ms_connection (io_session st')) \<and>
    ms_inbound_decoder (io_session st') =
      decode_all (record_outbound_request request' (ms_inbound_decoder (io_session st)))
        (received_packets events) \<and>
    sent (ms_stream (io_session st)) (io_world st') =
      sent (ms_stream (io_session st)) (io_world st) @
      concat (map (mx_packet_bytes env) (sent_packets events))"
proof -
  from assms(3) obtain request' s1 routed where
    assign: "assign_runtime_packet_id env request st = (Inr request', s1)"
    and send: "mqtt_send_packet env (packet_request_into_packet (pr_packet request'))
        (s1\<lparr> io_session := (io_session s1)\<lparr> ms_inbound_decoder :=
           record_outbound_request request' (ms_inbound_decoder (io_session s1)) \<rparr> \<rparr>) =
        (Inr routed, st')"
    by (auto simp: send_packet_request_def fl_bind_eq_Inr fl_run upd_session_def)
  let ?c = "ms_connection (io_session s1)"
  obtain events c' where
    ev: "mx_checked_send env (packet_request_into_packet (pr_packet request')) ?c = (events, c')"
    by fastforce
  let ?s2 = "s1\<lparr> io_session := (io_session s1)\<lparr> ms_inbound_decoder :=
           record_outbound_request request' (ms_inbound_decoder (io_session s1)),
           ms_connection := c' \<rparr> \<rparr>"
  have "handle_connection_events env False False events ?s2 = (Inr routed, st')"
    using send ev by (simp add: mqtt_send_packet_def fl_bind_def mqtt_connection_send_def)
  from handle_events_effect [OF assms(2) this]
  have effect: "ms_connection (io_session st') = c'"
    "ms_inbound_decoder (io_session st') = decode_all
       (record_outbound_request request' (ms_inbound_decoder (io_session s1)))
       (received_packets events)"
    "sent (ms_stream (io_session s1)) (io_world st') = sent (ms_stream (io_session s1)) (io_world s1) @
       concat (map (mx_packet_bytes env) (sent_packets events))"
    by (simp_all add: event_effect_def same_link_def)
  note assigned = assign_packet_id [OF assms(1) assign]
  show ?thesis
    using assigned effect ev
    by (intro exI [of _ request'] exI [of _ ?c] exI [of _ events]) (auto split: if_splits)
qed

text \<open>A connection that sends what it is given, on a socket that records it and never delivers, under a
  clock that stands still, for the witnesses.\<close>

definition tape_net :: "(bytes, unit) tcp_net" where
  "tape_net =
     \<lparr> tn_io = \<lparr> st_write = (\<lambda>_ w data. (Inr (length data), w @ data)), st_flush = (\<lambda>_ w. (Inr (), w)),
                 st_read = (\<lambda>_ _ w. (Inl NetTimedOut, w)), st_close = (\<lambda>_ w. (Inr (), w)) \<rparr>,
       tn_connect = (\<lambda>_ w. (Inr (), w)), tn_set_read_timeout = (\<lambda>_ _ w. (Inr (), w)),
       tn_set_write_timeout = (\<lambda>_ _ w. (Inr (), w)) \<rparr>"

definition tape_env :: "(bytes, unit, u16) mqtt_env" where
  "tape_env =
     \<lparr> mx_lib = plain_mqtt_lib, mx_net = tape_net, mx_new_connection = (\<lambda>_. 1),
       mx_checked_send = (\<lambda>p c. ([EvRequestSendPacket p], c)),
       mx_recv = (\<lambda>_ c. ([EvNotifyPacketReceived V5_0Pingresp], c)),
       mx_acquire_packet_id = (\<lambda>c. (Inr c, c + 1)), mx_packet_bytes = (\<lambda>_. [0x30, 0x00]),
       mx_now = (\<lambda>w. (0, w)), mx_lock = (\<lambda>w. (True, w)) \<rparr>"

definition tape_io :: "(bytes, unit, u16) mqtt_io" where
  "tape_io =
     \<lparr> io_world = [],
       io_session =
         \<lparr> ms_stream = (), ms_connection = 7, ms_protocol_version = V5_0,
           ms_keepalive_secs = Some 30, ms_last_activity = 0, ms_awaiting_pingresp = False,
           ms_inbound_decoder = mqtt_inbound_decoder_new (DeviceId ''dev-1''),
           ms_authentication_method = None \<rparr>,
       io_connack = None, io_auth = None \<rparr>"

lemma tape_honest: "honest_env (\<lambda>_ w. w) tape_env"
  by (simp add: honest_env_def honest_writer_def tape_env_def tape_net_def)

lemma tape_env_simps [simp]:
  "mx_lib tape_env = plain_mqtt_lib"
  "mx_checked_send tape_env p c = ([EvRequestSendPacket p], c)"
  "mx_acquire_packet_id tape_env c = (Inr c, c + 1)"
  "mx_packet_bytes tape_env p = [0x30, 0x00]"
  by (simp_all add: tape_env_def)

lemma tape_write:
  "write_all_socket (\<lambda>w data. (Inr (length data), w @ data)) [0x30, 0x00] w = (Inr (), w @ [0x30, 0x00])"
  by (simp add: write_all_socket_def write_all_loop.simps)

lemma tape_write_packet:
  "write_packet tape_env [] p st =
     (Inr (), st\<lparr> io_world := io_world st @ [0x30, 0x00],
                  io_session := (io_session st)\<lparr> ms_last_activity := 0 \<rparr> \<rparr>)"
  by (simp add: write_packet_def fl_bind_def fl_run on_world_def mqtt_now_def upd_session_def
      tape_env_def tape_net_def tape_write)

text \<open>A handler that answers with the method and the data it was shown.\<close>

definition echo_auth :: mqtt_auth_provider where
  "echo_auth challenge =
     Inr (Some \<lparr> ar_reason = FlowContinueAuthentication, ar_authentication_method = None,
                 ar_authentication_data = ch_authentication_data challenge,
                 ar_reason_string = None, ar_user_properties = [] \<rparr>)"

definition sample_auth :: auth5 where
  "sample_auth =
     \<lparr> ap_reason_code = None,
       ap_props = Some [PrAuthenticationMethod ''SCRAM'', PrAuthenticationData [1, 2]] \<rparr>"

lemma tape_write_auth:
  "write_packet tape_env ''auth '' p st =
     (Inr (), st\<lparr> io_world := io_world st @ [0x30, 0x00],
                  io_session := (io_session st)\<lparr> ms_last_activity := 0 \<rparr> \<rparr>)"
  by (simp add: write_packet_def fl_bind_def fl_run on_world_def mqtt_now_def upd_session_def
      tape_env_def tape_net_def tape_write)

lemma tape_auth_reply:
  "auth_reply tape_env (Some echo_auth) sample_auth (None, 7) =
     Some ([EvRequestSendPacket (V5_0Auth \<lparr> ap_reason_code = None,
        ap_props = Some [PrAuthenticationMethod ''SCRAM'', PrAuthenticationData [1, 2]] \<rparr>)],
       Some ''SCRAM'', 7)"
  by (simp add: auth_reply_def auth_challenge_def auth_answer_def sample_auth_def echo_auth_def Let_def
      build_props_def plain_mqtt_lib_def opt_prop_def user_props_def)

lemma tape_lock: "mqtt_lock tape_env what st = (Inr (), st)"
  by (simp add: mqtt_lock_def on_world_def tape_env_def)

lemma tape_incoming_auth:
  assumes "io_auth st = Some echo_auth"
  shows "\<exists>st'. process_incoming_auth tape_env (V5_0Auth sample_auth) st = (Inr (), st')"
proof -
  have props: "collect_results Inr xs = Inr xs" for xs :: properties
    by (induction xs) simp_all
  have lib: "auth_answer plain_mqtt_lib r m = Inr (V5_0Auth \<lparr> ap_reason_code = None, ap_props = Some
      (opt_prop PrAuthenticationMethod m @ opt_prop PrAuthenticationData (ar_authentication_data r) @
       opt_prop PrReasonString (ar_reason_string r) @ user_props (ar_user_properties r)) \<rparr>)" for r m
    by (simp add: auth_answer_def build_props_def plain_mqtt_lib_def props)
  show ?thesis
    using assms
    by (simp add: process_incoming_auth_def fl_bind_eq_Inr fl_run upd_session_def tape_lock
        auth_challenge_from_auth_eq echo_auth_def build_auth_packet_eq Let_def lib
        mqtt_connection_send_def process_outbound_auth_events_def outbound_auth_event_def tape_write_auth)
qed

theorem mqtt_events_in_order_witness:
  "\<exists>routed st'. handle_connection_events tape_env True True
       [EvRequestSendPacket V5_0Pingreq, EvNotifyPacketReceived (V5_0Auth sample_auth)]
       (tape_io\<lparr> io_auth := Some echo_auth \<rparr>) = (Inr routed, st') \<and>
     io_world st' = [0x30, 0x00, 0x30, 0x00] \<and>
     ms_authentication_method (io_session st') = Some ''SCRAM'' \<and>
     routed = decoded_messages (mqtt_inbound_decoder_new (DeviceId ''dev-1'')) [V5_0Auth sample_auth]"
proof -
  let ?st = "tape_io\<lparr> io_auth := Some echo_auth \<rparr>"
  let ?sent = "?st\<lparr> io_world := io_world ?st @ [0x30, 0x00],
      io_session := (io_session ?st)\<lparr> ms_last_activity := 0 \<rparr> \<rparr>"
  obtain s1 where "process_incoming_auth tape_env (V5_0Auth sample_auth) ?sent = (Inr (), s1)"
    using tape_incoming_auth [of ?sent] by auto
  then obtain routed st' where run: "handle_connection_events tape_env True True
      [EvRequestSendPacket V5_0Pingreq, EvNotifyPacketReceived (V5_0Auth sample_auth)] ?st =
      (Inr routed, st')"
    by (simp add: handle_connection_events_def handle_event_def fl_bind_eq_Inr fl_run tape_write_packet
        update_negotiated_connack_def connack_snapshot_def decode_received_eq)
  from mqtt_events_in_order [OF tape_honest run] run show ?thesis
    by (auto simp: sent_packets_def received_packets_def tape_io_def auth_state_def tape_auth_reply
        no_failure_def)
qed

theorem mqtt_request_recorded_and_sent_witness:
  "\<exists>st'. send_packet_request tape_env
       \<lparr> pr_command_id = CommandId ''cmd-1'', pr_packet = V5Publish plain_publish_packet \<rparr> tape_io =
       (Inr (), st') \<and> io_world st' = [0x30, 0x00]"
proof -
  let ?r = "\<lparr> pr_command_id = CommandId ''cmd-1'', pr_packet = V5Publish plain_publish_packet \<rparr>"
  obtain st' where run: "send_packet_request tape_env ?r tape_io = (Inr (), st')"
    by (simp add: send_packet_request_def assign_runtime_packet_id_def plain_publish_packet_def
        rebuild_with_packet_id_def upd_session_def mqtt_send_packet_def mqtt_connection_send_def
        handle_connection_events_def handle_event_def fl_bind_def fl_run tape_write_packet Let_def
        plain_mqtt_lib_def)
  have "honest_builders (mx_lib tape_env)"
    by (simp add: plain_mqtt_lib_honest)
  from mqtt_request_recorded_and_sent [OF this tape_honest run] run show ?thesis
    by (auto simp: tape_env_def sent_packets_def tape_io_def)
qed

end
