(* ===== verification/Topic_Registry.thy ===== *)
theory Topic_Registry
  imports Prelude
begin

text \<open>
  The contract of a subscription registry, which the brokers' drivers share: a state that is changed
  by requests naming a key, where a request decides the entry of the key it names and leaves the
  others alone.  What a registry holds after a series of requests follows from that alone.
\<close>

locale topic_registry =
  fixes entry :: "'s \<Rightarrow> 'k \<Rightarrow> 'v option"
    and apply_request :: "'r \<Rightarrow> 's \<Rightarrow> 's"
    and request_key :: "'r \<Rightarrow> 'k option"
    and request_entry :: "'r \<Rightarrow> 'v option"
  assumes named_entry: "request_key r = Some k \<Longrightarrow> entry (apply_request r s) k = request_entry r"
    and other_entry: "request_key r \<noteq> Some k \<Longrightarrow> entry (apply_request r s) k = entry s k"
begin

theorem entry_after_requests:
  "entry (fold apply_request rs s) k =
     (case find (\<lambda>r. request_key r = Some k) (rev rs) of
        None \<Rightarrow> entry s k
      | Some r \<Rightarrow> request_entry r)"
proof (induction rs rule: rev_induct)
  case (snoc r rs)
  then show ?case
    by (cases "request_key r = Some k") (simp_all add: named_entry other_entry)
qed simp

text \<open>A key that no request names keeps its entry.\<close>

lemma entry_unnamed:
  assumes "\<forall>r \<in> set rs. request_key r \<noteq> Some k"
  shows "entry (fold apply_request rs s) k = entry s k"
proof -
  have "find (\<lambda>r. request_key r = Some k) (rev rs) = None"
    using assms by (simp add: find_None_iff)
  then show ?thesis by (simp add: entry_after_requests)
qed

text \<open>The last request naming a key decides, whatever came before.\<close>

lemma entry_decided_last:
  assumes "request_key r = Some k" and "\<forall>r \<in> set rs. request_key r \<noteq> Some k"
  shows "entry (fold apply_request (qs @ r # rs) s) k = request_entry r"
  using entry_unnamed [OF assms(2)] named_entry [OF assms(1)] by simp

end

end
