(* ===== verification/Mqtt_Recovery.thy ===== *)
theory Mqtt_Recovery
  imports Mqtt_Session Core_Device Topic_Registry
begin

text \<open>
  The shared state of the MQTT driver (\<open>lib.rs\<close>): the cells behind its mutexes, the status of the
  listener and its subscribers, the subscriptions wanted after a reconnect, the queue of requests
  waiting for one, and the replay of both on a new session.

  The parameter \<open>mqtt_stack\<close> holds what the driver takes from the runtime: channels, tasks, sleeping
  and the event sink of the caller.  A channel is named by a number.  Where a task waits for another
  one (a command for the listener, its answer, a sleep, a join) the step works on the whole driver
  state, because the other task may change it meanwhile; locking and network calls work on the world.
\<close>

section \<open>State and environment\<close>

datatype mqtt_listener_status = LsStopped | LsRunning | LsFailed string

datatype session_command_kind =
    ScPublish mqtt_packet_request
  | ScSubscribe mqtt_packet_request
  | ScUnsubscribe mqtt_packet_request

record session_command =
  sc_kind :: session_command_kind
  sc_response :: "nat option"

datatype session_command_result = ScDone | ScEvents "routed_event list"

record ('w, 'h, 'c) mqtt_driver =
  md_world :: 'w
  md_session :: "('h, 'c) mqtt_session option"
  md_negotiated_connack :: "mqtt_connack_properties option"
  md_listener_running :: bool
  md_listener_handle :: "nat option"
  md_listener_error :: "string option"
  md_status_subscribers :: "nat list"
  md_command_sender :: "nat option"
  md_desired_subscriptions :: "string \<rightharpoonup> mqtt_packet_request"
  md_recovery_queue :: "mqtt_packet_request list"
  md_auth_handler :: "mqtt_auth_provider option"

type_synonym ('w, 'h, 'c, 'a) driver_op = "(('w, 'h, 'c) mqtt_driver, 'a) fallible"

text \<open>\<open>sk_values\<close> is the order in which the hash map of subscriptions is iterated.\<close>

record ('w, 'h, 'c) mqtt_stack =
  sk_env :: "('w, 'h, 'c) mqtt_env"
  sk_device :: mqtt_device
  sk_values :: "(string \<rightharpoonup> mqtt_packet_request) \<Rightarrow> mqtt_packet_request list"
  sk_channel :: "nat \<Rightarrow> 'w \<Rightarrow> nat \<times> 'w"
  sk_try_send_status :: "nat \<Rightarrow> mqtt_listener_status \<Rightarrow> 'w \<Rightarrow> (channel_error + unit) \<times> 'w"
  sk_send_command ::
    "nat \<Rightarrow> session_command \<Rightarrow> ('w, 'h, 'c) mqtt_driver \<Rightarrow>
     (channel_error + unit) \<times> ('w, 'h, 'c) mqtt_driver"
  sk_try_recv_response ::
    "nat \<Rightarrow> ('w, 'h, 'c) mqtt_driver \<Rightarrow>
     (channel_error + (string + session_command_result)) \<times> ('w, 'h, 'c) mqtt_driver"
  sk_try_recv_command ::
    "nat \<Rightarrow> ('w, 'h, 'c) mqtt_driver \<Rightarrow>
     (channel_error + session_command) \<times> ('w, 'h, 'c) mqtt_driver"
  sk_send_response :: "nat \<Rightarrow> string + session_command_result \<Rightarrow> 'w \<Rightarrow> 'w"
  sk_sleep :: "duration \<Rightarrow> ('w, 'h, 'c) mqtt_driver \<Rightarrow> ('w, 'h, 'c) mqtt_driver"
  sk_join :: "nat \<Rightarrow> ('w, 'h, 'c) mqtt_driver \<Rightarrow> bool \<times> ('w, 'h, 'c) mqtt_driver"
  sk_spawn :: "nat \<Rightarrow> 'w \<Rightarrow> nat \<times> 'w"
  sk_sink :: "routed_event \<Rightarrow> 'w \<Rightarrow> bool \<times> 'w"

definition millis :: "nat \<Rightarrow> duration" where
  "millis n = n * 10 ^ 6"

definition MQTT_CONNECT_IO_TIMEOUT_MS :: nat where "MQTT_CONNECT_IO_TIMEOUT_MS = 1000"
definition MQTT_ACK_READ_TIMEOUT_MS :: nat where "MQTT_ACK_READ_TIMEOUT_MS = 250"
definition MQTT_LISTENER_IDLE_POLL_MS :: nat where "MQTT_LISTENER_IDLE_POLL_MS = 250"
definition MQTT_SESSION_WAIT_POLL_MS :: nat where "MQTT_SESSION_WAIT_POLL_MS = 10"
definition MQTT_LISTENER_COMMAND_TIMEOUT_MS :: nat where "MQTT_LISTENER_COMMAND_TIMEOUT_MS = 750"
definition MQTT_LISTENER_COMMAND_CHANNEL_CAPACITY :: nat where
  "MQTT_LISTENER_COMMAND_CHANNEL_CAPACITY = 64"

definition mqtt_driver_new :: "'w \<Rightarrow> ('w, 'h, 'c) mqtt_driver" where
  "mqtt_driver_new w =
     \<lparr> md_world = w, md_session = None, md_negotiated_connack = None, md_listener_running = False,
       md_listener_handle = None, md_listener_error = None, md_status_subscribers = [],
       md_command_sender = None, md_desired_subscriptions = Map.empty, md_recovery_queue = [],
       md_auth_handler = None \<rparr>"

section \<open>Locks and sessions\<close>

text \<open>\<open>lock().await.map_err(..)?\<close>, and \<open>if let Ok(guard) = lock().await\<close>.\<close>

definition md_lock :: "('w, 'h, 'c) mqtt_stack \<Rightarrow> string \<Rightarrow> ('w, 'h, 'c, unit) driver_op" where
  "md_lock sk what d =
     (let (ok, w) = mx_lock (sk_env sk) (md_world d)
      in (if ok then Inr () else Inl (''failed to lock '' @ what), d\<lparr> md_world := w \<rparr>))"

definition if_locked ::
  "('w, 'h, 'c) mqtt_stack \<Rightarrow> (('w, 'h, 'c) mqtt_driver \<Rightarrow> ('w, 'h, 'c) mqtt_driver) \<Rightarrow>
   ('w, 'h, 'c) mqtt_driver \<Rightarrow> ('w, 'h, 'c) mqtt_driver" where
  "if_locked sk f d =
     (let (ok, w) = mx_lock (sk_env sk) (md_world d); d = d\<lparr> md_world := w \<rparr>
      in if ok then f d else d)"

text \<open>A cell that is locked, read, and possibly written.\<close>

definition md_locked ::
  "('w, 'h, 'c) mqtt_stack \<Rightarrow> string \<Rightarrow> ('w, 'h, 'c, 'a) driver_op \<Rightarrow> ('w, 'h, 'c, 'a) driver_op" where
  "md_locked sk what m = fl_bind (md_lock sk what) (\<lambda>_. m)"

text \<open>
  A session operation run by the driver on a session it holds: the session as the operation left it
  is returned whether it failed or not.
\<close>

definition on_session ::
  "('w, 'h, 'c, 'a) mqtt_op \<Rightarrow> ('h, 'c) mqtt_session \<Rightarrow> ('w, 'h, 'c) mqtt_driver \<Rightarrow>
   (string + 'a) \<times> ('h, 'c) mqtt_session \<times> ('w, 'h, 'c) mqtt_driver" where
  "on_session m session d =
     (let (r, st) = m \<lparr> io_world = md_world d, io_session = session,
                        io_connack = md_negotiated_connack d, io_auth = md_auth_handler d \<rparr>
      in (r, io_session st,
          d\<lparr> md_world := io_world st, md_negotiated_connack := io_connack st \<rparr>))"

definition events_of :: "routed_message list \<Rightarrow> routed_event list" where
  "events_of messages =
     concat (map (\<lambda>message. case message of REvent event \<Rightarrow> [event] | _ \<Rightarrow> []) messages)"

text \<open>A request and one read for its acknowledgement.\<close>

definition request_and_read ::
  "('w, 'h, 'c) mqtt_env \<Rightarrow> bool \<Rightarrow> mqtt_packet_request \<Rightarrow>
   ('w, 'h, 'c, routed_message list) mqtt_op" where
  "request_and_read env negotiating request =
     fl_bind (send_packet_request env request) (\<lambda>_.
     read_from_session env negotiating True (Some (millis MQTT_ACK_READ_TIMEOUT_MS)))"

definition set_auth_handler ::
  "('w, 'h, 'c) mqtt_stack \<Rightarrow> mqtt_auth_provider \<Rightarrow> ('w, 'h, 'c, unit) driver_op" where
  "set_auth_handler sk handler =
     md_locked sk ''MQTT auth handler'' (fl_modify (\<lambda>d. d\<lparr> md_auth_handler := Some handler \<rparr>))"

definition negotiated_connack ::
  "('w, 'h, 'c) mqtt_stack \<Rightarrow> ('w, 'h, 'c, mqtt_connack_properties option) driver_op" where
  "negotiated_connack sk =
     md_locked sk ''negotiated MQTT CONNACK state'' (fl_get md_negotiated_connack)"

definition restore_session ::
  "('w, 'h, 'c) mqtt_stack \<Rightarrow> ('h, 'c) mqtt_session \<Rightarrow> ('w, 'h, 'c, unit) driver_op" where
  "restore_session sk session =
     md_locked sk ''MQTT session'' (fl_modify (\<lambda>d. d\<lparr> md_session := Some session \<rparr>))"

definition clear_session :: "('w, 'h, 'c) mqtt_stack \<Rightarrow> ('w, 'h, 'c, unit) driver_op" where
  "clear_session sk = md_locked sk ''MQTT session'' (fl_modify (\<lambda>d. d\<lparr> md_session := None \<rparr>))"

section \<open>Listener status\<close>

definition last_listener_error ::
  "('w, 'h, 'c) mqtt_stack \<Rightarrow> ('w, 'h, 'c, string option) driver_op" where
  "last_listener_error sk = md_locked sk ''MQTT listener error'' (fl_get md_listener_error)"

definition listener_status ::
  "('w, 'h, 'c) mqtt_stack \<Rightarrow> ('w, 'h, 'c, mqtt_listener_status) driver_op" where
  "listener_status sk =
     fl_bind (fl_get md_listener_running) (\<lambda>running.
     if running then fl_return LsRunning
     else fl_bind (last_listener_error sk) (\<lambda>error.
       fl_return (case error of Some e \<Rightarrow> LsFailed e | None \<Rightarrow> LsStopped)))"

text \<open>The body of \<open>retain\<close>: a subscriber is dropped when its channel is closed, not when it is full.\<close>

fun retain_subscribers ::
  "('w, 'h, 'c) mqtt_stack \<Rightarrow> mqtt_listener_status \<Rightarrow> nat list \<Rightarrow> 'w \<Rightarrow> nat list \<times> 'w" where
  "retain_subscribers sk status [] w = ([], w)"
| "retain_subscribers sk status (s # ss) w =
     (let (r, w) = sk_try_send_status sk s status w;
          (kept, w) = retain_subscribers sk status ss w
      in (if r = Inl ChClosed then kept else s # kept, w))"

definition send_status ::
  "('w, 'h, 'c) mqtt_stack \<Rightarrow> mqtt_listener_status \<Rightarrow> ('w, 'h, 'c) mqtt_driver \<Rightarrow>
   ('w, 'h, 'c) mqtt_driver" where
  "send_status sk status d =
     (let (kept, w) = retain_subscribers sk status (md_status_subscribers d) (md_world d)
      in d\<lparr> md_world := w, md_status_subscribers := kept \<rparr>)"

definition broadcast_listener_status ::
  "('w, 'h, 'c) mqtt_stack \<Rightarrow> mqtt_listener_status \<Rightarrow> ('w, 'h, 'c, unit) driver_op" where
  "broadcast_listener_status sk status =
     md_locked sk ''MQTT listener subscribers'' (fl_modify (send_status sk status))"

text \<open>The listener's own variant, which ignores a lock it cannot take.\<close>

definition broadcast_to_subscribers ::
  "('w, 'h, 'c) mqtt_stack \<Rightarrow> mqtt_listener_status \<Rightarrow> ('w, 'h, 'c) mqtt_driver \<Rightarrow>
   ('w, 'h, 'c) mqtt_driver" where
  "broadcast_to_subscribers sk status = if_locked sk (send_status sk status)"

definition clear_listener_error :: "('w, 'h, 'c) mqtt_stack \<Rightarrow> ('w, 'h, 'c, unit) driver_op" where
  "clear_listener_error sk =
     fl_bind (md_locked sk ''MQTT listener error''
       (fl_modify (\<lambda>d. d\<lparr> md_listener_error := None \<rparr>))) (\<lambda>_.
     broadcast_listener_status sk LsStopped)"

definition subscribe_listener_status ::
  "('w, 'h, 'c) mqtt_stack \<Rightarrow> ('w, 'h, 'c, nat) driver_op" where
  "subscribe_listener_status sk =
     fl_bind (\<lambda>d. let (ch, w) = sk_channel sk 8 (md_world d) in (Inr ch, d\<lparr> md_world := w \<rparr>)) (\<lambda>ch.
     fl_bind (listener_status sk) (\<lambda>current.
     fl_bind (\<lambda>d. let (r, w) = sk_try_send_status sk ch current (md_world d)
                  in (map_err (\<lambda>_. ''failed to seed MQTT listener status subscriber'') r,
                      d\<lparr> md_world := w \<rparr>)) (\<lambda>_.
     fl_bind (md_locked sk ''MQTT listener subscribers''
       (fl_modify (\<lambda>d. d\<lparr> md_status_subscribers := md_status_subscribers d @ [ch] \<rparr>))) (\<lambda>_.
     fl_return ch))))"

section \<open>Recovery state\<close>

definition reconnect_config :: "('w, 'h, 'c) mqtt_stack \<Rightarrow> broker_reconnect_config" where
  "reconnect_config sk = me_reconnect (dev_endpoint (sk_device sk))"

definition list_first :: "'a list \<Rightarrow> 'a option" where
  "list_first xs = (case xs of [] \<Rightarrow> None | x # _ \<Rightarrow> Some x)"

fun request_topic_key :: "mqtt_wire_packet \<Rightarrow> string option" where
  "request_topic_key (V5Subscribe p) = map_option se_topic (list_first (sb_entries p))"
| "request_topic_key (V3Subscribe p) = map_option se_topic (list_first (sb_entries p))"
| "request_topic_key (V5Unsubscribe p) = list_first (us_entries p)"
| "request_topic_key (V3Unsubscribe p) = list_first (us_entries p)"
| "request_topic_key _ = None"

text \<open>The \<open>match\<close> on the kind of the request.\<close>

definition track_desired ::
  "string \<Rightarrow> mqtt_packet_request \<Rightarrow> (string \<rightharpoonup> mqtt_packet_request) \<Rightarrow>
   (string \<rightharpoonup> mqtt_packet_request)" where
  "track_desired topic request desired =
     (case pr_packet request of
        V5Subscribe _ \<Rightarrow> desired(topic \<mapsto> request)
      | V3Subscribe _ \<Rightarrow> desired(topic \<mapsto> request)
      | V5Unsubscribe _ \<Rightarrow> desired(topic := None)
      | V3Unsubscribe _ \<Rightarrow> desired(topic := None)
      | _ \<Rightarrow> desired)"

definition track_subscription_intent ::
  "('w, 'h, 'c) mqtt_stack \<Rightarrow> mqtt_packet_request \<Rightarrow> ('w, 'h, 'c, unit) driver_op" where
  "track_subscription_intent sk request =
     (case request_topic_key (pr_packet request) of
        None \<Rightarrow> fl_return ()
      | Some topic \<Rightarrow>
          md_locked sk ''MQTT desired subscriptions'' (fl_modify (\<lambda>d.
            d\<lparr> md_desired_subscriptions :=
                 track_desired topic request (md_desired_subscriptions d) \<rparr>)))"

definition enqueue_recovery_request ::
  "('w, 'h, 'c) mqtt_stack \<Rightarrow> mqtt_packet_request \<Rightarrow> ('w, 'h, 'c, unit) driver_op" where
  "enqueue_recovery_request sk request =
     (let reconnect = reconnect_config sk in
      if \<not> rc_queue_requests_while_disconnected reconnect
      then fl_fail ''MQTT recovery queue is disabled''
      else
        md_locked sk ''MQTT recovery queue'' (fl_modify (\<lambda>d.
          let queue = md_recovery_queue d;
              queue = if unat (rc_max_queued_requests reconnect) \<le> length queue then tl queue
                      else queue
          in d\<lparr> md_recovery_queue := queue @ [request] \<rparr>)))"

text \<open>
  The two loops of the replay share their body; the session is part of the state here, because a
  failed replay returns no session to its caller.
\<close>

type_synonym ('w, 'h, 'c, 'a) replay_op =
  "(('h, 'c) mqtt_session \<times> ('w, 'h, 'c) mqtt_driver, 'a) fallible"

definition replay_request ::
  "('w, 'h, 'c) mqtt_stack \<Rightarrow> mqtt_packet_request \<Rightarrow> ('w, 'h, 'c, routed_event list) replay_op" where
  "replay_request sk request =
     (\<lambda>(session, d).
        let (r, session, d) = on_session (request_and_read (sk_env sk) True request) session d
        in (map_ok events_of r, session, d))"

definition on_driver :: "('w, 'h, 'c, 'a) driver_op \<Rightarrow> ('w, 'h, 'c, 'a) replay_op" where
  "on_driver m = (\<lambda>(session, d). let (r, d) = m d in (r, session, d))"

definition replay_recovery_state ::
  "('w, 'h, 'c) mqtt_stack \<Rightarrow> ('w, 'h, 'c, routed_event list) replay_op" where
  "replay_recovery_state sk =
     fl_bind
       (if rc_replay_subscriptions (reconnect_config sk)
        then
          fl_bind (on_driver (md_locked sk ''MQTT desired subscriptions''
            (fl_get (\<lambda>d. sk_values sk (md_desired_subscriptions d)))))
          (fl_concat_map (replay_request sk))
        else fl_return []) (\<lambda>recovered.
     fl_bind (on_driver (md_locked sk ''MQTT recovery queue''
       (\<lambda>d. (Inr (md_recovery_queue d), d\<lparr> md_recovery_queue := [] \<rparr>)))) (\<lambda>queued.
     fl_bind (fl_concat_map (replay_request sk) queued) (\<lambda>events.
     fl_return (recovered @ events))))"

section \<open>Lemmas\<close>

lemma locked_modify_eq_Inr:
  "md_locked sk what (fl_modify f) d = (Inr u, d') \<longleftrightarrow>
     (\<exists>w. mx_lock (sk_env sk) (md_world d) = (True, w) \<and> d' = f (d\<lparr> md_world := w \<rparr>))"
  by (cases "mx_lock (sk_env sk) (md_world d)")
    (auto simp: md_locked_def md_lock_def fl_bind_def fl_run)

lemma on_session_driver:
  "on_session m session d = (r, session', d') \<Longrightarrow>
     \<exists>w k. d' = d\<lparr> md_world := w, md_negotiated_connack := k \<rparr>"
  by (auto simp: on_session_def split: prod.splits)

text \<open>The bound of the queue: one request is kept even when the configured maximum is zero.\<close>

definition recovery_limit :: "('w, 'h, 'c) mqtt_stack \<Rightarrow> nat" where
  "recovery_limit sk = max 1 (unat (rc_max_queued_requests (reconnect_config sk)))"

lemma enqueue_effect:
  assumes "enqueue_recovery_request sk request d = (Inr u, d')"
    and "length (md_recovery_queue d) \<le> recovery_limit sk"
  shows "md_recovery_queue d' =
    drop (length (md_recovery_queue d) + 1 - recovery_limit sk) (md_recovery_queue d @ [request])"
  using assms
  by (auto simp: enqueue_recovery_request_def recovery_limit_def Let_def locked_modify_eq_Inr fl_run
      drop_Suc le_Suc_eq max_def length_Suc_conv split: if_splits)

lemma drop_append_limit:
  "drop (length (drop (length a - m) a) + length b - m) (drop (length a - m) a @ b) =
     drop (length a + length b - m) (a @ b)"
  by (cases "length a \<le> m") (simp_all add: add.commute)

lemma enqueue_all_effect:
  "fl_for (enqueue_recovery_request sk) requests d = (Inr u, d') \<Longrightarrow>
   length (md_recovery_queue d) \<le> recovery_limit sk \<Longrightarrow>
   md_recovery_queue d' =
     drop (length (md_recovery_queue d) + length requests - recovery_limit sk)
       (md_recovery_queue d @ requests)"
proof (induction requests arbitrary: d)
  case Nil
  then show ?case by simp
next
  case (Cons r rs)
  then obtain v d1 where first: "enqueue_recovery_request sk r d = (Inr v, d1)"
    and rest: "fl_for (enqueue_recovery_request sk) rs d1 = (Inr u, d')"
    by (auto simp: fl_bind_eq_Inr)
  let ?q = "md_recovery_queue d"
  have d1: "md_recovery_queue d1 = drop (length (?q @ [r]) - recovery_limit sk) (?q @ [r])"
    using enqueue_effect [OF first Cons.prems(2)] by simp
  then have "length (md_recovery_queue d1) \<le> recovery_limit sk" by simp
  from Cons.IH [OF rest this] d1 drop_append_limit [of "?q @ [r]" "recovery_limit sk" rs]
  show ?case by simp
qed

text \<open>A tracked request.\<close>

definition is_subscribe :: "mqtt_packet_request \<Rightarrow> bool" where
  "is_subscribe request \<longleftrightarrow>
     (case pr_packet request of V5Subscribe _ \<Rightarrow> True | V3Subscribe _ \<Rightarrow> True | _ \<Rightarrow> False)"

definition track_request ::
  "mqtt_packet_request \<Rightarrow> (string \<rightharpoonup> mqtt_packet_request) \<Rightarrow> (string \<rightharpoonup> mqtt_packet_request)" where
  "track_request request desired =
     (case request_topic_key (pr_packet request) of
        None \<Rightarrow> desired
      | Some topic \<Rightarrow> track_desired topic request desired)"

definition wanted_entry :: "mqtt_packet_request \<Rightarrow> mqtt_packet_request option" where
  "wanted_entry request = (if is_subscribe request then Some request else None)"

interpretation wanted: topic_registry "\<lambda>desired. desired" track_request
  "\<lambda>r. request_topic_key (pr_packet r)" wanted_entry
proof unfold_locales
  show "track_request r s k = wanted_entry r" if "request_topic_key (pr_packet r) = Some k" for r k s
    using that
    by (cases "pr_packet r")
      (auto simp: track_request_def track_desired_def wanted_entry_def is_subscribe_def)
  show "track_request r s k = s k" if "request_topic_key (pr_packet r) \<noteq> Some k" for r k s
    using that
    by (cases "pr_packet r") (auto simp: track_request_def track_desired_def split: option.splits)
qed

text \<open>The tracked state of the driver is the fold of its requests.\<close>

lemma track_effect:
  assumes "track_subscription_intent sk request d = (Inr u, d')"
  shows "md_desired_subscriptions d' = track_request request (md_desired_subscriptions d)"
  using assms
  by (auto simp: track_subscription_intent_def track_request_def locked_modify_eq_Inr fl_run
      split: option.splits)

lemma track_all_effect:
  "fl_for (track_subscription_intent sk) requests d = (Inr u, d') \<Longrightarrow>
   md_desired_subscriptions d' = fold track_request requests (md_desired_subscriptions d)"
proof (induction requests arbitrary: d)
  case (Cons r rs)
  then show ?case using track_effect [of sk r d] by (fastforce simp: fl_bind_eq_Inr)
qed simp

text \<open>Replaying a request neither reads nor writes the queue.\<close>

definition with_queue ::
  "mqtt_packet_request list \<Rightarrow> ('w, 'h, 'c) mqtt_driver \<Rightarrow> ('w, 'h, 'c) mqtt_driver" where
  "with_queue q d = d\<lparr> md_recovery_queue := q \<rparr>"

lemma on_session_queue:
  "on_session m session (with_queue q d) =
     (let (r, session, d) = on_session m session d in (r, session, with_queue q d))"
  by (simp add: on_session_def with_queue_def Let_def split: prod.split)

lemma replay_request_queue:
  "replay_request sk request (session, with_queue q d) =
     (let (r, session, d) = replay_request sk request (session, d) in (r, session, with_queue q d))"
  by (simp add: replay_request_def on_session_queue Let_def split: prod.split)

lemma replay_requests_queue:
  "fl_concat_map (replay_request sk) requests (session, with_queue q d) =
     (let (r, session, d) = fl_concat_map (replay_request sk) requests (session, d)
      in (r, session, with_queue q d))"
proof (induction requests arbitrary: session d)
  case (Cons x xs)
  obtain r s1 d1 where x: "replay_request sk x (session, d) = (r, s1, d1)" by (metis prod_cases3)
  obtain r' s2 d2 where xs: "fl_concat_map (replay_request sk) xs (s1, d1) = (r', s2, d2)"
    by (metis prod_cases3)
  show ?case
    using Cons.IH [of s1 d1] x xs
    by (cases r; cases r'; simp add: fl_bind_def replay_request_queue fl_run)
qed simp

lemma replay_request_keeps:
  assumes "replay_request sk request (session, d) = (r, session', d')"
  shows "md_recovery_queue d' = md_recovery_queue d"
    and "md_desired_subscriptions d' = md_desired_subscriptions d"
  using assms by (auto simp: replay_request_def split: prod.splits dest!: on_session_driver)

lemma replay_requests_keep:
  "fl_concat_map (replay_request sk) requests (session, d) = (r, session', d') \<Longrightarrow>
   md_recovery_queue d' = md_recovery_queue d \<and>
   md_desired_subscriptions d' = md_desired_subscriptions d"
proof (induction requests arbitrary: session d r session' d')
  case (Cons x xs)
  obtain r1 s1 d1 where x: "replay_request sk x (session, d) = (r1, s1, d1)" by (metis prod_cases3)
  obtain r2 s2 d2 where xs: "fl_concat_map (replay_request sk) xs (s1, d1) = (r2, s2, d2)"
    by (metis prod_cases3)
  show ?case
    using Cons.prems Cons.IH [OF xs] replay_request_keeps [OF x] x xs
    by (cases r1; cases r2; auto simp: fl_bind_def fl_run)
qed simp

text \<open>A lock that is always free.\<close>

definition free_lock :: "('w, 'h, 'c) mqtt_stack \<Rightarrow> bool" where
  "free_lock sk \<longleftrightarrow> (\<forall>w. mx_lock (sk_env sk) w = (True, w))"

lemma free_locked [simp]: "free_lock sk \<Longrightarrow> md_locked sk what m = m"
  by (rule ext) (simp add: free_lock_def md_locked_def md_lock_def fl_bind_def)

definition wanted_requests ::
  "('w, 'h, 'c) mqtt_stack \<Rightarrow> ('w, 'h, 'c) mqtt_driver \<Rightarrow> mqtt_packet_request list" where
  "wanted_requests sk d =
     (if rc_replay_subscriptions (reconnect_config sk)
      then sk_values sk (md_desired_subscriptions d) else [])"

text \<open>The replay is one pass over the wanted subscriptions and one over the drained queue.\<close>

lemma replay_passes:
  assumes "free_lock sk"
  shows "replay_recovery_state sk (session, d) =
    fl_bind (fl_concat_map (replay_request sk) (wanted_requests sk d))
      (\<lambda>recovered (session, d1).
         fl_bind (fl_concat_map (replay_request sk) (md_recovery_queue d))
           (\<lambda>events. fl_return (recovered @ events)) (session, with_queue [] d1)) (session, d)"
proof -
  obtain r s1 d1 where
    r: "fl_concat_map (replay_request sk) (wanted_requests sk d) (session, d) = (r, s1, d1)"
    by (metis prod_cases3)
  have "md_recovery_queue d1 = md_recovery_queue d" using replay_requests_keep [OF r] by simp
  with r assms show ?thesis
    by (cases r)
      (auto simp: replay_recovery_state_def wanted_requests_def on_driver_def fl_bind_def fl_run
        with_queue_def split: if_splits prod.split sum.split)
qed

section \<open>Properties\<close>

text \<open>C26: The recovery queue never grows past its bound and loses only its oldest entries: after a
  series of requests was queued it holds the newest ones, in the order they came, as many as the
  configured maximum allows, but always at least one.\<close>

theorem recovery_queue_keeps_newest:
  assumes "fl_for (enqueue_recovery_request sk) requests d = (Inr u, d')"
    and "length (md_recovery_queue d) \<le> recovery_limit sk"
  shows "md_recovery_queue d' =
      drop (length (md_recovery_queue d) + length requests - recovery_limit sk)
        (md_recovery_queue d @ requests) \<and>
    length (md_recovery_queue d') \<le> recovery_limit sk"
  using enqueue_all_effect [OF assms] by simp

text \<open>C27: What is resubscribed after a reconnect follows the last intent on each topic filter: the
  wanted subscription of a filter is the last request naming it when that was a subscribe, none
  when it was an unsubscribe, and unchanged when no request named the filter.\<close>

theorem desired_subscriptions_follow_last_intent:
  assumes "fl_for (track_subscription_intent sk) requests d = (Inr u, d')"
  shows "md_desired_subscriptions d' topic =
     (case find (\<lambda>r. request_topic_key (pr_packet r) = Some topic) (rev requests) of
        None \<Rightarrow> md_desired_subscriptions d topic
      | Some r \<Rightarrow> if is_subscribe r then Some r else None)"
  unfolding track_all_effect [OF assms] wanted.entry_after_requests
  by (simp add: wanted_entry_def cong: option.case_cong)

text \<open>C28: A replay that succeeds has sent everything in one ordered pass: first the wanted
  subscriptions, when the policy asks for them, then the queued requests, oldest first; it returns
  the events of that pass, and leaves the queue empty and the wanted subscriptions as they were.\<close>

theorem replay_sends_everything_in_order:
  assumes "free_lock sk" and "replay_recovery_state sk (session, d) = (Inr events, session', d')"
  shows "\<exists>d''. fl_concat_map (replay_request sk) (wanted_requests sk d @ md_recovery_queue d)
             (session, d) = (Inr events, session', d'') \<and>
           d' = with_queue [] d'' \<and> md_recovery_queue d' = [] \<and>
           md_desired_subscriptions d' = md_desired_subscriptions d"
proof -
  from assms obtain a b s1 d1 where
    wanted: "fl_concat_map (replay_request sk) (wanted_requests sk d) (session, d) = (Inr a, s1, d1)"
    and queued: "fl_concat_map (replay_request sk) (md_recovery_queue d) (s1, with_queue [] d1) =
      (Inr b, session', d')"
    and events: "events = a @ b"
    by (auto simp: replay_passes fl_bind_eq_Inr fl_run)
  obtain r s2 d2 where
    r: "fl_concat_map (replay_request sk) (md_recovery_queue d) (s1, d1) = (r, s2, d2)"
    by (metis prod_cases3)
  with queued have "r = Inr b" "s2 = session'" "d' = with_queue [] d2"
    by (auto simp: replay_requests_queue)
  with wanted r events replay_requests_keep [OF wanted] replay_requests_keep [OF r]
  show ?thesis
    by (auto simp: fl_concat_map_append fl_bind_def fl_run with_queue_def)
qed

text \<open>C29: A replay that fails on the queue has lost it: once the wanted subscriptions are through,
  the queue is emptied before its first request is sent, so when one of them fails, the failed
  request and all later ones are no longer queued and the next reconnect does not send them.\<close>

theorem replay_failure_loses_queue:
  assumes "free_lock sk"
    and "fl_concat_map (replay_request sk) (wanted_requests sk d) (session, d) = (Inr events, s1, d1)"
    and "replay_recovery_state sk (session, d) = (Inl e, session', d')"
  shows "md_recovery_queue d' = [] \<and> md_recovery_queue d \<noteq> []"
proof -
  from assms have
    "fl_concat_map (replay_request sk) (md_recovery_queue d) (s1, with_queue [] d1) =
      (Inl e, session', d')"
    by (auto simp: replay_passes fl_bind_def fl_run split: prod.splits sum.splits)
  with replay_requests_keep [OF this] show ?thesis by (auto simp: with_queue_def)
qed

text \<open>C31: A shared subscription cannot be given up by its channel: the subscribe command of a shared
  group is wanted under the filter \<open>$share/group/name\<close>, the unsubscribe command of the same channel
  names the plain channel, so the shared subscription stays wanted and is replayed after the next
  reconnect.\<close>

theorem shared_unsubscribe_keeps_intent:
  assumes "honest_builders lib"
    and "mqtt_native_packet_request lib dvc c = Inr r"
    and "cmd_intent c = Subscribe channel options" and "bs_shared_group options = Some grp"
    and "mqtt_native_packet_request lib dvc c' = Inr r'" and "cmd_intent c' = Unsubscribe channel"
    and "fl_for (track_subscription_intent sk) [r, r'] d = (Inr u, d')"
  shows "md_desired_subscriptions d'
      (''$share/'' @ grp @ ''/'' @ channel_name_str (ba_name channel)) = Some r"
proof -
  let ?name = "channel_name_str (ba_name channel)"
  have "request_topic_key (pr_packet r) = Some (''$share/'' @ grp @ ''/'' @ ?name)"
    and "is_subscribe r"
    using native_subscribe_request [OF assms(1-3)] assms(4)
    by (cases "preferred_protocol_version (dev_endpoint dvc)";
        auto simp: is_subscribe_def list_first_def)+
  moreover have "request_topic_key (pr_packet r') = Some ?name"
    using native_unsubscribe_request [OF assms(1,5,6)]
    by (cases "preferred_protocol_version (dev_endpoint dvc)") (auto simp: list_first_def)
  moreover have "''$share/'' @ grp @ ''/'' @ ?name \<noteq> ?name"
    by (metis append_assoc append_self_conv2 list.distinct(1) append_is_Nil_conv)
  ultimately show ?thesis
    using wanted.entry_decided_last [of r _ "[r']" "[]"]
    by (simp add: track_all_effect [OF assms(7)] wanted_entry_def)
qed

section \<open>Witnesses\<close>

text \<open>A stack on the recording socket of \<open>tape_env\<close>, with a queue of \<open>n\<close>; no other task interferes.\<close>

definition tape_device :: "u32 \<Rightarrow> mqtt_device" where
  "tape_device n = (plain_mqtt_device V5_0)\<lparr> dev_endpoint := (plain_mqtt_config V5_0)\<lparr>
     me_reconnect := broker_reconnect_config_default\<lparr> rc_max_queued_requests := n \<rparr> \<rparr> \<rparr>"

definition tape_stack :: "(bytes, unit, u16) mqtt_env \<Rightarrow> u32 \<Rightarrow> (bytes, unit, u16) mqtt_stack" where
  "tape_stack env n =
     \<lparr> sk_env = env, sk_device = tape_device n,
       sk_values = (\<lambda>m. case m ''$share/team/plant/7'' of None \<Rightarrow> [] | Some r \<Rightarrow> [r]),
       sk_channel = (\<lambda>_ w. (1, w)), sk_try_send_status = (\<lambda>_ _ w. (Inr (), w)),
       sk_send_command = (\<lambda>_ _ d. (Inl ChClosed, d)),
       sk_try_recv_response = (\<lambda>_ d. (Inl ChClosed, d)),
       sk_try_recv_command = (\<lambda>_ d. (Inl ChEmpty, d)), sk_send_response = (\<lambda>_ _ w. w),
       sk_sleep = (\<lambda>_ d. d), sk_join = (\<lambda>_ d. (True, d)), sk_spawn = (\<lambda>_ w. (1, w)),
       sk_sink = (\<lambda>_ w. (True, w)) \<rparr>"

lemma tape_stack_simps [simp]:
  "sk_env (tape_stack env n) = env"
  "rc_max_queued_requests (reconnect_config (tape_stack env n)) = n"
  "rc_queue_requests_while_disconnected (reconnect_config (tape_stack env n))"
  "rc_replay_subscriptions (reconnect_config (tape_stack env n))"
  "sk_values (tape_stack env n) m = (case m ''$share/team/plant/7'' of None \<Rightarrow> [] | Some r \<Rightarrow> [r])"
  by (simp_all add: tape_stack_def reconnect_config_def tape_device_def
      broker_reconnect_config_default_def)

lemma tape_stack_free [simp]: "free_lock (tape_stack tape_env n)"
  by (simp add: free_lock_def tape_env_def)

definition tape_publish :: mqtt_packet_request where
  "tape_publish = \<lparr> pr_command_id = CommandId ''cmd-1'', pr_packet = V5Publish plain_publish_packet \<rparr>"

definition tape_subscribe :: mqtt_packet_request where
  "tape_subscribe =
     \<lparr> pr_command_id = CommandId ''cmd-1'', pr_packet = V5Subscribe shared_subscribe_packet \<rparr>"

lemma tape_subscribe_key:
  "request_topic_key (pr_packet tape_subscribe) = Some ''$share/team/plant/7''"
  "is_subscribe tape_subscribe"
  by (simp_all add: tape_subscribe_def shared_subscribe_packet_def list_first_def is_subscribe_def)

theorem recovery_queue_keeps_newest_witness:
  "\<exists>d'. fl_for (enqueue_recovery_request (tape_stack tape_env 1)) [tape_subscribe, tape_publish]
       (mqtt_driver_new []) = (Inr (), d') \<and> md_recovery_queue d' = [tape_publish]"
proof -
  obtain d' where run: "fl_for (enqueue_recovery_request (tape_stack tape_env 1))
      [tape_subscribe, tape_publish] (mqtt_driver_new []) = (Inr (), d')"
    by (simp add: enqueue_recovery_request_def fl_bind_def fl_run)
  from recovery_queue_keeps_newest [OF this] run show ?thesis
    by (simp add: mqtt_driver_new_def recovery_limit_def)
qed

theorem desired_subscriptions_follow_last_intent_witness:
  "\<exists>d'. fl_for (track_subscription_intent (tape_stack tape_env 1)) [tape_publish, tape_subscribe]
       (mqtt_driver_new []) = (Inr (), d') \<and>
     md_desired_subscriptions d' ''$share/team/plant/7'' = Some tape_subscribe"
proof -
  obtain d' where run: "fl_for (track_subscription_intent (tape_stack tape_env 1))
      [tape_publish, tape_subscribe] (mqtt_driver_new []) = (Inr (), d')"
    by (simp add: track_subscription_intent_def tape_subscribe_key tape_publish_def fl_bind_def fl_run)
  from desired_subscriptions_follow_last_intent [OF this, of "''$share/team/plant/7''"] run
  show ?thesis by (simp add: tape_subscribe_key)
qed

text \<open>A request on the recording socket: two bytes are written and nothing is received.\<close>

lemma tape_net_simps [simp]:
  "tn_set_read_timeout (mx_net tape_env) h t w = (Inr (), w)"
  "st_read (tn_io (mx_net tape_env)) h n w = (Inl NetTimedOut, w)"
  "mx_now tape_env w = (0, w)"
  by (simp_all add: tape_env_def tape_net_def)

lemma tape_read:
  assumes "ms_keepalive_secs (io_session st) = Some 30"
  shows "read_from_session tape_env negotiating authenticating timeout st = (Inr [], st)"
  using assms
  by (simp add: read_from_session_def mqtt_set_read_timeout_def send_keepalive_ping_if_due_def
      on_world_def mqtt_now_def fl_bind_def fl_run)

lemma tape_send:
  "\<exists>session'. send_packet_request tape_env request st =
       (Inr (), st\<lparr> io_world := io_world st @ [0x30, 0x00], io_session := session' \<rparr>) \<and>
     ms_keepalive_secs session' = ms_keepalive_secs (io_session st)"
proof -
  have "\<exists>request'. rebuild_with_packet_id plain_mqtt_lib request p = Inr request'" for p
    by (cases "pr_packet request") (simp_all add: rebuild_with_packet_id_def plain_mqtt_lib_def)
  then obtain f where f: "rebuild_with_packet_id plain_mqtt_lib request p = Inr (f p)" for p
    by metis
  show ?thesis
    by (cases st) (simp add: send_packet_request_def assign_runtime_packet_id_def f
        mqtt_send_packet_def mqtt_connection_send_def handle_connection_events_def handle_event_def
        tape_write_packet upd_session_def fl_bind_def fl_run Let_def)
qed

lemma tape_replay_request:
  assumes "ms_keepalive_secs session = Some 30"
  shows "\<exists>session'. replay_request (tape_stack tape_env n) request (session, d) =
      (Inr [], session', d\<lparr> md_world := md_world d @ [0x30, 0x00] \<rparr>) \<and>
    ms_keepalive_secs session' = Some 30"
proof -
  let ?st = "\<lparr> io_world = md_world d, io_session = session,
               io_connack = md_negotiated_connack d, io_auth = md_auth_handler d \<rparr>"
  obtain session' where "send_packet_request tape_env request ?st =
      (Inr (), ?st\<lparr> io_world := md_world d @ [0x30, 0x00], io_session := session' \<rparr>)"
    and "ms_keepalive_secs session' = Some 30"
    using tape_send [of request ?st] assms by auto
  then show ?thesis
    by (simp add: replay_request_def on_session_def request_and_read_def fl_bind_def tape_read
        events_of_def)
qed

definition tape_driver :: "(bytes, unit, u16) mqtt_driver" where
  "tape_driver = (mqtt_driver_new [])\<lparr>
     md_desired_subscriptions := [''$share/team/plant/7'' \<mapsto> tape_subscribe],
     md_recovery_queue := [tape_publish] \<rparr>"

theorem replay_sends_everything_in_order_witness:
  "\<exists>session' d'. replay_recovery_state (tape_stack tape_env 1) (io_session tape_io, tape_driver) =
       (Inr [], session', d') \<and>
     md_world d' = [0x30, 0x00, 0x30, 0x00] \<and> md_recovery_queue d' = []"
proof -
  have "ms_keepalive_secs (io_session tape_io) = Some 30" by (simp add: tape_io_def)
  from tape_replay_request [OF this, of 1 tape_subscribe tape_driver]
  obtain s1 where s1: "replay_request (tape_stack tape_env 1) tape_subscribe
      (io_session tape_io, tape_driver) =
      (Inr [], s1, tape_driver\<lparr> md_world := [0x30, 0x00] \<rparr>)"
    "ms_keepalive_secs s1 = Some 30"
    by (auto simp: tape_driver_def mqtt_driver_new_def)
  from tape_replay_request [OF s1(2), of 1 tape_publish
      "with_queue [] (tape_driver\<lparr> md_world := [0x30, 0x00] \<rparr>)"]
  obtain s2 d2 where s2: "replay_request (tape_stack tape_env 1) tape_publish
      (s1, with_queue [] (tape_driver\<lparr> md_world := [0x30, 0x00] \<rparr>)) = (Inr [], s2, d2)"
    "md_world d2 = [0x30, 0x00, 0x30, 0x00]"
    by (auto simp: with_queue_def)
  have run: "replay_recovery_state (tape_stack tape_env 1) (io_session tape_io, tape_driver) =
      (Inr [], s2, d2)"
    using s1 s2(1)
    by (simp add: replay_passes wanted_requests_def fl_bind_def fl_run tape_driver_def)
  from replay_sends_everything_in_order [OF tape_stack_free run] run s2(2) show ?thesis by blast
qed

text \<open>A socket that refuses every write.\<close>

definition dead_env :: "(bytes, unit, u16) mqtt_env" where
  "dead_env = tape_env\<lparr> mx_net := tape_net\<lparr> tn_io :=
     (tn_io tape_net)\<lparr> st_write := (\<lambda>_ w _. (Inl NetClosed, w)) \<rparr> \<rparr> \<rparr>"

lemma dead_env_simps [simp]:
  "mx_lib dead_env = plain_mqtt_lib"
  "mx_checked_send dead_env p c = ([EvRequestSendPacket p], c)"
  "mx_acquire_packet_id dead_env c = (Inr c, c + 1)"
  by (simp_all add: dead_env_def tape_env_def)

lemma dead_write_packet:
  "write_packet dead_env [] p st =
     (Inl (''failed to write MQTT packet: '' @ net_error_debug NetClosed), st)"
  by (simp add: write_packet_def fl_bind_def fl_run on_world_def dead_env_def tape_env_def tape_net_def
      write_all_socket_def write_all_loop.simps)

lemma dead_replay_request:
  "\<exists>e session' d'. replay_request (tape_stack dead_env n) tape_publish (session, d) = (Inl e, session', d')"
  by (simp add: replay_request_def on_session_def request_and_read_def send_packet_request_def
      assign_runtime_packet_id_def tape_publish_def plain_publish_packet_def
      rebuild_with_packet_id_def plain_mqtt_lib_def mqtt_send_packet_def mqtt_connection_send_def
      handle_connection_events_def handle_event_def dead_write_packet upd_session_def
      fl_bind_def fl_run Let_def)

theorem replay_failure_loses_queue_witness:
  "\<exists>e session' d'. replay_recovery_state (tape_stack dead_env 1)
       (io_session tape_io, (mqtt_driver_new [])\<lparr> md_recovery_queue := [tape_publish] \<rparr>) =
       (Inl e, session', d') \<and> md_recovery_queue d' = []"
proof -
  let ?d = "(mqtt_driver_new [])\<lparr> md_recovery_queue := [tape_publish] \<rparr>"
  have free: "free_lock (tape_stack dead_env 1)"
    by (simp add: free_lock_def dead_env_def tape_env_def)
  have wanted: "fl_concat_map (replay_request (tape_stack dead_env 1))
      (wanted_requests (tape_stack dead_env 1) ?d) (io_session tape_io, ?d) =
      (Inr [], io_session tape_io, ?d)"
    by (simp add: wanted_requests_def mqtt_driver_new_def)
  obtain e session' d' where
    "replay_request (tape_stack dead_env 1) tape_publish (io_session tape_io, with_queue [] ?d) =
      (Inl e, session', d')"
    using dead_replay_request by blast
  then have run: "replay_recovery_state (tape_stack dead_env 1) (io_session tape_io, ?d) =
      (Inl e, session', d')"
    using wanted by (simp add: replay_passes free fl_bind_def)
  from replay_failure_loses_queue [OF free wanted run] run show ?thesis by blast
qed

definition shared_unsubscribe :: command where
  "shared_unsubscribe = plain_publish\<lparr> cmd_intent := Unsubscribe plain_channel \<rparr>"

definition shared_unsubscribe_packet :: unsubscribe5 where
  "shared_unsubscribe_packet =
     \<lparr> us_packet_id = 1, us_entries = [''plant/7''],
       us_props = [PrUserProperty ''ferredge-command-id'' ''cmd-1''] \<rparr>"

lemma shared_unsubscribe_request:
  "mqtt_native_packet_request plain_mqtt_lib (plain_mqtt_device V5_0) shared_unsubscribe =
     Inr \<lparr> pr_command_id = CommandId ''cmd-1'', pr_packet = V5Unsubscribe shared_unsubscribe_packet \<rparr>"
  by (simp add: mqtt_native_packet_request_def mqtt_plan_native_def mqtt_encode_native_def
      packet_semantics_from_native_plan_def subscription_view_from_unsubscribe_def
      build_packet_request_def build_unsubscribe_packet_def build_v5_unsubscribe_props_def
      build_props_def topic_of_channel_def mqtt_topic_from_subscription_parts_def
      shared_unsubscribe_def shared_unsubscribe_packet_def plain_publish_defs)

theorem shared_unsubscribe_keeps_intent_witness:
  "\<exists>d'. fl_for (track_subscription_intent (tape_stack tape_env 1))
       [tape_subscribe,
        \<lparr> pr_command_id = CommandId ''cmd-1'', pr_packet = V5Unsubscribe shared_unsubscribe_packet \<rparr>]
       (mqtt_driver_new []) = (Inr (), d') \<and>
     md_desired_subscriptions d' ''$share/team/plant/7'' = Some tape_subscribe"
proof -
  let ?u = "\<lparr> pr_command_id = CommandId ''cmd-1'',
              pr_packet = V5Unsubscribe shared_unsubscribe_packet \<rparr>"
  obtain d' where run: "fl_for (track_subscription_intent (tape_stack tape_env 1))
      [tape_subscribe, ?u] (mqtt_driver_new []) = (Inr (), d')"
    by (simp add: track_subscription_intent_def tape_subscribe_key shared_unsubscribe_packet_def
        list_first_def fl_bind_def fl_run)
  from shared_unsubscribe_keeps_intent [OF plain_mqtt_lib_honest
      shared_subscribe_request [folded tape_subscribe_def] _ _ shared_unsubscribe_request _ run,
      of plain_channel _ "''team''"]
  have "md_desired_subscriptions d' ''$share/team/plant/7'' = Some tape_subscribe"
    by (simp add: shared_subscribe_def shared_unsubscribe_def plain_channel_def)
  with run show ?thesis by simp
qed

end
