(* ===== verification/Mqtt_Connack.thy ===== *)
theory Mqtt_Connack
  imports Mqtt_Session
begin

text \<open>
  The CONNACK on record while a session is used (\<open>runtime.rs\<close>): which packets of a read of the socket
  reach the negotiated record, and that nothing else a session operation does touches it or the
  session's socket.  The driver's connecting loop is explained over these lemmas.
\<close>

text \<open>
  The CONNACK on record: handling the events of a receive puts the snapshot of the last CONNACK
  among the packets received there, and nothing else touches it.
\<close>

definition latest_connack ::
  "mqtt_connack_properties option \<Rightarrow> mqtt_packet list \<Rightarrow> mqtt_connack_properties option" where
  "latest_connack k packets =
     fold (\<lambda>p k. case connack_snapshot p of Some s \<Rightarrow> Some s | None \<Rightarrow> k) packets k"

lemma latest_connack_simps:
  "latest_connack k [] = k"
  "latest_connack k (ps @ qs) = latest_connack (latest_connack k ps) qs"
  "latest_connack k [p] = (case connack_snapshot p of Some s \<Rightarrow> Some s | None \<Rightarrow> k)"
  by (simp_all add: latest_connack_def)

lemma latest_connack_cases:
  "latest_connack k ps = k \<or> (\<exists>p \<in> set ps. latest_connack k ps = connack_snapshot p)"
  by (induction ps rule: rev_induct) (auto simp: latest_connack_simps split: option.split)

lemma latest_connack_kept: "k \<noteq> None \<Longrightarrow> latest_connack k ps \<noteq> None"
  by (induction ps rule: rev_induct) (auto simp: latest_connack_simps split: option.splits)

definition same_cells :: "('w, 'h, 'c) mqtt_io \<Rightarrow> ('w, 'h, 'c) mqtt_io \<Rightarrow> bool" where
  "same_cells st st' \<longleftrightarrow>
     ms_stream (io_session st') = ms_stream (io_session st) \<and> io_connack st' = io_connack st"

lemma same_cells_trans: "same_cells a b \<Longrightarrow> same_cells b c \<Longrightarrow> same_cells a c"
  by (simp add: same_cells_def)

lemma write_packet_cells: "write_packet env what p st = (Inr u, st') \<Longrightarrow> same_cells st st'"
  by (drule write_packet_state) (auto simp: same_cells_def)

lemma mqtt_lock_cells: "mqtt_lock env what st = (r, st') \<Longrightarrow> same_cells st st'"
  by (auto simp: mqtt_lock_def on_world_def same_cells_def Let_def split: prod.splits)

lemma outbound_auth_cells:
  "process_outbound_auth_events env events st = (Inr u, st') \<Longrightarrow> same_cells st st'"
  unfolding process_outbound_auth_events_def
proof (induction events arbitrary: st)
  case (Cons e es)
  then obtain v s1 where e: "outbound_auth_event env e st = (Inr v, s1)"
    and es: "fl_for (outbound_auth_event env) es s1 = (Inr u, st')"
    by (auto simp: fl_bind_eq_Inr)
  have "same_cells st s1"
    using e by (cases e) (auto simp: outbound_auth_event_def fl_run same_cells_def
        dest: write_packet_cells [unfolded same_cells_def])
  with Cons.IH [OF es] show ?case by (metis same_cells_trans)
qed (simp add: same_cells_def)

lemma incoming_auth_cells:
  assumes "process_incoming_auth env p st = (Inr u, st')"
  shows "same_cells st st'"
proof (cases "\<exists>packet. p = V5_0Auth packet")
  case True
  then obtain packet where "p = V5_0Auth packet" by blast
  then obtain s answer s1 response s2 events s3 v where
    "mqtt_lock env ''MQTT auth handler'' (st\<lparr> io_session := s \<rparr>) = (Inr v, s1)"
    "ms_stream s = ms_stream (io_session st)"
    "build_auth_packet (mx_lib env) response s1 = (Inr answer, s2)"
    "mqtt_connection_send env answer s2 = (Inr events, s3)"
    "process_outbound_auth_events env events s3 = (Inr u, st')"
    using assms
    by (auto simp: process_incoming_auth_def auth_challenge_from_auth_eq fl_bind_eq_Inr fl_run
        upd_session_def split: option.splits)
  then show ?thesis
    by (auto simp: build_auth_packet_eq mqtt_connection_send_def same_cells_def Let_def
        split: prod.splits dest!: mqtt_lock_cells outbound_auth_cells)
next
  case False
  then show ?thesis
    using assms by (cases p) (auto simp: process_incoming_auth_def fl_run same_cells_def)
qed

lemma negotiated_update:
  assumes "update_negotiated_connack env p st = (Inr u, st')"
  shows "ms_stream (io_session st') = ms_stream (io_session st) \<and>
    io_connack st' = latest_connack (io_connack st) [p]"
  using assms
  by (auto simp: update_negotiated_connack_def fl_bind_eq_Inr fl_run latest_connack_simps same_cells_def
      split: option.splits dest!: mqtt_lock_cells)

lemma handle_event_connack:
  assumes "handle_event env negotiating authenticating event st = (Inr routed, st')"
  shows "ms_stream (io_session st') = ms_stream (io_session st) \<and>
    io_connack st' =
      (if negotiating then latest_connack (io_connack st) (received_packets [event]) else io_connack st)"
proof (cases event)
  case (EvRequestSendPacket p)
  then show ?thesis
    using assms
    by (auto simp: handle_event_def fl_bind_eq_Inr fl_run received_packets_def latest_connack_simps
        same_cells_def dest!: write_packet_cells)
next
  case (EvNotifyPacketReceived p)
  then obtain u s1 v s2 where
    u: "(if negotiating then update_negotiated_connack env p else fl_return ()) st = (Inr u, s1)"
    and v: "(if authenticating then process_incoming_auth env p else fl_return ()) s1 = (Inr v, s2)"
    and d: "decode_received p s2 = (Inr routed, st')"
    using assms by (auto simp: handle_event_def fl_bind_eq_Inr)
  have "same_cells s1 s2"
    using v incoming_auth_cells [of env p s1 v s2] by (auto simp: fl_run same_cells_def split: if_splits)
  moreover have "ms_stream (io_session s1) = ms_stream (io_session st) \<and>
      io_connack s1 = (if negotiating then latest_connack (io_connack st) [p] else io_connack st)"
    using u negotiated_update [of env p st u s1] by (auto simp: fl_run split: if_splits)
  ultimately show ?thesis
    using d by (auto simp: decode_received_eq same_cells_def EvNotifyPacketReceived received_packets_def)
qed (use assms in \<open>auto simp: handle_event_def fl_run received_packets_def latest_connack_simps\<close>)

lemma handle_events_connack:
  "handle_connection_events env negotiating authenticating events st = (Inr routed, st') \<Longrightarrow>
    ms_stream (io_session st') = ms_stream (io_session st) \<and>
    io_connack st' =
      (if negotiating then latest_connack (io_connack st) (received_packets events) else io_connack st)"
  unfolding handle_connection_events_def
proof (induction events arbitrary: st routed)
  case Nil
  then show ?case by (simp add: received_packets_def latest_connack_simps)
next
  case (Cons e es)
  then obtain ms ms' s1 where e: "handle_event env negotiating authenticating e st = (Inr ms, s1)"
    and es: "fl_concat_map (handle_event env negotiating authenticating) es s1 = (Inr ms', st')"
    by (auto simp: fl_bind_eq_Inr fl_run)
  have "received_packets (e # es) = received_packets [e] @ received_packets es"
    by (simp add: received_packets_def)
  then show ?case
    using handle_event_connack [OF e] Cons.IH [OF es] by (simp add: latest_connack_simps)
qed

lemma keepalive_cells:
  assumes "send_keepalive_ping_if_due env st = (Inr u, st')"
  shows "same_cells st st'"
proof -
  have now: "same_cells s s'" if "mqtt_now env s = (r, s')" for r s s'
    using that by (auto simp: mqtt_now_def on_world_def same_cells_def Let_def split: prod.splits)
  have sent: "same_cells s s'" if "mqtt_connection_send env p s = (r, s')" for p r s s'
    using that by (auto simp: mqtt_connection_send_def same_cells_def Let_def split: prod.splits)
  show ?thesis
    using assms
    by (auto simp: send_keepalive_ping_if_due_def fl_bind_eq_Inr fl_run upd_session_def same_cells_def
        split: option.splits if_splits
        dest!: now [unfolded same_cells_def] sent [unfolded same_cells_def] handle_events_connack)
qed

text \<open>
  \<open>read_gives sk session d packets\<close>: a read of the session's socket, in the world of \<open>d\<close>, delivers a
  chunk in which the connection recognises these packets.
\<close>

definition read_gives ::
  "('w, 'h, 'c) mqtt_env \<Rightarrow> duration option \<Rightarrow> ('h, 'c) mqtt_session \<Rightarrow> 'w \<Rightarrow> mqtt_packet list \<Rightarrow> bool" where
  "read_gives env timeout session w packets \<longleftrightarrow>
     (\<exists>w1 chunk w2. tn_set_read_timeout (mx_net env) (ms_stream session) timeout w = (Inr (), w1) \<and>
        st_read (tn_io (mx_net env)) (ms_stream session) 4096 w1 = (Inr chunk, w2) \<and> chunk \<noteq> [] \<and>
        packets = received_packets (fst (mx_recv env chunk (ms_connection session))))"

lemma read_from_session_connack:
  assumes "read_from_session env True authenticating timeout st = (Inr messages, st')"
  shows "ms_stream (io_session st') = ms_stream (io_session st) \<and>
    (io_connack st' = io_connack st \<or>
     (\<exists>packets. read_gives env timeout (io_session st) (io_world st) packets \<and>
        io_connack st' = latest_connack (io_connack st) packets))"
proof -
  let ?h = "ms_stream (io_session st)"
  obtain w1 where t: "tn_set_read_timeout (mx_net env) ?h timeout (io_world st) = (Inr (), w1)"
    using assms
    by (auto simp: read_from_session_def mqtt_set_read_timeout_def fl_bind_eq_Inr fl_run on_world_def
        Let_def io_step_eq_Inr split: prod.splits)
  obtain r w2 where r: "st_read (tn_io (mx_net env)) ?h 4096 w1 = (r, w2)" by fastforce
  have rest: "(case r of
       Inr chunk \<Rightarrow>
         if chunk = [] then fl_fail ''mqtt stream closed''
         else
           fl_bind (mqtt_now env) (\<lambda>now.
           fl_bind (upd_session (\<lambda>s. s\<lparr> ms_last_activity := now, ms_awaiting_pingresp := False \<rparr>))
             (\<lambda>_.
           fl_bind (fl_get (\<lambda>st. mx_recv env chunk (ms_connection (io_session st))))
             (\<lambda>(events, c).
           fl_bind (upd_session (\<lambda>s. s\<lparr> ms_connection := c \<rparr>)) (\<lambda>_.
           handle_connection_events env True authenticating events))))
     | Inl e \<Rightarrow>
         if e = NetTimedOut
         then fl_bind (send_keepalive_ping_if_due env) (\<lambda>_. fl_return [])
         else fl_fail (''failed reading MQTT stream: '' @ net_error_debug e))
      (st\<lparr> io_world := w2 \<rparr>) = (Inr messages, st')"
    using assms t r
    by (simp add: read_from_session_def mqtt_set_read_timeout_def fl_bind_def fl_run on_world_def
        io_step_def)
  show ?thesis
  proof (cases r)
    case (Inl e)
    with rest obtain u where "send_keepalive_ping_if_due env (st\<lparr> io_world := w2 \<rparr>) = (Inr u, st')"
      by (auto simp: fl_bind_eq_Inr fl_run split: if_splits)
    then show ?thesis by (auto dest!: keepalive_cells simp: same_cells_def)
  next
    case (Inr chunk)
    obtain events c where ev: "mx_recv env chunk (ms_connection (io_session st)) = (events, c)"
      by fastforce
    from rest Inr obtain s1 where "chunk \<noteq> []"
      and "handle_connection_events env True authenticating events s1 = (Inr messages, st')"
      and "ms_stream (io_session s1) = ?h" "io_connack s1 = io_connack st"
      using ev
      by (auto simp: fl_bind_eq_Inr fl_run upd_session_def mqtt_now_def on_world_def Let_def
          split: if_splits prod.splits)
    moreover from this have "read_gives env timeout (io_session st) (io_world st) (received_packets events)"
      using t r Inr ev unfolding read_gives_def by fastforce
    ultimately show ?thesis using handle_events_connack by fastforce
  qed
qed

end
