(* ===== verification/Mqtt_Driver.thy ===== *)
theory Mqtt_Driver
  imports Mqtt_Recovery Mqtt_Connack
begin

text \<open>
  The MQTT driver (\<open>lib.rs\<close>): connecting, publishing, subscribing and unsubscribing, directly or
  through the listener, the listener's loop with its reconnects, and starting and stopping it.

  Loops that may run for ever are partial functions into \<open>option\<close>: not returning is \<open>None\<close>.
\<close>

type_synonym ('w, 'h, 'c, 'a) driver_loop = "(('w, 'h, 'c) mqtt_driver, 'a) looping"

section \<open>Connecting\<close>

text \<open>One read of the connecting loop: the session, and whether the broker's CONNACK is known.\<close>

definition connack_verdict :: "mqtt_connack_properties \<Rightarrow> string + unit" where
  "connack_verdict connack =
     (if ck_reason_code connack = Some ''Success'' then Inr ()
      else Inl (''mqtt connect rejected: '' @
             unwrap_or (ck_reason_string connack) (unwrap_or (ck_reason_code connack) [])))"

definition connect_read ::
  "('w, 'h, 'c) mqtt_stack \<Rightarrow> ('h, 'c) mqtt_session \<Rightarrow> ('w, 'h, 'c) mqtt_driver \<Rightarrow>
   (string + unit option) \<times> ('h, 'c) mqtt_session \<times> ('w, 'h, 'c) mqtt_driver" where
  "connect_read sk session d =
     (let (r, session, d) = on_session
            (read_from_session (sk_env sk) True True (Some (millis MQTT_CONNECT_IO_TIMEOUT_MS)))
            session d
      in case r of
           Inl e \<Rightarrow> (Inl e, session, d)
         | Inr _ \<Rightarrow>
             let (negotiated, d) = negotiated_connack sk d
             in (and_then negotiated (\<lambda>connack.
                   case connack of
                     None \<Rightarrow> Inr None
                   | Some k \<Rightarrow> map_ok Some (connack_verdict k)), session, d))"

partial_function (option) await_connack ::
  "('w, 'h, 'c) mqtt_stack \<Rightarrow> ('h, 'c) mqtt_session \<Rightarrow> ('w, 'h, 'c) mqtt_driver \<Rightarrow>
   ((string + ('h, 'c) mqtt_session) \<times> ('w, 'h, 'c) mqtt_driver) option" where
  "await_connack sk session d =
     (case connect_read sk session d of
        (Inl e, session, d) \<Rightarrow> Some (Inl e, d)
      | (Inr (Some _), session, d) \<Rightarrow> Some (Inr session, d)
      | (Inr None, session, d) \<Rightarrow> await_connack sk session d)"

text \<open>The socket, its timeouts, the new session and the CONNECT packet.\<close>

definition open_stream :: "('w, 'h, 'c) mqtt_stack \<Rightarrow> ('w, 'h, 'c, 'h) driver_op" where
  "open_stream sk d =
     (let net = mx_net (sk_env sk); config = dev_endpoint (sk_device sk);
          timeout = Some (millis MQTT_CONNECT_IO_TIMEOUT_MS);
          (r, w) =
            io_step (\<lambda>e. ''failed to connect to MQTT broker: '' @ net_error_debug e)
              (tn_connect net (normalize_broker_addr (me_broker config)) (md_world d)) (\<lambda>h w.
            io_step (\<lambda>e. ''failed to set MQTT read timeout: '' @ net_error_debug e)
              (tn_set_read_timeout net h timeout w) (\<lambda>_ w.
            io_step (\<lambda>e. ''failed to set MQTT write timeout: '' @ net_error_debug e)
              (tn_set_write_timeout net h timeout w) (\<lambda>_ w. (Inr h, w))))
      in (r, d\<lparr> md_world := w \<rparr>))"

definition new_session ::
  "('w, 'h, 'c) mqtt_stack \<Rightarrow> 'h \<Rightarrow> ('w, 'h, 'c, ('h, 'c) mqtt_session) driver_op" where
  "new_session sk stream d =
     (let config = dev_endpoint (sk_device sk); version = preferred_protocol_version config;
          (now, w) = mx_now (sk_env sk) (md_world d)
      in (Inr \<lparr> ms_stream = stream, ms_connection = mx_new_connection (sk_env sk) version,
                ms_protocol_version = version, ms_keepalive_secs = me_keepalive_secs config,
                ms_last_activity = now, ms_awaiting_pingresp = False,
                ms_inbound_decoder = mqtt_inbound_decoder_new (dev_id (sk_device sk)),
                ms_authentication_method = cp_authentication_method (me_connect_properties config) \<rparr>,
          d\<lparr> md_world := w \<rparr>))"

definition send_connect ::
  "('w, 'h, 'c) mqtt_stack \<Rightarrow> mqtt_packet \<Rightarrow> ('h, 'c) mqtt_session \<Rightarrow>
   ('w, 'h, 'c, ('h, 'c) mqtt_session) driver_op" where
  "send_connect sk connect_packet session d =
     (let (r, session, d) = on_session
            (fl_bind (mqtt_connection_send (sk_env sk) connect_packet)
               (handle_connection_events (sk_env sk) True True)) session d
      in (map_ok (\<lambda>_. session) r, d))"

definition open_session ::
  "('w, 'h, 'c) mqtt_stack \<Rightarrow> ('w, 'h, 'c, ('h, 'c) mqtt_session) driver_op" where
  "open_session sk =
     fl_bind (open_stream sk) (\<lambda>stream.
     fl_bind (fl_lift (build_connect_packet (mx_lib (sk_env sk)) (dev_endpoint (sk_device sk))))
       (\<lambda>connect_packet.
     fl_bind (new_session sk stream) (send_connect sk connect_packet)))"

definition ensure_connected :: "('w, 'h, 'c) mqtt_stack \<Rightarrow> ('w, 'h, 'c, unit) driver_loop" where
  "ensure_connected sk =
     lp_bind (lp_run (md_locked sk ''MQTT session'' (fl_get md_session))) (\<lambda>existing.
     case existing of
       Some _ \<Rightarrow> lp_return ()
     | None \<Rightarrow>
         lp_bind (lp_run (open_session sk)) (\<lambda>session.
         lp_bind (await_connack sk session) (\<lambda>session.
         lp_run (md_locked sk ''MQTT session'' (fl_modify (\<lambda>d.
           if md_session d = None then d\<lparr> md_session := Some session \<rparr> else d))))))"

section \<open>Commands for the listener\<close>

partial_function (option) await_response ::
  "('w, 'h, 'c) mqtt_stack \<Rightarrow> nat \<Rightarrow> duration \<Rightarrow> ('w, 'h, 'c) mqtt_driver \<Rightarrow>
   ((string + session_command_result) \<times> ('w, 'h, 'c) mqtt_driver) option" where
  "await_response sk rx start d =
     (case sk_try_recv_response sk rx d of
        (Inr result, d) \<Rightarrow> Some (result, d)
      | (Inl e, d) \<Rightarrow>
          if e = ChEmpty then
            (case mx_now (sk_env sk) (md_world d) of
               (now, w) \<Rightarrow>
                 if millis MQTT_LISTENER_COMMAND_TIMEOUT_MS \<le> now - start
                 then Some (Inl ''MQTT listener command timed out'', d\<lparr> md_world := w \<rparr>)
                 else await_response sk rx start
                        (sk_sleep sk (millis MQTT_SESSION_WAIT_POLL_MS) (d\<lparr> md_world := w \<rparr>)))
          else if e = ChClosed
          then Some (Inl ''MQTT listener command response channel closed'', d)
          else Some (Inl ''MQTT listener command response unavailable'', d))"

definition send_listener_command ::
  "('w, 'h, 'c) mqtt_stack \<Rightarrow> session_command \<Rightarrow>
   ('w, 'h, 'c, session_command_result) driver_loop" where
  "send_listener_command sk command =
     lp_bind (lp_run (md_locked sk ''MQTT listener command sender'' (\<lambda>d.
       (ok_or ''MQTT listener command path is not initialized'' (md_command_sender d), d)))) (\<lambda>sender.
     lp_bind (lp_run (\<lambda>d. let (ch, w) = sk_channel sk 1 (md_world d)
                          in (Inr ch, d\<lparr> md_world := w \<rparr>))) (\<lambda>rx.
     lp_bind (lp_run (\<lambda>d.
       let (r, d) = sk_send_command sk sender (command\<lparr> sc_response := Some rx \<rparr>) d
       in (map_err (\<lambda>_. ''failed to send MQTT command to listener'') r, d))) (\<lambda>_.
     lp_bind (lp_run (\<lambda>d. let (now, w) = mx_now (sk_env sk) (md_world d)
                          in (Inr now, d\<lparr> md_world := w \<rparr>))) (\<lambda>start.
     await_response sk rx start))))"

partial_function (option) take_session_wait ::
  "('w, 'h, 'c) mqtt_stack \<Rightarrow> ('w, 'h, 'c) mqtt_driver \<Rightarrow>
   ((string + ('h, 'c) mqtt_session) \<times> ('w, 'h, 'c) mqtt_driver) option" where
  "take_session_wait sk d =
     (case md_lock sk ''MQTT session'' d of
        (Inl e, d) \<Rightarrow> Some (Inl e, d)
      | (Inr _, d) \<Rightarrow>
          (case md_session d of
             Some session \<Rightarrow> Some (Inr session, d\<lparr> md_session := None \<rparr>)
           | None \<Rightarrow>
               if \<not> md_listener_running d then Some (Inl ''MQTT session not initialized'', d)
               else take_session_wait sk (sk_sleep sk (millis MQTT_SESSION_WAIT_POLL_MS) d)))"

section \<open>Publish, subscribe, unsubscribe\<close>

text \<open>What the three operations do without a listener, up to the messages received.\<close>

definition settle_direct ::
  "('w, 'h, 'c) mqtt_stack \<Rightarrow> mqtt_packet_request \<Rightarrow> ('h, 'c) mqtt_session \<Rightarrow>
   ('w, 'h, 'c, routed_message list option) driver_op" where
  "settle_direct sk request session d =
     (case on_session (request_and_read (sk_env sk) True request) session d of
        (Inr messages, session, d) \<Rightarrow>
          fl_bind (restore_session sk session) (\<lambda>_. fl_return (Some messages)) d
      | (Inl e, session, d) \<Rightarrow>
          fl_bind (clear_session sk) (\<lambda>_.
          fl_bind (fl_get md_listener_running) (\<lambda>running.
          if running
          then fl_bind (fl_ignore (enqueue_recovery_request sk request)) (\<lambda>_. fl_return None)
          else fl_fail e)) d)"

definition direct_request ::
  "('w, 'h, 'c) mqtt_stack \<Rightarrow> mqtt_packet_request \<Rightarrow>
   ('w, 'h, 'c, routed_message list option) driver_loop" where
  "direct_request sk request =
     lp_bind (ensure_connected sk) (\<lambda>_.
     lp_bind (take_session_wait sk) (\<lambda>session.
     lp_run (settle_direct sk request session)))"

text \<open>What they do with one: \<open>None\<close> says that the request waits in the recovery queue.\<close>

definition listener_request ::
  "('w, 'h, 'c) mqtt_stack \<Rightarrow> session_command_kind \<Rightarrow> mqtt_packet_request \<Rightarrow>
   ('w, 'h, 'c, session_command_result option) driver_loop" where
  "listener_request sk kind request d =
     (case send_listener_command sk \<lparr> sc_kind = kind, sc_response = None \<rparr> d of
        None \<Rightarrow> None
      | Some (Inr result, d) \<Rightarrow> Some (Inr (Some result), d)
      | Some (Inl e, d) \<Rightarrow>
          (case enqueue_recovery_request sk request d of
             (Inr _, d) \<Rightarrow> Some (Inr None, d)
           | (Inl _, d) \<Rightarrow> Some (Inl e, d)))"


definition forward_event ::
  "('w, 'h, 'c) mqtt_stack \<Rightarrow> routed_event \<Rightarrow> ('w, 'h, 'c, unit) driver_op" where
  "forward_event sk event d =
     (let (ok, w) = sk_sink sk event (md_world d)
      in (if ok then Inr () else Inl ''failed to forward MQTT event to sink'', d\<lparr> md_world := w \<rparr>))"

definition mqtt_subscribe ::
  "('w, 'h, 'c) mqtt_stack \<Rightarrow> mqtt_packet_request \<Rightarrow> ('w, 'h, 'c, unit) driver_loop" where
  "mqtt_subscribe sk request =
     lp_bind (lp_run (track_subscription_intent sk request)) (\<lambda>_.
     lp_bind (lp_run (fl_get md_listener_running)) (\<lambda>running.
     if running
     then lp_bind (listener_request sk (ScSubscribe request) request) (\<lambda>result.
       case result of
         Some (ScEvents events) \<Rightarrow> lp_run (fl_for (forward_event sk) events)
       | _ \<Rightarrow> lp_return ())
     else lp_bind (direct_request sk request) (\<lambda>messages.
       case messages of
         Some ms \<Rightarrow> lp_run (fl_for (forward_event sk) (events_of ms))
       | None \<Rightarrow> lp_return ())))"

definition mqtt_unsubscribe ::
  "('w, 'h, 'c) mqtt_stack \<Rightarrow> mqtt_packet_request \<Rightarrow> ('w, 'h, 'c, unit) driver_loop" where
  "mqtt_unsubscribe sk request =
     lp_bind (lp_run (track_subscription_intent sk request)) (\<lambda>_.
     lp_bind (lp_run (fl_get md_listener_running)) (\<lambda>running.
     if running
     then lp_bind (listener_request sk (ScUnsubscribe request) request) (\<lambda>_. lp_return ())
     else lp_bind (direct_request sk request) (\<lambda>_. lp_return ())))"

section \<open>The listener\<close>

definition process_session_command ::
  "('w, 'h, 'c) mqtt_stack \<Rightarrow> ('h, 'c) mqtt_session \<Rightarrow> session_command \<Rightarrow>
   ('w, 'h, 'c) mqtt_driver \<Rightarrow>
   (string + unit) \<times> ('h, 'c) mqtt_session \<times> ('w, 'h, 'c) mqtt_driver" where
  "process_session_command sk session command d =
     (let request = (case sc_kind command of
                       ScPublish r \<Rightarrow> r | ScSubscribe r \<Rightarrow> r | ScUnsubscribe r \<Rightarrow> r);
          (r, session, d) = on_session (request_and_read (sk_env sk) False request) session d;
          response = map_ok (\<lambda>messages.
            case sc_kind command of
              ScSubscribe _ \<Rightarrow> ScEvents (events_of messages)
            | _ \<Rightarrow> ScDone) r;
          d = (case sc_response command of
                 Some tx \<Rightarrow> d\<lparr> md_world := sk_send_response sk tx response (md_world d) \<rparr>
               | None \<Rightarrow> d)
      in (map_ok (\<lambda>_. ()) response, session, d))"

definition fail_listener ::
  "('w, 'h, 'c) mqtt_stack \<Rightarrow> string \<Rightarrow> ('w, 'h, 'c) mqtt_driver \<Rightarrow> ('w, 'h, 'c) mqtt_driver" where
  "fail_listener sk error d =
     (broadcast_to_subscribers sk (LsFailed error)
       (if_locked sk (\<lambda>d. d\<lparr> md_listener_error := Some error \<rparr>) d))"

text \<open>
  The reconnect loop: \<open>Inr\<close> the events of the replay once a session is back in its cell, \<open>Inl\<close> the
  last error when the policy or a stop ends it; with it the number of attempts made.
\<close>

partial_function (option) reconnect_loop ::
  "('w, 'h, 'c) mqtt_stack \<Rightarrow> u32 \<Rightarrow> string \<Rightarrow> ('w, 'h, 'c) mqtt_driver \<Rightarrow>
   ((string + routed_event list) \<times> u32 \<times> ('w, 'h, 'c) mqtt_driver) option" where
  "reconnect_loop sk attempt error d =
     (if \<not> md_listener_running d then Some (Inl error, attempt, d)
      else if \<not> allows_attempt (reconnect_config sk) (sat_add attempt 1)
      then Some (Inl error, sat_add attempt 1, d)
      else
        (case sk_sleep sk
                (millis (unat (delay_ms_for_attempt (reconnect_config sk) (sat_add attempt 1)))) d of
           d \<Rightarrow>
             if \<not> md_listener_running d then Some (Inl error, sat_add attempt 1, d)
             else
               (case ensure_connected sk d of
                  None \<Rightarrow> None
                | Some (Inl e, d) \<Rightarrow> reconnect_loop sk (sat_add attempt 1) e d
                | Some (Inr _, d) \<Rightarrow>
                    (case md_lock sk ''MQTT session after reconnect'' d of
                       (Inl e, d) \<Rightarrow> reconnect_loop sk (sat_add attempt 1) e d
                     | (Inr _, d) \<Rightarrow>
                         (case md_session d of
                            None \<Rightarrow>
                              reconnect_loop sk (sat_add attempt 1)
                                ''MQTT session missing after reconnect'' d
                          | Some session \<Rightarrow>
                              (case replay_recovery_state sk (session, d\<lparr> md_session := None \<rparr>) of
                                 (Inl e, _, d) \<Rightarrow>
                                   reconnect_loop sk (sat_add attempt 1) e
                                     (if_locked sk (\<lambda>d. d\<lparr> md_session := None \<rparr>) d)
                               | (Inr events, session, d) \<Rightarrow>
                                   Some (Inr events, sat_add attempt 1,
                                     if_locked sk (\<lambda>d. d\<lparr> md_session := Some session \<rparr>) d)))))))"

text \<open>How an iteration of the listening loop ends: with another one, or the end of the loop.\<close>

datatype listen_next = ListenAgain u32 | ListenBreak

definition clear_error_cell ::
  "('w, 'h, 'c) mqtt_stack \<Rightarrow> ('w, 'h, 'c) mqtt_driver \<Rightarrow> ('w, 'h, 'c) mqtt_driver" where
  "clear_error_cell sk = if_locked sk (\<lambda>d. d\<lparr> md_listener_error := None \<rparr>)"

text \<open>A loop that forwards events, and stops the listener when the sink refuses one.\<close>

definition forward_or_fail ::
  "('w, 'h, 'c) mqtt_stack \<Rightarrow> routed_event list \<Rightarrow> ('w, 'h, 'c) mqtt_driver \<Rightarrow>
   bool \<times> ('w, 'h, 'c) mqtt_driver" where
  "forward_or_fail sk events d =
     (case fl_for (forward_event sk) events d of
        (Inr _, d) \<Rightarrow> (True, d)
      | (Inl e, d) \<Rightarrow> (False, (fail_listener sk e d)\<lparr> md_listener_running := False \<rparr>))"

text \<open>The end of a branch whose reconnects were given up.\<close>

definition give_up ::
  "('w, 'h, 'c) mqtt_stack \<Rightarrow> string \<Rightarrow> ('w, 'h, 'c) mqtt_driver \<Rightarrow>
   listen_next \<times> ('w, 'h, 'c) mqtt_driver" where
  "give_up sk error d =
     (ListenBreak,
      if md_listener_running d
      then (fail_listener sk error d)\<lparr> md_listener_running := False \<rparr> else d)"

text \<open>After a failed command.\<close>

definition recover_from_command ::
  "('w, 'h, 'c) mqtt_stack \<Rightarrow> u32 \<Rightarrow> string \<Rightarrow> ('w, 'h, 'c) mqtt_driver \<Rightarrow>
   (listen_next \<times> ('w, 'h, 'c) mqtt_driver) option" where
  "recover_from_command sk attempt error d =
     (case reconnect_loop sk attempt error (if_locked sk (\<lambda>d. d\<lparr> md_session := None \<rparr>) d) of
        None \<Rightarrow> None
      | Some (Inr events, attempt, d) \<Rightarrow>
          (case forward_or_fail sk events d of
             (True, d) \<Rightarrow> Some (ListenAgain 0, clear_error_cell sk d)
           | (False, d) \<Rightarrow> Some (ListenBreak, d))
      | Some (Inl error, attempt, d) \<Rightarrow> Some (give_up sk error d))"

text \<open>After a failed read: the events of the replay are not forwarded.\<close>

definition recover_from_read ::
  "('w, 'h, 'c) mqtt_stack \<Rightarrow> u32 \<Rightarrow> string \<Rightarrow> ('w, 'h, 'c) mqtt_driver \<Rightarrow>
   (listen_next \<times> ('w, 'h, 'c) mqtt_driver) option" where
  "recover_from_read sk attempt error d =
     (case reconnect_loop sk attempt error (if_locked sk (\<lambda>d. d\<lparr> md_session := None \<rparr>) d) of
        None \<Rightarrow> None
      | Some (Inr events, attempt, d) \<Rightarrow> Some (ListenAgain 0, clear_error_cell sk d)
      | Some (Inl error, attempt, d) \<Rightarrow>
          if attempt = 0 \<and> md_listener_running d then Some (ListenAgain attempt, d)
          else Some (give_up sk error d))"

text \<open>The commands waiting in the channel: \<open>Inr\<close> the session when there is none left.\<close>

partial_function (option) drain_commands ::
  "('w, 'h, 'c) mqtt_stack \<Rightarrow> nat \<Rightarrow> u32 \<Rightarrow> ('h, 'c) mqtt_session \<Rightarrow> ('w, 'h, 'c) mqtt_driver \<Rightarrow>
   ((listen_next + ('h, 'c) mqtt_session) \<times> ('w, 'h, 'c) mqtt_driver) option" where
  "drain_commands sk rx attempt session d =
     (case sk_try_recv_command sk rx d of
        (Inl _, d) \<Rightarrow> Some (Inr session, d)
      | (Inr command, d) \<Rightarrow>
          (case process_session_command sk session command d of
             (Inr _, session, d) \<Rightarrow> drain_commands sk rx attempt session d
           | (Inl e, _, d) \<Rightarrow>
               (case recover_from_command sk attempt e d of
                  None \<Rightarrow> None
                | Some (after, d) \<Rightarrow> Some (Inl after, d))))"

text \<open>The read of an iteration.\<close>

definition listen_read ::
  "('w, 'h, 'c) mqtt_stack \<Rightarrow> u32 \<Rightarrow> ('h, 'c) mqtt_session \<Rightarrow> ('w, 'h, 'c) mqtt_driver \<Rightarrow>
   (listen_next \<times> ('w, 'h, 'c) mqtt_driver) option" where
  "listen_read sk attempt session d =
     (case on_session (read_from_session (sk_env sk) True True
                         (Some (millis MQTT_LISTENER_IDLE_POLL_MS))) session d of
        (Inr messages, session, d) \<Rightarrow>
          (case forward_or_fail sk (events_of messages)
                  (if_locked sk (\<lambda>d. d\<lparr> md_session := Some session \<rparr>) d) of
             (_, d) \<Rightarrow> Some (ListenAgain 0, d))
      | (Inl e, _, d) \<Rightarrow> recover_from_read sk attempt e d)"

definition listen_iteration ::
  "('w, 'h, 'c) mqtt_stack \<Rightarrow> nat \<Rightarrow> u32 \<Rightarrow> ('w, 'h, 'c) mqtt_driver \<Rightarrow>
   (listen_next \<times> ('w, 'h, 'c) mqtt_driver) option" where
  "listen_iteration sk rx attempt d =
     (case md_lock sk ''MQTT session while listening'' d of
        (Inl e, d) \<Rightarrow> Some (ListenBreak, fail_listener sk e d)
      | (Inr _, d) \<Rightarrow>
          (case md_session d of
             None \<Rightarrow> Some (ListenAgain attempt, sk_sleep sk (millis MQTT_SESSION_WAIT_POLL_MS) d)
           | Some session \<Rightarrow>
               (case drain_commands sk rx attempt session (d\<lparr> md_session := None \<rparr>) of
                  None \<Rightarrow> None
                | Some (Inl after, d) \<Rightarrow> Some (after, d)
                | Some (Inr session, d) \<Rightarrow> listen_read sk attempt session d)))"

partial_function (option) listen_loop ::
  "('w, 'h, 'c) mqtt_stack \<Rightarrow> nat \<Rightarrow> u32 \<Rightarrow> ('w, 'h, 'c) mqtt_driver \<Rightarrow>
   ('w, 'h, 'c) mqtt_driver option" where
  "listen_loop sk rx attempt d =
     (if \<not> md_listener_running d then Some d
      else
        (case listen_iteration sk rx attempt d of
           None \<Rightarrow> None
         | Some (ListenBreak, d) \<Rightarrow> Some d
         | Some (ListenAgain attempt, d) \<Rightarrow> listen_loop sk rx attempt d))"

text \<open>What the task does after the loop.\<close>

definition listener_exit ::
  "('w, 'h, 'c) mqtt_stack \<Rightarrow> ('w, 'h, 'c) mqtt_driver \<Rightarrow> ('w, 'h, 'c) mqtt_driver" where
  "listener_exit sk d =
     (let d = if_locked sk (\<lambda>d. d\<lparr> md_command_sender := None \<rparr>) d;
          d = d\<lparr> md_listener_running := False \<rparr>;
          (locked, d) = md_lock sk ''MQTT listener error after listener exit'' d;
          final = (case locked of
                     Inl e \<Rightarrow> LsFailed e
                   | Inr _ \<Rightarrow> (case md_listener_error d of
                                 Some error \<Rightarrow> LsFailed error
                               | None \<Rightarrow> LsStopped))
      in broadcast_to_subscribers sk final d)"

definition listener_task ::
  "('w, 'h, 'c) mqtt_stack \<Rightarrow> nat \<Rightarrow> ('w, 'h, 'c) mqtt_driver \<Rightarrow>
   ('w, 'h, 'c) mqtt_driver option" where
  "listener_task sk rx d = map_option (listener_exit sk) (listen_loop sk rx 0 d)"

section \<open>Starting and stopping\<close>

definition start_listening :: "('w, 'h, 'c) mqtt_stack \<Rightarrow> ('w, 'h, 'c, unit) driver_loop" where
  "start_listening sk =
     lp_bind (ensure_connected sk) (\<lambda>_.
     lp_run (
       fl_bind (\<lambda>d. (Inr (md_listener_running d), d\<lparr> md_listener_running := True \<rparr>)) (\<lambda>running.
       if running then fl_fail ''MQTT listener already running''
       else
         fl_bind (\<lambda>d. let (ch, w) = sk_channel sk MQTT_LISTENER_COMMAND_CHANNEL_CAPACITY (md_world d)
                      in (Inr ch, d\<lparr> md_world := w \<rparr>)) (\<lambda>ch.
         fl_bind (clear_listener_error sk) (\<lambda>_.
         fl_bind (broadcast_listener_status sk LsRunning) (\<lambda>_.
         fl_bind (md_locked sk ''MQTT listener command sender''
           (fl_modify (\<lambda>d. d\<lparr> md_command_sender := Some ch \<rparr>))) (\<lambda>_.
         fl_bind (\<lambda>d. let (task, w) = sk_spawn sk ch (md_world d)
                      in (Inr task, d\<lparr> md_world := w \<rparr>)) (\<lambda>task.
         md_locked sk ''MQTT listener handle''
           (fl_modify (\<lambda>d. d\<lparr> md_listener_handle := Some task \<rparr>))))))))))"

definition stop_listener :: "('w, 'h, 'c) mqtt_stack \<Rightarrow> ('w, 'h, 'c, unit) driver_op" where
  "stop_listener sk =
     fl_bind (fl_modify (\<lambda>d. d\<lparr> md_listener_running := False \<rparr>)) (\<lambda>_.
     fl_bind (md_locked sk ''MQTT listener command sender''
       (fl_modify (\<lambda>d. d\<lparr> md_command_sender := None \<rparr>))) (\<lambda>_.
     fl_bind (md_locked sk ''MQTT listener handle''
       (\<lambda>d. (Inr (md_listener_handle d), d\<lparr> md_listener_handle := None \<rparr>))) (\<lambda>handle.
     fl_bind
       (case handle of
          None \<Rightarrow> fl_return ()
        | Some task \<Rightarrow>
            fl_bind (\<lambda>d. let (ok, d) = sk_join sk task d in (Inr ok, d)) (\<lambda>ok.
            if ok then fl_return ()
            else md_locked sk ''MQTT listener error'' (fl_modify (\<lambda>d.
              if md_listener_error d = None
              then d\<lparr> md_listener_error := Some ''MQTT listener task panicked'' \<rparr> else d)))) (\<lambda>_.
     fl_bind (listener_status sk) (broadcast_listener_status sk)))))"

definition mqtt_start :: "('w, 'h, 'c) mqtt_stack \<Rightarrow> ('w, 'h, 'c, unit) driver_loop" where
  "mqtt_start sk = ensure_connected sk"

definition mqtt_stop :: "('w, 'h, 'c) mqtt_stack \<Rightarrow> ('w, 'h, 'c, unit) driver_op" where
  "mqtt_stop sk =
     fl_bind (stop_listener sk) (\<lambda>_.
     fl_bind (md_locked sk ''MQTT session''
       (\<lambda>d. (Inr (md_session d), d\<lparr> md_session := None \<rparr>))) (\<lambda>session.
     fl_bind
       (\<lambda>d. case session of
              None \<Rightarrow> (Inr (), d)
            | Some s \<Rightarrow> let (_, _, d) = on_session (disconnect_session (sk_env sk)) s d
                        in (Inr (), d)) (\<lambda>_.
     fl_bind (listener_status sk) (broadcast_listener_status sk))))"

section \<open>Lemmas\<close>

lemma on_session_keeps:
  assumes "on_session m session d = (r, session', d')"
  shows "md_session d' = md_session d" and "md_listener_running d' = md_listener_running d"
  using on_session_driver [OF assms] by auto

lemma md_lock_keeps:
  assumes "md_lock sk what d = (r, d')"
  shows "\<exists>w. d' = d\<lparr> md_world := w \<rparr>"
  using assms by (auto simp: md_lock_def split: prod.splits)

lemma md_locked_eq_Inr:
  "md_locked sk what m d = (Inr x, d') \<longleftrightarrow>
     (\<exists>w. md_lock sk what d = (Inr (), d\<lparr> md_world := w \<rparr>) \<and> m (d\<lparr> md_world := w \<rparr>) = (Inr x, d'))"
  by (auto simp: md_locked_def fl_bind_eq_Inr dest: md_lock_keeps)

lemma connect_read_keeps:
  assumes "connect_read sk session d = (r, session', d')"
  shows "md_session d' = md_session d" and "md_listener_running d' = md_listener_running d"
  using assms
  by (auto simp: connect_read_def negotiated_connack_def md_locked_def fl_bind_def fl_run Let_def
      split: prod.splits sum.splits dest!: md_lock_keeps on_session_driver)

lemma connect_read_accepts:
  assumes "connect_read sk session d = (Inr (Some u), session', d')"
  shows "\<exists>k. md_negotiated_connack d' = Some k \<and> ck_reason_code k = Some ''Success''"
proof -
  obtain r s1 d1 where r: "on_session (read_from_session (sk_env sk) True True
      (Some (millis MQTT_CONNECT_IO_TIMEOUT_MS))) session d = (r, s1, d1)" by (metis prod_cases3)
  obtain n d2 where n: "negotiated_connack sk d1 = (n, d2)" by fastforce
  from assms r n obtain messages k where "r = Inr messages" "n = Inr (Some k)" "d2 = d'"
    and "connack_verdict k = Inr ()"
    by (auto simp: connect_read_def and_then_eq_Inr map_ok_eq_Inr split: sum.splits option.splits)
  with n show ?thesis
    by (auto simp: negotiated_connack_def md_locked_eq_Inr fl_run connack_verdict_def
        split: if_splits)
qed

lemma open_stream_keeps:
  assumes "open_stream sk d = (r, d')"
  shows "\<exists>w. d' = d\<lparr> md_world := w \<rparr>"
proof -
  obtain r' w where "io_step (\<lambda>e. ''failed to connect to MQTT broker: '' @ net_error_debug e)
      (tn_connect (mx_net (sk_env sk))
        (normalize_broker_addr (me_broker (dev_endpoint (sk_device sk)))) (md_world d)) (\<lambda>h w.
      io_step (\<lambda>e. ''failed to set MQTT read timeout: '' @ net_error_debug e)
        (tn_set_read_timeout (mx_net (sk_env sk)) h (Some (millis MQTT_CONNECT_IO_TIMEOUT_MS)) w) (\<lambda>_ w.
      io_step (\<lambda>e. ''failed to set MQTT write timeout: '' @ net_error_debug e)
        (tn_set_write_timeout (mx_net (sk_env sk)) h (Some (millis MQTT_CONNECT_IO_TIMEOUT_MS)) w)
        (\<lambda>_ w. (Inr h, w)))) = (r', w)" by fastforce
  with assms show ?thesis by (auto simp: open_stream_def Let_def)
qed

lemma new_session_keeps:
  assumes "new_session sk h d = (r, d')"
  shows "\<exists>w. d' = d\<lparr> md_world := w \<rparr>"
  using assms by (auto simp: new_session_def Let_def split: prod.splits)

lemma send_connect_keeps:
  assumes "send_connect sk p session d = (r, d')"
  shows "\<exists>w k. d' = d\<lparr> md_world := w, md_negotiated_connack := k \<rparr>"
  using assms
  by (auto simp: send_connect_def simp del: fl_bind_steps split: prod.splits dest!: on_session_driver)

lemma open_session_keeps:
  assumes "open_session sk d = (Inr session, d')"
  shows "\<exists>w k. d' = d\<lparr> md_world := w, md_negotiated_connack := k \<rparr>"
  using assms
  by (auto simp: open_session_def fl_bind_eq_Inr fl_run
      dest!: open_stream_keeps new_session_keeps send_connect_keeps) blast


text \<open>One read of the connecting loop, and the reads after which the verdict is still open.\<close>

abbreviation connect_timeout :: "duration option" where
  "connect_timeout \<equiv> Some (millis MQTT_CONNECT_IO_TIMEOUT_MS)"

lemma connect_read_connack:
  assumes "connect_read sk session d = (Inr v, session', d')"
  shows "ms_stream session' = ms_stream session \<and>
    (md_negotiated_connack d' = md_negotiated_connack d \<or>
     (\<exists>packets. read_gives (sk_env sk) connect_timeout session (md_world d) packets \<and>
        md_negotiated_connack d' = latest_connack (md_negotiated_connack d) packets)) \<and>
    (v = None \<longleftrightarrow> md_negotiated_connack d' = None)"
proof -
  obtain r s1 d1 where r: "on_session (read_from_session (sk_env sk) True True connect_timeout)
      session d = (r, s1, d1)" by (metis prod_cases3)
  obtain n d2 where n: "negotiated_connack sk d1 = (n, d2)" by fastforce
  from assms r n obtain messages k where res: "r = Inr messages" "n = Inr k" "d2 = d'" "s1 = session'"
    and v: "v = None \<longleftrightarrow> k = None"
    by (auto simp: connect_read_def and_then_eq_Inr map_ok_eq_Inr split: sum.splits option.splits)
  obtain st where "read_from_session (sk_env sk) True True connect_timeout
      \<lparr> io_world = md_world d, io_session = session, io_connack = md_negotiated_connack d,
        io_auth = md_auth_handler d \<rparr> = (Inr messages, st)"
    and st: "s1 = io_session st" "md_negotiated_connack d1 = io_connack st"
    using r res(1) by (auto simp: on_session_def split: prod.splits)
  from read_from_session_connack [OF this(1)]
  have read: "ms_stream (io_session st) = ms_stream session"
    "io_connack st = md_negotiated_connack d \<or>
     (\<exists>packets. read_gives (sk_env sk) connect_timeout session (md_world d) packets \<and>
        io_connack st = latest_connack (md_negotiated_connack d) packets)" by simp_all
  have "k = md_negotiated_connack d'" "md_negotiated_connack d' = md_negotiated_connack d1"
    using n res by (auto simp: negotiated_connack_def md_locked_eq_Inr fl_run)
  with read v st res(4) show ?thesis by auto
qed

inductive undecided ::
  "('w, 'h, 'c) mqtt_stack \<Rightarrow> ('h, 'c) mqtt_session \<Rightarrow> ('w, 'h, 'c) mqtt_driver \<Rightarrow>
   ('h, 'c) mqtt_session \<Rightarrow> ('w, 'h, 'c) mqtt_driver \<Rightarrow> bool" for sk where
  first_read: "undecided sk session d session d"
| next_read: "connect_read sk session d = (Inr None, s1, d1) \<Longrightarrow> undecided sk s1 d1 s2 d2 \<Longrightarrow>
    undecided sk session d s2 d2"

lemma undecided_keeps:
  "undecided sk s d s' d' \<Longrightarrow> ms_stream s' = ms_stream s \<and> md_session d' = md_session d \<and>
     md_negotiated_connack d' = md_negotiated_connack d"
proof (induction rule: undecided.induct)
  case (next_read session d s1 d1 s2 d2)
  note step = connect_read_connack [OF next_read.hyps(1)]
  then have "md_negotiated_connack d1 = None" by simp
  moreover from step this have "md_negotiated_connack d = None"
    using latest_connack_kept by metis
  ultimately show ?case
    using next_read.IH step connect_read_keeps(1) [OF next_read.hyps(1)] by simp
qed simp

lemma await_connack_run:
  "await_connack sk session d = Some res \<Longrightarrow> fst res = Inr session' \<Longrightarrow>
   \<exists>s2 d2. undecided sk session d s2 d2 \<and> connect_read sk s2 d2 = (Inr (Some ()), session', snd res)"
proof (induction arbitrary: session' rule: await_connack.raw_induct [rotated, consumes 1, case_names step])
  case (step await sk session d res)
  obtain v s1 d1 where v: "connect_read sk session d = (v, s1, d1)" by (metis prod_cases3)
  show ?case
  proof (cases v)
    case (Inl e)
    with step.prems step.hyps v show ?thesis by auto
  next
    case (Inr o')
    show ?thesis
    proof (cases o')
      case None
      then have "await sk s1 d1 = Some res" using step.hyps step.prems v Inr by auto
      then obtain s2 d2 where "undecided sk s1 d1 s2 d2"
          "connect_read sk s2 d2 = (Inr (Some ()), session', snd res)"
        using step(1) step.prems by blast
      moreover from this(1) have "undecided sk session d s2 d2"
        using v Inr None by (auto intro: undecided.next_read)
      ultimately show ?thesis by blast
    next
      case (Some u)
      with step.hyps step.prems v Inr show ?thesis
        by (auto intro!: exI [of _ session] exI [of _ d] undecided.first_read)
    qed
  qed
qed

text \<open>The socket, the session on it, and the record before the first read.\<close>

lemma send_connect_connack:
  assumes "\<forall>p c. received_packets (fst (mx_checked_send (sk_env sk) p c)) = []"
    and "send_connect sk p session d = (Inr session', d')"
  shows "ms_stream session' = ms_stream session \<and>
    md_negotiated_connack d' = md_negotiated_connack d"
proof -
  obtain messages st where run: "fl_bind (mqtt_connection_send (sk_env sk) p)
      (handle_connection_events (sk_env sk) True True)
      \<lparr> io_world = md_world d, io_session = session, io_connack = md_negotiated_connack d,
        io_auth = md_auth_handler d \<rparr> = (Inr messages, st)"
    and st: "session' = io_session st" "md_negotiated_connack d' = io_connack st"
    using assms(2) by (auto simp: send_connect_def on_session_def map_ok_eq_Inr split: prod.splits)
  obtain events c where ev: "mx_checked_send (sk_env sk) p (ms_connection session) = (events, c)"
    by fastforce
  have "received_packets events = []"
    using assms(1) [rule_format, of p "ms_connection session"] ev by simp
  with run ev st show ?thesis
    by (auto simp: fl_bind_eq_Inr mqtt_connection_send_def latest_connack_simps
        dest!: handle_events_connack)
qed

lemma open_session_connack:
  assumes "\<forall>p c. received_packets (fst (mx_checked_send (sk_env sk) p c)) = []"
    and "open_session sk d = (Inr session, d')"
  shows "\<exists>w. open_stream sk d = (Inr (ms_stream session), d\<lparr> md_world := w \<rparr>) \<and>
    md_negotiated_connack d' = md_negotiated_connack d"
proof -
  obtain h d1 p s d2 where h: "open_stream sk d = (Inr h, d1)" and s: "new_session sk h d1 = (Inr s, d2)"
    and c: "send_connect sk p s d2 = (Inr session, d')"
    using assms(2) by (auto simp: open_session_def fl_bind_eq_Inr fl_run)
  have "ms_stream s = h" using s by (auto simp: new_session_def Let_def split: prod.splits)
  with send_connect_connack [OF assms(1) c] open_stream_keeps [OF h] new_session_keeps [OF s] h
  show ?thesis by auto
qed

text \<open>How a session came about that connecting opened itself.\<close>

lemma connecting_explained:
  assumes "\<forall>p c. received_packets (fst (mx_checked_send (sk_env sk) p c)) = []"
    and "ensure_connected sk d = Some (Inr u, d')" and "md_session d = None"
  shows "\<exists>w s1 d1 w1 s2 d2 session k.
    open_stream sk (d\<lparr> md_world := w \<rparr>) = (Inr (ms_stream s2), d\<lparr> md_world := w1 \<rparr>) \<and>
    open_session sk (d\<lparr> md_world := w \<rparr>) = (Inr s1, d1) \<and> undecided sk s1 d1 s2 d2 \<and>
    md_session d' = Some session \<and> ms_stream session = ms_stream s2 \<and>
    md_negotiated_connack d' = Some k \<and> ck_reason_code k = Some ''Success'' \<and>
    (md_negotiated_connack d = Some k \<or>
     (\<exists>packets p. read_gives (sk_env sk) connect_timeout s2 (md_world d2) packets \<and>
        p \<in> set packets \<and> connack_snapshot p = Some k))"
proof -
  obtain w s1 d1 session d3 where
    opened: "open_session sk (d\<lparr> md_world := w \<rparr>) = (Inr s1, d1)"
    and await: "await_connack sk s1 d1 = Some (Inr session, d3)"
    and stored: "md_locked sk ''MQTT session'' (fl_modify (\<lambda>d.
           if md_session d = None then d\<lparr> md_session := Some session \<rparr> else d)) d3 = (Inr u, d')"
    using assms(2,3) unfolding ensure_connected_def
    by (auto simp: lp_bind_eq_Inr lp_simps md_locked_eq_Inr [where m = "fl_get md_session"] fl_run)
  obtain w1 where stream: "open_stream sk (d\<lparr> md_world := w \<rparr>) = (Inr (ms_stream s1), d\<lparr> md_world := w1 \<rparr>)"
    and kept: "md_negotiated_connack d1 = md_negotiated_connack d"
    using open_session_connack [OF assms(1) opened] by auto
  have none: "md_session d1 = None" using open_session_keeps [OF opened] assms(3) by auto
  obtain s2 d2 where reads: "undecided sk s1 d1 s2 d2"
    and decided: "connect_read sk s2 d2 = (Inr (Some ()), session, d3)"
    using await_connack_run [OF await] by auto
  note before = undecided_keeps [OF reads]
  note last = connect_read_connack [OF decided]
  obtain k where k: "md_negotiated_connack d3 = Some k" "ck_reason_code k = Some ''Success''"
    using connect_read_accepts [OF decided] by blast
  have "md_negotiated_connack d = Some k \<or>
     (\<exists>packets p. read_gives (sk_env sk) connect_timeout s2 (md_world d2) packets \<and>
        p \<in> set packets \<and> connack_snapshot p = Some k)"
  proof (cases "md_negotiated_connack d3 = md_negotiated_connack d2")
    case True
    with before kept k(1) show ?thesis by simp
  next
    case False
    with last obtain packets where
      "read_gives (sk_env sk) connect_timeout s2 (md_world d2) packets"
      "md_negotiated_connack d3 = latest_connack (md_negotiated_connack d2) packets" by blast
    moreover from this False latest_connack_cases [of "md_negotiated_connack d2" packets]
    obtain p where "p \<in> set packets" "connack_snapshot p = Some k" using k(1) by auto
    ultimately show ?thesis by blast
  qed
  moreover have "md_session d3 = None"
    using connect_read_keeps(1) [OF decided] before none by simp
  then have "md_session d' = Some session" "md_negotiated_connack d' = md_negotiated_connack d3"
    using stored by (auto simp: md_locked_eq_Inr fl_run)
  moreover have "ms_stream session = ms_stream s2" "ms_stream s2 = ms_stream s1"
    using last before by simp_all
  ultimately show ?thesis using stream opened reads k by metis
qed




text \<open>The attempts left under the policy: the measure of the reconnect loop.\<close>

lemma reconnect_loop_terminates:
  assumes "rc_max_attempts (reconnect_config sk) = Some m" and "m < - 1"
    and "\<And>d. ensure_connected sk d \<noteq> None"
  shows "attempt \<le> m \<Longrightarrow>
    \<exists>r n d'. reconnect_loop sk attempt error d = Some (r, n, d') \<and> n \<le> m + 1 \<and>
      (case r of Inr _ \<Rightarrow> True
               | Inl _ \<Rightarrow> \<not> md_listener_running d' \<or> \<not> allows_attempt (reconnect_config sk) n)"
proof (induction "unat m - unat attempt" arbitrary: attempt error d rule: less_induct)
  case less
  have step: "sat_add attempt 1 = attempt + 1" "unat (attempt + 1) = unat attempt + 1"
    using less.prems assms(2)
    by (auto simp: sat_add_def word_le_nat_alt word_less_nat_alt unat_max_word unat_word_ariths)
  have le: "attempt + 1 \<le> m + 1"
    using less.prems assms(2) by (simp add: word_le_nat_alt word_less_nat_alt unat_max_word
        unat_word_ariths)
  have "attempt \<le> m + 1"
    using less.prems assms(2) by (simp add: word_le_nat_alt word_less_nat_alt unat_max_word
        unat_word_ariths)
  note le = le this
  show ?case
  proof (cases "md_listener_running d \<and> allows_attempt (reconnect_config sk) (attempt + 1)")
    case False
    with less.prems le step show ?thesis
      by (auto simp: reconnect_loop.simps [of sk attempt] intro: order_trans)
  next
    case True
    then have more: "attempt + 1 \<le> m" using assms(1) by (simp add: allows_attempt_def)
    have IH: "\<exists>r n d'. reconnect_loop sk (attempt + 1) e d1 = Some (r, n, d') \<and> n \<le> m + 1 \<and>
      (case r of Inr _ \<Rightarrow> True
               | Inl _ \<Rightarrow> \<not> md_listener_running d' \<or> \<not> allows_attempt (reconnect_config sk) n)"
      for e d1
      using more less.prems step(2)
      by (intro less.hyps) (auto simp: word_le_nat_alt)
    let ?d = "sk_sleep sk (millis (unat (delay_ms_for_attempt (reconnect_config sk) (attempt + 1)))) d"
    obtain v d2 where "ensure_connected sk ?d = Some (v, d2)"
      using assms(3) [of ?d] by fastforce
    with True le IH step(1) show ?thesis
      by (cases v)
        (simp_all add: reconnect_loop.simps [of sk attempt] split: option.split prod.split sum.split)
  qed
qed

section \<open>Properties\<close>

text \<open>C23: Connecting succeeds only with an accepted session, as far as the CONNACK on record tells.
  On an existing session it takes the lock, sends nothing and changes nothing.  Otherwise the driver
  then holds a session on the socket it opened to the broker, and the CONNACK on record has the
  reason \<open>Success\<close>; either that record was there before connecting (it is never reset, see the
  findings), or it is the snapshot of a CONNACK packet read from the new socket by the read that
  decided.  So a driver without a record connects only when the broker has accepted it.  (The
  connection is taken to report no packet as received when it is handed one to send.)\<close>

theorem connected_means_accepted:
  assumes "\<forall>p c. received_packets (fst (mx_checked_send (sk_env sk) p c)) = []"
    and "ensure_connected sk d = Some (Inr u, d')"
  shows "if md_session d \<noteq> None
    then md_lock sk ''MQTT session'' d = (Inr (), d') \<and> (\<exists>w. d' = d\<lparr> md_world := w \<rparr>)
    else \<exists>w s1 d1 w1 s2 d2 session k.
      open_stream sk (d\<lparr> md_world := w \<rparr>) = (Inr (ms_stream s2), d\<lparr> md_world := w1 \<rparr>) \<and>
      open_session sk (d\<lparr> md_world := w \<rparr>) = (Inr s1, d1) \<and> undecided sk s1 d1 s2 d2 \<and>
      md_session d' = Some session \<and> ms_stream session = ms_stream s2 \<and>
      md_negotiated_connack d' = Some k \<and> ck_reason_code k = Some ''Success'' \<and>
      (md_negotiated_connack d = Some k \<or>
       (\<exists>packets p. read_gives (sk_env sk) connect_timeout s2 (md_world d2) packets \<and>
          p \<in> set packets \<and> connack_snapshot p = Some k))"
proof (cases "md_session d")
  case (Some s)
  with assms(2) have "md_lock sk ''MQTT session'' d = (Inr (), d')"
    by (auto simp: ensure_connected_def lp_bind_eq_Inr lp_simps md_locked_eq_Inr fl_run)
  with Some md_lock_keeps [OF this] show ?thesis by simp
next
  case None
  with connecting_explained [OF assms None] show ?thesis by simp
qed

text \<open>
  Brokers for the witnesses.  Every read of the socket gives the same \<open>answer\<close>, in whose bytes the
  connection recognises a CONNACK that accepts; the \<open>n\<close>th look at the clock gives \<open>clock n\<close>.
\<close>

definition accepting_connack :: connack5 where
  "accepting_connack =
     \<lparr> ca_session_present = False,
       ca_code = \<lparr> code_text = ''Success'', code_is_success = True, code_is_failure = False \<rparr>,
       ca_props = [] \<rparr>"

definition broker_net :: "net_error + bytes \<Rightarrow> (bytes \<times> nat, unit) tcp_net" where
  "broker_net answer =
     \<lparr> tn_io = \<lparr> st_write = (\<lambda>_ w data. (Inr (length data), (fst w @ data, snd w))),
                 st_flush = (\<lambda>_ w. (Inr (), w)), st_read = (\<lambda>_ _ w. (answer, w)),
                 st_close = (\<lambda>_ w. (Inr (), w)) \<rparr>,
       tn_connect = (\<lambda>_ w. (Inr (), w)), tn_set_read_timeout = (\<lambda>_ _ w. (Inr (), w)),
       tn_set_write_timeout = (\<lambda>_ _ w. (Inr (), w)) \<rparr>"

definition broker_env ::
  "(nat \<Rightarrow> duration) \<Rightarrow> net_error + bytes \<Rightarrow> (bytes \<times> nat, unit, u16) mqtt_env" where
  "broker_env clock answer =
     \<lparr> mx_lib = plain_mqtt_lib, mx_net = broker_net answer, mx_new_connection = (\<lambda>_. 1),
       mx_checked_send = (\<lambda>p c. ([EvRequestSendPacket p], c)),
       mx_recv = (\<lambda>_ c. ([EvNotifyPacketReceived (V5_0Connack accepting_connack)], c)),
       mx_acquire_packet_id = (\<lambda>c. (Inr c, c + 1)), mx_packet_bytes = (\<lambda>_. [0x30, 0x00]),
       mx_now = (\<lambda>w. (clock (snd w), (fst w, Suc (snd w)))), mx_lock = (\<lambda>w. (True, w)) \<rparr>"

definition broker_stack ::
  "(nat \<Rightarrow> duration) \<Rightarrow> net_error + bytes \<Rightarrow> (bytes \<times> nat, unit, u16) mqtt_stack" where
  "broker_stack clock answer =
     \<lparr> sk_env = broker_env clock answer, sk_device = tape_device 1, sk_values = (\<lambda>_. []),
       sk_channel = (\<lambda>_ w. (1, w)), sk_try_send_status = (\<lambda>_ _ w. (Inr (), w)),
       sk_send_command = (\<lambda>_ _ d. (Inl ChClosed, d)),
       sk_try_recv_response = (\<lambda>_ d. (Inl ChClosed, d)),
       sk_try_recv_command = (\<lambda>_ d. (Inl ChEmpty, d)), sk_send_response = (\<lambda>_ _ w. w),
       sk_sleep = (\<lambda>_ d. d), sk_join = (\<lambda>_ d. (True, d)), sk_spawn = (\<lambda>_ w. (1, w)),
       sk_sink = (\<lambda>_ w. (True, w)) \<rparr>"

lemma broker_simps [simp]:
  "sk_env (broker_stack clock answer) = broker_env clock answer"
  "sk_device (broker_stack clock answer) = tape_device 1"
  "mx_lib (broker_env clock answer) = plain_mqtt_lib"
  "mx_net (broker_env clock answer) = broker_net answer"
  "mx_checked_send (broker_env clock answer) p c = ([EvRequestSendPacket p], c)"
  "mx_recv (broker_env clock answer) b c = ([EvNotifyPacketReceived (V5_0Connack accepting_connack)], c)"
  "mx_lock (broker_env clock answer) w = (True, w)"
  "mx_now (broker_env clock answer) w = (clock (snd w), (fst w, Suc (snd w)))"
  "tn_connect (broker_net answer) addr w = (Inr (), w)"
  "tn_set_read_timeout (broker_net answer) h t w = (Inr (), w)"
  "tn_set_write_timeout (broker_net answer) h t w = (Inr (), w)"
  "st_read (tn_io (broker_net answer)) h n w = (answer, w)"
  "st_flush (tn_io (broker_net answer)) h w = (Inr (), w)"
  by (simp_all add: broker_stack_def broker_env_def broker_net_def)

lemma broker_free [simp]: "free_lock (broker_stack clock answer)"
  by (simp add: free_lock_def)

lemma broker_write_packet:
  "\<exists>w t. write_packet (broker_env clock answer) what p st =
     (Inr (), st\<lparr> io_world := w, io_session := (io_session st)\<lparr> ms_last_activity := t \<rparr> \<rparr>)"
proof -
  have "write_all_socket (st_write (tn_io (broker_net answer)) h) buf w = (Inr (), (fst w @ buf, snd w))"
    for h buf w
    by (cases "buf = []") (simp_all add: write_all_socket_def write_all_loop.simps broker_net_def)
  then show ?thesis
    by (simp add: write_packet_def fl_bind_def fl_run on_world_def mqtt_now_def upd_session_def) blast
qed

lemma broker_events_send:
  "\<exists>w t. handle_connection_events (broker_env clock answer) negotiating authenticating
      [EvRequestSendPacket p] st =
     (Inr [], st\<lparr> io_world := w, io_session := (io_session st)\<lparr> ms_last_activity := t \<rparr> \<rparr>)"
proof -
  obtain w t where "write_packet (broker_env clock answer) [] p st =
     (Inr (), st\<lparr> io_world := w, io_session := (io_session st)\<lparr> ms_last_activity := t \<rparr> \<rparr>)"
    using broker_write_packet by blast
  then show ?thesis
    by (intro exI [of _ w] exI [of _ t])
      (simp add: handle_connection_events_def handle_event_def fl_bind_def fl_run)
qed

lemma broker_silent_read:
  assumes "\<not> ms_awaiting_pingresp (io_session st)"
  shows "\<exists>st'. read_from_session (broker_env clock (Inl NetTimedOut)) negotiating authenticating t st =
      (Inr [], st') \<and> io_connack st' = io_connack st"
proof -
  let ?env = "broker_env clock (Inl NetTimedOut)"
  have ping: "\<exists>p. pingreq_packet plain_mqtt_lib version = Inr p" for version
    by (cases version) (simp_all add: pingreq_packet_def plain_mqtt_lib_def)
  have "\<exists>st'. send_keepalive_ping_if_due ?env st = (Inr (), st')"
  proof -
    obtain p where p: "pingreq_packet plain_mqtt_lib (ms_protocol_version (io_session st)) = Inr p"
      using ping by blast
    have events: "\<exists>st'. handle_connection_events ?env False False [EvRequestSendPacket p] s = (Inr [], st')"
      for s using broker_events_send by blast
    show ?thesis
      using assms events
      by (simp add: send_keepalive_ping_if_due_def fl_bind_eq_Inr fl_run mqtt_now_def on_world_def p
          mqtt_connection_send_def upd_session_def split: option.split) blast
  qed
  then obtain st' where ka: "send_keepalive_ping_if_due ?env st = (Inr (), st')" by blast
  have "read_from_session ?env negotiating authenticating t st = (Inr [], st')"
    by (simp add: read_from_session_def mqtt_set_read_timeout_def on_world_def fl_bind_def fl_run ka
        io_step_def)
  with keepalive_cells [OF ka] show ?thesis by (simp add: same_cells_def)
qed

lemma broker_open_session:
  "\<exists>session w. open_session (broker_stack clock answer) d = (Inr session, d\<lparr> md_world := w \<rparr>) \<and>
     \<not> ms_awaiting_pingresp session"
proof -
  let ?sk = "broker_stack clock answer"
  have stream: "open_stream ?sk d = (Inr (), d)" by (simp add: open_stream_def io_step_def)
  obtain p where p: "build_connect_packet plain_mqtt_lib (dev_endpoint (tape_device 1)) = Inr p"
    by (simp add: build_connect_packet_def connect_start_def connect_credentials_def build_props_def
        connect_props_def user_props_def opt_prop_def plain_mqtt_lib_def plain_mqtt_config_def
        tape_device_def plain_mqtt_device_def preferred_protocol_version_def)
  obtain s d1 where s: "new_session ?sk () d = (Inr s, d1)" "\<not> ms_awaiting_pingresp s"
    by (simp add: new_session_def Let_def)
  obtain w where d1: "d1 = d\<lparr> md_world := w \<rparr>" using new_session_keeps [OF s(1)] by blast
  let ?st = "\<lparr> io_world = md_world d1, io_session = s, io_connack = md_negotiated_connack d1,
      io_auth = md_auth_handler d1 \<rparr>"
  obtain w1 t where "handle_connection_events (broker_env clock answer) True True
      [EvRequestSendPacket p] ?st =
     (Inr [], ?st\<lparr> io_world := w1, io_session := s\<lparr> ms_last_activity := t \<rparr> \<rparr>)"
    using broker_events_send [of clock answer True True p ?st] by auto
  then have "send_connect ?sk p s d1 = (Inr (s\<lparr> ms_last_activity := t \<rparr>), d1\<lparr> md_world := w1 \<rparr>)"
    by (simp add: send_connect_def on_session_def fl_bind_def mqtt_connection_send_def d1)
  with s have "open_session ?sk d = (Inr (s\<lparr> ms_last_activity := t \<rparr>), d\<lparr> md_world := w1 \<rparr>)"
    by (simp add: open_session_def fl_bind_def fl_run stream p d1)
  with s(2) show ?thesis by (intro exI [of _ "s\<lparr> ms_last_activity := t \<rparr>"] exI [of _ w1]) simp
qed

lemma broker_handshake:
  assumes "md_session d = None" and "free_lock sk"
    and "open_session sk d = (Inr s1, d1)" and "connect_read sk s1 d1 = (Inr (Some ()), s2, d2)"
  shows "ensure_connected sk d = Some (Inr (), d2\<lparr> md_session := Some s2 \<rparr>)"
proof -
  have "md_session d2 = None"
    using open_session_keeps [OF assms(3)] connect_read_keeps(1) [OF assms(4)] assms(1) by auto
  with assms show ?thesis
    by (simp add: ensure_connected_def lp_bind_def lp_simps fl_run await_connack.simps)
qed

lemma silent_reconnect:
  assumes "md_session d = None" and "md_negotiated_connack d = Some k"
    and "ck_reason_code k = Some ''Success''"
  shows "\<exists>d'. ensure_connected (broker_stack clock (Inl NetTimedOut)) d = Some (Inr (), d') \<and>
     md_session d' \<noteq> None \<and> md_negotiated_connack d' = Some k"
proof -
  let ?sk = "broker_stack clock (Inl NetTimedOut)"
  obtain s w where opened: "open_session ?sk d = (Inr s, d\<lparr> md_world := w \<rparr>)"
    and idle: "\<not> ms_awaiting_pingresp s"
    using broker_open_session by blast
  let ?st = "\<lparr> io_world = w, io_session = s, io_connack = Some k, io_auth = md_auth_handler d \<rparr>"
  obtain st' where "read_from_session (broker_env clock (Inl NetTimedOut)) True True connect_timeout ?st =
      (Inr [], st')" "io_connack st' = Some k"
    using broker_silent_read [of ?st clock True True connect_timeout] idle by auto
  then have "connect_read ?sk s (d\<lparr> md_world := w \<rparr>) = (Inr (Some ()), io_session st',
      d\<lparr> md_world := io_world st', md_negotiated_connack := Some k \<rparr>)"
    using assms(2,3)
    by (simp add: connect_read_def on_session_def negotiated_connack_def fl_run connack_verdict_def)
  from broker_handshake [OF assms(1) broker_free opened this] show ?thesis by simp
qed

lemma broker_sends_only:
  "\<forall>p c. received_packets (fst (mx_checked_send (sk_env (broker_stack clock answer)) p c)) = []"
  by (simp add: received_packets_def)

text \<open>C30: A silent broker is taken for connected by a driver that was connected before: with an
  accepting CONNACK of an earlier connection still on record, connecting returns without an error
  and stores a session, though every read of the new socket times out and the broker never sends a
  byte, and the old record is what the driver reports as negotiated; a driver without a record is
  never connected to the same broker.  This holds however the clock advances between the steps.\<close>

theorem stale_connack_accepted:
  assumes "md_session d = None" and "md_negotiated_connack d = Some k"
    and "ck_reason_code k = Some ''Success''"
    and "md_session fresh = None" and "md_negotiated_connack fresh = None"
  shows "(\<exists>d'. ensure_connected (broker_stack clock (Inl NetTimedOut)) d = Some (Inr (), d') \<and>
      md_session d' \<noteq> None \<and> md_negotiated_connack d' = Some k) \<and>
    (\<nexists>d'. ensure_connected (broker_stack clock (Inl NetTimedOut)) fresh = Some (Inr (), d'))"
proof -
  have "\<not> read_gives (broker_env clock (Inl NetTimedOut)) t s w packets" for t s w packets
    by (simp add: read_gives_def)
  with connecting_explained [OF broker_sends_only _ assms(4)] assms(5)
  have "\<nexists>d'. ensure_connected (broker_stack clock (Inl NetTimedOut)) fresh = Some (Inr (), d')"
    by fastforce
  with silent_reconnect [OF assms(1-3)] show ?thesis by blast
qed


text \<open>C25: A bounded reconnect policy ends: when connecting always returns and the configured maximum
  is below the largest 32-bit number, the reconnect loop returns after at most one attempt number
  past the maximum, and when it returns an error the listener was stopped or the policy allows no
  further attempt.\<close>

theorem reconnect_attempts_bounded:
  assumes "rc_max_attempts (reconnect_config sk) = Some m" and "m < - 1"
    and "\<And>d. ensure_connected sk d \<noteq> None" and "attempt \<le> m"
  shows "\<exists>r n d'. reconnect_loop sk attempt error d = Some (r, n, d') \<and> n \<le> m + 1 \<and>
    (case r of Inr _ \<Rightarrow> True
             | Inl _ \<Rightarrow> \<not> md_listener_running d' \<or> \<not> allows_attempt (reconnect_config sk) n)"
  by (rule reconnect_loop_terminates [OF assms])

section \<open>Witnesses\<close>

definition accepted_connack :: mqtt_connack_properties where
  "accepted_connack = connack_default\<lparr> ck_reason_code := Some ''Success'' \<rparr>"

theorem stale_connack_accepted_witness:
  "(\<exists>d'. ensure_connected (broker_stack (\<lambda>n. n * 10 ^ 9) (Inl NetTimedOut))
      ((mqtt_driver_new ([], 0))\<lparr> md_negotiated_connack := Some accepted_connack \<rparr>) = Some (Inr (), d') \<and>
      md_session d' \<noteq> None \<and> md_negotiated_connack d' = Some accepted_connack) \<and>
   (\<nexists>d'. ensure_connected (broker_stack (\<lambda>n. n * 10 ^ 9) (Inl NetTimedOut)) (mqtt_driver_new ([], 0)) =
      Some (Inr (), d'))"
  by (rule stale_connack_accepted) (simp_all add: mqtt_driver_new_def accepted_connack_def)

text \<open>A broker that answers, and a driver that was never connected.\<close>

lemma broker_accepts:
  "\<exists>d'. ensure_connected (broker_stack clock (Inr [0x20])) (mqtt_driver_new w) = Some (Inr (), d')"
proof -
  let ?env = "broker_env clock (Inr [0x20])"
  let ?sk = "broker_stack clock (Inr [0x20])"
  let ?d = "mqtt_driver_new w"
  obtain s w1 where opened: "open_session ?sk ?d = (Inr s, ?d\<lparr> md_world := w1 \<rparr>)"
    using broker_open_session by blast
  let ?st = "\<lparr> io_world = w1, io_session = s, io_connack = None, io_auth = None \<rparr>"
  have events: "\<exists>messages st'. handle_connection_events ?env True True
      [EvNotifyPacketReceived (V5_0Connack accepting_connack)] st = (Inr messages, st') \<and>
      io_connack st' = Some (connack_snapshot_from_v5 accepting_connack)" for st
    by (simp add: handle_connection_events_def handle_event_def fl_bind_def fl_run
        update_negotiated_connack_def connack_snapshot_def mqtt_lock_def on_world_def
        process_incoming_auth_def decode_received_eq)
  have chunk: "\<exists>messages st'. read_from_session ?env True True connect_timeout ?st = (Inr messages, st') \<and>
      io_connack st' = Some (connack_snapshot_from_v5 accepting_connack)"
    using events
    by (simp add: read_from_session_def mqtt_set_read_timeout_def on_world_def fl_bind_eq_Inr fl_run
        io_step_def mqtt_now_def upd_session_def)
  then obtain messages st' where "read_from_session ?env True True connect_timeout ?st = (Inr messages, st')"
    and "io_connack st' = Some (connack_snapshot_from_v5 accepting_connack)"
    using chunk by blast
  moreover have "connack_verdict (connack_snapshot_from_v5 accepting_connack) = Inr ()"
    by (simp add: connack_verdict_def connack_snapshot_from_v5_def accepting_connack_def)
  ultimately obtain d2 where "connect_read ?sk s (?d\<lparr> md_world := w1 \<rparr>) = (Inr (Some ()), io_session st', d2)"
    by (simp add: connect_read_def on_session_def negotiated_connack_def fl_run mqtt_driver_new_def)
  with broker_handshake [OF _ broker_free opened this] show ?thesis by (simp add: mqtt_driver_new_def)
qed

theorem connected_means_accepted_witness:
  "\<exists>d' session k packets p s2 w. ensure_connected (broker_stack (\<lambda>n. n) (Inr [0x20]))
       (mqtt_driver_new ([], 0)) = Some (Inr (), d') \<and>
     md_session d' = Some session \<and> md_negotiated_connack d' = Some k \<and>
     ck_reason_code k = Some ''Success'' \<and>
     read_gives (broker_env (\<lambda>n. n) (Inr [0x20])) connect_timeout s2 w packets \<and>
     p \<in> set packets \<and> connack_snapshot p = Some k"
proof -
  obtain d' where run: "ensure_connected (broker_stack (\<lambda>n. n) (Inr [0x20])) (mqtt_driver_new ([], 0)) =
      Some (Inr (), d')"
    using broker_accepts by blast
  let ?d = "mqtt_driver_new ([], 0) :: (bytes \<times> nat, unit, u16) mqtt_driver"
  have new: "\<not> md_session ?d \<noteq> None" "md_negotiated_connack ?d \<noteq> Some k" for k
    by (simp_all add: mqtt_driver_new_def)
  obtain s2 w session k where "md_session d' = Some session" "md_negotiated_connack d' = Some k"
      "ck_reason_code k = Some ''Success''"
      "md_negotiated_connack ?d = Some k \<or>
       (\<exists>packets p. read_gives (sk_env (broker_stack (\<lambda>n. n) (Inr [0x20]))) connect_timeout s2
          w packets \<and> p \<in> set packets \<and> connack_snapshot p = Some k)"
    using connected_means_accepted [OF broker_sends_only run] unfolding if_not_P [OF new(1)]
    by (elim exE conjE) (rule that, assumption+)
  moreover from this(4) new(2) [of k] obtain packets p where
    "read_gives (broker_env (\<lambda>n. n) (Inr [0x20])) connect_timeout s2 w packets"
    "p \<in> set packets" "connack_snapshot p = Some k"
    unfolding broker_simps(1) by (elim disjE) auto
  ultimately show ?thesis using run by (intro exI conjI)
qed


text \<open>A broker that refuses connections, and a policy of two attempts.\<close>

definition refusing_stack :: "(bytes, unit, u16) mqtt_stack" where
  "refusing_stack = (tape_stack (tape_env\<lparr> mx_net := tape_net\<lparr> tn_connect :=
     (\<lambda>_ w. (Inl NetUnreachable, w)) \<rparr> \<rparr>) 1)\<lparr> sk_device := (tape_device 1)\<lparr> dev_endpoint :=
       (plain_mqtt_config V5_0)\<lparr> me_reconnect :=
         broker_reconnect_config_default\<lparr> rc_max_attempts := Some 2 \<rparr> \<rparr> \<rparr> \<rparr>"

lemma refusing_ensure_connected: "ensure_connected refusing_stack d \<noteq> None"
proof -
  have "free_lock refusing_stack"
    by (simp add: free_lock_def refusing_stack_def tape_stack_def tape_env_def)
  moreover have "\<exists>e. open_session refusing_stack d = (Inl e, d)"
    by (simp add: open_session_def open_stream_def fl_bind_def refusing_stack_def tape_stack_def
        Let_def)
  ultimately show ?thesis
    by (cases "md_session d") (auto simp: ensure_connected_def lp_bind_def lp_simps fl_run)
qed

theorem reconnect_attempts_bounded_witness:
  "\<exists>r n d'. reconnect_loop refusing_stack 0 ''closed''
       ((mqtt_driver_new [])\<lparr> md_listener_running := True \<rparr>) = Some (r, n, d') \<and> n \<le> (3 :: u32)"
proof -
  have "rc_max_attempts (reconnect_config refusing_stack) = Some 2"
    by (simp add: reconnect_config_def refusing_stack_def)
  from reconnect_attempts_bounded [OF this _ refusing_ensure_connected, of 0] show ?thesis
    by fastforce
qed

end
