(* ===== verification/Zenoh_Convert.thy ===== *)
theory Zenoh_Convert
  imports Bridge Core_Device
begin

text \<open>
  The Zenoh adapter's data and conversions (\<open>endpoint.rs\<close>, \<open>types.rs\<close>, \<open>convert.rs\<close>): plans, requests
  and responses, the native planner, and the two encoders.  \<open>serde_json::to_vec\<close> is a parameter.
\<close>

section \<open>Types\<close>

datatype zenoh_operation = ZoPublish | ZoSubscribe | ZoQuery | ZoQueryable

record zenoh_resource_attributes =
  za_key_expr :: string
  za_operation :: zenoh_operation
  za_query_timeout_ms :: "u64 option"

definition default_operation :: zenoh_operation where
  "default_operation = ZoPublish"

record zenoh_endpoint_config =
  ze_locators :: "string list"

definition zenoh_endpoint_protocol :: "zenoh_endpoint_config \<Rightarrow> protocol_id" where
  "zenoh_endpoint_protocol config = ZENOH"

type_synonym zenoh_device = "(zenoh_resource_attributes, zenoh_endpoint_config) device"

text \<open>Plans: the command id and the key expression first.\<close>

datatype zenoh_native_plan =
    ZpPut string string payload_value
  | ZpSubscribe string string
  | ZpUnsubscribe string string
  | ZpGet string string "string option"
  | ZpDeclareQueryable string string
  | ZpUndeclareQueryable string string

fun zenoh_native_plan_into_owned :: "zenoh_native_plan \<Rightarrow> zenoh_native_plan" where
  "zenoh_native_plan_into_owned (ZpPut c k p) =
     ZpPut (cow_str_into_owned c) (cow_str_into_owned k) (payload_into_owned p)"
| "zenoh_native_plan_into_owned (ZpSubscribe c k) =
     ZpSubscribe (cow_str_into_owned c) (cow_str_into_owned k)"
| "zenoh_native_plan_into_owned (ZpUnsubscribe c k) =
     ZpUnsubscribe (cow_str_into_owned c) (cow_str_into_owned k)"
| "zenoh_native_plan_into_owned (ZpGet c k ps) =
     ZpGet (cow_str_into_owned c) (cow_str_into_owned k) (map_option cow_str_into_owned ps)"
| "zenoh_native_plan_into_owned (ZpDeclareQueryable c k) =
     ZpDeclareQueryable (cow_str_into_owned c) (cow_str_into_owned k)"
| "zenoh_native_plan_into_owned (ZpUndeclareQueryable c k) =
     ZpUndeclareQueryable (cow_str_into_owned c) (cow_str_into_owned k)"

interpretation own_zenoh_plan: content_preserving zenoh_native_plan_into_owned
proof unfold_locales
  show "zenoh_native_plan_into_owned p = p" for p
    by (cases p) (simp_all add: owned_simps own_payload.own_content option.map_ident_strong)
qed

record zenoh_publish_request =
  zp_command_id :: string
  zp_key_expr :: string
  zp_payload :: bytes

record zenoh_subscription =
  zs_command_id :: string
  zs_key_expr :: string

record zenoh_query_request =
  zq_command_id :: string
  zq_key_expr :: string
  zq_parameters :: "string option"
  zq_timeout_ms :: "u64 option"

record zenoh_queryable_request =
  zr_command_id :: string
  zr_key_expr :: string

datatype zenoh_request =
    ZrPublish zenoh_publish_request
  | ZrQuery zenoh_query_request
  | ZrDeclareQueryable zenoh_queryable_request
  | ZrUndeclareQueryable zenoh_queryable_request

record zenoh_sample =
  zx_key_expr :: string
  zx_payload :: bytes

text \<open>\<open>ZenohReply\<close> and \<open>ZenohEvent\<close> have the same two fields.\<close>

type_synonym zenoh_reply = zenoh_sample
type_synonym zenoh_event = zenoh_sample

record zenoh_query_response =
  zqr_replies :: "zenoh_reply list"

datatype zenoh_response =
    ZenohPublished
  | ZenohQueryResponse zenoh_query_response
  | ZenohQueryableDeclared
  | ZenohQueryableUndeclared

datatype zenoh_error =
    ZeSessionNotInitialized
  | ZeSessionInitFailed string
  | ZeInvalidKeyExpr string
  | ZeSubscriptionNotFound string
  | ZeQueryableNotFound string
  | ZeQueryTimeout
  | ZeListenerNotRunning
  | ZeListenerAlreadyRunning
  | ZeIo string
  | ZeRuntimeNotAvailable
  | ZeOther string

fun zenoh_error_str :: "zenoh_error \<Rightarrow> string" where
  "zenoh_error_str ZeSessionNotInitialized = ''Zenoh session not initialized''"
| "zenoh_error_str (ZeSessionInitFailed e) = ''Zenoh session initialization failed: '' @ e"
| "zenoh_error_str (ZeInvalidKeyExpr e) = ''Invalid key expression: '' @ e"
| "zenoh_error_str (ZeSubscriptionNotFound e) = ''Subscription not found: '' @ e"
| "zenoh_error_str (ZeQueryableNotFound e) = ''Queryable not found: '' @ e"
| "zenoh_error_str ZeQueryTimeout = ''Query timeout''"
| "zenoh_error_str ZeListenerNotRunning = ''Listener not running''"
| "zenoh_error_str ZeListenerAlreadyRunning = ''Listener already running''"
| "zenoh_error_str (ZeIo e) = ''IO error: '' @ e"
| "zenoh_error_str ZeRuntimeNotAvailable = ''Runtime not available (std feature required)''"
| "zenoh_error_str (ZeOther e) = ''Other error: '' @ e"

datatype zenoh_conversion_error =
    ZcUnsupportedIntent string
  | ZcMissingField string
  | ZcInvalidAddressType string
  | ZcPayloadEncoding string

section \<open>Encoders\<close>

definition zenoh_payload_to_bytes ::
  "(payload_value \<Rightarrow> string + bytes) \<Rightarrow> payload_value \<Rightarrow> zenoh_conversion_error + bytes" where
  "zenoh_payload_to_bytes json payload =
     (case payload of
        PBytes b \<Rightarrow> Inr b
      | PString v \<Rightarrow> Inr (bytes_of_string v)
      | PNull \<Rightarrow> Inr []
      | other \<Rightarrow> map_err ZcPayloadEncoding (json other))"

fun messaging_action_debug :: "messaging_action \<Rightarrow> string" where
  "messaging_action_debug MPublish = ''Publish''"
| "messaging_action_debug MSubscribe = ''Subscribe''"
| "messaging_action_debug MUnsubscribe = ''Unsubscribe''"

fun request_response_action_debug :: "request_response_action \<Rightarrow> string" where
  "request_response_action_debug RRRead = ''Read''"
| "request_response_action_debug RRWrite = ''Write''"
| "request_response_action_debug RRInvoke = ''Invoke''"

fun register_access_action_debug :: "register_access_action \<Rightarrow> string" where
  "register_access_action_debug RARead = ''Read''"
| "register_access_action_debug RAWrite = ''Write''"

definition zenoh_encode_command ::
  "(payload_value \<Rightarrow> string + bytes) \<Rightarrow> bridge_command \<Rightarrow>
   zenoh_conversion_error + zenoh_request" where
  "zenoh_encode_command json c =
     (case bc_operation c of
        OpMessaging mop \<Rightarrow>
          if mso_action mop = MPublish then
            (case bc_route c of
               Messaging topic \<Rightarrow>
                 map_ok (\<lambda>payload. ZrPublish
                   \<lparr> zp_command_id = command_id_str (bc_id c), zp_key_expr = topic,
                     zp_payload = unwrap_or payload [] \<rparr>)
                   (opt_traverse (zenoh_payload_to_bytes json) (bc_payload c))
             | _ \<Rightarrow> Inl (ZcInvalidAddressType ''expected messaging route''))
          else Inl (ZcUnsupportedIntent
            (''messaging action '' @ messaging_action_debug (mso_action mop) @ '' not supported''))
      | OpRequestResponse rop \<Rightarrow>
          if rro_action rop = RRRead then
            (case bc_route c of
               RequestResponse resource _ \<Rightarrow>
                 Inr (ZrQuery
                   \<lparr> zq_command_id = command_id_str (bc_id c), zq_key_expr = resource,
                     zq_parameters = None, zq_timeout_ms = None \<rparr>)
             | _ \<Rightarrow> Inl (ZcInvalidAddressType ''expected request/response route''))
          else Inl (ZcUnsupportedIntent
            (''request/response action '' @ request_response_action_debug (rro_action rop) @
             '' not supported''))
      | OpRegisterAccess aop \<Rightarrow>
          Inl (ZcUnsupportedIntent
            (''operation RegisterAccess(RegisterAccessOp { action: '' @
             register_access_action_debug (rao_action aop) @ '' }) not supported'')))"

definition zenoh_encode_bridge ::
  "(payload_value \<Rightarrow> string + bytes) \<Rightarrow> bridge_message \<Rightarrow>
   zenoh_conversion_error + zenoh_request" where
  "zenoh_encode_bridge json message =
     (case message of
        BCommand c \<Rightarrow> zenoh_encode_command json c
      | _ \<Rightarrow> Inl (ZcUnsupportedIntent ''only command messages are supported''))"

definition zenoh_encode_native ::
  "(payload_value \<Rightarrow> string + bytes) \<Rightarrow> zenoh_native_plan \<Rightarrow>
   zenoh_conversion_error + zenoh_request" where
  "zenoh_encode_native json plan =
     (case plan of
        ZpPut command key payload \<Rightarrow>
          map_ok (\<lambda>body. ZrPublish
            \<lparr> zp_command_id = cow_str_into_owned command, zp_key_expr = cow_str_into_owned key,
              zp_payload = body \<rparr>)
            (zenoh_payload_to_bytes json payload)
      | ZpGet command key parameters \<Rightarrow>
          Inr (ZrQuery
            \<lparr> zq_command_id = cow_str_into_owned command, zq_key_expr = cow_str_into_owned key,
              zq_parameters = map_option cow_str_into_owned parameters, zq_timeout_ms = None \<rparr>)
      | ZpSubscribe _ _ \<Rightarrow>
          Inl (ZcUnsupportedIntent ''Subscribe plan should be handled by PubSub::subscribe()'')
      | _ \<Rightarrow> Inl (ZcUnsupportedIntent ''only Put and Get plans supported for request encoding''))"

section \<open>Native planner\<close>

definition zenoh_channel_key :: "broker_address \<Rightarrow> zenoh_conversion_error + string" where
  "zenoh_channel_key channel =
     (if ba_kind channel = Some Topic \<or> ba_kind channel = None
      then Inr (channel_name_str (ba_name channel))
      else Inl (ZcInvalidAddressType ''Zenoh only supports topic-like channels''))"

definition queryable_key :: "payload_value option \<Rightarrow> zenoh_conversion_error + string" where
  "queryable_key args =
     (case args of
        Some (PMap entries) \<Rightarrow>
          (case map_of entries ''key_expr'' of
             Some (PString s) \<Rightarrow> Inr s
           | _ \<Rightarrow> Inl (ZcUnsupportedIntent
               ''Invoke queryable requires 'key_expr' string argument in map''))
      | _ \<Rightarrow> Inl (ZcUnsupportedIntent
          ''Invoke queryable requires 'key_expr' string argument in map''))"

definition zenoh_plan_from_command :: "command \<Rightarrow> zenoh_conversion_error + zenoh_native_plan" where
  "zenoh_plan_from_command c =
     (let command = command_id_str (cmd_id c) in
      case cmd_intent c of
        Send channel payload _ \<Rightarrow>
          map_ok (\<lambda>key. ZpPut command key (payload_into_owned payload)) (zenoh_channel_key channel)
      | Subscribe channel _ \<Rightarrow> map_ok (ZpSubscribe command) (zenoh_channel_key channel)
      | Unsubscribe channel \<Rightarrow> map_ok (ZpUnsubscribe command) (zenoh_channel_key channel)
      | Read resource _ \<Rightarrow> Inr (ZpGet command (resource_name_str resource) None)
      | Write resource payload _ \<Rightarrow>
          Inr (ZpPut command (resource_name_str resource) (payload_into_owned payload))
      | Invoke operation args _ \<Rightarrow>
          if operation_name_str operation = ''queryable''
          then map_ok (ZpDeclareQueryable command) (queryable_key args)
          else Inl (ZcUnsupportedIntent
            (''Invoke operation '' @ [CHR 0x27] @ operation_name_str operation @ [CHR 0x27] @
             '' not supported for Zenoh'')))"

lemma map_ok_map_ok: "map_ok f (map_ok g x) = map_ok (\<lambda>v. f (g v)) x"
  by (cases x) simp_all

section \<open>Properties\<close>

text \<open>C32: The Zenoh requests built through the bridge and natively agree on what both accept: a send
  on a topic is the same publication with the same payload bytes, or the same encoding error, and a
  read is the same query; subscriptions and invocations become no request on either way.  They
  differ in two places: a send on a queue, subject or stream is refused natively but published
  through the bridge, and a write is a publication natively but refused by the bridge encoder.\<close>

theorem zenoh_bridge_agrees_with_native:
  "let native = and_then (zenoh_plan_from_command c) (zenoh_encode_native json);
       bridge = (\<lambda>planned. case planned of
                   Inl e \<Rightarrow> None | Inr message \<Rightarrow> Some (zenoh_encode_bridge json message));
       publication = (\<lambda>key payload. map_ok (\<lambda>body. ZrPublish
         \<lparr> zp_command_id = command_id_str (cmd_id c), zp_key_expr = key, zp_payload = body \<rparr>)
         (zenoh_payload_to_bytes json payload))
   in case cmd_intent c of
        Send channel payload _ \<Rightarrow>
          bridge (command_to_messaging c) =
            Some (publication (channel_name_str (ba_name channel)) payload) \<and>
          native = (if ba_kind channel \<in> {None, Some Topic}
                    then publication (channel_name_str (ba_name channel)) payload
                    else Inl (ZcInvalidAddressType ''Zenoh only supports topic-like channels''))
      | Read resource _ \<Rightarrow>
          bridge (command_to_request_response c) = Some native \<and>
          native = Inr (ZrQuery
            \<lparr> zq_command_id = command_id_str (cmd_id c), zq_key_expr = resource_name_str resource,
              zq_parameters = None, zq_timeout_ms = None \<rparr>)
      | Write resource payload _ \<Rightarrow>
          (\<exists>e. bridge (command_to_request_response c) = Some (Inl (ZcUnsupportedIntent e))) \<and>
          native = publication (resource_name_str resource) payload
      | Invoke _ _ _ \<Rightarrow>
          (\<exists>e. bridge (command_to_request_response c) = Some (Inl (ZcUnsupportedIntent e))) \<and>
          (\<exists>e. native = Inl (ZcUnsupportedIntent e))
      | _ \<Rightarrow>
          (\<exists>e. bridge (command_to_messaging c) = Some (Inl (ZcUnsupportedIntent e))) \<and>
          (\<exists>e. native = Inl e)"
  by (cases "cmd_intent c")
    (auto simp: zenoh_plan_from_command_def zenoh_encode_native_def zenoh_encode_bridge_def
      zenoh_encode_command_def command_to_messaging_def command_to_request_response_def
      messaging_command_def zenoh_channel_key_def queryable_key_def owned_simps
      own_payload.own_content map_ok_map_ok Let_def split: prod.splits option.splits payload_value.splits
      sum.splits)

end
