(* ===== verification/Zenoh_Driver.thy ===== *)
theory Zenoh_Driver
  imports Zenoh_Convert Runtime_Io Topic_Registry
begin

text \<open>
  The Zenoh driver (\<open>lib.rs\<close>, \<open>runtime.rs\<close>): the session with its subscriptions and queryables,
  publishing, querying, the polling listener, and the reduced driver of the embassy stack.

  The \<open>zenoh\<close> library, the lock, the channels, the sleep and the event sink are the parameter
  \<open>zenoh_env\<close>.  Sending a stop, asking for one and sleeping work on the whole driver state, because
  other tasks run meanwhile; the other effects work on the world.
\<close>

section \<open>State and environment\<close>

datatype zenoh_listener_status = ZlStopped | ZlRunning | ZlFailed string

record ('s, 'b) zenoh_session_state =
  zn_session :: 's
  zn_subscriptions :: "string \<rightharpoonup> 'b"
  zn_queryables :: "string \<rightharpoonup> unit"

definition zenoh_session_state_new :: "'s \<Rightarrow> ('s, 'b) zenoh_session_state" where
  "zenoh_session_state_new session =
     \<lparr> zn_session = session, zn_subscriptions = Map.empty, zn_queryables = Map.empty \<rparr>"

record ('w, 's, 'b) zenoh_driver =
  zd_world :: 'w
  zd_session :: "('s, 'b) zenoh_session_state option"
  zd_listener_status :: zenoh_listener_status
  zd_listener_stop_tx :: "nat option"

definition zenoh_driver_new :: "'w \<Rightarrow> ('w, 's, 'b) zenoh_driver" where
  "zenoh_driver_new w =
     \<lparr> zd_world = w, zd_session = None, zd_listener_status = ZlStopped,
       zd_listener_stop_tx = None \<rparr>"

text \<open>
  \<open>zv_recv_reply\<close> is an error when the replies are exhausted, and otherwise one reply, itself an
  error or a sample.  \<open>zv_values\<close> is the iteration order of the hash map of subscriptions.
\<close>

record ('w, 's, 'b, 'r) zenoh_env =
  zv_lock :: "'w \<Rightarrow> (string + unit) \<times> 'w"
  zv_open :: "'w \<Rightarrow> (string + 's) \<times> 'w"
  zv_drop_session :: "'s \<Rightarrow> 'w \<Rightarrow> 'w"
  zv_put :: "'s \<Rightarrow> string \<Rightarrow> bytes \<Rightarrow> 'w \<Rightarrow> (string + unit) \<times> 'w"
  zv_declare_subscriber :: "'s \<Rightarrow> string \<Rightarrow> 'w \<Rightarrow> (string + 'b) \<times> 'w"
  zv_drop_subscriber :: "'b \<Rightarrow> 'w \<Rightarrow> 'w"
  zv_get :: "'s \<Rightarrow> string \<Rightarrow> duration option \<Rightarrow> 'w \<Rightarrow> (string + 'r) \<times> 'w"
  zv_recv_reply :: "'r \<Rightarrow> 'w \<Rightarrow> (string + (string + zenoh_sample)) \<times> 'w"
  zv_try_recv :: "'b \<Rightarrow> 'w \<Rightarrow> (string + zenoh_sample option) \<times> 'w"
  zv_values :: "(string \<rightharpoonup> 'b) \<Rightarrow> 'b list"
  zv_channel :: "'w \<Rightarrow> nat \<times> 'w"
  zv_spawn :: "nat \<Rightarrow> 'w \<Rightarrow> 'w"
  zv_sink :: "zenoh_event \<Rightarrow> 'w \<Rightarrow> bool \<times> 'w"
  zv_send_stop :: "nat \<Rightarrow> ('w, 's, 'b) zenoh_driver \<Rightarrow> ('w, 's, 'b) zenoh_driver"
  zv_stop_requested ::
    "nat \<Rightarrow> ('w, 's, 'b) zenoh_driver \<Rightarrow> bool \<times> ('w, 's, 'b) zenoh_driver"
  zv_sleep :: "duration \<Rightarrow> ('w, 's, 'b) zenoh_driver \<Rightarrow> ('w, 's, 'b) zenoh_driver"

type_synonym ('w, 's, 'b, 'a) zenoh_op = "(('w, 's, 'b) zenoh_driver, zenoh_error, 'a) failing"
type_synonym ('w, 's, 'b, 'a) zenoh_loop =
  "(('w, 's, 'b) zenoh_driver, zenoh_error, 'a) diverging"

definition zd_on_world ::
  "(string \<Rightarrow> zenoh_error) \<Rightarrow> ('w \<Rightarrow> (string + 'a) \<times> 'w) \<Rightarrow> ('w, 's, 'b, 'a) zenoh_op" where
  "zd_on_world render f d =
     (let (r, w) = f (zd_world d) in (map_err render r, d\<lparr> zd_world := w \<rparr>))"

definition zd_lock :: "('w, 's, 'b, 'r) zenoh_env \<Rightarrow> ('w, 's, 'b, unit) zenoh_op" where
  "zd_lock env = zd_on_world ZeOther (zv_lock env)"

text \<open>The locked session, which must be initialised.\<close>

definition zd_state ::
  "('w, 's, 'b, 'r) zenoh_env \<Rightarrow> ('w, 's, 'b, ('s, 'b) zenoh_session_state) zenoh_op" where
  "zd_state env =
     fl_bind (zd_lock env) (\<lambda>_.
     fl_bind (fl_get zd_session) (\<lambda>session. fl_lift (ok_or ZeSessionNotInitialized session)))"

definition zd_set_state :: "('s, 'b) zenoh_session_state \<Rightarrow> ('w, 's, 'b, unit) zenoh_op" where
  "zd_set_state state = fl_modify (\<lambda>d. d\<lparr> zd_session := Some state \<rparr>)"

section \<open>Session\<close>

definition zenoh_start_session :: "('w, 's, 'b, 'r) zenoh_env \<Rightarrow> ('w, 's, 'b, unit) zenoh_op" where
  "zenoh_start_session env =
     fl_bind (zd_lock env) (\<lambda>_.
     fl_bind (fl_get zd_session) (\<lambda>existing.
     if existing \<noteq> None then fl_return ()
     else
       fl_bind (zd_on_world ZeSessionInitFailed (zv_open env)) (\<lambda>session.
       zd_set_state (zenoh_session_state_new session))))"

definition zenoh_publish ::
  "('w, 's, 'b, 'r) zenoh_env \<Rightarrow> zenoh_publish_request \<Rightarrow> ('w, 's, 'b, unit) zenoh_op" where
  "zenoh_publish env request =
     fl_bind (zd_state env) (\<lambda>state.
     zd_on_world ZeIo (zv_put env (zn_session state) (zp_key_expr request) (zp_payload request)))"

definition zenoh_subscribe ::
  "('w, 's, 'b, 'r) zenoh_env \<Rightarrow> zenoh_subscription \<Rightarrow> ('w, 's, 'b, unit) zenoh_op" where
  "zenoh_subscribe env subscription =
     fl_bind (zd_state env) (\<lambda>state.
     if zn_subscriptions state (zs_key_expr subscription) \<noteq> None then fl_return ()
     else
       fl_bind (zd_on_world ZeIo
         (zv_declare_subscriber env (zn_session state) (zs_key_expr subscription))) (\<lambda>subscriber.
       zd_set_state (state\<lparr> zn_subscriptions :=
         (zn_subscriptions state)(zs_key_expr subscription \<mapsto> subscriber) \<rparr>)))"

definition zenoh_unsubscribe ::
  "('w, 's, 'b, 'r) zenoh_env \<Rightarrow> zenoh_subscription \<Rightarrow> ('w, 's, 'b, unit) zenoh_op" where
  "zenoh_unsubscribe env subscription =
     fl_bind (zd_state env) (\<lambda>state.
     case zn_subscriptions state (zs_key_expr subscription) of
       None \<Rightarrow> fl_fail (ZeSubscriptionNotFound (zs_key_expr subscription))
     | Some subscriber \<Rightarrow>
         fl_bind (zd_set_state (state\<lparr> zn_subscriptions :=
           (zn_subscriptions state)(zs_key_expr subscription := None) \<rparr>)) (\<lambda>_.
         fl_modify (\<lambda>d. d\<lparr> zd_world := zv_drop_subscriber env subscriber (zd_world d) \<rparr>)))"

definition zenoh_declare_queryable ::
  "('w, 's, 'b, 'r) zenoh_env \<Rightarrow> zenoh_queryable_request \<Rightarrow> ('w, 's, 'b, unit) zenoh_op" where
  "zenoh_declare_queryable env request =
     fl_bind (zd_state env) (\<lambda>state.
     if zn_queryables state (zr_key_expr request) \<noteq> None then fl_return ()
     else zd_set_state (state\<lparr> zn_queryables :=
            (zn_queryables state)(zr_key_expr request \<mapsto> ()) \<rparr>))"

definition zenoh_undeclare_queryable ::
  "('w, 's, 'b, 'r) zenoh_env \<Rightarrow> zenoh_queryable_request \<Rightarrow> ('w, 's, 'b, unit) zenoh_op" where
  "zenoh_undeclare_queryable env request =
     fl_bind (zd_state env) (\<lambda>state.
     if zn_queryables state (zr_key_expr request) = None
     then fl_fail (ZeQueryableNotFound (zr_key_expr request))
     else zd_set_state (state\<lparr> zn_queryables :=
            (zn_queryables state)(zr_key_expr request := None) \<rparr>))"

section \<open>Requests\<close>

text \<open>\<open>while let Ok(reply) = replies.recv_async().await\<close>; a reply that is an error is only logged.\<close>

partial_function (option) collect_replies ::
  "('w, 's, 'b, 'r) zenoh_env \<Rightarrow> 'r \<Rightarrow> zenoh_reply list \<Rightarrow> 'w \<Rightarrow> (zenoh_reply list \<times> 'w) option" where
  "collect_replies env h collected w =
     (case zv_recv_reply env h w of
        (Inl _, w) \<Rightarrow> Some (collected, w)
      | (Inr (Inr sample), w) \<Rightarrow> collect_replies env h (collected @ [sample]) w
      | (Inr (Inl _), w) \<Rightarrow> collect_replies env h collected w)"

definition query_selector :: "zenoh_query_request \<Rightarrow> string" where
  "query_selector request =
     (case zq_parameters request of
        None \<Rightarrow> zq_key_expr request
      | Some params \<Rightarrow> zq_key_expr request @ ''?'' @ params)"

definition zenoh_query ::
  "('w, 's, 'b, 'r) zenoh_env \<Rightarrow> zenoh_query_request \<Rightarrow> ('w, 's, 'b, zenoh_response) zenoh_loop" where
  "zenoh_query env request =
     lp_bind (lp_run (zd_state env)) (\<lambda>state.
     lp_bind (lp_run (zd_on_world ZeIo
       (zv_get env (zn_session state) (query_selector request)
          (map_option (\<lambda>ms. unat ms * 10 ^ 6) (zq_timeout_ms request))))) (\<lambda>replies d.
     case collect_replies env replies [] (zd_world d) of
       None \<Rightarrow> None
     | Some (collected, w) \<Rightarrow>
         Some (Inr (ZenohQueryResponse \<lparr> zqr_replies = collected \<rparr>), d\<lparr> zd_world := w \<rparr>)))"

definition zenoh_execute_request ::
  "('w, 's, 'b, 'r) zenoh_env \<Rightarrow> zenoh_request \<Rightarrow> ('w, 's, 'b, zenoh_response) zenoh_loop" where
  "zenoh_execute_request env request =
     (case request of
        ZrPublish r \<Rightarrow>
          lp_run (fl_bind (zenoh_publish env r) (\<lambda>_. fl_return ZenohPublished))
      | ZrDeclareQueryable r \<Rightarrow>
          lp_run (fl_bind (zenoh_declare_queryable env r) (\<lambda>_. fl_return ZenohQueryableDeclared))
      | ZrUndeclareQueryable r \<Rightarrow>
          lp_run (fl_bind (zenoh_undeclare_queryable env r) (\<lambda>_. fl_return ZenohQueryableUndeclared))
      | ZrQuery r \<Rightarrow> zenoh_query env r)"

section \<open>Listener\<close>

text \<open>The samples waiting in one subscriber: \<open>False\<close> when the sink refused one.\<close>

partial_function (option) drain_subscriber ::
  "('w, 's, 'b, 'r) zenoh_env \<Rightarrow> 'b \<Rightarrow> 'w \<Rightarrow> (bool \<times> 'w) option" where
  "drain_subscriber env subscriber w =
     (case zv_try_recv env subscriber w of
        (Inr (Some event), w) \<Rightarrow>
          (case zv_sink env event w of
             (ok, w) \<Rightarrow> if ok then drain_subscriber env subscriber w else Some (False, w))
      | (_, w) \<Rightarrow> Some (True, w))"

fun drain_subscribers ::
  "('w, 's, 'b, 'r) zenoh_env \<Rightarrow> 'b list \<Rightarrow> 'w \<Rightarrow> (bool \<times> 'w) option" where
  "drain_subscribers env [] w = Some (True, w)"
| "drain_subscribers env (s # ss) w =
     (case drain_subscriber env s w of
        None \<Rightarrow> None
      | Some (ok, w) \<Rightarrow> if ok then drain_subscribers env ss w else Some (False, w))"

definition set_listener_status ::
  "('w, 's, 'b, 'r) zenoh_env \<Rightarrow> zenoh_listener_status \<Rightarrow> ('w, 's, 'b, unit) zenoh_op" where
  "set_listener_status env status =
     fl_bind (zd_lock env) (\<lambda>_. fl_modify (\<lambda>d. d\<lparr> zd_listener_status := status \<rparr>))"

text \<open>One round of the listener over the subscriptions of the session.\<close>

definition poll_subscriptions :: "('w, 's, 'b, 'r) zenoh_env \<Rightarrow> ('w, 's, 'b, unit) zenoh_loop" where
  "poll_subscriptions env =
     lp_bind (lp_run (zd_lock env)) (\<lambda>_ d.
     case zd_session d of
       None \<Rightarrow> Some (Inr (), d)
     | Some state \<Rightarrow>
         (case drain_subscribers env (zv_values env (zn_subscriptions state)) (zd_world d) of
            None \<Rightarrow> None
          | Some (ok, w) \<Rightarrow>
              if ok then Some (Inr (), d\<lparr> zd_world := w \<rparr>)
              else Some (fl_bind (set_listener_status env (ZlFailed ''Sink closed''))
                     (\<lambda>_. fl_fail (ZeIo ''sink closed'')) (d\<lparr> zd_world := w \<rparr>))))"

partial_function (option) zenoh_listener_task ::
  "('w, 's, 'b, 'r) zenoh_env \<Rightarrow> nat \<Rightarrow> ('w, 's, 'b) zenoh_driver \<Rightarrow>
   ((zenoh_error + unit) \<times> ('w, 's, 'b) zenoh_driver) option" where
  "zenoh_listener_task env rx d =
     (case zv_stop_requested env rx d of
        (stop, d) \<Rightarrow>
          if stop then Some (Inr (), d)
          else
            (case poll_subscriptions env d of
               None \<Rightarrow> None
             | Some (Inl e, d) \<Rightarrow> Some (Inl e, d)
             | Some (Inr _, d) \<Rightarrow> zenoh_listener_task env rx (zv_sleep env (10 * 10 ^ 6) d)))"

text \<open>What the spawned task does when the listener returns; a lock it cannot take is ignored.\<close>

definition zenoh_listener_exit ::
  "('w, 's, 'b, 'r) zenoh_env \<Rightarrow> zenoh_error + unit \<Rightarrow> ('w, 's, 'b) zenoh_driver \<Rightarrow>
   ('w, 's, 'b) zenoh_driver" where
  "zenoh_listener_exit env result d =
     snd (set_listener_status env
       (case result of Inl e \<Rightarrow> ZlFailed (zenoh_error_str e) | Inr _ \<Rightarrow> ZlStopped) d)"

definition zenoh_start_listener :: "('w, 's, 'b, 'r) zenoh_env \<Rightarrow> ('w, 's, 'b, unit) zenoh_op" where
  "zenoh_start_listener env =
     fl_bind (zd_lock env) (\<lambda>_.
     fl_bind (fl_get zd_listener_status) (\<lambda>status.
     if status = ZlRunning then fl_fail ZeListenerAlreadyRunning
     else
       fl_bind (\<lambda>d. let (ch, w) = zv_channel env (zd_world d)
                    in (Inr ch, d\<lparr> zd_world := w \<rparr>)) (\<lambda>ch.
       fl_bind (zd_lock env) (\<lambda>_.
       fl_modify (\<lambda>d. d\<lparr> zd_listener_stop_tx := Some ch, zd_listener_status := ZlRunning,
                         zd_world := zv_spawn env ch (zd_world d) \<rparr>)))))"

definition zenoh_stop_listener :: "('w, 's, 'b, 'r) zenoh_env \<Rightarrow> ('w, 's, 'b, unit) zenoh_op" where
  "zenoh_stop_listener env =
     fl_bind (zd_lock env) (\<lambda>_.
     fl_bind (\<lambda>d. case zd_listener_stop_tx d of
                    Some tx \<Rightarrow> (Inr (), zv_send_stop env tx (d\<lparr> zd_listener_stop_tx := None \<rparr>))
                  | None \<Rightarrow> (Inr (), d)) (\<lambda>_.
     set_listener_status env ZlStopped))"

definition zenoh_stop_session :: "('w, 's, 'b, 'r) zenoh_env \<Rightarrow> ('w, 's, 'b, unit) zenoh_op" where
  "zenoh_stop_session env =
     fl_bind (zenoh_stop_listener env) (\<lambda>_.
     fl_bind (zd_lock env) (\<lambda>_.
     fl_modify (\<lambda>d. case zd_session d of
         None \<Rightarrow> d
       | Some state \<Rightarrow> d\<lparr> zd_session := None,
           zd_world := zv_drop_session env (zn_session state)
             (fold (zv_drop_subscriber env) (zv_values env (zn_subscriptions state))
                (zd_world d)) \<rparr>)))"

section \<open>The embassy stack\<close>

text \<open>
  The driver without a library session: subscriptions are a list of key expressions with the task
  that forwards them, which \<open>abort\<close> ends.
\<close>

record embassy_session_state =
  en_run_task :: "nat option"
  en_subscriptions :: "(string \<times> nat option) list"

record 'w embassy_driver =
  ed_world :: 'w
  ed_session :: "embassy_session_state option"
  ed_listener_status :: zenoh_listener_status

record 'w embassy_env =
  ev_lock :: "'w \<Rightarrow> (string + unit) \<times> 'w"
  ev_abort :: "nat \<Rightarrow> 'w \<Rightarrow> 'w"

type_synonym ('w, 'a) embassy_op = "('w embassy_driver, zenoh_error, 'a) failing"

definition ed_lock :: "'w embassy_env \<Rightarrow> ('w, unit) embassy_op" where
  "ed_lock env d =
     (let (r, w) = ev_lock env (ed_world d) in (map_err ZeOther r, d\<lparr> ed_world := w \<rparr>))"

definition ed_state :: "'w embassy_env \<Rightarrow> ('w, embassy_session_state) embassy_op" where
  "ed_state env =
     fl_bind (ed_lock env) (\<lambda>_.
     fl_bind (fl_get ed_session) (\<lambda>session. fl_lift (ok_or ZeSessionNotInitialized session)))"

definition ed_abort :: "'w embassy_env \<Rightarrow> nat option \<Rightarrow> 'w embassy_driver \<Rightarrow> 'w embassy_driver" where
  "ed_abort env task d =
     (case task of None \<Rightarrow> d | Some t \<Rightarrow> d\<lparr> ed_world := ev_abort env t (ed_world d) \<rparr>)"

definition embassy_start_session :: "'w embassy_env \<Rightarrow> ('w, unit) embassy_op" where
  "embassy_start_session env =
     fl_bind (ed_lock env) (\<lambda>_.
     fl_bind (fl_get ed_session) (\<lambda>session.
     if session \<noteq> None then fl_return ()
     else fl_fail (ZeOther
       ''zenoh-nostd requires platform-specific config (see PLATFORM_INTEGRATION.md)'')))"

definition embassy_start_listener :: "'w embassy_env \<Rightarrow> ('w, unit) embassy_op" where
  "embassy_start_listener env =
     fl_bind (ed_lock env) (\<lambda>_.
     fl_bind (fl_get ed_listener_status) (\<lambda>status.
     if status = ZlRunning then fl_fail ZeListenerAlreadyRunning
     else fl_modify (\<lambda>d. d\<lparr> ed_listener_status := ZlRunning \<rparr>)))"

definition embassy_stop_listener :: "'w embassy_env \<Rightarrow> ('w, unit) embassy_op" where
  "embassy_stop_listener env =
     fl_bind (ed_lock env) (\<lambda>_.
     fl_bind (fl_get ed_listener_status) (\<lambda>status.
     if status = ZlStopped then fl_return ()
     else fl_modify (\<lambda>d. d\<lparr> ed_listener_status := ZlStopped \<rparr>)))"

definition embassy_stop_session :: "'w embassy_env \<Rightarrow> ('w, unit) embassy_op" where
  "embassy_stop_session env =
     fl_bind (embassy_stop_listener env) (\<lambda>_.
     fl_bind (ed_lock env) (\<lambda>_.
     fl_modify (\<lambda>d. case ed_session d of
         None \<Rightarrow> d
       | Some state \<Rightarrow>
           ed_abort env (en_run_task state)
             (fold (\<lambda>(_, task). ed_abort env task) (en_subscriptions state)
                (d\<lparr> ed_session := None \<rparr>)))))"

definition embassy_publish ::
  "'w embassy_env \<Rightarrow> zenoh_publish_request \<Rightarrow> ('w, unit) embassy_op" where
  "embassy_publish env request =
     fl_bind (ed_state env) (\<lambda>_.
     fl_fail (ZeOther ''zenoh-nostd publish requires platform-specific session''))"

definition embassy_subscribe ::
  "'w embassy_env \<Rightarrow> zenoh_subscription \<Rightarrow> ('w, unit) embassy_op" where
  "embassy_subscribe env subscription =
     fl_bind (ed_state env) (\<lambda>state.
     if \<exists>s \<in> set (en_subscriptions state). fst s = zs_key_expr subscription then fl_return ()
     else fl_fail (ZeOther
       ''zenoh-nostd subscribe requires static channels (see PLATFORM_INTEGRATION.md)''))"

definition embassy_unsubscribe :: "'w embassy_env \<Rightarrow> string \<Rightarrow> ('w, unit) embassy_op" where
  "embassy_unsubscribe env key =
     fl_bind (ed_state env) (\<lambda>state.
     case position (\<lambda>s. fst s = key) (en_subscriptions state) of
       Some pos \<Rightarrow>
         fl_modify (\<lambda>d. ed_abort env (snd (en_subscriptions state ! pos))
           (d\<lparr> ed_session := Some (state\<lparr> en_subscriptions :=
                take pos (en_subscriptions state) @ drop (Suc pos) (en_subscriptions state) \<rparr>) \<rparr>))
     | None \<Rightarrow> fl_fail (ZeSubscriptionNotFound key))"

definition embassy_queryable ::
  "'w embassy_env \<Rightarrow> zenoh_queryable_request \<Rightarrow> ('w, unit) embassy_op" where
  "embassy_queryable env request =
     fl_bind (ed_lock env) (\<lambda>_.
     fl_fail (ZeOther ''Queryable support requires zenoh-nostd integration''))"

definition embassy_execute_request ::
  "'w embassy_env \<Rightarrow> zenoh_request \<Rightarrow> ('w, zenoh_response) embassy_op" where
  "embassy_execute_request env request =
     (case request of
        ZrPublish r \<Rightarrow> fl_bind (embassy_publish env r) (\<lambda>_. fl_return ZenohPublished)
      | ZrDeclareQueryable r \<Rightarrow>
          fl_bind (embassy_queryable env r) (\<lambda>_. fl_return ZenohQueryableDeclared)
      | ZrUndeclareQueryable r \<Rightarrow>
          fl_bind (embassy_queryable env r) (\<lambda>_. fl_return ZenohQueryableUndeclared)
      | ZrQuery _ \<Rightarrow> fl_fail ZeRuntimeNotAvailable)"

section \<open>Lemmas\<close>

text \<open>A subscription request, as the registry of the session sees it.\<close>

datatype zenoh_subscription_request =
    ZsSubscribe zenoh_subscription
  | ZsUnsubscribe zenoh_subscription

fun zs_request_key :: "zenoh_subscription_request \<Rightarrow> string" where
  "zs_request_key (ZsSubscribe s) = zs_key_expr s"
| "zs_request_key (ZsUnsubscribe s) = zs_key_expr s"

fun zs_request_entry :: "zenoh_subscription_request \<Rightarrow> unit option" where
  "zs_request_entry (ZsSubscribe s) = Some ()"
| "zs_request_entry (ZsUnsubscribe s) = None"

fun zenoh_subscription_op ::
  "('w, 's, 'b, 'r) zenoh_env \<Rightarrow> zenoh_subscription_request \<Rightarrow> ('w, 's, 'b, unit) zenoh_op" where
  "zenoh_subscription_op env (ZsSubscribe s) = zenoh_subscribe env s"
| "zenoh_subscription_op env (ZsUnsubscribe s) = zenoh_unsubscribe env s"

text \<open>The abstract registry: the set of subscribed key expressions.\<close>

definition zs_apply :: "zenoh_subscription_request \<Rightarrow> string set \<Rightarrow> string set" where
  "zs_apply r keys =
     (case r of ZsSubscribe s \<Rightarrow> insert (zs_key_expr s) keys | ZsUnsubscribe s \<Rightarrow> keys - {zs_key_expr s})"

definition zs_member :: "string set \<Rightarrow> string \<Rightarrow> unit option" where
  "zs_member keys k = (if k \<in> keys then Some () else None)"

interpretation zenoh_registry: topic_registry zs_member zs_apply "\<lambda>r. Some (zs_request_key r)"
  zs_request_entry
proof unfold_locales
  show "zs_member (zs_apply r s) k = zs_request_entry r" if "Some (zs_request_key r) = Some k" for r k s
    using that by (cases r) (auto simp: zs_member_def zs_apply_def)
  show "zs_member (zs_apply r s) k = zs_member s k" if "Some (zs_request_key r) \<noteq> Some k" for r k s
    using that by (cases r) (auto simp: zs_member_def zs_apply_def)
qed

definition subscribed_keys :: "('w, 's, 'b) zenoh_driver \<Rightarrow> string set" where
  "subscribed_keys d = (case zd_session d of None \<Rightarrow> {} | Some state \<Rightarrow> dom (zn_subscriptions state))"

lemma zd_on_world_Inr:
  "zd_on_world render f d = (Inr x, d') \<longleftrightarrow>
     (\<exists>w. f (zd_world d) = (Inr x, w) \<and> d' = d\<lparr> zd_world := w \<rparr>)"
  by (auto simp: zd_on_world_def map_err_eq_Inr split: prod.splits)

lemma zd_state_Inr:
  "zd_state env d = (Inr state, d') \<longleftrightarrow>
     (\<exists>w. zv_lock env (zd_world d) = (Inr (), w) \<and> zd_session d = Some state \<and>
        d' = d\<lparr> zd_world := w \<rparr>)"
  by (auto simp: zd_state_def zd_lock_def fl_bind_eq_Inr fl_run zd_on_world_Inr ok_or_eq_Inr)

lemma zenoh_subscription_step:
  assumes "zenoh_subscription_op env r d = (Inr u, d')"
  shows "subscribed_keys d' = zs_apply r (subscribed_keys d) \<and> zd_session d' \<noteq> None"
proof (cases r)
  case (ZsSubscribe s)
  with assms obtain w state where state: "zd_session d = Some state"
    and rest: "(if zn_subscriptions state (zs_key_expr s) \<noteq> None then fl_return ()
      else fl_bind (zd_on_world ZeIo
         (zv_declare_subscriber env (zn_session state) (zs_key_expr s))) (\<lambda>subscriber.
       zd_set_state (state\<lparr> zn_subscriptions :=
         (zn_subscriptions state)(zs_key_expr s \<mapsto> subscriber) \<rparr>))) (d\<lparr> zd_world := w \<rparr>) = (Inr u, d')"
    by (auto simp: zenoh_subscribe_def fl_bind_eq_Inr zd_state_Inr)
  then show ?thesis
    using ZsSubscribe
    by (cases "zn_subscriptions state (zs_key_expr s)")
      (auto simp: fl_bind_eq_Inr fl_run zd_on_world_Inr zd_set_state_def subscribed_keys_def
        zs_apply_def)
next
  case (ZsUnsubscribe s)
  with assms show ?thesis
    by (auto simp: zenoh_unsubscribe_def fl_bind_eq_Inr fl_run zd_state_Inr zd_set_state_def
        subscribed_keys_def zs_apply_def split: option.splits if_splits)
qed

text \<open>The replies a handle delivers before it is exhausted.\<close>

inductive replies_from ::
  "('w, 's, 'b, 'r) zenoh_env \<Rightarrow> 'r \<Rightarrow> 'w \<Rightarrow> (string + zenoh_reply) list \<Rightarrow> 'w \<Rightarrow> bool"
  for env h where
  exhausted: "zv_recv_reply env h w = (Inl e, w') \<Longrightarrow> replies_from env h w [] w'"
| delivered:
    "zv_recv_reply env h w = (Inr r, w1) \<Longrightarrow> replies_from env h w1 rs w' \<Longrightarrow>
     replies_from env h w (r # rs) w'"

definition reply_samples :: "(string + zenoh_reply) list \<Rightarrow> zenoh_reply list" where
  "reply_samples rs = concat (map (\<lambda>r. case r of Inr sample \<Rightarrow> [sample] | Inl _ \<Rightarrow> []) rs)"

lemma collect_replies_all:
  "replies_from env h w rs w' \<Longrightarrow> collect_replies env h acc w = Some (acc @ reply_samples rs, w')"
proof (induction arbitrary: acc rule: replies_from.induct)
  case (exhausted w e w')
  then show ?case by (simp add: collect_replies.simps reply_samples_def)
next
  case (delivered w r w1 rs w')
  then show ?case
    by (cases r) (simp_all add: collect_replies.simps [of env h _ w] reply_samples_def)
qed

text \<open>The samples a subscriber holds, with the world after the sink took each of them.\<close>

inductive samples_from ::
  "('w, 's, 'b, 'r) zenoh_env \<Rightarrow> 'b \<Rightarrow> 'w \<Rightarrow> zenoh_event list \<Rightarrow> 'w \<Rightarrow> bool"
  for env s where
  no_more: "zv_try_recv env s w = (r, w') \<Longrightarrow> r = Inr None \<or> (\<exists>e. r = Inl e) \<Longrightarrow>
     samples_from env s w [] w'"
| taken:
    "zv_try_recv env s w = (Inr (Some event), w1) \<Longrightarrow> zv_sink env event w1 = (True, w2) \<Longrightarrow>
     samples_from env s w2 events w' \<Longrightarrow> samples_from env s w (event # events) w'"

lemma drain_all_samples:
  "samples_from env s w events w' \<Longrightarrow> drain_subscriber env s w = Some (True, w')"
  by (induction rule: samples_from.induct) (auto simp: drain_subscriber.simps)

text \<open>A concrete stack: the world is the log of the samples it will still deliver; the lock is free,
  handles are the key expressions, and replies come from the front of the world.\<close>

definition replay_env ::
  "((string + zenoh_sample) list, unit, string, unit) zenoh_env" where
  "replay_env = \<lparr>
     zv_lock = (\<lambda>w. (Inr (), w)), zv_open = (\<lambda>w. (Inr (), w)), zv_drop_session = (\<lambda>_ w. w),
     zv_put = (\<lambda>_ _ _ w. (Inr (), w)), zv_declare_subscriber = (\<lambda>_ key w. (Inr key, w)),
     zv_drop_subscriber = (\<lambda>_ w. w), zv_get = (\<lambda>_ _ _ w. (Inr (), w)),
     zv_recv_reply = (\<lambda>_ w. case w of [] \<Rightarrow> (Inl ''closed'', []) | r # rs \<Rightarrow> (Inr r, rs)),
     zv_try_recv = (\<lambda>_ w. (Inr None, w)), zv_values = (\<lambda>_. []), zv_channel = (\<lambda>w. (0, w)),
     zv_spawn = (\<lambda>_ w. w), zv_sink = (\<lambda>_ w. (True, w)), zv_send_stop = (\<lambda>_ d. d),
     zv_stop_requested = (\<lambda>_ d. (True, d)), zv_sleep = (\<lambda>_ d. d) \<rparr>"

definition replay_driver ::
  "(string + zenoh_sample) list \<Rightarrow> ((string + zenoh_sample) list, unit, string) zenoh_driver" where
  "replay_driver w = (zenoh_driver_new w)\<lparr> zd_session := Some (zenoh_session_state_new ()) \<rparr>"

lemmas zenoh_replay = replay_env_def replay_driver_def zenoh_driver_new_def
  zenoh_session_state_new_def zenoh_subscribe_def zenoh_unsubscribe_def zd_state_def zd_set_state_def
  zd_lock_def zd_on_world_def fl_bind_def fl_run

lemma replay_replies: "replies_from replay_env () ws ws []"
  by (induction ws) (auto simp: replay_env_def intro: replies_from.intros)

section \<open>Properties\<close>

text \<open>C33: The subscriptions of a session refine a set of key expressions: after a series of successful
  subscribe and unsubscribe requests the session holds exactly the keys the set operations give, so
  a key is subscribed iff the last request naming it subscribed it, or none named it and it was
  subscribed before.\<close>

theorem zenoh_subscriptions_refine_set:
  assumes "fl_for (zenoh_subscription_op env) requests d = (Inr u, d')"
  shows "subscribed_keys d' = fold zs_apply requests (subscribed_keys d) \<and>
    (key \<in> subscribed_keys d' \<longleftrightarrow>
      (case find (\<lambda>r. zs_request_key r = key) (rev requests) of
         None \<Rightarrow> key \<in> subscribed_keys d
       | Some (ZsSubscribe _) \<Rightarrow> True
       | Some (ZsUnsubscribe _) \<Rightarrow> False))"
proof
  show keys: "subscribed_keys d' = fold zs_apply requests (subscribed_keys d)"
    using assms
  proof (induction requests arbitrary: d)
    case (Cons r rs)
    then show ?case using zenoh_subscription_step [of env r d] by (fastforce simp: fl_bind_eq_Inr)
  qed simp
  have "key \<in> subscribed_keys d' \<longleftrightarrow> zs_member (subscribed_keys d') key = Some ()"
    by (simp add: zs_member_def)
  then show "key \<in> subscribed_keys d' \<longleftrightarrow>
      (case find (\<lambda>r. zs_request_key r = key) (rev requests) of
         None \<Rightarrow> key \<in> subscribed_keys d
       | Some (ZsSubscribe _) \<Rightarrow> True
       | Some (ZsUnsubscribe _) \<Rightarrow> False)"
    unfolding keys zenoh_registry.entry_after_requests
    by (auto simp: zs_member_def split: option.splits zenoh_subscription_request.splits)
qed

lemma zenoh_subscriptions_refine_set_witness:
  "\<exists>d'. fl_for (zenoh_subscription_op replay_env)
       [ZsSubscribe \<lparr> zs_command_id = ''1'', zs_key_expr = ''a'' \<rparr>,
        ZsSubscribe \<lparr> zs_command_id = ''2'', zs_key_expr = ''b'' \<rparr>,
        ZsUnsubscribe \<lparr> zs_command_id = ''3'', zs_key_expr = ''a'' \<rparr>] (replay_driver []) = (Inr (), d') \<and>
     ''a'' \<notin> subscribed_keys d'"
proof -
  obtain d' where run: "fl_for (zenoh_subscription_op replay_env)
       [ZsSubscribe \<lparr> zs_command_id = ''1'', zs_key_expr = ''a'' \<rparr>,
        ZsSubscribe \<lparr> zs_command_id = ''2'', zs_key_expr = ''b'' \<rparr>,
        ZsUnsubscribe \<lparr> zs_command_id = ''3'', zs_key_expr = ''a'' \<rparr>] (replay_driver []) = (Inr (), d')"
    by (simp add: zenoh_replay)
  have "''a'' \<notin> subscribed_keys d'"
    using zenoh_subscriptions_refine_set [OF run, THEN conjunct2, of "''a''"] by simp
  with run show ?thesis by blast
qed

text \<open>C34: A query returns every sample its replies deliver, in order, and skips the replies that are
  errors: when the handle delivers \<open>replies\<close> and is then exhausted, executing the query returns, with
  exactly their samples.\<close>

theorem zenoh_query_collects_replies:
  assumes "zv_lock env (zd_world d) = (Inr (), w1)" and "zd_session d = Some state"
    and "zv_get env (zn_session state) (query_selector request)
           (map_option (\<lambda>ms. unat ms * 10 ^ 6) (zq_timeout_ms request)) w1 = (Inr h, w2)"
    and "replies_from env h w2 replies w3"
  shows "zenoh_execute_request env (ZrQuery request) d =
    Some (Inr (ZenohQueryResponse \<lparr> zqr_replies = reply_samples replies \<rparr>), d\<lparr> zd_world := w3 \<rparr>)"
  using assms collect_replies_all [OF assms(4), of "[]"]
  by (simp add: zenoh_execute_request_def zenoh_query_def lp_bind_def lp_simps zd_state_def
      zd_lock_def zd_on_world_def fl_bind_def fl_run)

lemma zenoh_query_collects_replies_witness:
  "zenoh_execute_request replay_env
     (ZrQuery \<lparr> zq_command_id = ''1'', zq_key_expr = ''k'', zq_parameters = None,
               zq_timeout_ms = Some 5 \<rparr>)
     (replay_driver [Inr \<lparr> zx_key_expr = ''k'', zx_payload = [1] \<rparr>, Inl ''timeout'',
                     Inr \<lparr> zx_key_expr = ''k'', zx_payload = [2] \<rparr>]) =
   Some (Inr (ZenohQueryResponse \<lparr> zqr_replies =
     [\<lparr> zx_key_expr = ''k'', zx_payload = [1] \<rparr>, \<lparr> zx_key_expr = ''k'', zx_payload = [2] \<rparr>] \<rparr>),
     replay_driver [])"
proof -
  let ?replies = "[Inr \<lparr> zx_key_expr = ''k'', zx_payload = [1] \<rparr>, Inl ''timeout'',
                   Inr \<lparr> zx_key_expr = ''k'', zx_payload = [2] \<rparr>]"
  have "replies_from replay_env () ?replies ?replies []" by (rule replay_replies)
  then show ?thesis
    using zenoh_query_collects_replies [of replay_env "replay_driver ?replies" ?replies
        "zenoh_session_state_new ()" "\<lparr> zq_command_id = ''1'', zq_key_expr = ''k'',
           zq_parameters = None, zq_timeout_ms = Some 5 \<rparr>" "()" ?replies ?replies "[]"]
    by (simp add: zenoh_replay reply_samples_def)
qed

text \<open>The exit of a listener that was stopped hides the one started after it: a running listener
  refuses a second one, but once the task of an earlier listener has returned, its exit marks the
  listener as stopped and the next start succeeds although a listener is running.\<close>

theorem stale_listener_exit_allows_second:
  assumes "\<And>w. zv_lock env w = (Inr (), w)" and "zd_listener_status d = ZlRunning"
  shows "fst (zenoh_start_listener env d) = Inl ZeListenerAlreadyRunning \<and>
    zd_listener_status (zenoh_listener_exit env (Inr ()) d) = ZlStopped \<and>
    fst (zenoh_start_listener env (zenoh_listener_exit env (Inr ()) d)) = Inr ()"
  using assms
  by (simp add: zenoh_start_listener_def zenoh_listener_exit_def set_listener_status_def zd_lock_def
      zd_on_world_def fl_bind_def fl_run split: prod.split)

lemma stale_listener_exit_allows_second_witness:
  "fst (zenoh_start_listener replay_env (zenoh_listener_exit replay_env (Inr ())
     ((replay_driver [])\<lparr> zd_listener_status := ZlRunning \<rparr>))) = Inr ()"
  using stale_listener_exit_allows_second [of replay_env
      "(replay_driver [])\<lparr> zd_listener_status := ZlRunning \<rparr>"]
  by (simp add: zenoh_replay)

end
