(* ===== verification/Runtime_Std.thy ===== *)
theory Runtime_Std
  imports Runtime_Io
begin

text \<open>
  The tokio and async-std adapters (\<open>ferredge-runtime-tokio\<close>, \<open>ferredge-runtime-async-std\<close>): how the
  runtime traits of \<open>ferredge-core\<close> are built from the libraries' tasks, channels, mutexes, sockets
  and serial ports.  The libraries are parameters: an operation of a library is a function of its
  handle and the world, and an operation under a timeout has no result when the time elapses first.
\<close>

section \<open>Errors\<close>

text \<open>\<open>std::io::ErrorKind\<close>: the kinds the adapters name, and the remaining ones.\<close>

datatype io_error_kind =
    IoBrokenPipe | IoConnectionAborted | IoConnectionReset | IoUnexpectedEof | IoNotConnected
  | IoTimedOut | IoWouldBlock
  | IoAddrInUse | IoAddrNotAvailable | IoConnectionRefused | IoHostUnreachable
  | IoNetworkUnreachable
  | IoUnsupported | IoOtherKind

text \<open>\<open>serialport::ErrorKind\<close>.\<close>

datatype serialport_error_kind =
    SpNoDevice | SpInvalidInput | SpUnknown | SpIo io_error_kind

text \<open>The two adapters differ in the text of the last case only.\<close>

fun net_error_of_kind :: "string \<Rightarrow> io_error_kind \<Rightarrow> net_error" where
  "net_error_of_kind rest IoBrokenPipe = NetClosed"
| "net_error_of_kind rest IoConnectionAborted = NetClosed"
| "net_error_of_kind rest IoConnectionReset = NetClosed"
| "net_error_of_kind rest IoUnexpectedEof = NetClosed"
| "net_error_of_kind rest IoNotConnected = NetClosed"
| "net_error_of_kind rest IoTimedOut = NetTimedOut"
| "net_error_of_kind rest IoWouldBlock = NetTimedOut"
| "net_error_of_kind rest IoAddrInUse = NetUnreachable"
| "net_error_of_kind rest IoAddrNotAvailable = NetUnreachable"
| "net_error_of_kind rest IoConnectionRefused = NetUnreachable"
| "net_error_of_kind rest IoHostUnreachable = NetUnreachable"
| "net_error_of_kind rest IoNetworkUnreachable = NetUnreachable"
| "net_error_of_kind rest IoUnsupported = NetUnsupported"
| "net_error_of_kind rest IoOtherKind = NetOther rest"

definition tokio_map_io_error :: "io_error_kind \<Rightarrow> net_error" where
  "tokio_map_io_error = net_error_of_kind ''tokio io error''"

definition async_std_map_io_error :: "io_error_kind \<Rightarrow> net_error" where
  "async_std_map_io_error = net_error_of_kind ''async-std io error''"

definition serial_error_of_kind :: "string \<Rightarrow> io_error_kind \<Rightarrow> serial_error" where
  "serial_error_of_kind rest kind =
     (if kind \<in> {IoBrokenPipe, IoConnectionAborted, IoConnectionReset, IoUnexpectedEof, IoNotConnected}
      then SerialClosed
      else if kind \<in> {IoTimedOut, IoWouldBlock} then SerialTimedOut
      else if kind = IoUnsupported then SerialUnsupported
      else SerialOther rest)"

definition tokio_map_serial_io_error :: "io_error_kind \<Rightarrow> serial_error" where
  "tokio_map_serial_io_error = serial_error_of_kind ''tokio serial io error''"

definition async_std_map_serial_io_error :: "io_error_kind \<Rightarrow> serial_error" where
  "async_std_map_serial_io_error = serial_error_of_kind ''async-std serial io error''"

definition serial_error_of_open :: "string \<Rightarrow> serialport_error_kind \<Rightarrow> serial_error" where
  "serial_error_of_open rest kind =
     (if kind = SpNoDevice then SerialClosed
      else if kind = SpInvalidInput then SerialUnsupported
      else if kind = SpIo IoTimedOut then SerialTimedOut
      else SerialOther rest)"

definition tokio_map_serial_error :: "serialport_error_kind \<Rightarrow> serial_error" where
  "tokio_map_serial_error = serial_error_of_open ''tokio serial error''"

definition async_std_map_serial_error :: "serialport_error_kind \<Rightarrow> serial_error" where
  "async_std_map_serial_error = serial_error_of_open ''async-std serial error''"

section \<open>Tasks, channels and mutexes\<close>

text \<open>
  What waiting for a task gives: its value, or the library's join error (aborted or panicked), which
  only tokio reports; async-std never says that a task is finished and ignores an abort.
\<close>

definition tokio_join :: "('w \<Rightarrow> ('e + 'a) \<times> 'w) \<Rightarrow> ('w, task_join_error, 'a) failing" where
  "tokio_join await w = (let (r, w) = await w in (map_err (\<lambda>_. JoinCancelled) r, w))"

definition async_std_join :: "('w \<Rightarrow> 'a \<times> 'w) \<Rightarrow> ('w, task_join_error, 'a) failing" where
  "async_std_join await w = (let (x, w) = await w in (Inr x, w))"

definition tokio_abort :: "('w \<Rightarrow> 'w) \<Rightarrow> 'w \<Rightarrow> 'w" where
  "tokio_abort abort_handle = abort_handle"

definition async_std_abort :: "('w \<Rightarrow> 'w) \<Rightarrow> 'w \<Rightarrow> 'w" where
  "async_std_abort abort_handle w = w"

definition tokio_is_finished :: "('w \<Rightarrow> bool) \<Rightarrow> 'w \<Rightarrow> bool" where
  "tokio_is_finished finished = finished"

definition async_std_is_finished :: "('w \<Rightarrow> bool) \<Rightarrow> 'w \<Rightarrow> bool" where
  "async_std_is_finished finished w = False"

datatype try_send_error = TsFull | TsClosed
datatype try_recv_error = TrEmpty | TrDisconnected

fun channel_error_of_try_send :: "try_send_error \<Rightarrow> channel_error" where
  "channel_error_of_try_send TsFull = ChFull"
| "channel_error_of_try_send TsClosed = ChClosed"

fun channel_error_of_try_recv :: "try_recv_error \<Rightarrow> channel_error" where
  "channel_error_of_try_recv TrEmpty = ChEmpty"
| "channel_error_of_try_recv TrDisconnected = ChClosed"

definition std_send :: "('w \<Rightarrow> ('e + unit) \<times> 'w) \<Rightarrow> ('w, channel_error, unit) failing" where
  "std_send send w = (let (r, w) = send w in (map_err (\<lambda>_. ChClosed) r, w))"

definition std_try_send ::
  "('w \<Rightarrow> (try_send_error + unit) \<times> 'w) \<Rightarrow> ('w, channel_error, unit) failing" where
  "std_try_send send w = (let (r, w) = send w in (map_err channel_error_of_try_send r, w))"

text \<open>tokio's \<open>recv\<close> is an option, async-std's a result.\<close>

definition tokio_recv :: "('w \<Rightarrow> 'a option \<times> 'w) \<Rightarrow> ('w, channel_error, 'a) failing" where
  "tokio_recv recv w = (let (r, w) = recv w in (ok_or ChClosed r, w))"

definition async_std_recv :: "('w \<Rightarrow> ('e + 'a) \<times> 'w) \<Rightarrow> ('w, channel_error, 'a) failing" where
  "async_std_recv recv w = (let (r, w) = recv w in (map_err (\<lambda>_. ChClosed) r, w))"

definition std_try_recv ::
  "('w \<Rightarrow> (try_recv_error + 'a) \<times> 'w) \<Rightarrow> ('w, channel_error, 'a) failing" where
  "std_try_recv recv w = (let (r, w) = recv w in (map_err channel_error_of_try_recv r, w))"

definition tokio_try_lock :: "('w \<Rightarrow> ('e + 'g) \<times> 'w) \<Rightarrow> ('w, mutex_error, 'g) failing" where
  "tokio_try_lock lock w = (let (r, w) = lock w in (map_err (\<lambda>_. MutexBusy) r, w))"

definition async_std_try_lock :: "('w \<Rightarrow> 'g option \<times> 'w) \<Rightarrow> ('w, mutex_error, 'g) failing" where
  "async_std_try_lock lock w = (let (r, w) = lock w in (ok_or MutexBusy r, w))"

section \<open>Sockets\<close>

record 'h std_socket =
  ss_stream :: 'h
  ss_read_timeout :: "duration option"
  ss_write_timeout :: "duration option"

text \<open>The library: plain operations, and the same ones under a timeout, \<open>None\<close> when it elapses.\<close>

record ('w, 'h) std_net =
  sn_connect :: "string \<Rightarrow> 'w \<Rightarrow> (io_error_kind + 'h) \<times> 'w"
  sn_read :: "'h \<Rightarrow> nat \<Rightarrow> 'w \<Rightarrow> (io_error_kind + bytes) \<times> 'w"
  sn_write :: "'h \<Rightarrow> bytes \<Rightarrow> 'w \<Rightarrow> (io_error_kind + nat) \<times> 'w"
  sn_flush :: "'h \<Rightarrow> 'w \<Rightarrow> (io_error_kind + unit) \<times> 'w"
  sn_shutdown :: "'h \<Rightarrow> 'w \<Rightarrow> (io_error_kind + unit) \<times> 'w"
  sn_read_within :: "duration \<Rightarrow> 'h \<Rightarrow> nat \<Rightarrow> 'w \<Rightarrow> (io_error_kind + bytes) option \<times> 'w"
  sn_write_within :: "duration \<Rightarrow> 'h \<Rightarrow> bytes \<Rightarrow> 'w \<Rightarrow> (io_error_kind + nat) option \<times> 'w"
  sn_flush_within :: "duration \<Rightarrow> 'h \<Rightarrow> 'w \<Rightarrow> (io_error_kind + unit) option \<times> 'w"

definition under_timeout ::
  "('k \<Rightarrow> net_error) \<Rightarrow> duration option \<Rightarrow> (duration \<Rightarrow> 'w \<Rightarrow> ('k + 'a) option \<times> 'w) \<Rightarrow>
   ('w \<Rightarrow> ('k + 'a) \<times> 'w) \<Rightarrow> ('w, net_error, 'a) failing" where
  "under_timeout render timeout within plain w =
     (case timeout of
        Some t \<Rightarrow>
          (case within t w of
             (None, w) \<Rightarrow> (Inl NetTimedOut, w)
           | (Some r, w) \<Rightarrow> (map_err render r, w))
      | None \<Rightarrow> (let (r, w) = plain w in (map_err render r, w)))"

definition std_set_read_timeout :: "duration option \<Rightarrow> 'h std_socket \<Rightarrow> (net_error + unit) \<times> 'h std_socket" where
  "std_set_read_timeout timeout s = (Inr (), s\<lparr> ss_read_timeout := timeout \<rparr>)"

definition std_set_write_timeout :: "duration option \<Rightarrow> 'h std_socket \<Rightarrow> (net_error + unit) \<times> 'h std_socket" where
  "std_set_write_timeout timeout s = (Inr (), s\<lparr> ss_write_timeout := timeout \<rparr>)"

definition std_read ::
  "(io_error_kind \<Rightarrow> net_error) \<Rightarrow> ('w, 'h) std_net \<Rightarrow> 'h std_socket \<Rightarrow> nat \<Rightarrow>
   ('w, net_error, bytes) failing" where
  "std_read render lib s len =
     under_timeout render (ss_read_timeout s) (\<lambda>t. sn_read_within lib t (ss_stream s) len)
       (sn_read lib (ss_stream s) len)"

definition std_write ::
  "(io_error_kind \<Rightarrow> net_error) \<Rightarrow> ('w, 'h) std_net \<Rightarrow> 'h std_socket \<Rightarrow> bytes \<Rightarrow>
   ('w, net_error, nat) failing" where
  "std_write render lib s buf =
     under_timeout render (ss_write_timeout s) (\<lambda>t. sn_write_within lib t (ss_stream s) buf)
       (sn_write lib (ss_stream s) buf)"

definition std_flush ::
  "(io_error_kind \<Rightarrow> net_error) \<Rightarrow> ('w, 'h) std_net \<Rightarrow> 'h std_socket \<Rightarrow>
   ('w, net_error, unit) failing" where
  "std_flush render lib s =
     under_timeout render (ss_write_timeout s) (\<lambda>t. sn_flush_within lib t (ss_stream s))
       (sn_flush lib (ss_stream s))"

text \<open>Closing shuts a tokio stream down; the async-std adapter leaves the stream open.\<close>

definition tokio_close ::
  "('w, 'h) std_net \<Rightarrow> 'h std_socket \<Rightarrow> ('w, net_error, unit) failing" where
  "tokio_close lib s w =
     (let (r, w) = sn_shutdown lib (ss_stream s) w in (map_err tokio_map_io_error r, w))"

definition async_std_close ::
  "('w, 'h) std_net \<Rightarrow> 'h std_socket \<Rightarrow> ('w, net_error, unit) failing" where
  "async_std_close lib s w = (Inr (), w)"

definition std_connect ::
  "(io_error_kind \<Rightarrow> net_error) \<Rightarrow> ('w, 'h) std_net \<Rightarrow> string \<Rightarrow>
   ('w, net_error, 'h std_socket) failing" where
  "std_connect render lib address w =
     (let (r, w) = sn_connect lib address w
      in (map_ok (\<lambda>h. \<lparr> ss_stream = h, ss_read_timeout = None, ss_write_timeout = None \<rparr>)
            (map_err render r), w))"

text \<open>Listeners: closing one does nothing, and an accepted socket has no timeouts.\<close>

record ('w, 'l, 'h) std_listen =
  sl_bind_listener :: "string \<Rightarrow> 'w \<Rightarrow> (io_error_kind + 'l) \<times> 'w"
  sl_accept :: "'l \<Rightarrow> 'w \<Rightarrow> (io_error_kind + 'h \<times> string) \<times> 'w"

definition std_bind ::
  "(io_error_kind \<Rightarrow> net_error) \<Rightarrow> ('w, 'l, 'h) std_listen \<Rightarrow> string \<Rightarrow> ('w, net_error, 'l) failing" where
  "std_bind render lib address w =
     (let (r, w) = sl_bind_listener lib address w in (map_err render r, w))"

definition std_accept ::
  "(io_error_kind \<Rightarrow> net_error) \<Rightarrow> ('w, 'l, 'h) std_listen \<Rightarrow> 'l \<Rightarrow>
   ('w, net_error, 'h std_socket) failing" where
  "std_accept render lib l w =
     (let (r, w) = sl_accept lib l w
      in (map_ok (\<lambda>(h, _). \<lparr> ss_stream = h, ss_read_timeout = None, ss_write_timeout = None \<rparr>)
            (map_err render r), w))"

definition std_listener_close :: "'l \<Rightarrow> ('w, net_error, unit) failing" where
  "std_listener_close l w = (Inr (), w)"

section \<open>Datagrams\<close>

record 'h std_datagram_socket =
  sd_socket :: 'h
  sd_read_timeout :: "duration option"

text \<open>Addresses are rendered by the library; \<open>to_string\<close> of one is the string itself.\<close>

record ('w, 'h) std_udp =
  su_bind :: "string \<Rightarrow> 'w \<Rightarrow> (io_error_kind + 'h) \<times> 'w"
  su_recv_from :: "'h \<Rightarrow> nat \<Rightarrow> 'w \<Rightarrow> (io_error_kind + bytes \<times> string) \<times> 'w"
  su_recv_from_within ::
    "duration \<Rightarrow> 'h \<Rightarrow> nat \<Rightarrow> 'w \<Rightarrow> (io_error_kind + bytes \<times> string) option \<times> 'w"
  su_send_to :: "'h \<Rightarrow> bytes \<Rightarrow> string \<Rightarrow> 'w \<Rightarrow> (io_error_kind + nat) \<times> 'w"

definition std_datagram_set_read_timeout ::
  "duration option \<Rightarrow> 'h std_datagram_socket \<Rightarrow> (net_error + unit) \<times> 'h std_datagram_socket" where
  "std_datagram_set_read_timeout timeout s = (Inr (), s\<lparr> sd_read_timeout := timeout \<rparr>)"

definition std_recv_from ::
  "(io_error_kind \<Rightarrow> net_error) \<Rightarrow> ('w, 'h) std_udp \<Rightarrow> 'h std_datagram_socket \<Rightarrow> nat \<Rightarrow>
   ('w, net_error, bytes \<times> string) failing" where
  "std_recv_from render lib s len =
     under_timeout render (sd_read_timeout s) (\<lambda>t. su_recv_from_within lib t (sd_socket s) len)
       (su_recv_from lib (sd_socket s) len)"

definition std_send_to ::
  "(io_error_kind \<Rightarrow> net_error) \<Rightarrow> ('w, 'h) std_udp \<Rightarrow> 'h std_datagram_socket \<Rightarrow> bytes \<Rightarrow> string \<Rightarrow>
   ('w, net_error, nat) failing" where
  "std_send_to render lib s buf address w =
     (let (r, w) = su_send_to lib (sd_socket s) buf address w in (map_err render r, w))"

definition std_bind_datagram ::
  "(io_error_kind \<Rightarrow> net_error) \<Rightarrow> ('w, 'h) std_udp \<Rightarrow> string \<Rightarrow>
   ('w, net_error, 'h std_datagram_socket) failing" where
  "std_bind_datagram render lib address w =
     (let (r, w) = su_bind lib address w
      in (map_ok (\<lambda>h. \<lparr> sd_socket = h, sd_read_timeout = None \<rparr>) (map_err render r), w))"

section \<open>The two adapters\<close>

definition tokio_connect :: "('w, 'h) std_net \<Rightarrow> string \<Rightarrow> ('w, net_error, 'h std_socket) failing" where
  "tokio_connect = std_connect tokio_map_io_error"

definition tokio_read :: "('w, 'h) std_net \<Rightarrow> 'h std_socket \<Rightarrow> nat \<Rightarrow> ('w, net_error, bytes) failing" where
  "tokio_read = std_read tokio_map_io_error"

definition tokio_write :: "('w, 'h) std_net \<Rightarrow> 'h std_socket \<Rightarrow> bytes \<Rightarrow> ('w, net_error, nat) failing" where
  "tokio_write = std_write tokio_map_io_error"

definition tokio_flush :: "('w, 'h) std_net \<Rightarrow> 'h std_socket \<Rightarrow> ('w, net_error, unit) failing" where
  "tokio_flush = std_flush tokio_map_io_error"

definition tokio_recv_from ::
  "('w, 'h) std_udp \<Rightarrow> 'h std_datagram_socket \<Rightarrow> nat \<Rightarrow> ('w, net_error, bytes \<times> string) failing" where
  "tokio_recv_from = std_recv_from tokio_map_io_error"

definition tokio_send_to ::
  "('w, 'h) std_udp \<Rightarrow> 'h std_datagram_socket \<Rightarrow> bytes \<Rightarrow> string \<Rightarrow> ('w, net_error, nat) failing" where
  "tokio_send_to = std_send_to tokio_map_io_error"

definition tokio_bind_datagram ::
  "('w, 'h) std_udp \<Rightarrow> string \<Rightarrow> ('w, net_error, 'h std_datagram_socket) failing" where
  "tokio_bind_datagram = std_bind_datagram tokio_map_io_error"

definition tokio_bind :: "('w, 'l, 'h) std_listen \<Rightarrow> string \<Rightarrow> ('w, net_error, 'l) failing" where
  "tokio_bind = std_bind tokio_map_io_error"

definition tokio_accept :: "('w, 'l, 'h) std_listen \<Rightarrow> 'l \<Rightarrow> ('w, net_error, 'h std_socket) failing" where
  "tokio_accept = std_accept tokio_map_io_error"

definition async_std_bind :: "('w, 'l, 'h) std_listen \<Rightarrow> string \<Rightarrow> ('w, net_error, 'l) failing" where
  "async_std_bind = std_bind async_std_map_io_error"

definition async_std_accept ::
  "('w, 'l, 'h) std_listen \<Rightarrow> 'l \<Rightarrow> ('w, net_error, 'h std_socket) failing" where
  "async_std_accept = std_accept async_std_map_io_error"

definition async_std_connect ::
  "('w, 'h) std_net \<Rightarrow> string \<Rightarrow> ('w, net_error, 'h std_socket) failing" where
  "async_std_connect = std_connect async_std_map_io_error"

definition async_std_read ::
  "('w, 'h) std_net \<Rightarrow> 'h std_socket \<Rightarrow> nat \<Rightarrow> ('w, net_error, bytes) failing" where
  "async_std_read = std_read async_std_map_io_error"

definition async_std_write ::
  "('w, 'h) std_net \<Rightarrow> 'h std_socket \<Rightarrow> bytes \<Rightarrow> ('w, net_error, nat) failing" where
  "async_std_write = std_write async_std_map_io_error"

definition async_std_flush ::
  "('w, 'h) std_net \<Rightarrow> 'h std_socket \<Rightarrow> ('w, net_error, unit) failing" where
  "async_std_flush = std_flush async_std_map_io_error"

definition async_std_recv_from ::
  "('w, 'h) std_udp \<Rightarrow> 'h std_datagram_socket \<Rightarrow> nat \<Rightarrow> ('w, net_error, bytes \<times> string) failing" where
  "async_std_recv_from = std_recv_from async_std_map_io_error"

definition async_std_send_to ::
  "('w, 'h) std_udp \<Rightarrow> 'h std_datagram_socket \<Rightarrow> bytes \<Rightarrow> string \<Rightarrow> ('w, net_error, nat) failing" where
  "async_std_send_to = std_send_to async_std_map_io_error"

definition async_std_bind_datagram ::
  "('w, 'h) std_udp \<Rightarrow> string \<Rightarrow> ('w, net_error, 'h std_datagram_socket) failing" where
  "async_std_bind_datagram = std_bind_datagram async_std_map_io_error"

section \<open>Serial ports\<close>

datatype serialport_data_bits = SpFive | SpSix | SpSeven | SpEight
datatype serialport_parity = SpNoParity | SpEvenParity | SpOddParity
datatype serialport_stop_bits = SpOneStop | SpTwoStop
datatype serialport_flow_control = SpNoFlow | SpSoftwareFlow | SpHardwareFlow

fun map_data_bits :: "serial_data_bits \<Rightarrow> serialport_data_bits" where
  "map_data_bits Five = SpFive"
| "map_data_bits Six = SpSix"
| "map_data_bits Seven = SpSeven"
| "map_data_bits Eight = SpEight"

fun map_parity :: "serial_parity \<Rightarrow> serialport_parity" where
  "map_parity NoParity = SpNoParity"
| "map_parity EvenParity = SpEvenParity"
| "map_parity OddParity = SpOddParity"

fun map_stop_bits :: "serial_stop_bits \<Rightarrow> serialport_stop_bits" where
  "map_stop_bits OneStop = SpOneStop"
| "map_stop_bits TwoStop = SpTwoStop"

fun map_flow_control :: "serial_flow_control \<Rightarrow> serialport_flow_control" where
  "map_flow_control NoFlow = SpNoFlow"
| "map_flow_control SoftwareFlow = SpSoftwareFlow"
| "map_flow_control HardwareFlow = SpHardwareFlow"

text \<open>The builder of the \<open>serialport\<close> library; without a timeout it keeps its own.\<close>

record serialport_builder =
  sb_path :: string
  sb_baudrate :: u32
  sb_data_bits :: serialport_data_bits
  sb_parity :: serialport_parity
  sb_stop_bits :: serialport_stop_bits
  sb_flow_control :: serialport_flow_control
  sb_timeout :: "duration option"

definition serial_builder :: "serial_port_config \<Rightarrow> serialport_builder" where
  "serial_builder config =
     \<lparr> sb_path = sp_path config, sb_baudrate = sp_baudrate config,
       sb_data_bits = map_data_bits (sp_data_bits config),
       sb_parity = map_parity (sp_parity config),
       sb_stop_bits = map_stop_bits (sp_stop_bits config),
       sb_flow_control = map_flow_control (sp_flow_control config),
       sb_timeout = opt_or (sp_read_timeout config) (sp_write_timeout config) \<rparr>"

text \<open>The library's port; \<open>sx_lock\<close> is the blocking mutex the async-std adapter puts around it.\<close>

record ('w, 'p) serialport_lib =
  sx_open :: "serialport_builder \<Rightarrow> 'w \<Rightarrow> (serialport_error_kind + 'p) \<times> 'w"
  sx_read :: "'p \<Rightarrow> nat \<Rightarrow> 'w \<Rightarrow> (io_error_kind + bytes) \<times> 'w"
  sx_write :: "'p \<Rightarrow> bytes \<Rightarrow> 'w \<Rightarrow> (io_error_kind + nat) \<times> 'w"
  sx_flush :: "'p \<Rightarrow> 'w \<Rightarrow> (io_error_kind + unit) \<times> 'w"
  sx_shutdown :: "'p \<Rightarrow> 'w \<Rightarrow> (io_error_kind + unit) \<times> 'w"
  sx_lock :: "'p \<Rightarrow> 'w \<Rightarrow> bool"

definition tokio_serial_open ::
  "('w, 'p) serialport_lib \<Rightarrow> serial_port_config \<Rightarrow> ('w, serial_error, 'p) failing" where
  "tokio_serial_open lib config w =
     (let (r, w) = sx_open lib (serial_builder config) w in (map_err tokio_map_serial_error r, w))"

definition tokio_serial_io :: "('w, 'p) serialport_lib \<Rightarrow> ('w, 'p, serial_error) stream_io" where
  "tokio_serial_io lib =
     \<lparr> st_write = (\<lambda>p w buf.
         let (r, w) = sx_write lib p buf w in (map_err tokio_map_serial_io_error r, w)),
       st_flush = (\<lambda>p w. let (r, w) = sx_flush lib p w in (map_err tokio_map_serial_io_error r, w)),
       st_read = (\<lambda>p len w.
         let (r, w) = sx_read lib p len w in (map_err tokio_map_serial_io_error r, w)),
       st_close = (\<lambda>p w.
         let (r, w) = sx_shutdown lib p w in (map_err tokio_map_serial_io_error r, w)) \<rparr>"

text \<open>A blocking call of the async-std adapter: a poisoned mutex ends it.\<close>

definition locked_port ::
  "('w, 'p) serialport_lib \<Rightarrow> 'p \<Rightarrow> ('w \<Rightarrow> (io_error_kind + 'a) \<times> 'w) \<Rightarrow>
   ('w, serial_error, 'a) failing" where
  "locked_port lib p f w =
     (if sx_lock lib p w
      then (let (r, w) = f w in (map_err async_std_map_serial_io_error r, w))
      else (Inl SerialRuntimeUnavailable, w))"

definition async_std_serial_open ::
  "('w, 'p) serialport_lib \<Rightarrow> serial_port_config \<Rightarrow> ('w, serial_error, 'p) failing" where
  "async_std_serial_open lib config w =
     (let (r, w) = sx_open lib (serial_builder config) w
      in (map_err async_std_map_serial_error r, w))"

definition async_std_serial_io :: "('w, 'p) serialport_lib \<Rightarrow> ('w, 'p, serial_error) stream_io" where
  "async_std_serial_io lib =
     \<lparr> st_write = (\<lambda>p w buf. locked_port lib p (sx_write lib p buf) w),
       st_flush = (\<lambda>p. locked_port lib p (sx_flush lib p)),
       st_read = (\<lambda>p len. locked_port lib p (sx_read lib p len)),
       st_close = (\<lambda>p w. (Inr (), w)) \<rparr>"

section \<open>Whole buffers over a socket\<close>

text \<open>
  What the library documents of a write, with and without a timeout: it accepts a prefix of the
  buffer and says how much; one that fails or is dropped at the timeout has accepted nothing.
\<close>

definition honest_stream :: "('w, 'h) std_net \<Rightarrow> 'h \<Rightarrow> ('w \<Rightarrow> bytes) \<Rightarrow> bool" where
  "honest_stream lib h sent \<longleftrightarrow>
     honest_writer sent (\<lambda>w buf. sn_write lib h buf w) \<and>
     (\<forall>t. honest_writer sent (\<lambda>w buf.
        case sn_write_within lib t h buf w of
          (None, w) \<Rightarrow> (Inl IoTimedOut, w)
        | (Some r, w) \<Rightarrow> (r, w)))"

lemma honest_writer_map_err:
  assumes "honest_writer sent wr"
  shows "honest_writer sent (\<lambda>w buf. let (r, w) = wr w buf in (map_err render r, w))"
  unfolding honest_writer_def
proof (intro allI)
  fix w buf
  obtain r w' where r: "wr w buf = (r, w')" by fastforce
  show "case let (r, w) = wr w buf in (map_err render r, w) of
      (Inl e, w') \<Rightarrow> sent w' = sent w
    | (Inr n, w') \<Rightarrow> n \<le> length buf \<and> sent w' = sent w @ take n buf"
    using honest_writer_InlD [OF assms, of w buf _ w'] honest_writer_InrD [OF assms, of w buf _ w'] r
    by (cases r) simp_all
qed

lemma std_write_honest:
  assumes "honest_stream lib (ss_stream s) sent"
  shows "honest_writer sent (\<lambda>w buf. std_write render lib s buf w)"
proof (cases "ss_write_timeout s")
  case None
  have "honest_writer sent (\<lambda>w buf. sn_write lib (ss_stream s) buf w)"
    using assms by (simp add: honest_stream_def)
  from honest_writer_map_err [OF this, of render] None show ?thesis
    by (simp add: std_write_def under_timeout_def)
next
  case (Some t)
  have timed: "honest_writer sent (\<lambda>w buf.
      case sn_write_within lib t (ss_stream s) buf w of
        (None, w) \<Rightarrow> (Inl IoTimedOut, w) | (Some r, w) \<Rightarrow> (r, w))"
    using assms by (simp add: honest_stream_def)
  show ?thesis
    unfolding honest_writer_def
  proof (intro allI)
    fix w buf
    obtain r w' where r: "sn_write_within lib t (ss_stream s) buf w = (r, w')" by fastforce
    show "case std_write render lib s buf w of
        (Inl e, w') \<Rightarrow> sent w' = sent w
      | (Inr n, w') \<Rightarrow> n \<le> length buf \<and> sent w' = sent w @ take n buf"
    proof (cases r)
      case None
      then show ?thesis
        using honest_writer_InlD [OF timed, where s = w and data = buf and e = IoTimedOut] r None
          \<open>ss_write_timeout s = Some t\<close>
        by (simp add: std_write_def under_timeout_def)
    next
      case (Some x)
      then show ?thesis
        using honest_writer_InlD [OF timed, where s = w and data = buf] honest_writer_InrD [OF timed, where s = w and data = buf]
          r \<open>ss_write_timeout s = Some t\<close>
        by (cases x) (simp_all add: std_write_def under_timeout_def)
    qed
  qed
qed

text \<open>So a whole buffer written through either adapter's socket reaches the library in order.\<close>

lemma std_write_all_complete:
  assumes "honest_stream lib (ss_stream s) sent"
    and "write_all_socket (\<lambda>w buf. std_write render lib s buf w) buf w = (Inr u, w')"
  shows "sent w' = sent w @ buf"
  by (rule write_all_socket_complete [OF std_write_honest [OF assms(1)] assms(2)])

end
