(* ===== verification/Runtime_Embassy.thy ===== *)
theory Runtime_Embassy
  imports Runtime_Io Topic_Registry
begin

text \<open>
  The embassy adapter (\<open>ferredge-runtime-embassy\<close>): the pool of task storage behind \<open>spawn\<close>, task
  handles, channels of a fixed size, sockets over the embassy-net stack and the registry of serial
  ports.  The embassy libraries are parameters over a world state.
\<close>

section \<open>Time\<close>

text \<open>\<open>to_embassy_duration\<close>: whole microseconds, saturating at the 64 bits of embassy's durations.\<close>

definition to_embassy_duration :: "duration \<Rightarrow> u64" where
  "to_embassy_duration d = (let us = d div 1000 in if us < 2 ^ 64 then of_nat us else - 1)"

lemma to_embassy_duration_saturates:
  "unat (to_embassy_duration d) = min (d div 1000) (2 ^ 64 - 1)"
  by (auto simp: to_embassy_duration_def Let_def unat_max_word unat_of_nat take_bit_eq_mod)

section \<open>The storage pool\<close>

text \<open>
  The executor: \<open>ex_claim\<close> is \<open>TaskStorage::spawn\<close>, which fails while the slot is busy, \<open>ex_leak\<close> a
  fresh leaked slot and \<open>ex_start\<close> the spawner.  The pool maps the type of a future to the slots
  leaked for it, in order.
\<close>

record 'w embassy_executor =
  ex_claim :: "nat \<Rightarrow> 'w \<Rightarrow> bool \<times> 'w"
  ex_leak :: "'w \<Rightarrow> nat \<times> 'w"
  ex_start :: "nat \<Rightarrow> 'w \<Rightarrow> 'w"

record ('ty, 'w) runtime_inner =
  ri_pool :: "'ty \<Rightarrow> nat list option"
  ri_world :: 'w

definition pool_slots :: "('ty, 'w) runtime_inner \<Rightarrow> 'ty \<Rightarrow> nat list" where
  "pool_slots st ty = unwrap_or (ri_pool st ty) []"

fun claim_first :: "'w embassy_executor \<Rightarrow> nat list \<Rightarrow> 'w \<Rightarrow> bool \<times> 'w" where
  "claim_first ex [] w = (False, w)"
| "claim_first ex (slot # slots) w =
     (case ex_claim ex slot w of
        (ok, w) \<Rightarrow> if ok then (True, ex_start ex slot w) else claim_first ex slots w)"

text \<open>\<open>spawn_wrapped\<close>; \<open>False\<close> is the spawn error of a fresh slot.\<close>

definition spawn_wrapped ::
  "'w embassy_executor \<Rightarrow> 'ty \<Rightarrow> ('ty, 'w) runtime_inner \<Rightarrow> bool \<times> ('ty, 'w) runtime_inner" where
  "spawn_wrapped ex ty st =
     (case claim_first ex (pool_slots st ty) (ri_world st) of
        (ok, w) \<Rightarrow>
          if ok then (True, st\<lparr> ri_world := w \<rparr>)
          else
            (let (slot, w) = ex_leak ex w;
                 pool = (ri_pool st)(ty \<mapsto> pool_slots st ty @ [slot]);
                 (ok, w) = ex_claim ex slot w
             in if ok then (True, st\<lparr> ri_pool := pool, ri_world := ex_start ex slot w \<rparr>)
                else (False, st\<lparr> ri_pool := pool, ri_world := w \<rparr>)))"

section \<open>Task handles\<close>

text \<open>The signals and the flag that the handle shares with its task.\<close>

record 'a embassy_task =
  et_result :: "(task_join_error + 'a) option"
  et_abort :: bool
  et_finished :: bool
  et_taken :: bool

definition embassy_task_new :: "'a embassy_task" where
  "embassy_task_new =
     \<lparr> et_result = None, et_abort = False, et_finished = False, et_taken = False \<rparr>"

text \<open>
  \<open>select\<close> polls the future first; the wrapper ends with its value, or as cancelled when only the
  abort is signalled, and is still running (\<open>None\<close>) otherwise.
\<close>

definition task_outcome :: "'a option \<Rightarrow> 'a embassy_task \<Rightarrow> (task_join_error + 'a) option" where
  "task_outcome value task =
     (case value of
        Some v \<Rightarrow> Some (Inr v)
      | None \<Rightarrow> if et_abort task then Some (Inl JoinCancelled) else None)"

definition task_poll :: "'a option \<Rightarrow> 'a embassy_task \<Rightarrow> 'a embassy_task" where
  "task_poll value task =
     (case task_outcome value task of
        Some outcome \<Rightarrow> task\<lparr> et_finished := True, et_result := Some outcome \<rparr>
      | None \<Rightarrow> task)"

definition embassy_spawn ::
  "'w embassy_executor \<Rightarrow> 'ty \<Rightarrow> ('ty, 'w) runtime_inner \<Rightarrow>
   'a embassy_task \<times> ('ty, 'w) runtime_inner" where
  "embassy_spawn ex ty st =
     (let (ok, st) = spawn_wrapped ex ty st
      in (if ok then embassy_task_new
          else embassy_task_new\<lparr> et_finished := True,
                                 et_result := Some (Inl JoinRuntimeUnavailable) \<rparr>, st))"

text \<open>\<open>join\<close> takes the result out of its signal; it waits (\<open>None\<close>) while there is none.\<close>

definition embassy_join :: "'a embassy_task \<Rightarrow> ((task_join_error + 'a) \<times> 'a embassy_task) option" where
  "embassy_join task =
     (if et_taken task then Some (Inl JoinCancelled, task)
      else map_option (\<lambda>r. (r, task\<lparr> et_result := None, et_taken := True \<rparr>)) (et_result task))"

definition embassy_abort :: "'a embassy_task \<Rightarrow> 'a embassy_task" where
  "embassy_abort task = task\<lparr> et_abort := True \<rparr>"

definition embassy_is_finished :: "'a embassy_task \<Rightarrow> bool" where
  "embassy_is_finished task = et_finished task"

section \<open>Channels and mutexes\<close>

text \<open>
  \<open>channel\<close>: the number of slots of the channel, whatever was asked for; with debug assertions
  asking for more than it has panics (\<open>None\<close>).
\<close>

definition DEFAULT_CHANNEL_CAPACITY :: nat where "DEFAULT_CHANNEL_CAPACITY = 16"

definition embassy_channel :: "bool \<Rightarrow> nat \<Rightarrow> nat \<Rightarrow> nat option" where
  "embassy_channel debug_assertions CHANNEL_CAPACITY capacity =
     (if debug_assertions \<and> \<not> capacity \<le> CHANNEL_CAPACITY then None else Some CHANNEL_CAPACITY)"

text \<open>A library channel can be full or empty, never closed.\<close>

definition embassy_send :: "('w \<Rightarrow> 'w) \<Rightarrow> ('w, channel_error, unit) failing" where
  "embassy_send send w = (Inr (), send w)"

definition embassy_try_send :: "('w \<Rightarrow> bool \<times> 'w) \<Rightarrow> ('w, channel_error, unit) failing" where
  "embassy_try_send try_send w = (let (ok, w) = try_send w in (if ok then Inr () else Inl ChFull, w))"

definition embassy_recv :: "('w \<Rightarrow> 'a \<times> 'w) \<Rightarrow> ('w, channel_error, 'a) failing" where
  "embassy_recv receive w = (let (x, w) = receive w in (Inr x, w))"

definition embassy_try_recv :: "('w \<Rightarrow> 'a option \<times> 'w) \<Rightarrow> ('w, channel_error, 'a) failing" where
  "embassy_try_recv try_receive w = (let (x, w) = try_receive w in (ok_or ChEmpty x, w))"

definition embassy_try_lock :: "('w \<Rightarrow> 'g option \<times> 'w) \<Rightarrow> ('w, mutex_error, 'g) failing" where
  "embassy_try_lock try_lock w = (let (g, w) = try_lock w in (ok_or MutexBusy g, w))"

section \<open>Network errors and addresses\<close>

datatype embassy_tcp_error = TcpConnectionReset
datatype embassy_connect_error = CnConnectionReset | CnNoRoute | CnTimedOut | CnInvalidState
datatype embassy_accept_error = AcConnectionReset | AcInvalidPort | AcInvalidState
datatype embassy_udp_bind_error = UbNoRoute | UbInvalidState
datatype embassy_udp_send_error = UsNoRoute | UsSocketNotBound | UsPacketTooLarge
datatype embassy_udp_recv_error = UrTruncated

fun map_tcp_error :: "embassy_tcp_error \<Rightarrow> net_error" where
  "map_tcp_error TcpConnectionReset = NetClosed"

fun map_connect_error :: "embassy_connect_error \<Rightarrow> net_error" where
  "map_connect_error CnConnectionReset = NetUnreachable"
| "map_connect_error CnNoRoute = NetUnreachable"
| "map_connect_error CnTimedOut = NetTimedOut"
| "map_connect_error CnInvalidState = NetOther ''tcp connect invalid state''"

fun map_accept_error :: "embassy_accept_error \<Rightarrow> net_error" where
  "map_accept_error AcConnectionReset = NetClosed"
| "map_accept_error AcInvalidPort = NetUnsupported"
| "map_accept_error AcInvalidState = NetOther ''tcp accept invalid state''"

fun map_udp_bind_error :: "embassy_udp_bind_error \<Rightarrow> net_error" where
  "map_udp_bind_error UbNoRoute = NetUnreachable"
| "map_udp_bind_error UbInvalidState = NetOther ''udp bind invalid state''"

fun map_udp_send_error :: "embassy_udp_send_error \<Rightarrow> net_error" where
  "map_udp_send_error UsNoRoute = NetUnreachable"
| "map_udp_send_error UsSocketNotBound = NetClosed"
| "map_udp_send_error UsPacketTooLarge = NetUnsupported"

fun map_udp_recv_error :: "embassy_udp_recv_error \<Rightarrow> net_error" where
  "map_udp_recv_error UrTruncated = NetOther ''udp datagram truncated''"

text \<open>\<open>rsplit_once(':')\<close>, the port, and the host without its brackets.\<close>

definition split_host_port :: "string \<Rightarrow> net_error + string \<times> u16" where
  "split_host_port address =
     (case split_once (CHR '':'') (rev address) of
        None \<Rightarrow> Inl NetUnreachable
      | Some (port, host) \<Rightarrow>
          (case parse_u16 (rev port) of
             None \<Rightarrow> Inl NetUnreachable
           | Some n \<Rightarrow>
               Inr (rev (dropWhile ((=) (CHR '']'')) (rev (dropWhile ((=) (CHR ''['')) (rev host)))),
                    of_nat n)))"

text \<open>
  The stack: \<open>'a\<close> are its IP addresses.  \<open>ey_parse\<close> is the numeric address and port of a string, and
  \<open>ey_dns\<close> a DNS query for IPv4 or IPv6 addresses.
\<close>

datatype dns_query_type = DnsA | DnsAaaa

record ('w, 'a) embassy_resolver =
  ey_parse :: "string \<Rightarrow> ('a \<times> u16) option"
  ey_dns :: "string \<Rightarrow> dns_query_type \<Rightarrow> 'w \<Rightarrow> (string + 'a list) \<times> 'w"

fun dns_first ::
  "('w, 'a) embassy_resolver \<Rightarrow> string \<Rightarrow> u16 \<Rightarrow> dns_query_type list \<Rightarrow>
   ('w, net_error, 'a \<times> u16) failing" where
  "dns_first env host port [] w = (Inl NetUnreachable, w)"
| "dns_first env host port (q # qs) w =
     (case ey_dns env host q w of
        (Inr (ip # _), w) \<Rightarrow> (Inr (ip, port), w)
      | (_, w) \<Rightarrow> dns_first env host port qs w)"

text \<open>Without the \<open>dns\<close> feature a name is not reachable.\<close>

definition resolve_host ::
  "bool \<Rightarrow> ('w, 'a) embassy_resolver \<Rightarrow> string \<Rightarrow> ('w, net_error, 'a \<times> u16) failing" where
  "resolve_host dns env address =
     (if dns
      then fl_bind (fl_lift (split_host_port address))
             (\<lambda>(host, port). dns_first env host port [DnsA, DnsAaaa])
      else fl_fail NetUnreachable)"

definition embassy_resolve ::
  "bool \<Rightarrow> ('w, 'a) embassy_resolver \<Rightarrow> string \<Rightarrow> ('w, net_error, 'a \<times> u16) failing" where
  "embassy_resolve dns env address =
     (case ey_parse env address of
        Some endpoint \<Rightarrow> fl_return endpoint
      | None \<Rightarrow> resolve_host dns env address)"

text \<open>A listening endpoint on an unspecified address listens on all of them.\<close>

definition parse_listen_endpoint ::
  "('w, 'a) embassy_resolver \<Rightarrow> ('a \<Rightarrow> bool) \<Rightarrow> string \<Rightarrow> net_error + 'a option \<times> u16" where
  "parse_listen_endpoint env is_unspecified address =
     map_ok (\<lambda>(ip, port). (if is_unspecified ip then None else Some ip, port))
       (ok_or NetUnreachable (ey_parse env address))"

definition format_endpoint :: "('a \<Rightarrow> string) \<Rightarrow> 'a \<times> u16 \<Rightarrow> string" where
  "format_endpoint addr_str endpoint = format_host_port (addr_str (fst endpoint)) (snd endpoint)"

section \<open>Sockets\<close>

record embassy_net_config =
  nc_tcp_rx_buffer_size :: nat
  nc_tcp_tx_buffer_size :: nat
  nc_udp_rx_buffer_size :: nat
  nc_udp_tx_buffer_size :: nat
  nc_udp_rx_metadata_slots :: nat
  nc_udp_tx_metadata_slots :: nat

definition embassy_net_config_default :: embassy_net_config where
  "embassy_net_config_default =
     \<lparr> nc_tcp_rx_buffer_size = 4096, nc_tcp_tx_buffer_size = 4096, nc_udp_rx_buffer_size = 2048,
       nc_udp_tx_buffer_size = 2048, nc_udp_rx_metadata_slots = 8, nc_udp_tx_metadata_slots = 8 \<rparr>"

text \<open>
  The stack's sockets.  A timed operation takes the timeout in microseconds and has no result when it
  elapses.  \<open>tk_drop\<close> removes the socket from the stack, after which its buffers are reclaimed.
\<close>

record ('w, 'a, 'h) embassy_tcp =
  tk_new :: "nat \<Rightarrow> nat \<Rightarrow> 'w \<Rightarrow> 'h \<times> 'w"
  tk_drop :: "'h \<Rightarrow> 'w \<Rightarrow> 'w"
  tk_connect :: "'h \<Rightarrow> 'a \<times> u16 \<Rightarrow> 'w \<Rightarrow> (embassy_connect_error + unit) \<times> 'w"
  tk_accept :: "'h \<Rightarrow> 'a option \<times> u16 \<Rightarrow> 'w \<Rightarrow> (embassy_accept_error + unit) \<times> 'w"
  tk_read :: "'h \<Rightarrow> nat \<Rightarrow> 'w \<Rightarrow> (embassy_tcp_error + bytes) \<times> 'w"
  tk_write :: "'h \<Rightarrow> bytes \<Rightarrow> 'w \<Rightarrow> (embassy_tcp_error + nat) \<times> 'w"
  tk_flush :: "'h \<Rightarrow> 'w \<Rightarrow> (embassy_tcp_error + unit) \<times> 'w"
  tk_read_within :: "u64 \<Rightarrow> 'h \<Rightarrow> nat \<Rightarrow> 'w \<Rightarrow> (embassy_tcp_error + bytes) option \<times> 'w"
  tk_write_within :: "u64 \<Rightarrow> 'h \<Rightarrow> bytes \<Rightarrow> 'w \<Rightarrow> (embassy_tcp_error + nat) option \<times> 'w"
  tk_flush_within :: "u64 \<Rightarrow> 'h \<Rightarrow> 'w \<Rightarrow> (embassy_tcp_error + unit) option \<times> 'w"
  tk_close :: "'h \<Rightarrow> 'w \<Rightarrow> 'w"

record 'h embassy_socket =
  es_socket :: 'h
  es_read_timeout :: "duration option"
  es_write_timeout :: "duration option"

definition with_optional_timeout ::
  "duration option \<Rightarrow> (u64 \<Rightarrow> 'w \<Rightarrow> 'r option \<times> 'w) \<Rightarrow> ('w \<Rightarrow> 'r \<times> 'w) \<Rightarrow>
   ('w, net_error, 'r) failing" where
  "with_optional_timeout timeout within plain w =
     (case timeout of
        Some t \<Rightarrow> (let (r, w) = within (to_embassy_duration t) w in (ok_or NetTimedOut r, w))
      | None \<Rightarrow> (let (r, w) = plain w in (Inr r, w)))"

definition make_tcp_socket ::
  "embassy_net_config \<Rightarrow> ('w, 'a, 'h) embassy_tcp \<Rightarrow> 'w \<Rightarrow> 'h embassy_socket \<times> 'w" where
  "make_tcp_socket config tcp w =
     (let (h, w) = tk_new tcp (nc_tcp_rx_buffer_size config) (nc_tcp_tx_buffer_size config) w
      in (\<lparr> es_socket = h, es_read_timeout = None, es_write_timeout = None \<rparr>, w))"

definition embassy_read ::
  "('w, 'a, 'h) embassy_tcp \<Rightarrow> 'h embassy_socket \<Rightarrow> nat \<Rightarrow> ('w, net_error, bytes) failing" where
  "embassy_read tcp s len =
     fl_bind (with_optional_timeout (es_read_timeout s)
       (\<lambda>t. tk_read_within tcp t (es_socket s) len) (tk_read tcp (es_socket s) len))
       (\<lambda>r. fl_lift (map_err map_tcp_error r))"

definition embassy_write ::
  "('w, 'a, 'h) embassy_tcp \<Rightarrow> 'h embassy_socket \<Rightarrow> bytes \<Rightarrow> ('w, net_error, nat) failing" where
  "embassy_write tcp s buf =
     fl_bind (with_optional_timeout (es_write_timeout s)
       (\<lambda>t. tk_write_within tcp t (es_socket s) buf) (tk_write tcp (es_socket s) buf))
       (\<lambda>r. fl_lift (map_err map_tcp_error r))"

definition embassy_flush ::
  "('w, 'a, 'h) embassy_tcp \<Rightarrow> 'h embassy_socket \<Rightarrow> ('w, net_error, unit) failing" where
  "embassy_flush tcp s =
     fl_bind (with_optional_timeout (es_write_timeout s)
       (\<lambda>t. tk_flush_within tcp t (es_socket s)) (tk_flush tcp (es_socket s)))
       (\<lambda>r. fl_lift (map_err map_tcp_error r))"

definition embassy_close ::
  "('w, 'a, 'h) embassy_tcp \<Rightarrow> 'h embassy_socket \<Rightarrow> ('w, net_error, unit) failing" where
  "embassy_close tcp s w =
     (let (r, w) = tk_flush tcp (es_socket s) (tk_close tcp (es_socket s) w)
      in (map_err map_tcp_error r, w))"

text \<open>A socket whose connecting or accepting fails is dropped.\<close>

definition keep_or_drop ::
  "('w, 'a, 'h) embassy_tcp \<Rightarrow> 'h embassy_socket \<Rightarrow> (net_error + unit) \<times> 'w \<Rightarrow>
   (net_error + 'h embassy_socket) \<times> 'w" where
  "keep_or_drop tcp s result =
     (case result of
        (Inl e, w) \<Rightarrow> (Inl e, tk_drop tcp (es_socket s) w)
      | (Inr _, w) \<Rightarrow> (Inr s, w))"

definition embassy_connect ::
  "bool \<Rightarrow> ('w, 'a) embassy_resolver \<Rightarrow> embassy_net_config \<Rightarrow> ('w, 'a, 'h) embassy_tcp \<Rightarrow> string \<Rightarrow>
   ('w, net_error, 'h embassy_socket) failing" where
  "embassy_connect dns env config tcp address =
     fl_bind (embassy_resolve dns env address) (\<lambda>endpoint w.
     let (s, w) = make_tcp_socket config tcp w;
         (r, w) = tk_connect tcp (es_socket s) endpoint w
     in keep_or_drop tcp s (map_err map_connect_error r, w))"

definition embassy_accept ::
  "embassy_net_config \<Rightarrow> ('w, 'a, 'h) embassy_tcp \<Rightarrow> 'a option \<times> u16 \<Rightarrow>
   ('w, net_error, 'h embassy_socket) failing" where
  "embassy_accept config tcp endpoint w =
     (let (s, w) = make_tcp_socket config tcp w;
          (r, w) = tk_accept tcp (es_socket s) endpoint w
      in keep_or_drop tcp s (map_err map_accept_error r, w))"

section \<open>Datagrams\<close>

record ('w, 'a, 'h) embassy_udp =
  uk_new :: "embassy_net_config \<Rightarrow> 'w \<Rightarrow> 'h \<times> 'w"
  uk_drop :: "'h \<Rightarrow> 'w \<Rightarrow> 'w"
  uk_bind :: "'h \<Rightarrow> 'a option \<times> u16 \<Rightarrow> 'w \<Rightarrow> (embassy_udp_bind_error + unit) \<times> 'w"
  uk_recv_from ::
    "'h \<Rightarrow> nat \<Rightarrow> 'w \<Rightarrow> (embassy_udp_recv_error + bytes \<times> ('a \<times> u16)) \<times> 'w"
  uk_recv_from_within ::
    "u64 \<Rightarrow> 'h \<Rightarrow> nat \<Rightarrow> 'w \<Rightarrow> (embassy_udp_recv_error + bytes \<times> ('a \<times> u16)) option \<times> 'w"
  uk_send_to :: "'h \<Rightarrow> bytes \<Rightarrow> 'a \<times> u16 \<Rightarrow> 'w \<Rightarrow> (embassy_udp_send_error + unit) \<times> 'w"

record 'h embassy_datagram_socket =
  eg_socket :: 'h
  eg_read_timeout :: "duration option"

definition embassy_bind_datagram ::
  "('w, 'a) embassy_resolver \<Rightarrow> ('a \<Rightarrow> bool) \<Rightarrow> embassy_net_config \<Rightarrow> ('w, 'a, 'h) embassy_udp \<Rightarrow>
   string \<Rightarrow> ('w, net_error, 'h embassy_datagram_socket) failing" where
  "embassy_bind_datagram env is_unspecified config udp address =
     fl_bind (fl_lift (parse_listen_endpoint env is_unspecified address)) (\<lambda>endpoint w.
     let (h, w) = uk_new udp config w in
     case uk_bind udp h endpoint w of
       (Inl e, w) \<Rightarrow> (Inl (map_udp_bind_error e), uk_drop udp h w)
     | (Inr _, w) \<Rightarrow> (Inr \<lparr> eg_socket = h, eg_read_timeout = None \<rparr>, w))"

definition embassy_recv_from ::
  "('a \<Rightarrow> string) \<Rightarrow> ('w, 'a, 'h) embassy_udp \<Rightarrow> 'h embassy_datagram_socket \<Rightarrow> nat \<Rightarrow>
   ('w, net_error, bytes \<times> string) failing" where
  "embassy_recv_from addr_str udp s len =
     fl_bind (with_optional_timeout (eg_read_timeout s)
       (\<lambda>t. uk_recv_from_within udp t (eg_socket s) len) (uk_recv_from udp (eg_socket s) len)) (\<lambda>r.
     fl_lift (map_ok (\<lambda>(data, peer). (data, format_endpoint addr_str peer))
       (map_err map_udp_recv_error r)))"

text \<open>The peer must be numeric; on success the whole datagram counts as sent.\<close>

definition embassy_send_to ::
  "('w, 'a) embassy_resolver \<Rightarrow> ('w, 'a, 'h) embassy_udp \<Rightarrow> 'h embassy_datagram_socket \<Rightarrow> bytes \<Rightarrow>
   string \<Rightarrow> ('w, net_error, nat) failing" where
  "embassy_send_to env udp s buf address =
     fl_bind (fl_lift (ok_or NetUnreachable (ey_parse env address))) (\<lambda>endpoint.
     fl_bind (\<lambda>w. let (r, w) = uk_send_to udp (eg_socket s) buf endpoint w
                  in (map_err map_udp_send_error r, w)) (\<lambda>_.
     fl_return (length buf)))"

section \<open>Serial ports\<close>

text \<open>\<open>embedded_io_async::ErrorKind\<close>: the kinds named, and the remaining ones.\<close>

datatype embedded_io_error_kind =
    EioBrokenPipe | EioConnectionAborted | EioConnectionReset | EioNotConnected | EioTimedOut
  | EioUnsupported | EioOtherKind

fun map_embedded_io_error :: "embedded_io_error_kind \<Rightarrow> serial_error" where
  "map_embedded_io_error EioBrokenPipe = SerialClosed"
| "map_embedded_io_error EioConnectionAborted = SerialClosed"
| "map_embedded_io_error EioConnectionReset = SerialClosed"
| "map_embedded_io_error EioNotConnected = SerialClosed"
| "map_embedded_io_error EioTimedOut = SerialTimedOut"
| "map_embedded_io_error EioUnsupported = SerialUnsupported"
| "map_embedded_io_error EioOtherKind = SerialOther ''embassy serial io error''"

text \<open>The device drivers of the ports, and the registry: the ports still to be handed out.\<close>

record ('w, 'p) embedded_io =
  eo_read :: "'p \<Rightarrow> nat \<Rightarrow> 'w \<Rightarrow> (embedded_io_error_kind + bytes) \<times> 'w"
  eo_write :: "'p \<Rightarrow> bytes \<Rightarrow> 'w \<Rightarrow> (embedded_io_error_kind + nat) \<times> 'w"
  eo_flush :: "'p \<Rightarrow> 'w \<Rightarrow> (embedded_io_error_kind + unit) \<times> 'w"

record ('w, 'p) embassy_serial =
  el_ports :: "string \<rightharpoonup> 'p"
  el_world :: 'w

definition on_device ::
  "('w \<Rightarrow> (embedded_io_error_kind + 'a) \<times> 'w) \<Rightarrow>
   (('w, 'p) embassy_serial, serial_error, 'a) failing" where
  "on_device f st =
     (let (r, w) = f (el_world st) in (map_err map_embedded_io_error r, st\<lparr> el_world := w \<rparr>))"

text \<open>Closing a port flushes it.\<close>

definition embassy_serial_io ::
  "('w, 'p) embedded_io \<Rightarrow> (('w, 'p) embassy_serial, 'p, serial_error) stream_io" where
  "embassy_serial_io dev =
     \<lparr> st_write = (\<lambda>p st buf. on_device (eo_write dev p buf) st),
       st_flush = (\<lambda>p. on_device (eo_flush dev p)),
       st_read = (\<lambda>p len. on_device (eo_read dev p len)),
       st_close = (\<lambda>p. on_device (eo_flush dev p)) \<rparr>"

definition embassy_serial_register ::
  "string \<Rightarrow> 'p \<Rightarrow> ('w, 'p) embassy_serial \<Rightarrow> ('w, 'p) embassy_serial" where
  "embassy_serial_register path port st = st\<lparr> el_ports := (el_ports st)(path \<mapsto> port) \<rparr>"

definition no_port_error :: "string \<Rightarrow> serial_error" where
  "no_port_error path = SerialOther (''no embassy serial port registered as '' @ path)"

definition embassy_serial_open ::
  "serial_port_config \<Rightarrow> (('w, 'p) embassy_serial, serial_error, 'p) failing" where
  "embassy_serial_open config st =
     (ok_or (no_port_error (sp_path config))
        (el_ports st (sp_path config)),
      st\<lparr> el_ports := (el_ports st)(sp_path config := None) \<rparr>)"

section \<open>Lemmas on the pool\<close>

text \<open>
  What embassy documents of its executor: a leaked slot can be claimed iff no task runs in it, a task
  then runs in it until it ends, and leaking gives a slot never given before.  \<open>running\<close> and \<open>leaked\<close>
  read the slots from the world, \<open>ends\<close> is the end of the task in a slot.
\<close>

definition honest_executor ::
  "('w \<Rightarrow> nat set) \<Rightarrow> ('w \<Rightarrow> nat set) \<Rightarrow> (nat \<Rightarrow> 'w \<Rightarrow> 'w) \<Rightarrow> 'w embassy_executor \<Rightarrow> bool" where
  "honest_executor running leaked ends ex \<longleftrightarrow>
     (\<forall>slot w. slot \<in> leaked w \<longrightarrow>
        (case ex_claim ex slot w of (ok, w') \<Rightarrow>
           ok = (slot \<notin> running w) \<and> leaked w' = leaked w \<and>
           running w' = (if ok then insert slot (running w) else running w))) \<and>
     (\<forall>w. case ex_leak ex w of (slot, w') \<Rightarrow>
        slot \<notin> leaked w \<and> slot \<notin> running w \<and> leaked w' = insert slot (leaked w) \<and>
        running w' = running w) \<and>
     (\<forall>slot w. running (ex_start ex slot w) = running w \<and> leaked (ex_start ex slot w) = leaked w) \<and>
     (\<forall>slot w. running (ends slot w) = running w - {slot} \<and> leaked (ends slot w) = leaked w)"

lemma honest_claim:
  assumes "honest_executor running leaked ends ex" and "slot \<in> leaked w"
    and "ex_claim ex slot w = (ok, w')"
  shows "ok = (slot \<notin> running w) \<and> leaked w' = leaked w \<and>
   running w' = (if ok then insert slot (running w) else running w)"
proof -
  have "case ex_claim ex slot w of (ok, w') \<Rightarrow>
      ok = (slot \<notin> running w) \<and> leaked w' = leaked w \<and>
      running w' = (if ok then insert slot (running w) else running w)"
    by (rule assms(1) [unfolded honest_executor_def, THEN conjunct1, rule_format, OF assms(2)])
  then show ?thesis unfolding assms(3) case_prod_conv .
qed

lemma honest_leak:
  assumes "honest_executor running leaked ends ex" and "ex_leak ex w = (slot, w')"
  shows "slot \<notin> leaked w \<and> slot \<notin> running w \<and> leaked w' = insert slot (leaked w) \<and>
   running w' = running w"
proof -
  have "case ex_leak ex w of (slot, w') \<Rightarrow>
      slot \<notin> leaked w \<and> slot \<notin> running w \<and> leaked w' = insert slot (leaked w) \<and>
      running w' = running w"
    by (rule assms(1) [unfolded honest_executor_def, THEN conjunct2, THEN conjunct1, rule_format])
  then show ?thesis unfolding assms(2) case_prod_conv .
qed

lemma honest_start:
  "honest_executor running leaked ends ex \<Longrightarrow>
   running (ex_start ex slot w) = running w \<and> leaked (ex_start ex slot w) = leaked w"
  by (simp add: honest_executor_def)

lemma honest_ends:
  "honest_executor running leaked ends ex \<Longrightarrow>
   running (ends slot w) = running w - {slot} \<and> leaked (ends slot w) = leaked w"
  by (simp add: honest_executor_def)

datatype 'ty pool_event = Spawned 'ty | Ended nat

fun pool_step ::
  "'w embassy_executor \<Rightarrow> (nat \<Rightarrow> 'w \<Rightarrow> 'w) \<Rightarrow> 'ty pool_event \<Rightarrow> ('ty, 'w) runtime_inner \<Rightarrow>
   ('ty, 'w) runtime_inner" where
  "pool_step ex ends (Spawned ty) st = snd (spawn_wrapped ex ty st)"
| "pool_step ex ends (Ended slot) st = st\<lparr> ri_world := ends slot (ri_world st) \<rparr>"

text \<open>Every state of a run, the first and the last one included.\<close>

fun pool_states ::
  "'w embassy_executor \<Rightarrow> (nat \<Rightarrow> 'w \<Rightarrow> 'w) \<Rightarrow> 'ty pool_event list \<Rightarrow> ('ty, 'w) runtime_inner \<Rightarrow>
   ('ty, 'w) runtime_inner list" where
  "pool_states ex ends [] st = [st]"
| "pool_states ex ends (e # es) st = st # pool_states ex ends es (pool_step ex ends e st)"

definition running_tasks :: "('w \<Rightarrow> nat set) \<Rightarrow> ('ty, 'w) runtime_inner \<Rightarrow> 'ty \<Rightarrow> nat" where
  "running_tasks running st ty =
     card {slot \<in> set (pool_slots st ty). slot \<in> running (ri_world st)}"

definition pool_inv :: "('w \<Rightarrow> nat set) \<Rightarrow> ('ty, 'w) runtime_inner \<Rightarrow> bool" where
  "pool_inv leaked st \<longleftrightarrow>
     (\<forall>ty. distinct (pool_slots st ty) \<and> set (pool_slots st ty) \<subseteq> leaked (ri_world st))"

lemma claim_first_world:
  assumes "honest_executor running leaked ends ex"
    and "claim_first ex slots w = (ok, w')" and "set slots \<subseteq> leaked w"
  shows "leaked w' = leaked w \<and> (ok \<or> running w' = running w \<and> set slots \<subseteq> running w)"
  using assms(2,3)
proof (induction slots arbitrary: w)
  case (Cons slot slots)
  obtain c w1 where c: "ex_claim ex slot w = (c, w1)" by fastforce
  have claim: "c = (slot \<notin> running w)" "leaked w1 = leaked w"
    "running w1 = (if c then insert slot (running w) else running w)"
    using honest_claim [OF assms(1) _ c] Cons.prems(2) by auto
  show ?case
  proof (cases c)
    case True
    then show ?thesis using Cons.prems(1) c claim(2) honest_start [OF assms(1)] by auto
  next
    case False
    then have "claim_first ex slots w1 = (ok, w')" using Cons.prems(1) c by simp
    from Cons.IH [OF this] Cons.prems(2) claim False show ?thesis by auto
  qed
qed simp

lemma spawn_wrapped_step:
  assumes "honest_executor running leaked ends ex" and "pool_inv leaked st"
    and "spawn_wrapped ex ty st = (ok, st')"
  shows "ok \<and> pool_inv leaked st' \<and>
    (pool_slots st' k = pool_slots st k \<or> length (pool_slots st' k) \<le> running_tasks running st' k)"
proof -
  obtain c w1 where c: "claim_first ex (pool_slots st ty) (ri_world st) = (c, w1)" by fastforce
  have slots: "distinct (pool_slots st t)" "set (pool_slots st t) \<subseteq> leaked (ri_world st)" for t
    using assms(2) by (simp_all add: pool_inv_def)
  have first: "leaked w1 = leaked (ri_world st)"
    "c \<or> running w1 = running (ri_world st) \<and> set (pool_slots st ty) \<subseteq> running (ri_world st)"
    using claim_first_world [OF assms(1) c slots(2)] by auto
  show ?thesis
  proof (cases c)
    case True
    then have "ok" "st' = st\<lparr> ri_world := w1 \<rparr>" using assms(3) c by (simp_all add: spawn_wrapped_def)
    then show ?thesis using slots first(1) by (simp add: pool_inv_def pool_slots_def)
  next
    case False
    obtain slot w2 where l: "ex_leak ex w1 = (slot, w2)" by fastforce
    obtain c2 w3 where c2: "ex_claim ex slot w2 = (c2, w3)" by fastforce
    have leak: "slot \<notin> leaked w1" "slot \<notin> running w1" "leaked w2 = insert slot (leaked w1)"
      "running w2 = running w1"
      using honest_leak [OF assms(1) l] by simp_all
    have claim: "c2" "leaked w3 = leaked w2" "running w3 = insert slot (running w2)"
      using honest_claim [OF assms(1) _ c2] leak by auto
    have st': "ok" "st' = st\<lparr> ri_pool := (ri_pool st)(ty \<mapsto> pool_slots st ty @ [slot]),
                             ri_world := ex_start ex slot w3 \<rparr>"
      using assms(3) c False l c2 claim(1) by (simp_all add: spawn_wrapped_def)
    have new: "pool_slots st' t = (if t = ty then pool_slots st ty @ [slot] else pool_slots st t)" for t
      by (simp add: st'(2) pool_slots_def)
    have world: "leaked (ri_world st') = insert slot (leaked (ri_world st))"
      "running (ri_world st') = insert slot (running (ri_world st))"
      using st'(2) honest_start [OF assms(1)] claim leak first False by auto
    have inv: "pool_inv leaked st'"
      using slots leak(1) first(1) by (auto simp: pool_inv_def new world)
    have "{s \<in> set (pool_slots st' ty). s \<in> running (ri_world st')} = set (pool_slots st' ty)"
      using first(2) False by (auto simp: new world)
    moreover have "card (set (pool_slots st' ty)) = length (pool_slots st' ty)"
      using inv distinct_card by (auto simp: pool_inv_def)
    ultimately have "length (pool_slots st' ty) \<le> running_tasks running st' ty"
      by (simp add: running_tasks_def)
    then show ?thesis using st'(1) inv by (cases "k = ty") (simp_all add: new)
  qed
qed

lemma pool_step_inv:
  assumes "honest_executor running leaked ends ex" and "pool_inv leaked st"
  shows "pool_inv leaked (pool_step ex ends e st) \<and>
    (pool_slots (pool_step ex ends e st) k = pool_slots st k \<or>
     length (pool_slots (pool_step ex ends e st) k) \<le>
       running_tasks running (pool_step ex ends e st) k)"
proof (cases e)
  case (Spawned ty)
  obtain ok st' where "spawn_wrapped ex ty st = (ok, st')" by fastforce
  with spawn_wrapped_step [OF assms this, of k] Spawned show ?thesis by simp
next
  case (Ended slot)
  then show ?thesis
    using assms(2) honest_ends [OF assms(1)] by (simp add: pool_inv_def pool_slots_def)
qed

lemma pool_states_peak:
  assumes "honest_executor running leaked ends ex" and "pool_inv leaked st"
  shows "(\<exists>st' \<in> set (pool_states ex ends es st).
      length (pool_slots (last (pool_states ex ends es st)) k) \<le> running_tasks running st' k) \<or>
    pool_slots (last (pool_states ex ends es st)) k = pool_slots st k"
  using assms(2)
proof (induction es arbitrary: st)
  case (Cons e es)
  let ?st = "pool_step ex ends e st"
  have step: "pool_inv leaked ?st"
    "pool_slots ?st k = pool_slots st k \<or> length (pool_slots ?st k) \<le> running_tasks running ?st k"
    using pool_step_inv [OF assms(1) Cons.prems] by auto
  have first: "?st \<in> set (pool_states ex ends es ?st)" by (cases es) simp_all
  have "pool_states ex ends es ?st \<noteq> []" by (cases es) simp_all
  then have "last (pool_states ex ends (e # es) st) = last (pool_states ex ends es ?st)" by simp
  with Cons.IH [OF step(1)] step(2) first show ?case by auto
qed simp

text \<open>
  The slots leaked for a type over a run: those its spawns added to the leaked storage of the world,
  whether or not a pool knows of them.
\<close>

fun leaked_for ::
  "('w \<Rightarrow> nat set) \<Rightarrow> 'w embassy_executor \<Rightarrow> (nat \<Rightarrow> 'w \<Rightarrow> 'w) \<Rightarrow> 'ty \<Rightarrow> 'ty pool_event list \<Rightarrow>
   ('ty, 'w) runtime_inner \<Rightarrow> nat set" where
  "leaked_for leaked ex ends ty [] st = {}"
| "leaked_for leaked ex ends ty (e # es) st =
     (if e = Spawned ty
      then leaked (ri_world (pool_step ex ends e st)) - leaked (ri_world st) else {}) \<union>
     leaked_for leaked ex ends ty es (pool_step ex ends e st)"

lemma pool_step_leaks:
  assumes "honest_executor running leaked ends ex" and "pool_inv leaked st"
  shows "leaked (ri_world st) \<subseteq> leaked (ri_world (pool_step ex ends e st)) \<and>
    set (pool_slots (pool_step ex ends e st) ty) = set (pool_slots st ty) \<union>
      (if e = Spawned ty
       then leaked (ri_world (pool_step ex ends e st)) - leaked (ri_world st) else {}) \<and>
    ((\<forall>t. e \<noteq> Spawned t) \<longrightarrow> leaked (ri_world (pool_step ex ends e st)) = leaked (ri_world st))"
proof (cases e)
  case (Spawned t)
  obtain c w1 where c: "claim_first ex (pool_slots st t) (ri_world st) = (c, w1)" by fastforce
  have first: "leaked w1 = leaked (ri_world st)"
    using claim_first_world [OF assms(1) c] assms(2) by (simp add: pool_inv_def)
  obtain slot w2 where l: "ex_leak ex w1 = (slot, w2)" by fastforce
  obtain c2 w3 where c2: "ex_claim ex slot w2 = (c2, w3)" by fastforce
  have leak: "slot \<notin> leaked w1" "leaked w2 = insert slot (leaked w1)"
    using honest_leak [OF assms(1) l] by simp_all
  have "leaked w3 = leaked w2"
    using honest_claim [OF assms(1) _ c2] leak by auto
  with Spawned c first l c2 leak honest_start [OF assms(1)] show ?thesis
    by (cases c; cases c2) (auto simp: spawn_wrapped_def pool_slots_def)
next
  case (Ended slot)
  then show ?thesis using honest_ends [OF assms(1)] by (simp add: pool_slots_def)
qed

text \<open>Everything leaked is leaked for some type, and is in the pool of that type.\<close>

lemma pool_states_leaks:
  assumes "honest_executor running leaked ends ex" and "pool_inv leaked st"
  shows "leaked (ri_world (last (pool_states ex ends es st))) =
      leaked (ri_world st) \<union> (\<Union>ty. leaked_for leaked ex ends ty es st) \<and>
    (\<forall>ty. set (pool_slots (last (pool_states ex ends es st)) ty) =
      set (pool_slots st ty) \<union> leaked_for leaked ex ends ty es st)"
  using assms(2)
proof (induction es arbitrary: st)
  case (Cons e es)
  let ?st = "pool_step ex ends e st"
  have last: "last (pool_states ex ends (e # es) st) = last (pool_states ex ends es ?st)"
    by (cases es) simp_all
  note IH = Cons.IH [OF conjunct1 [OF pool_step_inv [OF assms(1) Cons.prems]], of e]
  note step = pool_step_leaks [OF assms(1) Cons.prems, of e]
  let ?new = "if \<exists>t. e = Spawned t then leaked (ri_world ?st) - leaked (ri_world st) else {}"
  have w: "leaked (ri_world ?st) = leaked (ri_world st) \<union> ?new" using step by auto
  have u: "(\<Union>ty. leaked_for leaked ex ends ty (e # es) st) =
      ?new \<union> (\<Union>ty. leaked_for leaked ex ends ty es ?st)"
    by (auto simp del: pool_step.simps split: if_splits)
  have "leaked (ri_world (last (pool_states ex ends (e # es) st))) =
      leaked (ri_world st) \<union> (\<Union>ty. leaked_for leaked ex ends ty (e # es) st)"
    unfolding last u conjunct1 [OF IH] by (subst w) (rule Un_assoc)
  moreover have "set (pool_slots (last (pool_states ex ends es ?st)) ty) =
      set (pool_slots st ty) \<union> leaked_for leaked ex ends ty (e # es) st" for ty
    using IH step by (simp del: pool_step.simps) blast
  ultimately show ?case unfolding last by blast
qed simp

text \<open>An executor whose world is the set of slots in use and the number of slots leaked.\<close>

definition counting_executor :: "(nat set \<times> nat) embassy_executor" where
  "counting_executor =
     \<lparr> ex_claim = (\<lambda>slot (used, n). (slot \<notin> used, (insert slot used, n))),
       ex_leak = (\<lambda>(used, n). (n, (used - {n}, Suc n))),
       ex_start = (\<lambda>slot w. w) \<rparr>"

definition counting_running :: "nat set \<times> nat \<Rightarrow> nat set" where
  "counting_running w = fst w \<inter> {..< snd w}"

definition counting_leaked :: "nat set \<times> nat \<Rightarrow> nat set" where
  "counting_leaked w = {..< snd w}"

definition counting_ends :: "nat \<Rightarrow> nat set \<times> nat \<Rightarrow> nat set \<times> nat" where
  "counting_ends slot w = (fst w - {slot}, snd w)"

lemma counting_honest:
  "honest_executor counting_running counting_leaked counting_ends counting_executor"
  by (auto simp: honest_executor_def counting_executor_def counting_running_def counting_leaked_def
      counting_ends_def)

lemma pool_states_inv:
  assumes "honest_executor running leaked ends ex" and "pool_inv leaked st"
  shows "pool_inv leaked (last (pool_states ex ends es st))"
  using assms(2)
proof (induction es arbitrary: st)
  case (Cons e es)
  have "pool_states ex ends es (pool_step ex ends e st) \<noteq> []" by (cases es) simp_all
  then show ?case using Cons.IH pool_step_inv [OF assms(1) Cons.prems] by simp
qed simp

section \<open>Lemmas on the registry of ports\<close>

datatype 'p serial_request = SrRegister string 'p | SrOpen serial_port_config

fun serial_request_path :: "'p serial_request \<Rightarrow> string" where
  "serial_request_path (SrRegister path port) = path"
| "serial_request_path (SrOpen config) = sp_path config"

fun serial_request_entry :: "'p serial_request \<Rightarrow> 'p option" where
  "serial_request_entry (SrRegister path port) = Some port"
| "serial_request_entry (SrOpen config) = None"

fun serial_apply :: "'p serial_request \<Rightarrow> ('w, 'p) embassy_serial \<Rightarrow> ('w, 'p) embassy_serial" where
  "serial_apply (SrRegister path port) st = embassy_serial_register path port st"
| "serial_apply (SrOpen config) st = snd (embassy_serial_open config st)"

interpretation serial_registry: topic_registry el_ports serial_apply
  "\<lambda>r. Some (serial_request_path r)" serial_request_entry
proof unfold_locales
  show "el_ports (serial_apply r st) k = serial_request_entry r"
    if "Some (serial_request_path r) = Some k" for r k and st :: "('w, 'p) embassy_serial"
    using that by (cases r) (auto simp: embassy_serial_register_def embassy_serial_open_def)
  show "el_ports (serial_apply r st) k = el_ports st k"
    if "Some (serial_request_path r) \<noteq> Some k" for r k and st :: "('w, 'p) embassy_serial"
    using that by (cases r) (auto simp: embassy_serial_register_def embassy_serial_open_def)
qed

section \<open>Properties\<close>

text \<open>C35: The storage leaked for tasks is bounded by what ran at the same time: starting from empty
  pools, whatever tasks were spawned and ended, every slot leaked meanwhile was leaked for the type
  of some spawned future and is in the pool of that type, where the next spawn finds it; for every
  type, some state of the run had at least as many tasks of the type running as slots were leaked
  for it over the whole run; and spawning always succeeds.\<close>

theorem task_storage_bounded_by_peak:
  assumes "honest_executor running leaked ends ex" and "ri_pool st = Map.empty"
    and "final = last (pool_states ex ends events st)"
  shows "leaked (ri_world final) =
      leaked (ri_world st) \<union> (\<Union>ty. leaked_for leaked ex ends ty events st) \<and>
    leaked_for leaked ex ends ty events st = set (pool_slots final ty) \<and>
    (\<exists>st' \<in> set (pool_states ex ends events st).
      card (leaked_for leaked ex ends ty events st) \<le> running_tasks running st' ty) \<and>
    fst (spawn_wrapped ex ty final)"
proof (intro conjI)
  have inv: "pool_inv leaked st" using assms(2) by (simp add: pool_inv_def pool_slots_def)
  have final: "pool_inv leaked final" unfolding assms(3) by (rule pool_states_inv [OF assms(1) inv])
  note leaks = pool_states_leaks [OF assms(1) inv, of events, folded assms(3)]
  show "leaked (ri_world final) =
      leaked (ri_world st) \<union> (\<Union>ty. leaked_for leaked ex ends ty events st)"
    using leaks by blast
  show pool: "leaked_for leaked ex ends ty events st = set (pool_slots final ty)"
    using leaks assms(2) by (simp add: pool_slots_def)
  have "card (set (pool_slots final ty)) = length (pool_slots final ty)"
    using final distinct_card by (auto simp: pool_inv_def)
  moreover have "st \<in> set (pool_states ex ends events st)" by (cases events) simp_all
  ultimately show "\<exists>st' \<in> set (pool_states ex ends events st).
      card (leaked_for leaked ex ends ty events st) \<le> running_tasks running st' ty"
    using pool_states_peak [OF assms(1) inv, of events ty] assms(2) pool
    by (auto simp: pool_slots_def assms(3))
  show "fst (spawn_wrapped ex ty final)"
    using spawn_wrapped_step [OF assms(1) final prod.collapse [symmetric]] by blast
qed

lemma task_storage_bounded_by_peak_witness:
  "\<exists>st' \<in> set (pool_states counting_executor counting_ends
        [Spawned (), Spawned (), Ended 0, Spawned ()] \<lparr> ri_pool = Map.empty, ri_world = ({}, 0) \<rparr>).
     card (leaked_for counting_leaked counting_executor counting_ends ()
        [Spawned (), Spawned (), Ended 0, Spawned ()] \<lparr> ri_pool = Map.empty, ri_world = ({}, 0) \<rparr>)
       \<le> running_tasks counting_running st' ()"
  by (rule task_storage_bounded_by_peak [OF counting_honest _ refl, THEN conjunct2, THEN conjunct2,
        THEN conjunct1]) simp

text \<open>A registered port is handed out once: after any series of registrations and opens, opening
  a path gives the port of the last registration of the path when no open of it came after, and the
  error that no port is registered otherwise.\<close>

theorem embassy_serial_hands_out_once:
  "fst (embassy_serial_open config (fold serial_apply requests st)) =
     (case find (\<lambda>r. serial_request_path r = sp_path config) (rev requests) of
        None \<Rightarrow> ok_or (no_port_error (sp_path config))
                  (el_ports st (sp_path config))
      | Some (SrRegister _ port) \<Rightarrow> Inr port
      | Some (SrOpen _) \<Rightarrow>
          Inl (no_port_error (sp_path config)))"
  by (simp add: embassy_serial_open_def serial_registry.entry_after_requests
      split: option.splits serial_request.splits)

end
