(* ===== verification/Modbus_Embassy.thy ===== *)
theory Modbus_Embassy
  imports Modbus_Driver Runtime_Embassy
begin

text \<open>
  The Modbus serial transport on the embassy serial registry: the two components composed as the
  \<open>embassy-runtime\<close> feature of \<open>ferredge-proto-modbus\<close> composes them.
\<close>

definition embassy_serial_lines ::
  "('w, 'p) embedded_io \<Rightarrow> (('w, 'p) embassy_serial, 'p) serial_lines" where
  "embassy_serial_lines dev =
     \<lparr> sl_io = embassy_serial_io dev, sl_open = embassy_serial_open \<rparr>"

section \<open>What an exchange leaves alone\<close>

text \<open>An observation of the state that no operation of a stream changes.\<close>

definition stream_keeps :: "('w \<Rightarrow> 'o) \<Rightarrow> ('w, 'h, 'e) stream_io \<Rightarrow> bool" where
  "stream_keeps obs io \<longleftrightarrow>
     (\<forall>h buf w. obs (snd (st_write io h w buf)) = obs w) \<and>
     (\<forall>h w. obs (snd (st_flush io h w)) = obs w) \<and>
     (\<forall>h len w. obs (snd (st_read io h len w)) = obs w) \<and>
     (\<forall>h w. obs (snd (st_close io h w)) = obs w)"

lemma stream_keepsD:
  assumes "stream_keeps obs io"
  shows "st_write io h w buf = (a, w') \<Longrightarrow> obs w' = obs w"
    "st_flush io h w = (b, w') \<Longrightarrow> obs w' = obs w"
    "st_read io h len w = (c, w') \<Longrightarrow> obs w' = obs w"
    "st_close io h w = (d, w') \<Longrightarrow> obs w' = obs w"
  using assms unfolding stream_keeps_def by (metis snd_conv)+

lemma write_all_loop_keeps:
  "(\<And>w buf. obs (snd (wr w buf)) = obs w) \<Longrightarrow>
   obs (snd (write_all_loop wr closed buf n w)) = obs w"
proof (induction wr closed buf n w rule: write_all_loop.induct)
  case (1 wr closed buf n w)
  obtain r w1 where r: "wr w (drop n buf) = (r, w1)" by fastforce
  have "obs w1 = obs w" using 1(2) [of w "drop n buf"] r by simp
  then show ?case
    using 1(1) [OF _ r [symmetric] _ _ 1(2)] r
    by (cases r) (simp_all add: write_all_loop.simps [of wr closed buf n w])
qed

lemma read_response_loop_keeps:
  "(\<And>w. obs (snd (rd w)) = obs w) \<Longrightarrow>
   obs (snd (read_response_loop rd closed debug prefix limit complete frame w)) = obs w"
proof (induction rd closed debug prefix limit complete frame w rule: read_response_loop.induct)
  case (1 rd closed debug prefix limit complete frame w)
  obtain r w1 where r: "rd w = (r, w1)" by fastforce
  have "obs w1 = obs w" using 1(2) [of w] r by simp
  then show ?case
    using 1(1) [OF r [symmetric] _ _ _ _ 1(2)] r
    by (cases r) (auto simp: read_response_loop.simps [of rd _ _ _ _ _ frame w])
qed

lemma io_step_keeps:
  assumes "obs (snd r) = obs w" and "\<And>x w'. r = (Inr x, w') \<Longrightarrow> obs (snd (k x w')) = obs w'"
  shows "obs (snd (io_step render r k)) = obs w"
  using assms by (cases r; cases "fst r") auto

lemma serial_exchange_keeps:
  assumes "stream_keeps obs io"
  shows "obs (snd (write_serial_request io h frame label w)) = obs w"
    and "obs (snd (read_stream_response_serial lib io h proto w)) = obs w"
proof -
  have wr: "obs (snd (st_write io h w buf)) = obs w" for w buf
    using assms by (simp add: stream_keeps_def)
  have rd: "obs (snd (st_read io h len w)) = obs w" for w len
    using assms by (simp add: stream_keeps_def)
  have flush: "obs (snd (st_flush io h w)) = obs w" for w
    using assms by (simp add: stream_keeps_def)
  show "obs (snd (write_serial_request io h frame label w)) = obs w"
    unfolding write_serial_request_def write_all_serial_port_def
    by (intro io_step_keeps write_all_loop_keeps wr flush) simp
  show "obs (snd (read_stream_response_serial lib io h proto w)) = obs w"
    unfolding read_stream_response_serial_def
    by (intro io_step_keeps read_response_loop_keeps rd) simp
qed

lemma embassy_io_keeps_ports: "stream_keeps el_ports (embassy_serial_io dev)"
  by (simp add: stream_keeps_def embassy_serial_io_def on_device_def split_beta Let_def)

lemma embassy_serial_lines_simps:
  "sl_io (embassy_serial_lines dev) = embassy_serial_io dev"
  "sl_open (embassy_serial_lines dev) = embassy_serial_open"
  by (simp_all add: embassy_serial_lines_def)

lemma settle_session_ports:
  assumes "settle_session (serial_close (embassy_serial_lines dev)) persistent h r = (x, s, st)"
  shows "el_ports st = el_ports (snd r)"
proof -
  have "el_ports (serial_close (embassy_serial_lines dev) h w) = el_ports w" for w
    using embassy_io_keeps_ports [of dev]
    by (simp add: stream_keeps_def serial_close_def embassy_serial_lines_simps)
  then show ?thesis using assms by (auto simp: settle_session_def split: prod.splits sum.splits)
qed

lemma serial_exchange_ports:
  "el_ports (snd (io_step f (write_serial_request (embassy_serial_io dev) h frame label w)
     (\<lambda>_ w. io_step g (read_stream_response_serial lib (embassy_serial_io dev) h proto w)
       (\<lambda>raw w. (decode raw, w))))) = el_ports w"
  by (intro io_step_keeps serial_exchange_keeps embassy_io_keeps_ports) simp

text \<open>After an exchange begun without a session the registry has no port for the endpoint's path.\<close>

lemma open_port_takes:
  "open_port (embassy_serial_lines dev) config label st =
     (map_err (\<lambda>e. ''failed to open '' @ label @ '' serial port: '' @ serial_error_debug e)
        (ok_or (no_port_error (sp_path config))
           (el_ports st (sp_path config))),
      st\<lparr> el_ports := (el_ports st)(sp_path config := None) \<rparr>)"
  by (cases "el_ports st (sp_path config)")
    (simp_all add: open_port_def embassy_serial_lines_simps embassy_serial_open_def)

definition endpoint_serial :: "modbus_endpoint \<Rightarrow> (serial_port_config \<times> string) option" where
  "endpoint_serial endpoint =
     (case endpoint of
        EpRtu config \<Rightarrow> Some (mru_serial config, ''Modbus RTU'')
      | EpAscii config \<Rightarrow> Some (mas_serial config, ''Modbus ASCII'')
      | _ \<Rightarrow> None)"

lemma serial_execute_takes_port:
  assumes "endpoint_serial endpoint = Some (config, label)"
    and "serial_execute lib (embassy_serial_lines dev) endpoint request None st = (x, s, st')"
  shows "el_ports st' (sp_path config) = None"
  using assms
  by (cases endpoint)
    (auto simp: endpoint_serial_def serial_execute_def take_session_def open_port_takes
      serial_exchange_ports embassy_serial_lines_simps
      split: prod.splits sum.splits bool.splits dest!: settle_session_ports)

section \<open>Properties\<close>

text \<open>C36: On the embassy stack a serial endpoint is reachable for one session only: after an exchange
  that left no session (the endpoint is not persistent, or the exchange failed) every further
  exchange fails to open the port, because the registry handed it out and never gets it back.\<close>

theorem embassy_port_not_reopened:
  assumes "endpoint_serial endpoint = Some (config, label)"
    and "serial_execute lib (embassy_serial_lines dev) endpoint request None st = (x, None, st')"
  shows "fst (serial_execute lib (embassy_serial_lines dev) endpoint next_request None st') =
    Inl (''failed to open '' @ label @ '' serial port: '' @ serial_error_debug
      (no_port_error (sp_path config)))"
  using assms(1) serial_execute_takes_port [OF assms]
  by (cases endpoint)
    (auto simp: endpoint_serial_def serial_execute_def take_session_def open_port_takes
      split: bool.splits)

text \<open>An RTU endpoint with the default options, and a device that answers nothing.\<close>

definition silent_device :: "(unit, nat) embedded_io" where
  "silent_device =
     \<lparr> eo_read = (\<lambda>_ _ w. (Inl EioTimedOut, w)), eo_write = (\<lambda>_ buf w. (Inr (length buf), w)),
       eo_flush = (\<lambda>_ w. (Inr (), w)) \<rparr>"

definition sample_rtu_endpoint :: modbus_endpoint where
  "sample_rtu_endpoint = EpRtu
     \<lparr> mru_serial = serial_port_config_default\<lparr> sp_path := ''uart0'' \<rparr>,
       mru_options = modbus_client_options_default \<rparr>"

lemma embassy_port_not_reopened_witness:
  "fst (serial_execute sample_rmodbus (embassy_serial_lines silent_device) sample_rtu_endpoint
      sample_modbus_request None
      (snd (snd (serial_execute sample_rmodbus (embassy_serial_lines silent_device) sample_rtu_endpoint
         sample_modbus_request None
         (embassy_serial_register ''uart0'' 0 \<lparr> el_ports = Map.empty, el_world = () \<rparr>))))) =
   Inl (''failed to open Modbus RTU serial port: '' @ serial_error_debug
     (no_port_error ''uart0''))"
proof -
  let ?run = "serial_execute sample_rmodbus (embassy_serial_lines silent_device) sample_rtu_endpoint
    sample_modbus_request None
    (embassy_serial_register ''uart0'' 0 \<lparr> el_ports = Map.empty, el_world = () \<rparr>)"
  obtain x s st' where run: "?run = (x, s, st')" by (cases ?run) auto
  have "s = None"
    using serial_execute_session [OF run]
    by (cases x)
      (simp_all add: serial_keeps_def sample_rtu_endpoint_def modbus_client_options_default_def)
  with run have first: "?run = (x, None, st')" by simp
  have "endpoint_serial sample_rtu_endpoint =
      Some (serial_port_config_default\<lparr> sp_path := ''uart0'' \<rparr>, ''Modbus RTU'')"
    by (simp add: endpoint_serial_def sample_rtu_endpoint_def)
  from embassy_port_not_reopened [OF this first, of sample_modbus_request] first
  show ?thesis by simp
qed

end
