(* ===== verification/Spec2Isabelle.thy ===== *)
theory Spec2Isabelle
  imports Http_Wire Modbus_Values Modbus_Driver Mqtt_Driver Zenoh_Driver Runtime_Std Modbus_Embassy
begin

text \<open>
  Verification of ferredge, an asynchronous edge gateway that speaks HTTP, Modbus, MQTT and Zenoh over
  one protocol-neutral data model.

  The program.  \<open>ferredge-core\<close> defines commands, results, events, metadata and devices, and the
  interfaces of runtimes, networks and serial lines.  \<open>ferredge-bridge\<close> turns a routed command into a
  bridge message and a routed outcome back, with the headers of the command and of its transport
  capture.  Each \<open>ferredge-proto-*\<close> crate plans a command (natively, or from a bridge message), encodes
  the plan as a request of its protocol, executes it on a driver and decodes what came back.  Each
  \<open>ferredge-runtime-*\<close> crate implements the interfaces of the core on a runtime: tokio, async-std or
  embassy.

  Theories and sources (under \<open>src/crates\<close>).

  \<^item> \<open>Prelude\<close>, \<open>Rust_Text\<close>, \<open>Rust_Float\<close>: what the sources use of Rust: machine integers with their
    saturating operations, results and options, durations in nanoseconds, strings as their UTF-8
    bytes with trimming, splitting and number parsing, and the floating-point casts on bit patterns.

  \<^item> \<open>Core_Meta\<close> (\<open>headers.rs\<close>, \<open>meta.rs\<close>, \<open>owned.rs\<close>), \<open>Core_Command\<close> (\<open>id.rs\<close>, \<open>command.rs\<close>, \<open>route.rs\<close>,
    \<open>routed.rs\<close>), \<open>Core_Device\<close> (\<open>device.rs\<close>), \<open>Core_Net\<close> (\<open>net.rs\<close>, \<open>serial.rs\<close>): the core.  The locale
    \<open>content_preserving\<close> is the contract of every \<open>into_owned\<close>, \<open>capture_store\<close> that of a capture as a
    finite map, \<open>typed_view\<close> and \<open>two_views\<close> those of the typed metadata of one and of two protocols.

  \<^item> \<open>Runtime_Io\<close>: the stream and network interfaces as records of functions over a world, the errors
    of tasks, channels and locks, and the sequencing of fallible and of possibly endless steps.
    \<open>Topic_Registry\<close>: the locale of a registry that the last request naming a key decides.

  \<^item> \<open>Bridge\<close> (\<open>ferredge-bridge\<close>): operations, faults, envelopes and the planners.

  \<^item> \<open>Http_Meta\<close>, \<open>Http_Convert\<close>, \<open>Http_Wire\<close> (\<open>ferredge-proto-http\<close>): the typed view, planning,
    encoding and decoding, and the hand-written HTTP/1.1 client of \<open>handler.rs\<close>.

  \<^item> \<open>Modbus_Types\<close>, \<open>Modbus_Codec\<close>, \<open>Modbus_Convert\<close>, \<open>Modbus_Values\<close>, \<open>Modbus_Transport\<close>,
    \<open>Modbus_Driver\<close> (\<open>ferredge-proto-modbus\<close>): data, response decoding, request building, the
    conversions between payloads and registers, framing and transports, and the driver with its
    retries; \<open>modbus_transport\<close> is the contract of a transport towards the driver's session.

  \<^item> \<open>Mqtt_Meta\<close>, \<open>Mqtt_Types\<close>, \<open>Mqtt_Convert\<close>, \<open>Mqtt_Inbound\<close>, \<open>Mqtt_Session\<close>, \<open>Mqtt_Connack\<close>,
    \<open>Mqtt_Recovery\<close>, \<open>Mqtt_Driver\<close> (\<open>ferredge-proto-mqtt\<close>): the typed view, configuration, packet
    building for both protocol versions, the matching of acknowledgements and replies, the client
    session with its enhanced authentication, lemmas on the negotiated CONNACK, the state that
    survives a reconnect, and the driver with its listener.

  \<^item> \<open>Zenoh_Convert\<close>, \<open>Zenoh_Driver\<close> (\<open>ferredge-proto-zenoh\<close>): plans and encoders, the session driver
    with its listener, and the reduced driver of the embassy stack.

  \<^item> \<open>Runtime_Std\<close> (\<open>ferredge-runtime-tokio\<close>, \<open>ferredge-runtime-async-std\<close>), \<open>Runtime_Embassy\<close>
    (\<open>ferredge-runtime-embassy\<close>): the adapters; \<open>Modbus_Embassy\<close> composes the Modbus serial transport
    with the embassy port registry, and this theory the typed views and the MQTT listener's channel.

  How the model corresponds to the code.  A struct is a record and an enum a datatype with the
  source's fields and constructors; borrowed and owned data are the same value, so that \<open>into_owned\<close> is
  written out and proved to keep the content.  An error is the left of a sum.  A driver is a record of
  the cells behind its mutexes and of the world; an operation is a function of it, and the state reached
  before an error is kept.  Integers keep their width where the source computes with them; lengths
  and indices are natural numbers.

  Parameters.  Code that is not in the repository is an argument of the definitions that use it: the
  \<open>rmodbus\<close> frame library, the MQTT connection of \<open>mqtt_protocol_core\<close>, \<open>serde_json\<close>, the \<open>zenoh\<close>
  session, the embassy executor and network stack, and what a runtime provides (sockets, ports, locks,
  clocks, channels, tasks).  Locks, sockets and libraries act on the world; waiting for another task, a
  sleep or a join acts on the whole driver state, since the other tasks may change it meanwhile.  What a
  theorem needs of a parameter is a named hypothesis that states its documented behaviour, such as
  \<open>honest_writer\<close> (a write accepts a prefix of what it is offered), \<open>honest_executor\<close>, or the length that
  \<open>rmodbus\<close> guesses for an RTU frame in \<open>whole_frame\<close>, and comes with a concrete instance.

  Loops.  A loop with a decreasing measure is a total function.  The loops that wait for a peer or for
  another task are partial functions into options, where \<open>None\<close> is not returning: reading a response to
  its end, waiting for a CONNACK, an answer or the session, reconnecting, listening, collecting the replies
  of a query.  That they return is stated as such: a response is read whatever its chunking, a bounded
  reconnect policy ends, a query returns once its replies are exhausted.  The retry loop of the Modbus
  driver counts down the attempt budget itself and needs no other fuel.

  What the lemmas show.  Planning through the bridge and natively gives the same requests for HTTP,
  Modbus and MQTT, and where it differs for Zenoh; captures survive their round trip and typed views do
  not read foreign ones; headers are carried exactly once.  Encoders respect the resource, the codec and
  the protocol version; integers are converted exactly or refused, and a value that was read is written
  back as it is or refused.  Exchanges deliver the whole request before a response is accepted; frames
  are found whatever the chunking, for every framing; what a received batch of MQTT events writes, the
  answers to authentication challenges included, is given exactly; connecting is traced to the CONNACK it
  relied on; retries, queues and the storage leaked for tasks stay within their bounds; sessions, wanted
  subscriptions and pending commands follow the requests made.  The theorems named after a failure (a queue lost in a replay, a shared subscription that stays
  wanted, a stale CONNACK, a header value that injects lines, a port that cannot be reopened) prove
  behaviours of the code that its intent does not cover.

  Not modelled.  Serde's derived formats; the printing of floats, which is a parameter; logging; the traits of the core, which have no bodies; spawning, sleeping and clocks of the
  adapters, which are single calls of their library; the parsing of socket addresses by the standard
  library; memory management behind owned buffers; the tests, the test support crate and the emulator
  firmware, which are not part of the gateway.  The interleaving of tasks is modelled where one waits for
  another, through the parameters above, and not between two awaits of one operation.
\<close>

section \<open>Captures across protocols\<close>

interpretation http_mqtt: two_views
    HTTP http_into_transport_meta http_from_transport_meta http_view
    MQTT mqtt_into_transport_meta mqtt_from_transport_meta mqtt_view
  by unfold_locales (simp add: HTTP_def MQTT_def)

text \<open>A capture produced by the HTTP adapter is never read as MQTT metadata, nor the other way
  round: the typed views refuse it, with the foreign protocol named in the error, while each view
  reads back its own captures completely.\<close>

theorem captures_do_not_cross:
  "mqtt_from_transport_meta (http_into_transport_meta h) = None \<and>
   http_from_transport_meta (mqtt_into_transport_meta m) = None \<and>
   mqtt_try_from_transport_meta (http_into_transport_meta h) = Inl (MqttForeignExtensions HTTP) \<and>
   http_try_from_transport_meta (mqtt_into_transport_meta m) = Inl (HttpForeignExtensions MQTT) \<and>
   http_view (http_into_transport_meta h) = Some h \<and>
   mqtt_view (mqtt_into_transport_meta m) = Some m"
proof -
  have "HTTP \<noteq> MQTT" by (simp add: HTTP_def MQTT_def)
  then have "mqtt_try_from_transport_meta (http_into_transport_meta h) = Inl (MqttForeignExtensions HTTP)"
    and "http_try_from_transport_meta (mqtt_into_transport_meta m) = Inl (HttpForeignExtensions MQTT)"
    by (simp_all add: mqtt_try_from_transport_meta_def http_try_from_transport_meta_def
        http_typed.encode_protocol mqtt_typed.encode_protocol)
  then show ?thesis
    using http_mqtt.no_cross_reading http_typed.view_encode mqtt_typed.view_encode by simp
qed

section \<open>The MQTT listener on embassy\<close>

text \<open>The command channel that the MQTT listener asks for does not fit the default embassy runtime:
  with debug assertions creating it panics, without them it has a quarter of the slots.\<close>

lemma mqtt_listener_channel_on_embassy:
  "embassy_channel True DEFAULT_CHANNEL_CAPACITY MQTT_LISTENER_COMMAND_CHANNEL_CAPACITY = None"
  "embassy_channel False DEFAULT_CHANNEL_CAPACITY MQTT_LISTENER_COMMAND_CHANNEL_CAPACITY =
     Some (MQTT_LISTENER_COMMAND_CHANNEL_CAPACITY div 4)"
  by (simp_all add: embassy_channel_def DEFAULT_CHANNEL_CAPACITY_def
      MQTT_LISTENER_COMMAND_CHANNEL_CAPACITY_def)

end
